(* ===== verification/Prelude.thy ===== *)
theory Prelude
  imports Main "HOL-Library.Word" "HOL-Library.AList" "HOL-Library.Char_ord"
    "HOL-Library.List_Lexorder"
begin

text \<open>
  Shared vocabulary of the development: the machine integers of the code, the standard
  containers it uses, and the lemmas on them that the component theories rest on.

  Integers. \<open>uint32_t\<close> and \<open>int32_t\<close> are both \<open>32 word\<close> (the code converts between
  the two freely); a signed read is \<open>sint\<close>. \<open>uint8_t\<close> is \<open>8 word\<close>, \<open>uint64_t\<close> timer
  identifiers are \<open>64 word\<close>. \<open>int64_t\<close> time stamps and durations are \<open>int\<close>; the
  conversions that narrow one of them are written out.

  Containers. A \<open>std::unordered_map\<close> is an association list with distinct keys, whose
  order stands for the unspecified iteration order; \<open>std::map\<close> and \<open>std::set\<close> of strings
  are kept sorted. \<open>std::list\<close> and \<open>std::vector\<close> are lists.
\<close>

unbundle bit_operations_syntax

section \<open>Machine integers\<close>

type_synonym u8 = "8 word"
type_synonym u32 = "32 word"
type_synonym i32 = "32 word"
type_synonym u64 = "64 word"
type_synonym i64 = int

named_theorems model_defs \<open>definitions a component's evaluation lemmas unfold\<close>
named_theorems frame_simps \<open>what an operation leaves unchanged\<close>

text \<open>\<open>static_cast<int32_t>\<close> of an \<open>int64_t\<close>: the low 32 bits.\<close>

definition narrow32 :: "i64 \<Rightarrow> i32" where
  "narrow32 x = word_of_int x"

lemma sint_narrow32:
  "- (2 ^ 31) \<le> x \<Longrightarrow> x < 2 ^ 31 \<Longrightarrow> sint (narrow32 x) = x"
  by (simp add: narrow32_def sint_sbintrunc' signed_take_bit_int_eq_self)

text \<open>\<open>std::min\<close> and \<open>std::max\<close> on \<open>int32_t\<close> compare signed values.\<close>

definition smin :: "i32 \<Rightarrow> i32 \<Rightarrow> i32" where
  "smin a b = (if sint b < sint a then b else a)"

lemma sint_smin: "sint (smin a b) = min (sint a) (sint b)"
  by (simp add: smin_def)

section \<open>Decimal text of an integer\<close>

fun digits_nat :: "nat \<Rightarrow> string" where
  "digits_nat n =
     (if n < 10 then [char_of (48 + n)] else digits_nat (n div 10) @ [char_of (48 + n mod 10)])"

declare digits_nat.simps [simp del]

text \<open>\<open>std::to_string\<close> on a signed and on an unsigned argument.\<close>

definition to_string_int :: "int \<Rightarrow> string" where
  "to_string_int x = (if x < 0 then CHR ''-'' # digits_nat (nat (- x)) else digits_nat (nat x))"

definition to_string_i32 :: "i32 \<Rightarrow> string" where
  "to_string_i32 x = to_string_int (sint x)"

definition to_string_u32 :: "u32 \<Rightarrow> string" where
  "to_string_u32 x = to_string_int (uint x)"

definition to_string_bool :: "bool \<Rightarrow> string" where
  "to_string_bool b = (if b then ''1'' else ''0'')"

fun value_nat :: "nat \<Rightarrow> string \<Rightarrow> nat" where
  "value_nat acc [] = acc"
| "value_nat acc (c # cs) = value_nat (10 * acc + (of_char c - 48)) cs"

lemma value_nat_append: "value_nat acc (xs @ ys) = value_nat (value_nat acc xs) ys"
  by (induction xs arbitrary: acc) auto

lemma of_char_digit: "d < 10 \<Longrightarrow> of_char (char_of (48 + d) :: char) = (48 + d :: nat)"
  by simp

lemma value_digits_nat: "value_nat 0 (digits_nat n) = n"
proof (induction n rule: digits_nat.induct)
  case (1 n)
  show ?case
  proof (cases "n < 10")
    case True
    then show ?thesis by (subst digits_nat.simps) (simp add: of_char_digit)
  next
    case False
    have d: "of_char (char_of (48 + n mod 10) :: char) = (48 + n mod 10 :: nat)"
      by (rule of_char_digit) simp
    from False show ?thesis
      by (subst digits_nat.simps) (simp add: "1.IH" value_nat_append d)
  qed
qed

lemma digits_nat_inject [simp]: "digits_nat m = digits_nat n \<longleftrightarrow> m = n"
  by (metis value_digits_nat)

lemma digits_nat_nonempty [simp]: "digits_nat n \<noteq> []"
  by (subst digits_nat.simps) simp

lemma digits_nat_chars: "c \<in> set (digits_nat n) \<Longrightarrow> 48 \<le> (of_char c :: nat) \<and> (of_char c :: nat) \<le> 57"
proof (induction n rule: digits_nat.induct)
  case (1 n)
  have small: "(of_char (char_of (48 + d) :: char) :: nat) = 48 + d" if "d < 10" for d :: nat
    using that by (rule of_char_digit)
  show ?case
  proof (cases "n < 10")
    case True
    with "1.prems" have "c = char_of (48 + n)"
      by (subst (asm) digits_nat.simps) simp
    with True show ?thesis by (simp add: small)
  next
    case False
    with "1.prems" have "c \<in> set (digits_nat (n div 10)) \<or> c = char_of (48 + n mod 10)"
      by (subst (asm) digits_nat.simps) auto
    then show ?thesis
      using "1.IH" False small [of "n mod 10"] by auto
  qed
qed

lemma minus_not_digit: "CHR ''-'' \<notin> set (digits_nat n)"
  using digits_nat_chars [of "CHR ''-''" n] by auto

lemma underscore_not_digit: "CHR ''_'' \<notin> set (digits_nat n)"
  using digits_nat_chars [of "CHR ''_''" n] by auto

lemma digits_nat_not_minus: "digits_nat n \<noteq> CHR ''-'' # xs"
proof
  assume "digits_nat n = CHR ''-'' # xs"
  then have "CHR ''-'' \<in> set (digits_nat n)" by simp
  then show False using minus_not_digit by blast
qed

lemma to_string_int_inject [simp]: "to_string_int a = to_string_int b \<longleftrightarrow> a = b"
  by (auto simp: to_string_int_def digits_nat_not_minus digits_nat_not_minus [symmetric])

lemma underscore_not_in_to_string: "CHR ''_'' \<notin> set (to_string_int a)"
  by (simp add: to_string_int_def underscore_not_digit)

text \<open>\<open>strtol\<close> with base 10: blanks, a sign, digits, clamped to 64 bits.\<close>

definition is_digit :: "char \<Rightarrow> bool" where
  "is_digit c \<longleftrightarrow> 48 \<le> (of_char c :: nat) \<and> (of_char c :: nat) \<le> 57"

fun digits_value :: "int \<Rightarrow> string \<Rightarrow> int" where
  "digits_value acc [] = acc"
| "digits_value acc (c # cs) =
     (if is_digit c then digits_value (10 * acc + (int (of_char c) - 48)) cs else acc)"

definition is_blank :: "char \<Rightarrow> bool" where
  "is_blank c \<longleftrightarrow> c = CHR '' '' \<or> (9 \<le> (of_char c :: nat) \<and> (of_char c :: nat) \<le> 13)"

definition c_strtol :: "string \<Rightarrow> i64" where
  "c_strtol s =
     (let t = dropWhile is_blank s;
          v = (case t of
                 [] \<Rightarrow> 0
               | c # cs \<Rightarrow> if c = CHR ''-'' then - digits_value 0 cs
                           else if c = CHR ''+'' then digits_value 0 cs else digits_value 0 t)
      in max (- (2 ^ 63)) (min (2 ^ 63 - 1) v))"

lemma digits_value_digits:
  "(\<And>c. c \<in> set s \<Longrightarrow> is_digit c) \<Longrightarrow> digits_value (int acc) s = int (value_nat acc s)"
proof (induction s arbitrary: acc)
  case (Cons c cs)
  have "is_digit c" using Cons.prems by simp
  then have "int (of_char c - 48) = int (of_char c) - 48"
    by (simp add: is_digit_def of_nat_diff)
  then have "10 * int acc + (int (of_char c) - 48) = int (10 * acc + (of_char c - 48))"
    by simp
  moreover have "digits_value (int (10 * acc + (of_char c - 48))) cs = int (value_nat (10 * acc + (of_char c - 48)) cs)"
    using Cons.prems by (intro Cons.IH) simp
  ultimately show ?case
    using \<open>is_digit c\<close> by (simp only: digits_value.simps value_nat.simps if_True)
qed simp

lemma is_digit_digits_nat: "c \<in> set (digits_nat n) \<Longrightarrow> is_digit c"
  using digits_nat_chars by (simp add: is_digit_def)

lemma c_strtol_digits_nat:
  assumes "n < 2 ^ 63"
  shows "c_strtol (digits_nat n) = int n"
proof -
  obtain c cs where s: "digits_nat n = c # cs"
    by (cases "digits_nat n") auto
  have c: "is_digit c"
    using is_digit_digits_nat [of c n] s by simp
  then have "\<not> is_blank c" "c \<noteq> CHR ''-''" "c \<noteq> CHR ''+''"
    by (auto simp: is_blank_def is_digit_def)
  moreover have "digits_value 0 (c # cs) = int n"
    using digits_value_digits [of "c # cs" 0] is_digit_digits_nat [of _ n] s value_digits_nat [of n] by simp
  ultimately show ?thesis
    using assms by (simp add: c_strtol_def s Let_def)
qed

text \<open>A key \<open>std::to_string(uid) + "_" + name\<close> determines the uid and the name.\<close>

lemma append_sep_inject:
  "c \<notin> set xs \<Longrightarrow> c \<notin> set us \<Longrightarrow> xs @ c # ys = us @ c # vs \<longleftrightarrow> xs = us \<and> ys = vs"
proof (induction xs arbitrary: us)
  case Nil
  then show ?case by (cases us) auto
next
  case (Cons x xs)
  then show ?case by (cases us) auto
qed

definition uid_key :: "i32 \<Rightarrow> string \<Rightarrow> string" where
  "uid_key uid name = to_string_i32 uid @ CHR ''_'' # name"

lemma uid_key_inject [simp]: "uid_key u n = uid_key v m \<longleftrightarrow> u = v \<and> n = m"
  by (auto simp: uid_key_def to_string_i32_def append_sep_inject underscore_not_in_to_string
      word_eq_iff_signed [where 'a = int])

section \<open>Standard containers\<close>

text \<open>\<open>std::unordered_map::emplace\<close>: an existing entry is kept.\<close>

definition emplace :: "'k \<Rightarrow> 'v \<Rightarrow> ('k \<times> 'v) list \<Rightarrow> ('k \<times> 'v) list" where
  "emplace k v m = (if k \<in> fst ` set m then m else m @ [(k, v)])"

lemma map_of_append_new: "k \<notin> fst ` set m \<Longrightarrow> map_of (m @ [(k, v)]) = (map_of m)(k \<mapsto> v)"
proof
  fix x
  assume k: "k \<notin> fst ` set m"
  have "map_of m k = None"
    using k by (simp add: map_of_eq_None_iff)
  then show "map_of (m @ [(k, v)]) x = ((map_of m)(k \<mapsto> v)) x"
    by (cases "map_of m x") (auto simp: map_add_def)
qed

lemma map_of_emplace:
  "map_of (emplace k v m) = (if map_of m k = None then (map_of m)(k \<mapsto> v) else map_of m)"
  using map_of_append_new [of k m v] by (auto simp: emplace_def map_of_eq_None_iff)

lemma keys_emplace [simp]: "fst ` set (emplace k v m) = insert k (fst ` set m)"
  by (auto simp: emplace_def)

lemma distinct_emplace [intro]: "distinct (map fst m) \<Longrightarrow> distinct (map fst (emplace k v m))"
  by (auto simp: emplace_def)

lemma distinct_update_key [intro]: "distinct (map fst m) \<Longrightarrow> distinct (map fst (AList.update k v m))"
  by (rule AList.distinct_update)

lemma distinct_delete_key [intro]: "distinct (map fst m) \<Longrightarrow> distinct (map fst (AList.delete k m))"
  by (rule AList.distinct_delete)

text \<open>
  A \<open>std::set\<close> with the order of a key is a list sorted by that key; inserting an element whose
  key is present leaves the set unchanged.
\<close>

fun std_insert :: "('a \<Rightarrow> 'k::linorder) \<Rightarrow> 'a \<Rightarrow> 'a list \<Rightarrow> 'a list" where
  "std_insert f x [] = [x]"
| "std_insert f x (y # ys) =
     (if f x < f y then x # y # ys else if f x = f y then y # ys else y # std_insert f x ys)"

definition std_insert_range :: "('a \<Rightarrow> 'k::linorder) \<Rightarrow> 'a list \<Rightarrow> 'a list \<Rightarrow> 'a list" where
  "std_insert_range f xs S = fold (std_insert f) xs S"

abbreviation std_set :: "('a \<Rightarrow> 'k::linorder) \<Rightarrow> 'a list \<Rightarrow> bool" where
  "std_set f S \<equiv> sorted_wrt (<) (map f S)"

lemma keys_std_insert [simp]: "f ` set (std_insert f x S) = insert (f x) (f ` set S)"
  by (induction f x S rule: std_insert.induct) auto

lemma std_insert_sorted [intro]: "std_set f S \<Longrightarrow> std_set f (std_insert f x S)"
proof (induction f x S rule: std_insert.induct)
  case (2 f x y ys)
  have keys: "set (map f (std_insert f x ys)) = insert (f x) (f ` set ys)"
    by simp
  from 2 show ?case
    by (auto simp del: set_map simp: keys) (auto simp: not_less order.not_eq_order_implies_strict)
qed simp

lemma set_std_insert_id [simp]: "set (std_insert id x S) = insert x (set S)"
  using keys_std_insert [of id x S] by simp

lemma set_std_insert_range_id [simp]: "set (std_insert_range id xs S) = set xs \<union> set S"
  by (induction xs arbitrary: S) (auto simp: std_insert_range_def)

lemma std_insert_range_sorted [intro]: "std_set f S \<Longrightarrow> std_set f (std_insert_range f xs S)"
  by (induction xs arbitrary: S) (auto simp: std_insert_range_def)

text \<open>The first element with a given key, \<open>std::find_if\<close> followed by a dereference.\<close>

lemma find_std_insert:
  "std_set f S \<Longrightarrow>
   List.find (\<lambda>y. f y = k) (std_insert f x S) =
     (case List.find (\<lambda>y. f y = k) S of
        Some y \<Rightarrow> Some y
      | None \<Rightarrow> if f x = k then Some x else None)"
proof (induction f x S rule: std_insert.induct)
  case (2 f x y ys)
  show ?case
  proof (cases "f x < f y")
    case True
    have "List.find (\<lambda>y. f y = f x) (y # ys) = None"
      using True 2(2) by (auto simp: find_None_iff)
    with True show ?thesis
      by (auto split: option.splits)
  next
    case False
    with 2 show ?thesis by (auto split: option.splits)
  qed
qed simp

lemma find_std_insert_range:
  "std_set f S \<Longrightarrow>
   List.find (\<lambda>y. f y = k) (std_insert_range f xs S) =
     (case List.find (\<lambda>y. f y = k) S of
        Some y \<Rightarrow> Some y
      | None \<Rightarrow> List.find (\<lambda>y. f y = k) xs)"
proof (induction xs arbitrary: S)
  case Nil
  then show ?case by (simp add: std_insert_range_def split: option.splits)
next
  case (Cons x xs)
  have "List.find (\<lambda>y. f y = k) (std_insert_range f xs (std_insert f x S)) =
      (case List.find (\<lambda>y. f y = k) (std_insert f x S) of
        Some y \<Rightarrow> Some y | None \<Rightarrow> List.find (\<lambda>y. f y = k) xs)"
    using Cons.prems by (intro Cons.IH) auto
  then show ?case
    using Cons.prems by (auto simp: std_insert_range_def find_std_insert split: option.splits)
qed

text \<open>The string up to the first zero byte, as a C string reads it.\<close>

abbreviation NUL :: char where "NUL \<equiv> CHR 0x00"

definition c_str :: "char list \<Rightarrow> string" where
  "c_str s = takeWhile (\<lambda>c. c \<noteq> NUL) s"

end
