(* ===== verification/Std_Errors.thy ===== *)
theory Std_Errors
  imports Prelude
begin

text \<open>
  The error codes of \<open>utils/common/include/standby_service_errors.h\<close> as constructors, so that
  every early return of the code is a value of its own, with the numeric value a caller on
  the other side of the IPC channel sees; codes that no modelled component returns are left
  out. \<open>Ext_Err\<close> carries a code that another service returned and the code passes through.
\<close>

datatype (plugins only: code size) err =
    ERR_OK
  | ERR_STANDBY_PERMISSION_DENIED
  | ERR_STANDBY_NOT_SYSTEM_APP
  | ERR_STANDBY_INVALID_PARAM
  | ERR_STANDBY_PARCELABLE_FAILED
  | ERR_STANDBY_TRANSACT_FAILED
  | ERR_STANDBY_SYS_NOT_READY
  | ERR_STANDBY_SERVICE_NOT_CONNECTED
  | ERR_STANDBY_DUMP_SAVE_DENIED
  | ERR_STANDBY_OBJECT_EXISTS
  | ERR_STANDBY_CONFIG_FILE_LOAD_FAILED
  | ERR_STANDBY_OBSERVER_ALREADY_EXIST
  | ERR_STANDBY_OBSERVER_INIT_FAILED
  | ERR_STANDBY_OBSERVER_RESET_FAILED
  | ERR_REGISTER_BACKGROUND_TASK_FAILED
  | ERR_UNREGISTER_BACKGROUND_TASK_FAILED
  | ERR_STANDBY_PLUGIN_NOT_EXIST
  | ERR_STANDBY_PLUGIN_NOT_AVAILABLE
  | ERR_STANDBY_STATE_INIT_FAILED
  | ERR_STANDBY_STATE_TRANSITION_FAILED
  | ERR_STANDBY_STATAE_BLOCKED
  | ERR_STANDBY_STATE_TIMING_SEQ_ERROR
  | ERR_STANDBY_TIMER_SERVICE_ERROR
  | ERR_STANDBY_TIMERID_NOT_EXIST
  | ERR_STANDBY_OBJECT_NULL
  | ERR_STANDBY_CURRENT_STATE_NOT_MATCH
  | ERR_STANDBY_STRATEGY_STATE_REPEAT
  | ERR_STANDBY_STRATEGY_NOT_MATCH
  | ERR_STANDBY_STRATEGY_NOT_DEPLOY
  | ERR_STANDBY_STOP_LISENER_FAILED
  | ERR_STANDBY_START_SENSOR_FAILED
  | ERR_STANDBY_KEY_INFO_NOT_MATCH
  | ERR_STRATEGY_DEPENDS_SA_NOT_AVAILABLE
  | ERR_PARAM_NUMBER_ERR
  | ERR_CALLBACK_NULL_OR_TYPE_ERR
  | ERR_RESOURCE_TYPES_INVALID
  | ERR_UID_INVALID
  | ERR_NAME_INVALID_OR_EMPTY
  | ERR_DURATION_INVALID
  | ERR_REASON_INVALID_TYPE_ERR
  | Ext_Err int

primrec err_value :: "err \<Rightarrow> int" where
  "err_value ERR_OK = 0"
| "err_value ERR_STANDBY_PERMISSION_DENIED = 201"
| "err_value ERR_STANDBY_NOT_SYSTEM_APP = 202"
| "err_value ERR_STANDBY_INVALID_PARAM = 401"
| "err_value ERR_STANDBY_PARCELABLE_FAILED = 980000201"
| "err_value ERR_STANDBY_TRANSACT_FAILED = 980000301"
| "err_value ERR_STANDBY_SYS_NOT_READY = 980000401"
| "err_value ERR_STANDBY_SERVICE_NOT_CONNECTED = 980000403"
| "err_value ERR_STANDBY_DUMP_SAVE_DENIED = 980000404"
| "err_value ERR_STANDBY_OBJECT_EXISTS = 980000501"
| "err_value ERR_STANDBY_CONFIG_FILE_LOAD_FAILED = 980000601"
| "err_value ERR_STANDBY_OBSERVER_ALREADY_EXIST = 980000701"
| "err_value ERR_STANDBY_OBSERVER_INIT_FAILED = 980000702"
| "err_value ERR_STANDBY_OBSERVER_RESET_FAILED = 980000703"
| "err_value ERR_REGISTER_BACKGROUND_TASK_FAILED = 980000704"
| "err_value ERR_UNREGISTER_BACKGROUND_TASK_FAILED = 980000705"
| "err_value ERR_STANDBY_PLUGIN_NOT_EXIST = 980000801"
| "err_value ERR_STANDBY_PLUGIN_NOT_AVAILABLE = 980000803"
| "err_value ERR_STANDBY_STATE_INIT_FAILED = 980000902"
| "err_value ERR_STANDBY_STATE_TRANSITION_FAILED = 980000903"
| "err_value ERR_STANDBY_STATAE_BLOCKED = 980000905"
| "err_value ERR_STANDBY_STATE_TIMING_SEQ_ERROR = 980000906"
| "err_value ERR_STANDBY_TIMER_SERVICE_ERROR = 980000907"
| "err_value ERR_STANDBY_TIMERID_NOT_EXIST = 980000908"
| "err_value ERR_STANDBY_OBJECT_NULL = 980000909"
| "err_value ERR_STANDBY_CURRENT_STATE_NOT_MATCH = 980000910"
| "err_value ERR_STANDBY_STRATEGY_STATE_REPEAT = 980000912"
| "err_value ERR_STANDBY_STRATEGY_NOT_MATCH = 980000914"
| "err_value ERR_STANDBY_STRATEGY_NOT_DEPLOY = 980000915"
| "err_value ERR_STANDBY_STOP_LISENER_FAILED = 980000917"
| "err_value ERR_STANDBY_START_SENSOR_FAILED = 980000918"
| "err_value ERR_STANDBY_KEY_INFO_NOT_MATCH = 980000920"
| "err_value ERR_STRATEGY_DEPENDS_SA_NOT_AVAILABLE = 980001001"
| "err_value ERR_PARAM_NUMBER_ERR = 9800401"
| "err_value ERR_CALLBACK_NULL_OR_TYPE_ERR = 9800402"
| "err_value ERR_RESOURCE_TYPES_INVALID = 9800404"
| "err_value ERR_UID_INVALID = 9800405"
| "err_value ERR_NAME_INVALID_OR_EMPTY = 9800406"
| "err_value ERR_DURATION_INVALID = 9800407"
| "err_value ERR_REASON_INVALID_TYPE_ERR = 9800408"
| "err_value (Ext_Err n) = n"

text \<open>
  \<open>FindErrCode\<close> of the JS and ArkTS bindings: a code of the parameter table (the keys of
  \<open>paramErrCodeMsgMap\<close>) becomes 401, a code above the threshold loses its two lowest decimal
  digits.
\<close>

definition THRESHOLD :: int where "THRESHOLD = 1000"
definition OFFSET :: int where "OFFSET = 100"

definition paramErrCodes :: "int list" where
  "paramErrCodes = [401, 9800401, 9800402, 9800404, 9800405, 9800406, 9800407, 9800408]"

definition FindErrCode :: "int \<Rightarrow> int" where
  "FindErrCode errCodeIn =
     (if errCodeIn \<in> set paramErrCodes then 401
      else if errCodeIn > THRESHOLD then errCodeIn div OFFSET else errCodeIn)"

end
