(* ===== verification/Json.thy ===== *)
theory Json
  imports Std_Errors
begin

text \<open>
  The JSON accessors of \<open>utils/policy/src/json_utils.cpp\<close>. The value tree is the data model of
  the JSON library the code uses: an object is a sorted dictionary, \<open>JDiscarded\<close> is what the
  non-throwing parser returns on malformed text, and a floating point number is represented
  by its integer part, the only thing the code ever reads of one. Parsing text and reading
  files are not modelled: they are the parameters \<open>parse\<close> and \<open>read_file\<close>.

  The code's output arguments are an option here: \<open>None\<close> is the result \<open>false\<close>, which leaves the
  output untouched.
\<close>

datatype json =
    JNull
  | JBool bool
  | JInt int
  | JFloat int
  | JString string
  | JArray "json list"
  | JObject "(string \<times> json) list"
  | JDiscarded

primrec is_object :: "json \<Rightarrow> bool" where
  "is_object JNull = False"
| "is_object (JBool b) = False"
| "is_object (JInt i) = False"
| "is_object (JFloat f) = False"
| "is_object (JString s) = False"
| "is_object (JArray xs) = False"
| "is_object (JObject kvs) = True"
| "is_object JDiscarded = False"

fun is_array :: "json \<Rightarrow> bool" where
  "is_array (JArray xs) = True"
| "is_array _ = False"

fun is_primitive :: "json \<Rightarrow> bool" where
  "is_primitive (JArray xs) = False"
| "is_primitive (JObject kvs) = False"
| "is_primitive JDiscarded = False"
| "is_primitive _ = True"

text \<open>\<open>empty()\<close>: null and containers without elements.\<close>

fun is_empty :: "json \<Rightarrow> bool" where
  "is_empty JNull = True"
| "is_empty (JArray xs) = (xs = [])"
| "is_empty (JObject kvs) = (kvs = [])"
| "is_empty _ = False"

text \<open>\<open>contains(key)\<close> followed by \<open>at(key)\<close>: only an object has members.\<close>

fun member_at :: "json \<Rightarrow> string \<Rightarrow> json option" where
  "member_at (JObject kvs) k = map_of kvs k"
| "member_at _ k = None"

text \<open>\<open>items()\<close>: the members of an object, the indexed elements of an array, nothing for null,
  and a primitive as a single element without key.\<close>

fun items :: "json \<Rightarrow> (string \<times> json) list" where
  "items (JObject kvs) = kvs"
| "items (JArray xs) = zip (map (\<lambda>i. digits_nat i) [0..<length xs]) xs"
| "items JNull = []"
| "items j = [('''', j)]"

text \<open>Implicit conversion of an element to \<open>int32_t\<close>; \<open>None\<close> is the library's \<open>type_error\<close>.\<close>

fun to_int32 :: "json \<Rightarrow> i32 option" where
  "to_int32 (JInt i) = Some (word_of_int i)"
| "to_int32 (JFloat f) = Some (word_of_int f)"
| "to_int32 (JBool b) = Some (if b then 1 else 0)"
| "to_int32 _ = None"

fun to_str :: "json \<Rightarrow> string option" where
  "to_str (JString s) = Some s"
| "to_str _ = None"

definition no_member :: "json \<Rightarrow> string \<Rightarrow> bool" where
  "no_member j key \<longleftrightarrow> is_empty j \<or> key = []"

definition GetInt32FromJsonValue :: "json \<Rightarrow> string \<Rightarrow> i32 option" where
  "GetInt32FromJsonValue j key =
     (if no_member j key then None
      else case member_at j key of Some (JInt i) \<Rightarrow> Some (word_of_int i) | _ \<Rightarrow> None)"

definition GetBoolFromJsonValue :: "json \<Rightarrow> string \<Rightarrow> bool option" where
  "GetBoolFromJsonValue j key =
     (if no_member j key then None
      else case member_at j key of Some (JBool b) \<Rightarrow> Some b | _ \<Rightarrow> None)"

definition GetStringFromJsonValue :: "json \<Rightarrow> string \<Rightarrow> string option" where
  "GetStringFromJsonValue j key =
     (if no_member j key then None
      else case member_at j key of Some (JString s) \<Rightarrow> Some s | _ \<Rightarrow> None)"

definition GetObjFromJsonValue :: "json \<Rightarrow> string \<Rightarrow> json option" where
  "GetObjFromJsonValue j key =
     (if no_member j key then None
      else case member_at j key of Some (JObject kvs) \<Rightarrow> Some (JObject kvs) | _ \<Rightarrow> None)"

definition GetArrayFromJsonValue :: "json \<Rightarrow> string \<Rightarrow> (json list) option" where
  "GetArrayFromJsonValue j key =
     (if no_member j key then None
      else case member_at j key of Some (JArray xs) \<Rightarrow> Some xs | _ \<Rightarrow> None)"

text \<open>
  \<open>GetStrArrFromJsonValue\<close> fills its output while it walks the array, so on an element that is
  not a string the output holds the strings before it and the result is \<open>false\<close>; without an
  array the output keeps its old content.
\<close>

fun str_prefix :: "json list \<Rightarrow> bool \<times> string list" where
  "str_prefix [] = (True, [])"
| "str_prefix (JString s # js) = (let (ok, ss) = str_prefix js in (ok, s # ss))"
| "str_prefix (j # js) = (False, [])"

definition GetStrArrFromJsonValue :: "json \<Rightarrow> string \<Rightarrow> string list \<Rightarrow> bool \<times> string list" where
  "GetStrArrFromJsonValue j key old =
     (case GetArrayFromJsonValue j key of None \<Rightarrow> (False, old) | Some xs \<Rightarrow> str_prefix xs)"

text \<open>The result and the value left in the output argument, which starts as \<open>old\<close>.\<close>

definition LoadJsonValueFromContent :: "(string \<Rightarrow> json) \<Rightarrow> json \<Rightarrow> string \<Rightarrow> bool \<times> json" where
  "LoadJsonValueFromContent parse old content =
     (if content = [] then (False, old)
      else let j = parse content in (is_object j, j))"

definition LoadJsonValueFromFile ::
  "(string \<Rightarrow> json) \<Rightarrow> (string \<Rightarrow> string option) \<Rightarrow> json \<Rightarrow> string \<Rightarrow> bool \<times> json" where
  "LoadJsonValueFromFile parse read_file old filePath =
     (case read_file filePath of
        None \<Rightarrow> (False, old)
      | Some content \<Rightarrow> LoadJsonValueFromContent parse old content)"

section \<open>Splitting text\<close>

text \<open>Repeated \<open>std::getline\<close> with a delimiter: nothing follows a trailing delimiter.\<close>

function getline_split :: "char \<Rightarrow> string \<Rightarrow> string list" where
  "getline_split d [] = []"
| "getline_split d (c # cs) =
     takeWhile (\<lambda>x. x \<noteq> d) (c # cs) #
       (case dropWhile (\<lambda>x. x \<noteq> d) (c # cs) of [] \<Rightarrow> [] | _ # r \<Rightarrow> getline_split d r)"
  by pat_completeness auto
termination
proof (relation "measure (length o snd)", goal_cases)
  case 1
  show ?case by simp
next
  case (2 d c cs x r)
  have "length (dropWhile (\<lambda>x. x \<noteq> d) (c # cs)) \<le> length (c # cs)"
    by (rule length_dropWhile_le)
  with 2 show ?case by simp
qed

definition SplitVersion :: "string \<Rightarrow> char \<Rightarrow> string list" where
  "SplitVersion versionStr versionDelim =
     filter (\<lambda>t. t \<noteq> []) (getline_split versionDelim versionStr)"

lemma getline_split_no_delim:
  "d \<notin> set s \<Longrightarrow> s \<noteq> [] \<Longrightarrow> getline_split d s = [s]"
proof (cases s)
  case (Cons c cs)
  assume "d \<notin> set s" "s \<noteq> []"
  then have t: "takeWhile (\<lambda>x. x \<noteq> d) s = s" and dw: "dropWhile (\<lambda>x. x \<noteq> d) s = []"
    by auto
  show ?thesis
    using t dw unfolding Cons by (simp only: getline_split.simps) simp
qed simp

lemma getline_split_append:
  assumes "d \<notin> set s"
  shows "getline_split d (s @ d # r) = s # getline_split d r"
proof -
  have t: "takeWhile (\<lambda>x. x \<noteq> d) (s @ d # r) = s" and dw: "dropWhile (\<lambda>x. x \<noteq> d) (s @ d # r) = d # r"
    using assms by (auto simp: takeWhile_append dropWhile_append)
  obtain c cs where cs: "s @ d # r = c # cs"
    by (cases s) auto
  show ?thesis
    using t dw unfolding cs by (simp only: getline_split.simps) simp
qed

lemma GetStrArr_strings:
  "GetArrayFromJsonValue j key = Some (map JString ss) \<Longrightarrow>
     GetStrArrFromJsonValue j key old = (True, ss)"
proof -
  have "str_prefix (map JString ss) = (True, ss)"
    by (induction ss) auto
  then show "GetArrayFromJsonValue j key = Some (map JString ss) \<Longrightarrow> ?thesis"
    by (simp add: GetStrArrFromJsonValue_def)
qed

end
