(* ===== verification/Allow_Record.thy ===== *)
theory Allow_Record
  imports Json
begin

text \<open>
  The records of the exemption ("allow") list: \<open>AllowRecord\<close> with its JSON form
  (\<open>services/core/src/allow_record.cpp\<close>), the request and answer types of the client interface
  (\<open>interfaces/innerkits\<close>), and the resource types with their bit encoding. The last section
  proves that writing a record and reading it back gives the record.
\<close>

section \<open>Resource types\<close>

definition NETWORK :: u32 where "NETWORK = 1"
definition RUNNING_LOCK :: u32 where "RUNNING_LOCK = 2"
definition TIMER :: u32 where "TIMER = 4"
definition WORK_SCHEDULER :: u32 where "WORK_SCHEDULER = 8"

definition AllowTypeName :: "string list" where
  "AllowTypeName = [''NETWORK'', ''RUNNING_LOCK'', ''TIMER'', ''WORK_SCHEDULER'', ''AUTO_SYNC'', ''PUSH'', ''FREEZE'']"

definition MAX_ALLOW_TYPE_NUM :: nat where
  "MAX_ALLOW_TYPE_NUM = length AllowTypeName"

definition MAX_ALLOW_TYPE_NUMBER :: u32 where
  "MAX_ALLOW_TYPE_NUMBER = push_bit MAX_ALLOW_TYPE_NUM 1 - 1"

definition REASON_NATIVE_API :: u32 where "REASON_NATIVE_API = 0"
definition REASON_APP_API :: u32 where "REASON_APP_API = 1"

text \<open>\<open>1 << allowTypeIndex\<close>; the indices of the code are below \<open>MAX_ALLOW_TYPE_NUM\<close>.\<close>

definition type_bit :: "u32 \<Rightarrow> u32" where
  "type_bit i = push_bit (unat i) 1"

text \<open>The values of \<open>for (uint32_t i = 0; i < MAX_ALLOW_TYPE_NUM; ++i)\<close>.\<close>

definition type_indices :: "u32 list" where
  "type_indices = map of_nat [0..<MAX_ALLOW_TYPE_NUM]"

lemma MAX_ALLOW_TYPE_NUM_val [simp]: "MAX_ALLOW_TYPE_NUM = 7"
  by (simp add: MAX_ALLOW_TYPE_NUM_def AllowTypeName_def)

lemma MAX_ALLOW_TYPE_NUMBER_val [simp]: "MAX_ALLOW_TYPE_NUMBER = 127"
  by (simp add: MAX_ALLOW_TYPE_NUMBER_def push_bit_eq_mult)

lemma type_indices_val: "type_indices = [0, 1, 2, 3, 4, 5, 6]"
  by (simp add: type_indices_def upt_rec)

lemma set_type_indices: "set type_indices = {i. i < 7}"
proof -
  have "i \<in> set type_indices" if "i < 7" for i :: u32
  proof -
    from that have "unat i < 7"
      by (simp add: word_less_nat_alt)
    then have "of_nat (unat i) \<in> (of_nat ` set [0..<7] :: u32 set)"
      by (intro imageI) simp
    then show ?thesis
      by (simp add: type_indices_def)
  qed
  moreover have "i < 7" if "i \<in> set type_indices" for i :: u32
    using that by (auto simp: type_indices_val)
  ultimately show ?thesis by blast
qed

lemma distinct_type_indices [simp]: "distinct type_indices"
  by (simp add: type_indices_val)

lemma bit_type_bit: "bit (type_bit i) n \<longleftrightarrow> n = unat i \<and> n < 32"
  unfolding type_bit_def by (auto simp: bit_simps simp del: push_bit_of_1)

lemma and_type_bit: "(t AND type_bit i) = (if bit t (unat i) then type_bit i else 0)"
proof (rule bit_word_eqI)
  fix n
  assume "n < LENGTH(32)"
  then show "bit (t AND type_bit i) n = bit (if bit t (unat i) then type_bit i else 0) n"
    by (auto simp: bit_and_iff bit_type_bit)
qed

lemma type_bit_nonzero: "i < 7 \<Longrightarrow> type_bit i \<noteq> 0"
  using bit_type_bit [of i "unat i"] by (auto simp: word_less_nat_alt)

lemma and_type_bit_eq_0: "i < 7 \<Longrightarrow> (t AND type_bit i) = 0 \<longleftrightarrow> \<not> bit t (unat i)"
  by (simp add: and_type_bit type_bit_nonzero)

section \<open>Records\<close>

record AllowTime =
  allowTypeIndex :: u32
  endTime :: i64
  at_reason :: string

record AllowRecord =
  ar_uid :: i32
  ar_pid :: i32
  ar_name :: string
  ar_allowType :: u32
  allowTimeList :: "AllowTime list"
  ar_reasonCode :: u32

record ResourceRequest =
  rq_allowType :: u32
  rq_uid :: i32
  rq_name :: string
  rq_duration :: i32
  rq_reason :: string
  rq_reasonCode :: u32

record AllowInfo =
  ai_allowType :: u32
  ai_name :: string
  ai_duration :: i32

section \<open>JSON form\<close>

text \<open>An object of the JSON library is a dictionary sorted by key.\<close>

definition AllowTime_ToJson :: "AllowTime \<Rightarrow> json" where
  "AllowTime_ToJson t = JObject [(''allowTypeIndex'', JInt (uint (allowTypeIndex t))),
     (''endTime'', JInt (endTime t)), (''reason'', JString (at_reason t))]"

definition ParseToJson :: "AllowRecord \<Rightarrow> json" where
  "ParseToJson r = JObject (
     (if allowTimeList r \<noteq> []
      then [(''allowTimeList'', JArray (map AllowTime_ToJson (allowTimeList r)))] else []) @
     [(''allowType'', JInt (uint (ar_allowType r))), (''name'', JString (ar_name r)),
      (''pid'', JInt (sint (ar_pid r))), (''reasonCode'', JInt (uint (ar_reasonCode r))),
      (''uid'', JInt (sint (ar_uid r)))])"

text \<open>\<open>get<int64_t>\<close> of an integer.\<close>

definition to_int64 :: "int \<Rightarrow> i64" where
  "to_int64 i = signed_take_bit 63 i"

definition setAllowTime :: "json \<Rightarrow> AllowTime option" where
  "setAllowTime persistTime =
     (case (member_at persistTime ''allowTypeIndex'', member_at persistTime ''endTime'',
            member_at persistTime ''reason'') of
        (Some (JInt i), Some (JInt e), Some (JString r)) \<Rightarrow>
          Some \<lparr> allowTypeIndex = word_of_int i, endTime = to_int64 e, at_reason = r \<rparr>
      | _ \<Rightarrow> None)"

definition setAllowRecordField :: "json \<Rightarrow> AllowRecord option" where
  "setAllowRecordField value =
     (case (member_at value ''uid'', member_at value ''pid'', member_at value ''name'',
            member_at value ''allowType'', member_at value ''reasonCode'') of
        (Some (JInt u), Some (JInt p), Some (JString n), Some (JInt a), Some (JInt c)) \<Rightarrow>
          Some \<lparr> ar_uid = word_of_int u, ar_pid = word_of_int p, ar_name = n,
                 ar_allowType = word_of_int a, allowTimeList = [], ar_reasonCode = word_of_int c \<rparr>
      | _ \<Rightarrow> None)"

text \<open>The loop over the stored times, which gives up at the first ill-formed one.\<close>

fun parse_times :: "json list \<Rightarrow> AllowTime list option" where
  "parse_times [] = Some []"
| "parse_times (j # js) =
     (case setAllowTime j of
        None \<Rightarrow> None
      | Some t \<Rightarrow> map_option (\<lambda>ts. t # ts) (parse_times js))"

definition ParseFromJson :: "json \<Rightarrow> AllowRecord option" where
  "ParseFromJson value =
     (if is_empty value then None
      else case setAllowRecordField value of
        None \<Rightarrow> None
      | Some r \<Rightarrow>
          (case member_at value ''allowTimeList'' of
             Some (JArray js) \<Rightarrow> map_option (\<lambda>ts. r\<lparr>allowTimeList := ts\<rparr>) (parse_times js)
           | _ \<Rightarrow> Some r))"

section \<open>Round trip\<close>

definition int64_range :: "i64 \<Rightarrow> bool" where
  "int64_range x \<longleftrightarrow> - (2 ^ 63) \<le> x \<and> x < 2 ^ 63"

lemma to_int64_id: "int64_range x \<Longrightarrow> to_int64 x = x"
  by (simp add: int64_range_def to_int64_def signed_take_bit_int_eq_self)

lemma setAllowTime_ToJson: "int64_range (endTime t) \<Longrightarrow> setAllowTime (AllowTime_ToJson t) = Some t"
  by (simp add: setAllowTime_def AllowTime_ToJson_def to_int64_id)

lemma parse_times_ToJson:
  "\<forall>t \<in> set ts. int64_range (endTime t) \<Longrightarrow> parse_times (map AllowTime_ToJson ts) = Some ts"
  by (induction ts) (auto simp: setAllowTime_ToJson)

lemma ParseFromJson_ParseToJson:
  assumes "\<forall>t \<in> set (allowTimeList r). int64_range (endTime t)"
  shows "ParseFromJson (ParseToJson r) = Some r"
proof (cases "allowTimeList r = []")
  case True
  then show ?thesis
    by (simp add: ParseFromJson_def ParseToJson_def setAllowRecordField_def)
next
  case False
  have "parse_times (map AllowTime_ToJson (allowTimeList r)) = Some (allowTimeList r)"
    using assms by (rule parse_times_ToJson)
  with False show ?thesis
    by (simp add: ParseFromJson_def ParseToJson_def setAllowRecordField_def)
qed

text \<open>Reading back the JSON form of a record gives the record, for end times in the range
  of int64_t.\<close>

theorem record_json_roundtrip:
  assumes "\<forall>t \<in> set (allowTimeList r). int64_range (endTime t)"
  shows "ParseFromJson (ParseToJson r) = Some r"
  using assms by (rule ParseFromJson_ParseToJson)

definition demo_record :: AllowRecord where
  "demo_record = \<lparr> ar_uid = 20010045, ar_pid = 512, ar_name = ''com.demo'', ar_allowType = 5,
     allowTimeList = [\<lparr> allowTypeIndex = 0, endTime = 90000, at_reason = ''push'' \<rparr>,
       \<lparr> allowTypeIndex = 2, endTime = 60000, at_reason = ''alarm'' \<rparr>], ar_reasonCode = 1 \<rparr>"

theorem record_json_roundtrip_witness: "ParseFromJson (ParseToJson demo_record) = Some demo_record"
  by (rule record_json_roundtrip) (simp add: demo_record_def int64_range_def)

end
