(* ===== verification/Message.thy ===== *)
theory Message
  imports Std_Errors
begin

text \<open>
  The vocabulary the components exchange: the shared constants of
  \<open>utils/common/src/common_constant.cpp\<close>, the standby states and phases of
  \<open>standby_state.h\<close>, and the messages of \<open>standby_messsage.h\<close>.

  A message that arrives carries a \<open>want\<close>, the dictionary type of the ability framework. The
  framework is not part of this repository, so the receiving side sees a \<open>want\<close> as the three
  readers the code calls, and nothing is assumed of them. The sending side is the list of
  \<open>SetParam\<close> calls the code makes.
\<close>

section \<open>Constants\<close>

definition TRANSIT_NEXT_STATE_TIMED_TASK :: string where
  "TRANSIT_NEXT_STATE_TIMED_TASK = ''TransitNextStateTimedTask''"
definition TRANSIT_NEXT_STATE_CONDITION_TASK :: string where
  "TRANSIT_NEXT_STATE_CONDITION_TASK = ''TransitNextStateConditionTask''"
definition TRANSIT_NEXT_PHASE_INSTANT_TASK :: string where
  "TRANSIT_NEXT_PHASE_INSTANT_TASK = ''TransitNextPhaseInstantTask''"
definition REPEATED_MOTION_DETECTION_TASK :: string where
  "REPEATED_MOTION_DETECTION_TASK = ''MotionDetectionPeriodlyTask''"
definition MOTION_DECTION_TASK :: string where
  "MOTION_DECTION_TASK = ''motion_dection_task''"

lemmas task_name_defs = TRANSIT_NEXT_STATE_TIMED_TASK_def TRANSIT_NEXT_STATE_CONDITION_TASK_def
  TRANSIT_NEXT_PHASE_INSTANT_TASK_def REPEATED_MOTION_DETECTION_TASK_def MOTION_DECTION_TASK_def

definition task_names :: "string list" where
  "task_names = [TRANSIT_NEXT_STATE_TIMED_TASK, TRANSIT_NEXT_STATE_CONDITION_TASK,
     TRANSIT_NEXT_PHASE_INSTANT_TASK, REPEATED_MOTION_DETECTION_TASK, MOTION_DECTION_TASK]"

lemma task_names_distinct: "distinct task_names"
  by (simp add: task_names_def task_name_defs)

lemma task_name_neq [simp]:
  "TRANSIT_NEXT_STATE_TIMED_TASK \<noteq> TRANSIT_NEXT_STATE_CONDITION_TASK"
  "TRANSIT_NEXT_STATE_CONDITION_TASK \<noteq> TRANSIT_NEXT_STATE_TIMED_TASK"
  "TRANSIT_NEXT_STATE_TIMED_TASK \<noteq> TRANSIT_NEXT_PHASE_INSTANT_TASK"
  "TRANSIT_NEXT_PHASE_INSTANT_TASK \<noteq> TRANSIT_NEXT_STATE_TIMED_TASK"
  "TRANSIT_NEXT_STATE_TIMED_TASK \<noteq> REPEATED_MOTION_DETECTION_TASK"
  "REPEATED_MOTION_DETECTION_TASK \<noteq> TRANSIT_NEXT_STATE_TIMED_TASK"
  "TRANSIT_NEXT_STATE_TIMED_TASK \<noteq> MOTION_DECTION_TASK"
  "MOTION_DECTION_TASK \<noteq> TRANSIT_NEXT_STATE_TIMED_TASK"
  "TRANSIT_NEXT_STATE_CONDITION_TASK \<noteq> TRANSIT_NEXT_PHASE_INSTANT_TASK"
  "TRANSIT_NEXT_PHASE_INSTANT_TASK \<noteq> TRANSIT_NEXT_STATE_CONDITION_TASK"
  "TRANSIT_NEXT_STATE_CONDITION_TASK \<noteq> REPEATED_MOTION_DETECTION_TASK"
  "REPEATED_MOTION_DETECTION_TASK \<noteq> TRANSIT_NEXT_STATE_CONDITION_TASK"
  "TRANSIT_NEXT_STATE_CONDITION_TASK \<noteq> MOTION_DECTION_TASK"
  "MOTION_DECTION_TASK \<noteq> TRANSIT_NEXT_STATE_CONDITION_TASK"
  "TRANSIT_NEXT_PHASE_INSTANT_TASK \<noteq> REPEATED_MOTION_DETECTION_TASK"
  "REPEATED_MOTION_DETECTION_TASK \<noteq> TRANSIT_NEXT_PHASE_INSTANT_TASK"
  "TRANSIT_NEXT_PHASE_INSTANT_TASK \<noteq> MOTION_DECTION_TASK"
  "MOTION_DECTION_TASK \<noteq> TRANSIT_NEXT_PHASE_INSTANT_TASK"
  "REPEATED_MOTION_DETECTION_TASK \<noteq> MOTION_DECTION_TASK"
  "MOTION_DECTION_TASK \<noteq> REPEATED_MOTION_DETECTION_TASK"
  using task_names_distinct by (auto simp: task_names_def)

definition REPEATED_MOTION_DETECTION_INTERVAL :: i64 where
  "REPEATED_MOTION_DETECTION_INTERVAL = 10 * 60 * 1000"
definition MOTION_DETECTION_TIMEOUT :: i32 where "MOTION_DETECTION_TIMEOUT = 1500"
definition REST_TIMEOUT :: i32 where "REST_TIMEOUT = 1000"
definition TOTAL_TIMEOUT :: i32 where "TOTAL_TIMEOUT = 3000"
definition PERIODLY_TASK_DECTION_TIMEOUT :: i32 where "PERIODLY_TASK_DECTION_TIMEOUT = 410"
definition PERIODLY_TASK_REST_TIMEOUT :: i32 where "PERIODLY_TASK_REST_TIMEOUT = 100"
definition PERIODLY_TASK_TOTAL_TIMEOUT :: i32 where "PERIODLY_TASK_TOTAL_TIMEOUT = 420"
definition HALF_HOUR :: i64 where "HALF_HOUR = 1800 * 1000"
definition MSEC_PER_SEC :: i64 where "MSEC_PER_SEC = 1000"
definition MSEC_PER_MIN :: i64 where "MSEC_PER_MIN = 60000"
definition SEC_PER_DAY :: i64 where "SEC_PER_DAY = 86400"

section \<open>Standby states and phases\<close>

datatype StandbyState = WORKING | DARK | NAP | MAINTENANCE | SLEEP

primrec state_index :: "StandbyState \<Rightarrow> nat" where
  "state_index WORKING = 0"
| "state_index DARK = 1"
| "state_index NAP = 2"
| "state_index MAINTENANCE = 3"
| "state_index SLEEP = 4"

lemma state_index_inject [simp]: "state_index a = state_index b \<longleftrightarrow> a = b"
  by (cases a; cases b) auto

instantiation StandbyState :: linorder
begin

definition less_eq_StandbyState :: "StandbyState \<Rightarrow> StandbyState \<Rightarrow> bool" where
  "less_eq_StandbyState a b \<longleftrightarrow> state_index a \<le> state_index b"

definition less_StandbyState :: "StandbyState \<Rightarrow> StandbyState \<Rightarrow> bool" where
  "less_StandbyState a b \<longleftrightarrow> state_index a < state_index b"

instance
  by standard (auto simp: less_eq_StandbyState_def less_StandbyState_def)

end

definition state_code :: "StandbyState \<Rightarrow> u32" where
  "state_code st = of_nat (state_index st)"

definition STATE_NAME_LIST :: "string list" where
  "STATE_NAME_LIST = [''working'', ''dark'', ''nap'', ''maintenance'', ''sleep'']"

definition state_name :: "StandbyState \<Rightarrow> string" where
  "state_name st = STATE_NAME_LIST ! state_index st"

text \<open>\<open>NapStatePhase\<close> and \<open>SleepStatePhase\<close> have the same numbering.\<close>

definition PHASE_BEGIN :: u32 where "PHASE_BEGIN = 0"
definition PHASE_END :: u32 where "PHASE_END = 3"

section \<open>Messages\<close>

definition COMMON_EVENT :: u32 where "COMMON_EVENT = 1"
definition STATE_TRANSIT :: u32 where "STATE_TRANSIT = 2"
definition PHASE_TRANSIT :: u32 where "PHASE_TRANSIT = 3"
definition RES_CTRL_CONDITION_CHANGED :: u32 where "RES_CTRL_CONDITION_CHANGED = 4"
definition ALLOW_LIST_CHANGED :: u32 where "ALLOW_LIST_CHANGED = 5"
definition SCREEN_OFF_HALF_HOUR :: u32 where "SCREEN_OFF_HALF_HOUR = 6"
definition BG_TASK_STATUS_CHANGE :: u32 where "BG_TASK_STATUS_CHANGE = 7"
definition SYS_ABILITY_STATUS_CHANGED :: u32 where "SYS_ABILITY_STATUS_CHANGED = 8"
definition PROCESS_STATE_CHANGED :: u32 where "PROCESS_STATE_CHANGED = 9"
definition DEVICE_NET_IDLE_POLICY_TRANSIT :: u32 where "DEVICE_NET_IDLE_POLICY_TRANSIT = 12"
definition BG_EFFICIENCY_RESOURCE_APPLY :: u32 where "BG_EFFICIENCY_RESOURCE_APPLY = 13"

lemmas event_id_defs = COMMON_EVENT_def STATE_TRANSIT_def PHASE_TRANSIT_def
  RES_CTRL_CONDITION_CHANGED_def ALLOW_LIST_CHANGED_def SCREEN_OFF_HALF_HOUR_def
  BG_TASK_STATUS_CHANGE_def SYS_ABILITY_STATUS_CHANGED_def PROCESS_STATE_CHANGED_def
  DEVICE_NET_IDLE_POLICY_TRANSIT_def BG_EFFICIENCY_RESOURCE_APPLY_def

record want =
  GetIntParam :: "string \<Rightarrow> i32 \<Rightarrow> i32"
  GetBoolParam :: "string \<Rightarrow> bool \<Rightarrow> bool"
  GetStringParam :: "string \<Rightarrow> string"

datatype want_val = WInt i32 | WBool bool | WString string | WLong i64 | WUInt u32

type_synonym want_params = "(string \<times> want_val) list"

text \<open>A message on its way out: its type and the parameters of its \<open>Want\<close>.\<close>

datatype out_message = OutMessage u32 want_params

text \<open>
  What the receiver of \<open>OutMessage ev ps\<close> may rely on, for a framework that carries the
  parameters faithfully: \<open>want_of\<close> is one such transport, the last \<open>SetParam\<close> of a key wins
  and an absent or differently typed key reads as the default.
\<close>

definition want_of :: "want_params \<Rightarrow> want" where
  "want_of ps = \<lparr>
     GetIntParam = (\<lambda>k d. case map_of (rev ps) k of Some (WInt v) \<Rightarrow> v | _ \<Rightarrow> d),
     GetBoolParam = (\<lambda>k d. case map_of (rev ps) k of Some (WBool v) \<Rightarrow> v | _ \<Rightarrow> d),
     GetStringParam = (\<lambda>k. case map_of (rev ps) k of Some (WString v) \<Rightarrow> v | _ \<Rightarrow> '''') \<rparr>"

definition PREVIOUS_STATE :: string where "PREVIOUS_STATE = ''previous_state''"
definition CURRENT_STATE :: string where "CURRENT_STATE = ''current_state''"
definition PREVIOUS_PHASE :: string where "PREVIOUS_PHASE = ''previous_phase''"
definition CURRENT_PHASE :: string where "CURRENT_PHASE = ''current_phase''"
definition SCR_OFF_HALF_HOUR_STATUS :: string where
  "SCR_OFF_HALF_HOUR_STATUS = ''scr_off_half_hour_status''"
definition RES_CTRL_CONDITION :: string where "RES_CTRL_CONDITION = ''res_ctrl_condition''"

lemmas want_key_defs = PREVIOUS_STATE_def CURRENT_STATE_def PREVIOUS_PHASE_def CURRENT_PHASE_def
  SCR_OFF_HALF_HOUR_STATUS_def RES_CTRL_CONDITION_def

text \<open>
  The action of a message. The names of the event framework's events are constants of that
  framework (\<open>CommonEventSupport\<close>), which the code only compares; they are constructors here,
  distinct from one another and from the actions this repository spells out itself, which
  are \<open>Act\<close> of their text.
\<close>

datatype event_action =
    COMMON_EVENT_SCREEN_ON
  | COMMON_EVENT_SCREEN_OFF
  | COMMON_EVENT_SCREEN_UNLOCKED
  | COMMON_EVENT_CHARGING
  | COMMON_EVENT_DISCHARGING
  | COMMON_EVENT_USB_DEVICE_ATTACHED
  | COMMON_EVENT_USB_DEVICE_DETACHED
  | COMMON_EVENT_ENTER_FORCE_SLEEP
  | COMMON_EVENT_POWER_SAVE_MODE_CHANGED
  | COMMON_EVENT_OTHER nat
  | Act string

definition LID_OPEN :: event_action where "LID_OPEN = Act ''LID_OPEN''"
definition LID_CLOSE :: event_action where "LID_CLOSE = Act ''LID_CLOSE''"
definition COMMON_EVENT_USER_SLEEP_STATE_CHANGED :: event_action where
  "COMMON_EVENT_USER_SLEEP_STATE_CHANGED = Act ''COMMON_EVENT_USER_SLEEP_STATE_CHANGED''"

lemmas action_defs = LID_OPEN_def LID_CLOSE_def COMMON_EVENT_USER_SLEEP_STATE_CHANGED_def

record StandbyMessage =
  eventId :: u32
  action :: event_action
  msg_want :: "want option"

end
