(* ===== verification/Config_Manager.thy ===== *)
theory Config_Manager
  imports Json Message
begin

text \<open>
  \<open>StandbyConfigManager\<close> of \<open>utils/policy/src/standby_config_manager.cpp\<close>: the tables read from the
  device, strategy and cloud configuration, the getters the other components call and the debug
  overrides. \<open>Config_Parse\<close> holds the parsers that fill the tables.
\<close>

section \<open>Data\<close>

definition DAY_STANDBY :: u32 where "DAY_STANDBY = 1"
definition NIGHT_STANDBY :: u32 where "NIGHT_STANDBY = 2"

record TimeLtdProcess =
  ltd_name :: string
  maxDurationLim :: i32

record DefaultResourceConfig =
  cfg_isAllow :: bool
  conditions :: "u32 list"
  processes :: "string list"
  apps :: "string list"
  timeLtdProcesses :: "TimeLtdProcess list"
  timeLtdApps :: "TimeLtdProcess list"

record TimerClockApp =
  clock_name :: string
  timerPeriod :: i32
  isTimerClock :: bool

record TimerResourceConfig =
  timer_isAllow :: bool
  timer_conditions :: "u32 list"
  timerClockApps :: "TimerClockApp list"

type_synonym ext_multi = "i32 \<Rightarrow> int \<times> string list"
type_synonym ext_single = "i32 \<Rightarrow> int \<times> string"

record config_state =
  pluginName :: string
  standbySwitchMap :: "(string \<times> bool) list"
  standbyParaMap :: "(string \<times> i32) list"
  strategySwitchMap :: "(string \<times> bool) list"
  strategyListMap :: "(string \<times> bool) list"
  strategyList :: "string list"
  halfhourSwitchMap :: "(string \<times> bool) list"
  defaultResourceConfigMap :: "(string \<times> DefaultResourceConfig list) list"
  timerResConfigList :: "TimerResourceConfig list"
  intervalListMap :: "(string \<times> i32 list) list"
  ladderBatteryListMap :: "(string \<times> i32 list) list"
  pkgTypeMap :: "(string \<times> string list) list"
  standbyStrategyConfigMap :: "(string \<times> json) list"
  standbyListParaMap :: "(string \<times> string list) list"
  mxStandbyConfigMap :: "(string \<times> json) list"
  backStandbySwitchMap :: "(string \<times> bool) list"
  backStandbyParaMap :: "(string \<times> i32) list"
  getExtConfigFunc :: "ext_multi option"
  getSingleExtConfigFunc :: "ext_single option"

definition config_init :: config_state where
  "config_init = \<lparr> pluginName = '''', standbySwitchMap = [], standbyParaMap = [],
     strategySwitchMap = [], strategyListMap = [], strategyList = [], halfhourSwitchMap = [],
     defaultResourceConfigMap = [], timerResConfigList = [], intervalListMap = [],
     ladderBatteryListMap = [], pkgTypeMap = [], standbyStrategyConfigMap = [],
     standbyListParaMap = [], mxStandbyConfigMap = [], backStandbySwitchMap = [],
     backStandbyParaMap = [], getExtConfigFunc = None, getSingleExtConfigFunc = None \<rparr>"

section \<open>Getters\<close>

definition GetConfigWithName :: "'a \<Rightarrow> string \<Rightarrow> (string \<times> 'a) list \<Rightarrow> 'a" where
  "GetConfigWithName dflt name m = (case map_of m name of None \<Rightarrow> dflt | Some v \<Rightarrow> v)"

definition GetDefaultConfig :: "config_state \<Rightarrow> string \<Rightarrow> json" where
  "GetDefaultConfig c n = GetConfigWithName JNull n (standbyStrategyConfigMap c)"
definition GetStandbySwitch :: "config_state \<Rightarrow> string \<Rightarrow> bool" where
  "GetStandbySwitch c n = GetConfigWithName False n (standbySwitchMap c)"
definition GetStandbyParam :: "config_state \<Rightarrow> string \<Rightarrow> i32" where
  "GetStandbyParam c n = GetConfigWithName 0 n (standbyParaMap c)"
definition GetStrategySwitch :: "config_state \<Rightarrow> string \<Rightarrow> bool" where
  "GetStrategySwitch c n = GetConfigWithName False n (strategySwitchMap c)"
definition GetHalfHourSwitch :: "config_state \<Rightarrow> string \<Rightarrow> bool" where
  "GetHalfHourSwitch c n = GetConfigWithName False n (halfhourSwitchMap c)"
definition GetStandbyListPara :: "config_state \<Rightarrow> string \<Rightarrow> string list" where
  "GetStandbyListPara c n = GetConfigWithName [] n (standbyListParaMap c)"
definition GetStrategyConfigSwitch :: "config_state \<Rightarrow> string \<Rightarrow> bool" where
  "GetStrategyConfigSwitch c n = GetConfigWithName False n (strategyListMap c)"
definition GetStrategyConfigList :: "config_state \<Rightarrow> string list" where
  "GetStrategyConfigList c = strategyList c"
definition GetStandbyDurationList :: "config_state \<Rightarrow> string \<Rightarrow> i32 list" where
  "GetStandbyDurationList c n = GetConfigWithName [] n (intervalListMap c)"
definition GetTimerResConfig :: "config_state \<Rightarrow> TimerResourceConfig list" where
  "GetTimerResConfig c = timerResConfigList c"
definition GetMxStandbyConfig :: "config_state \<Rightarrow> (string \<times> json) list" where
  "GetMxStandbyConfig c = mxStandbyConfigMap c"
definition GetStandbyPkgTypeList :: "config_state \<Rightarrow> string \<Rightarrow> string list" where
  "GetStandbyPkgTypeList c n = GetConfigWithName [] n (pkgTypeMap c)"
definition GetStandbyLadderBatteryList :: "config_state \<Rightarrow> string \<Rightarrow> i32 list" where
  "GetStandbyLadderBatteryList c n = GetConfigWithName [] n (ladderBatteryListMap c)"

text \<open>The shared pointer of the original is \<open>None\<close> when the name is absent.\<close>

definition GetResCtrlConfig :: "config_state \<Rightarrow> string \<Rightarrow> DefaultResourceConfig list option" where
  "GetResCtrlConfig c n = GetConfigWithName None n (map (\<lambda>(k, v). (k, Some v)) (defaultResourceConfigMap c))"

text \<open>The loop over the conditions of an entry, and the loop over the entries.\<close>

definition isEligible :: "u32 \<Rightarrow> DefaultResourceConfig \<Rightarrow> bool" where
  "isEligible condition cfg \<longleftrightarrow>
     (\<exists>configCondition \<in> set (conditions cfg). (condition AND configCondition) = configCondition)"

definition GetEligibleAllowConfig ::
  "config_state \<Rightarrow> string \<Rightarrow> u32 \<Rightarrow> bool \<Rightarrow> bool
     \<Rightarrow> (bool \<Rightarrow> 'a list \<Rightarrow> DefaultResourceConfig \<Rightarrow> 'a list) \<Rightarrow> 'a list" where
  "GetEligibleAllowConfig c paramName condition isAllow isApp func =
     (case map_of (defaultResourceConfigMap c) paramName of
        None \<Rightarrow> []
      | Some resCtrlConfig \<Rightarrow>
          fold (\<lambda>cfg acc.
              if cfg_isAllow cfg \<noteq> isAllow then acc
              else if \<not> isEligible condition cfg then acc
              else func isApp acc cfg)
            resCtrlConfig [])"

definition GetEligibleAllowTimeConfig ::
  "config_state \<Rightarrow> string \<Rightarrow> u32 \<Rightarrow> bool \<Rightarrow> bool \<Rightarrow> TimeLtdProcess list" where
  "GetEligibleAllowTimeConfig c paramName condition isAllow isApp =
     GetEligibleAllowConfig c paramName condition isAllow isApp
       (\<lambda>app acc cfg. std_insert_range ltd_name (if app then timeLtdApps cfg else timeLtdProcesses cfg) acc)"

definition GetEligiblePersistAllowConfig ::
  "config_state \<Rightarrow> string \<Rightarrow> u32 \<Rightarrow> bool \<Rightarrow> bool \<Rightarrow> string list" where
  "GetEligiblePersistAllowConfig c paramName condition isAllow isApp =
     GetEligibleAllowConfig c paramName condition isAllow isApp
       (\<lambda>app acc cfg. std_insert_range id (if app then apps cfg else processes cfg) acc)"

definition GetMaxDuration :: "config_state \<Rightarrow> string \<Rightarrow> string \<Rightarrow> u32 \<Rightarrow> bool \<Rightarrow> i32" where
  "GetMaxDuration c name paramName condition isApp =
     (case List.find (\<lambda>it. ltd_name it = name)
             (GetEligibleAllowTimeConfig c paramName condition True isApp) of
        None \<Rightarrow> 0
      | Some it \<Rightarrow> maxDurationLim it)"

text \<open>The entries of a resource that apply to a condition, in configuration order.\<close>

definition eligible :: "config_state \<Rightarrow> string \<Rightarrow> u32 \<Rightarrow> bool \<Rightarrow> DefaultResourceConfig list" where
  "eligible c paramName condition isAllow =
     filter (\<lambda>cfg. cfg_isAllow cfg = isAllow \<and> isEligible condition cfg)
       (case map_of (defaultResourceConfigMap c) paramName of None \<Rightarrow> [] | Some l \<Rightarrow> l)"

lemma fold_guard:
  "fold (\<lambda>x acc. if \<not> P x then acc else if \<not> Q x then acc else f x acc) xs a =
     fold f (filter (\<lambda>x. P x \<and> Q x) xs) a"
  by (induction xs arbitrary: a) auto

lemma GetEligibleAllowConfig_fold:
  "GetEligibleAllowConfig c n cond allow app func =
     fold (\<lambda>cfg acc. func app acc cfg) (eligible c n cond allow) []"
  by (cases "map_of (defaultResourceConfigMap c) n")
    (simp_all only: GetEligibleAllowConfig_def eligible_def fold_guard option.case filter.simps fold_simps)

lemma fold_std_insert_range:
  "fold (\<lambda>cfg acc. std_insert_range f (g cfg) acc) cs S = std_insert_range f (concat (map g cs)) S"
  by (induction cs arbitrary: S) (simp_all add: std_insert_range_def)

lemma GetEligibleAllowTimeConfig_range:
  "GetEligibleAllowTimeConfig c n cond allow app =
     std_insert_range ltd_name
       (concat (map (\<lambda>cfg. if app then timeLtdApps cfg else timeLtdProcesses cfg) (eligible c n cond allow))) []"
  by (simp add: GetEligibleAllowTimeConfig_def GetEligibleAllowConfig_fold fold_std_insert_range)

lemma GetEligiblePersistAllowConfig_range:
  "GetEligiblePersistAllowConfig c n cond allow app =
     std_insert_range id
       (concat (map (\<lambda>cfg. if app then apps cfg else processes cfg) (eligible c n cond allow))) []"
  by (simp add: GetEligiblePersistAllowConfig_def GetEligibleAllowConfig_fold fold_std_insert_range)

lemma GetMaxDuration_first:
  "GetMaxDuration c name n cond app =
     (case List.find (\<lambda>it. ltd_name it = name)
             (concat (map (\<lambda>cfg. if app then timeLtdApps cfg else timeLtdProcesses cfg) (eligible c n cond True)))
      of None \<Rightarrow> 0 | Some it \<Rightarrow> maxDurationLim it)"
  by (simp add: GetMaxDuration_def GetEligibleAllowTimeConfig_range find_std_insert_range)

section \<open>Debug overrides\<close>

definition DumpSetDebugMode :: "bool \<Rightarrow> config_state \<Rightarrow> config_state" where
  "DumpSetDebugMode debugMode c =
     (if debugMode then
        c\<lparr>backStandbySwitchMap := standbySwitchMap c, backStandbyParaMap := standbyParaMap c\<rparr>
      else
        c\<lparr>standbySwitchMap := backStandbySwitchMap c, standbyParaMap := backStandbyParaMap c,
          backStandbySwitchMap := [], backStandbyParaMap := []\<rparr>)"

definition DumpSetSwitch :: "string \<Rightarrow> bool \<Rightarrow> config_state \<times> string \<Rightarrow> config_state \<times> string" where
  "DumpSetSwitch switchName switchStatus = (\<lambda>(c, result).
     (case map_of (standbySwitchMap c) switchName of
        None \<Rightarrow> (c, result @ switchName @ '' not exist'' @ [char_of (10 :: nat)])
      | Some _ \<Rightarrow> (c\<lparr>standbySwitchMap := AList.update switchName switchStatus (standbySwitchMap c)\<rparr>, result)))"

definition DumpSetParameter :: "string \<Rightarrow> i32 \<Rightarrow> config_state \<times> string \<Rightarrow> config_state \<times> string" where
  "DumpSetParameter paramName paramValue = (\<lambda>(c, result).
     (case map_of (standbyParaMap c) paramName of
        None \<Rightarrow> (c, result @ paramName @ '' not exist'' @ [char_of (10 :: nat)])
      | Some _ \<Rightarrow> (c\<lparr>standbyParaMap := AList.update paramName paramValue (standbyParaMap c)\<rparr>, result)))"

datatype debug_op = Set_Switch string bool | Set_Param string i32

primrec run_debug_op :: "debug_op \<Rightarrow> config_state \<times> string \<Rightarrow> config_state \<times> string" where
  "run_debug_op (Set_Switch n b) = DumpSetSwitch n b"
| "run_debug_op (Set_Param n v) = DumpSetParameter n v"

lemma run_debug_op_frame:
  "backStandbySwitchMap (fst (run_debug_op op s)) = backStandbySwitchMap (fst s)"
  "backStandbyParaMap (fst (run_debug_op op s)) = backStandbyParaMap (fst s)"
  "\<exists>sw pa. fst (run_debug_op op s) = (fst s)\<lparr>standbySwitchMap := sw, standbyParaMap := pa\<rparr>"
proof -
  show "\<exists>sw pa. fst (run_debug_op op s) = (fst s)\<lparr>standbySwitchMap := sw, standbyParaMap := pa\<rparr>"
  proof (cases op)
    case (Set_Switch n b)
    show ?thesis
      by (rule exI [of _ "standbySwitchMap (fst (run_debug_op op s))"],
          rule exI [of _ "standbyParaMap (fst s)"])
        (simp add: Set_Switch DumpSetSwitch_def split: prod.split option.split)
  next
    case (Set_Param n v)
    show ?thesis
      by (rule exI [of _ "standbySwitchMap (fst s)"],
          rule exI [of _ "standbyParaMap (fst (run_debug_op op s))"])
        (simp add: Set_Param DumpSetParameter_def split: prod.split option.split)
  qed
qed (cases op; simp add: DumpSetSwitch_def DumpSetParameter_def split: prod.split option.split)+

lemma fold_debug_op_frame:
  "\<exists>sw pa. fst (fold run_debug_op ops s) = (fst s)\<lparr>standbySwitchMap := sw, standbyParaMap := pa\<rparr>"
proof (induction ops arbitrary: s)
  case Nil
  show ?case
    by (rule exI [of _ "standbySwitchMap (fst s)"], rule exI [of _ "standbyParaMap (fst s)"]) simp
next
  case (Cons op ops)
  from Cons.IH [of "run_debug_op op s"] run_debug_op_frame(3) [of op s]
  show ?case by auto blast
qed

section \<open>Properties\<close>

text \<open>Whatever switches and parameters are overridden in debug mode, leaving it restores
  the configuration as it was before.\<close>

theorem debug_mode_roundtrip:
  "DumpSetDebugMode False (fst (fold run_debug_op ops (DumpSetDebugMode True c, result))) =
     c\<lparr>backStandbySwitchMap := [], backStandbyParaMap := []\<rparr>"
proof -
  obtain sw pa where "fst (fold run_debug_op ops (DumpSetDebugMode True c, result)) =
      (DumpSetDebugMode True c)\<lparr>standbySwitchMap := sw, standbyParaMap := pa\<rparr>"
    using fold_debug_op_frame [of ops "(DumpSetDebugMode True c, result)"] by auto
  then show ?thesis
    by (simp add: DumpSetDebugMode_def)
qed

text \<open>The persistent exemptions of a resource under a condition are exactly the names
  listed by the entries with the requested action one of whose conditions is contained in
  the condition, sorted and without duplicates.\<close>

theorem persist_allow_config:
  "set (GetEligiblePersistAllowConfig c n condition isAllow app) =
     (\<Union>cfg \<in> set (eligible c n condition isAllow). set (if app then apps cfg else processes cfg)) \<and>
   sorted_wrt (<) (GetEligiblePersistAllowConfig c n condition isAllow app)"
proof -
  have "std_set id (GetEligiblePersistAllowConfig c n condition isAllow app)"
    unfolding GetEligiblePersistAllowConfig_range by (rule std_insert_range_sorted) simp
  then show ?thesis
    by (simp add: GetEligiblePersistAllowConfig_range)
qed

lemma max_duration_first_entry:
  "GetMaxDuration c name n condition app =
     (let limits = concat (map (\<lambda>cfg. if app then timeLtdApps cfg else timeLtdProcesses cfg)
                            (eligible c n condition True))
      in case filter (\<lambda>it. ltd_name it = name) limits of [] \<Rightarrow> 0 | it # _ \<Rightarrow> maxDurationLim it)"
proof -
  have "List.find P xs = (case filter P xs of [] \<Rightarrow> None | x # _ \<Rightarrow> Some x)" for P and xs :: "TimeLtdProcess list"
    by (induction xs) auto
  then show ?thesis
    by (simp add: GetMaxDuration_first Let_def split: list.split)
qed

end
