(* ===== verification/Time_Provider.thy ===== *)
theory Time_Provider
  imports Config_Manager "HOL-Library.Signed_Division"
begin

text \<open>
  \<open>services/common/src/time_provider.cpp\<close>: the day and night condition, the distance to the next
  switch of it, and the length of the nap period.

  A broken-down time carries its date as the number of days since the epoch (\<open>tm_day\<close>, for the
  year, month and day of month of \<open>struct tm\<close>). The C library's conversions, the clocks and
  the power mode are the fields of \<open>time_env\<close>; every read of a clock during one step of the
  service gives the same value.
\<close>

record tm =
  tm_day :: int
  tm_hour :: int
  tm_min :: int
  tm_sec :: int

datatype power_mode = POWER_SAVE_MODE | EXTREME_POWER_SAVE_MODE | Other_Mode int

record time_env =
  wallTimeMs :: i64
  monotonicTimeMs :: i64
  bootTimeMs :: i64
  localtime_r :: "int \<Rightarrow> tm option"
  gmtime_r :: "int \<Rightarrow> tm option"
  mktime :: "tm \<Rightarrow> int"
  gm_mday :: "i32 option"
  deviceMode :: power_mode
  randomDelay :: "int \<Rightarrow> int \<Rightarrow> int"

definition curSecTimeStamp :: "time_env \<Rightarrow> int" where
  "curSecTimeStamp e = wallTimeMs e sdiv MSEC_PER_SEC"

definition GetCondition :: "time_env \<Rightarrow> int \<Rightarrow> u32" where
  "GetCondition e afterNextSeconds =
     (case localtime_r e (curSecTimeStamp e + afterNextSeconds) of
        None \<Rightarrow> DAY_STANDBY
      | Some t \<Rightarrow>
          if (tm_hour t < 23 \<or> tm_min t < 45) \<and> tm_hour t \<ge> 6 then DAY_STANDBY else NIGHT_STANDBY)"

text \<open>The result and the time difference, which a failure leaves at its initial value.\<close>

definition DiffToFixedClock :: "time_env \<Rightarrow> int \<Rightarrow> int \<Rightarrow> int \<Rightarrow> int \<Rightarrow> bool \<times> int" where
  "DiffToFixedClock e curTimeStamp tmHour tmMin timeDiff =
     (case gmtime_r e curTimeStamp of
        None \<Rightarrow> (False, timeDiff)
      | Some curUTCTime \<Rightarrow>
          let target = curUTCTime\<lparr>tm_hour := tmHour, tm_min := tmMin, tm_sec := 0\<rparr>;
              d = mktime e target - curTimeStamp;
              d = (if d < 0 then d + SEC_PER_DAY else d)
          in (True, d * MSEC_PER_SEC))"

definition TimeDiffToDayNightSwitch :: "time_env \<Rightarrow> int \<Rightarrow> bool \<times> int" where
  "TimeDiffToDayNightSwitch e timeDiff =
     (if GetCondition e 0 = NIGHT_STANDBY then DiffToFixedClock e (curSecTimeStamp e) 6 0 timeDiff
      else DiffToFixedClock e (curSecTimeStamp e) 23 45 timeDiff)"

definition IsPowerSaveMode :: "time_env \<Rightarrow> bool" where
  "IsPowerSaveMode e \<longleftrightarrow>
     (case deviceMode e of POWER_SAVE_MODE \<Rightarrow> True | EXTREME_POWER_SAVE_MODE \<Rightarrow> True | Other_Mode m \<Rightarrow> m = 650)"

definition GetNapTimeOut :: "time_env \<Rightarrow> i64" where
  "GetNapTimeOut e =
     (if IsPowerSaveMode e then 1 * MSEC_PER_MIN
      else case localtime_r e (curSecTimeStamp e) of
        None \<Rightarrow> 20 * MSEC_PER_MIN
      | Some t \<Rightarrow>
          (if tm_hour t = 22 then 15
           else if tm_hour t = 23 \<and> tm_min t < 45 then 15
           else if tm_hour t \<ge> 23 \<or> tm_hour t < 5 \<or> tm_hour t = 5 \<and> tm_min t < 45 then 10
           else 20) * MSEC_PER_MIN)"

definition GetCurrentDate :: "time_env \<Rightarrow> i32" where
  "GetCurrentDate e = (case gm_mday e of None \<Rightarrow> 0 | Some d \<Rightarrow> d)"

section \<open>A clock with a fixed zone offset\<close>

text \<open>
  What the C library documents for a time zone that is \<open>off\<close> seconds east of UTC and has no
  daylight saving: \<open>gmtime_r\<close> splits the time stamp, \<open>localtime_r\<close> splits it shifted by the
  offset, and \<open>mktime\<close> reads a broken-down \<^emph>\<open>local\<close> time.
\<close>

definition split_time :: "int \<Rightarrow> tm" where
  "split_time t = \<lparr> tm_day = t div 86400, tm_hour = t mod 86400 div 3600,
     tm_min = t mod 3600 div 60, tm_sec = t mod 60 \<rparr>"

definition join_time :: "tm \<Rightarrow> int" where
  "join_time t = tm_day t * 86400 + tm_hour t * 3600 + tm_min t * 60 + tm_sec t"

definition fixed_zone :: "int \<Rightarrow> time_env \<Rightarrow> bool" where
  "fixed_zone off e \<longleftrightarrow>
     wallTimeMs e \<ge> 0 \<and>
     localtime_r e (curSecTimeStamp e) = Some (split_time (curSecTimeStamp e + off)) \<and>
     gmtime_r e (curSecTimeStamp e) = Some (split_time (curSecTimeStamp e)) \<and>
     (\<forall>h m. mktime e ((split_time (curSecTimeStamp e))\<lparr>tm_hour := h, tm_min := m, tm_sec := 0\<rparr>) =
        join_time ((split_time (curSecTimeStamp e))\<lparr>tm_hour := h, tm_min := m, tm_sec := 0\<rparr>) - off)"

definition local_tod :: "int \<Rightarrow> time_env \<Rightarrow> int" where
  "local_tod off e = (curSecTimeStamp e + off) mod 86400"

text \<open>Seconds from a time of day to the next switch, which is at 6:00 and at 23:45.\<close>

definition next_switch :: "int \<Rightarrow> int" where
  "next_switch tod =
     (if tod < 6 * 3600 then 6 * 3600 - tod
      else if tod < 23 * 3600 + 45 * 60 then 23 * 3600 + 45 * 60 - tod
      else 30 * 3600 - tod)"

lemma split_3600: "x = 3600 * (x div 3600) + x mod 3600" "0 \<le> x mod 3600" "x mod 3600 < (3600 :: int)"
  by auto

lemma hour_of: "6 \<le> x div 3600 \<longleftrightarrow> 21600 \<le> (x :: int)"
  using split_3600 [of x] by linarith

lemma min_of: "x div 60 < 45 \<longleftrightarrow> x < (2700 :: int)"
proof -
  have "x = 60 * (x div 60) + x mod 60" "0 \<le> x mod 60" "x mod 60 < 60" by auto
  then show ?thesis by linarith
qed

lemma hour_min_of:
  "t mod 86400 div 3600 < 23 \<or> t mod 3600 div 60 < 45 \<longleftrightarrow> t mod 86400 < (85500 :: int)"
proof -
  define x where "x = t mod 86400"
  have m: "t mod 3600 = x mod 3600"
    unfolding x_def by (rule mod_mod_cancel [symmetric]) simp
  have b: "0 \<le> x" "x < 86400" by (auto simp: x_def)
  have "x div 3600 < 23 \<or> x mod 3600 < 2700 \<longleftrightarrow> x < 85500"
  proof (cases "x div 3600 < 23")
    case True
    then show ?thesis using split_3600 [of x] b by linarith
  next
    case False
    then have "x div 3600 = 23" using split_3600 [of x] b by linarith
    then show ?thesis using split_3600 [of x] b by linarith
  qed
  then show ?thesis by (simp add: m min_of x_def)
qed

lemma local_tod_wrap:
  fixes off :: int and e :: time_env
  assumes "- 86400 \<le> off" "off \<le> 86400"
  defines "t \<equiv> curSecTimeStamp e mod 86400"
  shows "local_tod off e =
    (if t + off < 0 then t + off + 86400 else if t + off < 86400 then t + off
     else if t + off = 2 * 86400 then 0 else t + off - 86400)"
proof -
  have t: "0 \<le> t" "t < 86400" by (auto simp: t_def)
  have lt: "local_tod off e = (t + off) mod 86400"
    by (simp add: local_tod_def t_def mod_add_left_eq)
  consider "t + off < 0" | "0 \<le> t + off" "t + off < 86400" | "86400 \<le> t + off"
    by linarith
  then show ?thesis
  proof cases
    case 1
    have "(t + off + 86400) mod 86400 = t + off + 86400"
      using 1 t assms(1) by (intro mod_pos_pos_trivial) auto
    with 1 lt show ?thesis by simp
  next
    case 2
    then show ?thesis using lt by (simp add: mod_pos_pos_trivial)
  next
    case 3
    have "(t + off - 86400) mod 86400 = t + off - 86400"
      using 3 t assms(2) by (intro mod_pos_pos_trivial) auto
    moreover have "(t + off - 86400) mod 86400 = (t + off) mod 86400"
      by simp
    ultimately show ?thesis using 3 lt t assms(2) by simp
  qed
qed

lemma GetCondition_fixed_zone:
  "fixed_zone off e \<Longrightarrow>
     GetCondition e 0 =
       (if 6 * 3600 \<le> local_tod off e \<and> local_tod off e < 23 * 3600 + 45 * 60
        then DAY_STANDBY else NIGHT_STANDBY)"
  using hour_min_of [of "curSecTimeStamp e + off"]
  by (simp add: fixed_zone_def GetCondition_def split_time_def local_tod_def hour_of conj_commute)

lemma DiffToFixedClock_fixed_zone:
  assumes z: "fixed_zone off e"
  shows "DiffToFixedClock e (curSecTimeStamp e) h m td =
       (let d = h * 3600 + m * 60 - off - curSecTimeStamp e mod 86400
        in (True, (if d < 0 then d + 86400 else d) * 1000))"
proof -
  define s where "s = curSecTimeStamp e"
  have gm: "gmtime_r e s = Some (split_time s)"
    using z by (simp add: fixed_zone_def s_def)
  have "mktime e ((split_time s)\<lparr>tm_hour := h, tm_min := m, tm_sec := 0\<rparr>) =
      join_time ((split_time s)\<lparr>tm_hour := h, tm_min := m, tm_sec := 0\<rparr>) - off"
    using z unfolding fixed_zone_def s_def by blast
  also have "\<dots> = s div 86400 * 86400 + h * 3600 + m * 60 - off"
    by (simp add: join_time_def split_time_def)
  finally have "mktime e ((split_time s)\<lparr>tm_hour := h, tm_min := m, tm_sec := 0\<rparr>) - s =
      h * 3600 + m * 60 - off - s mod 86400"
    using div_mult_mod_eq [of s 86400] by linarith
  then show ?thesis
    unfolding DiffToFixedClock_def s_def [symmetric] gm
    by (simp add: Let_def SEC_PER_DAY_def MSEC_PER_SEC_def)
qed

section \<open>The distance to the next switch\<close>

text \<open>C37: In a time zone east of UTC, TimeDiffToDayNightSwitch returns exactly the time until
  the next of 6:00 and 23:45 local time.\<close>

theorem TimeDiff_east:
  assumes z: "fixed_zone off e" and off: "0 \<le> off" "off \<le> 14 * 3600"
  shows "TimeDiffToDayNightSwitch e td = (True, next_switch (local_tod off e) * 1000)"
proof -
  define t l where "t = curSecTimeStamp e mod 86400" and "l = local_tod off e"
  have t: "0 \<le> t" "t < 86400" by (auto simp: t_def)
  have l: "l = t + off \<and> t + off < 86400 \<or> l = t + off - 86400 \<and> 86400 \<le> t + off"
    using local_tod_wrap [of off e] off t by (auto simp: t_def l_def split: if_splits)
  have c: "GetCondition e 0 = (if 21600 \<le> l \<and> l < 85500 then DAY_STANDBY else NIGHT_STANDBY)"
    using GetCondition_fixed_zone [OF z] by (simp add: l_def)
  have n: "DAY_STANDBY \<noteq> NIGHT_STANDBY" by (simp add: DAY_STANDBY_def NIGHT_STANDBY_def)
  show ?thesis
    unfolding TimeDiffToDayNightSwitch_def c DiffToFixedClock_fixed_zone [OF z] next_switch_def
      t_def [symmetric] l_def [symmetric] Let_def
    using t off l n by (elim disjE) (auto simp: )
qed

text \<open>In a time zone west of UTC, during the day, the result is a full day too long
  whenever the UTC date is already the next day, because the target date is taken from UTC
  and the target hour is read as local time.\<close>

theorem TimeDiff_west:
  assumes z: "fixed_zone off e" and off: "- 12 * 3600 \<le> off" "off < 0"
    and day: "21600 \<le> local_tod off e" "local_tod off e < 85500"
  shows "TimeDiffToDayNightSwitch e td =
    (True, (next_switch (local_tod off e) + (if local_tod off e - off \<ge> 86400 then 86400 else 0)) * 1000)"
proof -
  define t l where "t = curSecTimeStamp e mod 86400" and "l = local_tod off e"
  have t: "0 \<le> t" "t < 86400" by (auto simp: t_def)
  have l: "l = t + off \<and> 0 \<le> t + off \<or> l = t + off + 86400 \<and> t + off < 0"
    using local_tod_wrap [of off e] off t by (auto simp: t_def l_def split: if_splits)
  have c: "GetCondition e 0 = DAY_STANDBY"
    using GetCondition_fixed_zone [OF z] day by simp
  have n: "DAY_STANDBY \<noteq> NIGHT_STANDBY" by (simp add: DAY_STANDBY_def NIGHT_STANDBY_def)
  show ?thesis
    using t off l n day unfolding TimeDiffToDayNightSwitch_def c DiffToFixedClock_fixed_zone [OF z]
      next_switch_def t_def [symmetric] l_def [symmetric] Let_def
    by (elim disjE) auto
qed

definition demo_time :: time_env where
  "demo_time = \<lparr> wallTimeMs = 43200000, monotonicTimeMs = 500, bootTimeMs = 700,
     localtime_r = (\<lambda>t. Some (split_time t)), gmtime_r = (\<lambda>t. Some (split_time t)),
     mktime = join_time, gm_mday = Some 1, deviceMode = Other_Mode 600, randomDelay = (\<lambda>lo hi. lo) \<rparr>"


lemma demo_time_zone:
  "fixed_zone off (demo_time\<lparr>localtime_r := (\<lambda>t. Some (split_time (t + off))),
     mktime := (\<lambda>t. join_time t - off)\<rparr>)"
  by (simp add: fixed_zone_def demo_time_def curSecTimeStamp_def)

theorem TimeDiff_east_witness:
  "TimeDiffToDayNightSwitch (demo_time\<lparr>localtime_r := (\<lambda>t. Some (split_time (t + 28800))),
     mktime := (\<lambda>t. join_time t - 28800)\<rparr>) 0 = (True, (85500 - 72000) * 1000)"
proof -
  have "local_tod 28800 (demo_time\<lparr>localtime_r := (\<lambda>t. Some (split_time (t + 28800))),
     mktime := (\<lambda>t. join_time t - 28800)\<rparr>) = 72000"
    by (simp add: local_tod_def curSecTimeStamp_def demo_time_def MSEC_PER_SEC_def signed_divide_int_def)
  then show ?thesis
    by (subst TimeDiff_east [OF demo_time_zone]) (simp_all add: next_switch_def)
qed

theorem TimeDiff_west_witness:
  "TimeDiffToDayNightSwitch (demo_time\<lparr>wallTimeMs := 3600000, localtime_r := (\<lambda>t. Some (split_time (t - 18000))),
     mktime := (\<lambda>t. join_time t + 18000)\<rparr>) 0 = (True, (85500 - 72000 + 86400) * 1000)"
proof -
  define e where "e = demo_time\<lparr>wallTimeMs := 3600000, localtime_r := (\<lambda>t. Some (split_time (t - 18000))),
     mktime := (\<lambda>t. join_time t + 18000)\<rparr>"
  have z: "fixed_zone (- 18000) e"
    by (simp add: e_def fixed_zone_def demo_time_def curSecTimeStamp_def)
  have l: "local_tod (- 18000) e = 72000"
    by (simp add: e_def local_tod_def curSecTimeStamp_def demo_time_def MSEC_PER_SEC_def signed_divide_int_def)
  show ?thesis
    unfolding e_def [symmetric] using TimeDiff_west [OF z, of 0] by (simp add: l next_switch_def)
qed

end
