(* ===== verification/Step_System.thy ===== *)
theory Step_System
  imports Prelude
begin

text \<open>
  Interleaving semantics shared by the components: a component is a set of initial states and
  a step relation whose label is what the environment contributes to the step. The locale
  states what it takes to show that every reachable state satisfies an invariant; each
  component interprets it with its own initial states, steps and invariant.
\<close>

inductive reachable :: "('s \<Rightarrow> bool) \<Rightarrow> ('l \<Rightarrow> 's \<Rightarrow> 's \<Rightarrow> bool) \<Rightarrow> 's \<Rightarrow> bool" for init step where
  reachable_init: "init s \<Longrightarrow> reachable init step s"
| reachable_step: "reachable init step s \<Longrightarrow> step l s s' \<Longrightarrow> reachable init step s'"

text \<open>A run: the labels of the steps and the state they end in.\<close>

inductive run :: "('l \<Rightarrow> 's \<Rightarrow> 's \<Rightarrow> bool) \<Rightarrow> 's \<Rightarrow> 'l list \<Rightarrow> 's \<Rightarrow> bool" for step where
  run_nil: "run step s [] s"
| run_cons: "step l s s' \<Longrightarrow> run step s' ls s'' \<Longrightarrow> run step s (l # ls) s''"

inductive_cases run_nilE [elim!]: "run step s [] t"
inductive_cases run_consE [elim!]: "run step s (l # ls) t"

lemma reachable_run: "run step s ls t \<Longrightarrow> reachable init step s \<Longrightarrow> reachable init step t"
  by (induction rule: run.induct) (auto intro: reachable_step)

locale invariant_system =
  fixes init :: "'s \<Rightarrow> bool"
    and step :: "'l \<Rightarrow> 's \<Rightarrow> 's \<Rightarrow> bool"
    and inv :: "'s \<Rightarrow> bool"
  assumes init_inv: "init s \<Longrightarrow> inv s"
    and step_inv: "inv s \<Longrightarrow> step l s s' \<Longrightarrow> inv s'"
begin

lemma reachable_inv: "reachable init step s \<Longrightarrow> inv s"
  by (induction rule: reachable.induct) (auto intro: init_inv step_inv)

lemma run_inv: "run step s ls t \<Longrightarrow> inv s \<Longrightarrow> inv t"
  by (induction rule: run.induct) (auto intro: step_inv)

end

text \<open>
  A component that tells others about its state by a log of calls: each step appends to the
  log, and replaying what it appended, entry by entry, takes the announced view of the state
  before the step to the view after it. Then whoever only sees the log knows the state.
\<close>

locale announced_view = invariant_system init step inv
  for init :: "'s \<Rightarrow> bool" and step :: "'l \<Rightarrow> 's \<Rightarrow> 's \<Rightarrow> bool" and inv :: "'s \<Rightarrow> bool" +
  fixes log :: "'s \<Rightarrow> 'e list"
    and view :: "'s \<Rightarrow> 'v"
    and replay :: "'e \<Rightarrow> 'v \<Rightarrow> 'v"
  assumes step_announced: "inv s \<Longrightarrow> step l s s' \<Longrightarrow>
      \<exists>es. log s' = log s @ es \<and> view s' = fold replay es (view s)"
begin

lemma run_announced:
  "run step s ls t \<Longrightarrow> inv s \<Longrightarrow> \<exists>es. log t = log s @ es \<and> view t = fold replay es (view s)"
proof (induction rule: run.induct)
  case (run_nil s)
  show ?case by (intro exI [of _ "[]"]) simp
next
  case (run_cons l s s' ls s'')
  obtain es where es: "log s' = log s @ es" "view s' = fold replay es (view s)"
    using step_announced [OF run_cons.prems run_cons.hyps(1)] by blast
  moreover obtain es' where "log s'' = log s' @ es'" "view s'' = fold replay es' (view s')"
    using run_cons.IH [OF step_inv [OF run_cons.prems run_cons.hyps(1)]] by blast
  ultimately show ?case
    by (intro exI [of _ "es @ es'"]) simp
qed

lemma reachable_announced:
  assumes "reachable init step s"
    and "\<And>s. init s \<Longrightarrow> log s = [] \<and> view s = v0"
  shows "view s = fold replay (log s) v0"
  using assms(1)
proof (induction rule: reachable.induct)
  case (reachable_init s)
  then show ?case using assms(2) by simp
next
  case (reachable_step s l s')
  from step_announced [OF reachable_inv [OF reachable_step.hyps(1)] reachable_step.hyps(2)]
    reachable_step.IH
  show ?case by auto
qed

end

end
