(* ===== verification/Allow_List.thy ===== *)
theory Allow_List
  imports Allow_Record Time_Provider Step_System
begin

text \<open>
  The exemption list of \<open>StandbyServiceImpl\<close> (\<open>services/core/src/standby_service_impl.cpp\<close>):
  permission checks, applying and unapplying resources, expiry, queries, persistence over a
  restart.

  \<open>svc_state\<close> holds the list \<open>allowInfoMap_\<close>, the tasks posted to the event handler and the
  calls that leave the service, in order. A task carries the boot time it is due at, the time
  of posting plus its delay. \<open>svc_env\<close> holds what the system answers during an operation.

  \<open>GetTemporaryAllowList\<close> posts a closure over the shared pointer of a record, which reads the
  record when it runs. \<open>ST_UnapplyRecord key None\<close> is such a closure while the record is the
  one stored under \<open>key\<close>; when that record leaves the map, \<open>erase_record\<close> replaces \<open>None\<close> by
  the value its field \<open>allowType_\<close> keeps from then on.
\<close>

section \<open>Data\<close>

datatype svc_task =
    ST_Unapply i32 string u32 bool
  | ST_UnapplyRecord string "u32 option" i32 string
  | ST_Dispatch out_message
  | ST_RemoveApp i32 string

datatype svc_effect =
    SE_ReportAllowListChanged i32 string u32 bool
  | SE_DumpFile json
  | SE_HandleEvent out_message

record svc_state =
  isServiceReady :: bool
  allowInfoMap :: "(string \<times> AllowRecord) list"
  svc_tasks :: "(svc_task \<times> i64) list"
  svc_effects :: "svc_effect list"

record svc_env =
  sv_te :: time_env
  sv_cfg :: config_state
  callingUid :: i32
  callingPid :: i32
  tokenIsHap :: bool
  exemptionPermission :: bool
  callerIsSystemApp :: bool
  clientBundleName :: "i32 \<Rightarrow> string"
  resourcesApplyOf :: "string \<Rightarrow> i32 \<Rightarrow> (i32 list) option"
  runningProcesses :: "((i32 \<times> string) list) option"
  systemProcesses :: "((i32 \<times> string) list) option"
  sv_curState :: StandbyState

definition sv_bootTime :: "svc_env \<Rightarrow> i64" where
  "sv_bootTime e = bootTimeMs (sv_te e)"

definition svc_emit :: "svc_effect \<Rightarrow> svc_state \<Rightarrow> svc_state" where
  "svc_emit ef s = s\<lparr>svc_effects := svc_effects s @ [ef]\<rparr>"

definition svc_post :: "svc_env \<Rightarrow> svc_task \<Rightarrow> i64 \<Rightarrow> svc_state \<Rightarrow> svc_state" where
  "svc_post e task delay s = s\<lparr>svc_tasks := svc_tasks s @ [(task, sv_bootTime e + delay)]\<rparr>"

definition DispatchEvent :: "svc_env \<Rightarrow> out_message \<Rightarrow> svc_state \<Rightarrow> svc_state" where
  "DispatchEvent e message s =
     (if \<not> isServiceReady s then s else svc_post e (ST_Dispatch message) 0 s)"

definition NotifyAllowListChanged ::
  "svc_env \<Rightarrow> i32 \<Rightarrow> string \<Rightarrow> u32 \<Rightarrow> bool \<Rightarrow> svc_state \<Rightarrow> svc_state" where
  "NotifyAllowListChanged e uid name allowType added =
     DispatchEvent e (OutMessage ALLOW_LIST_CHANGED
       [(''uid'', WInt uid), (''name'', WString name), (''allowType'', WInt allowType), (''added'', WBool added)])"

definition OnProcessStatusChanged ::
  "svc_env \<Rightarrow> i32 \<Rightarrow> i32 \<Rightarrow> string \<Rightarrow> bool \<Rightarrow> svc_state \<Rightarrow> svc_state" where
  "OnProcessStatusChanged e uid pid bundleName isCreated s =
     (if \<not> isServiceReady s then s
      else DispatchEvent e (OutMessage PROCESS_STATE_CHANGED
        [(''uid'', WInt uid), (''pid'', WInt pid), (''name'', WString bundleName),
         (''isCreated'', WBool isCreated)]) s)"

section \<open>Permissions and resource types\<close>

definition IsSystemAppWithPermission :: "svc_env \<Rightarrow> u32 \<Rightarrow> err" where
  "IsSystemAppWithPermission e reasonCode =
     (if \<not> exemptionPermission e then ERR_STANDBY_PERMISSION_DENIED
      else if \<not> callerIsSystemApp e then ERR_STANDBY_NOT_SYSTEM_APP
      else if reasonCode \<noteq> REASON_APP_API then ERR_STANDBY_PERMISSION_DENIED
      else ERR_OK)"

definition CheckCallerPermission :: "svc_env \<Rightarrow> u32 \<Rightarrow> err" where
  "CheckCallerPermission e reasonCode =
     (if tokenIsHap e then IsSystemAppWithPermission e reasonCode else ERR_OK)"

definition CheckAllowTypeInfo :: "u32 \<Rightarrow> bool" where
  "CheckAllowTypeInfo allowType \<longleftrightarrow> allowType > 0 \<and> allowType \<le> MAX_ALLOW_TYPE_NUMBER"

definition EXEMPT_ALL_RESOURCES :: u32 where "EXEMPT_ALL_RESOURCES = 100"

definition GetUserIdByUid :: "i32 \<Rightarrow> i32" where
  "GetUserIdByUid uid = word_of_int (sint uid sdiv 200000)"

definition QueryRunningResourcesApply :: "svc_env \<Rightarrow> i32 \<Rightarrow> string \<Rightarrow> i32 list" where
  "QueryRunningResourcesApply e uid bundleName =
     (case resourcesApplyOf e bundleName (GetUserIdByUid uid) of None \<Rightarrow> [] | Some l \<Rightarrow> l)"

definition exempted_types :: "u32 list \<Rightarrow> u32" where
  "exempted_types resourcesApply =
     fold (\<lambda>r acc.
         if r \<le> EXEMPT_ALL_RESOURCES \<or> r > EXEMPT_ALL_RESOURCES + of_nat MAX_ALLOW_TYPE_NUM + 1 then acc
         else acc OR push_bit (unat (r - EXEMPT_ALL_RESOURCES - 1)) 1)
       resourcesApply 0"

definition GetExemptedResourceType :: "svc_env \<Rightarrow> u32 \<Rightarrow> u32" where
  "GetExemptedResourceType e resourceType =
     (let uid = callingUid e;
          bundleName = clientBundleName e uid;
          resourcesApply = QueryRunningResourcesApply e uid bundleName
      in if resourcesApply = [] then 0
         else if EXEMPT_ALL_RESOURCES \<in> set resourcesApply then resourceType
         else exempted_types resourcesApply AND resourceType)"

section \<open>Persisting the list\<close>

definition dump_json :: "(string \<times> AllowRecord) list \<Rightarrow> json" where
  "dump_json m =
     (if m = [] then JNull
      else JObject (fold (\<lambda>(uid, allowInfo). std_insert fst (uid, ParseToJson allowInfo)) m []))"

definition DumpPersistantData :: "svc_state \<Rightarrow> svc_state" where
  "DumpPersistantData s = svc_emit (SE_DumpFile (dump_json (allowInfoMap s))) s"

definition detach :: "string \<Rightarrow> u32 \<Rightarrow> svc_task \<Rightarrow> svc_task" where
  "detach key allowType task =
     (case task of
        ST_UnapplyRecord k None uid name \<Rightarrow>
          if k = key then ST_UnapplyRecord k (Some allowType) uid name else task
      | _ \<Rightarrow> task)"

definition erase_record :: "string \<Rightarrow> svc_state \<Rightarrow> svc_state" where
  "erase_record key s =
     (case map_of (allowInfoMap s) key of
        None \<Rightarrow> s
      | Some r \<Rightarrow> s\<lparr>allowInfoMap := AList.delete key (allowInfoMap s),
                    svc_tasks := map (\<lambda>(task, due). (detach key (ar_allowType r) task, due)) (svc_tasks s)\<rparr>)"

section \<open>Applying\<close>

text \<open>The search for the entry of a type in the list of times, and what happens to it.\<close>

fun extend_time :: "u32 \<Rightarrow> i64 \<Rightarrow> string \<Rightarrow> AllowTime list \<Rightarrow> AllowTime list" where
  "extend_time i et reason [] = [\<lparr> allowTypeIndex = i, endTime = et, at_reason = reason \<rparr>]"
| "extend_time i et reason (t # ts) =
     (if allowTypeIndex t = i then t\<lparr>at_reason := reason, endTime := max (endTime t) et\<rparr> # ts
      else t # extend_time i et reason ts)"

definition max_duration_of :: "svc_env \<Rightarrow> ResourceRequest \<Rightarrow> u32 \<Rightarrow> i64" where
  "max_duration_of e rq i =
     (let isApp = (rq_reasonCode rq = REASON_APP_API);
          condition = GetCondition (sv_te e) 0;
          allowNumber = (rq_allowType rq AND type_bit i)
      in if allowNumber \<noteq> WORK_SCHEDULER
         then sint (smin (rq_duration rq)
                (GetMaxDuration (sv_cfg e) (rq_name rq) (AllowTypeName ! unat i) condition isApp)) * MSEC_PER_SEC
         else sint (rq_duration rq) * MSEC_PER_SEC)"

definition UpdateRecord_type ::
  "svc_env \<Rightarrow> ResourceRequest \<Rightarrow> u32 \<Rightarrow> AllowRecord \<times> svc_state \<Rightarrow> AllowRecord \<times> svc_state" where
  "UpdateRecord_type e rq i = (\<lambda>(r, s).
     (let allowNumber = (rq_allowType rq AND type_bit i);
          maxDuration = max_duration_of e rq i
      in if allowNumber = 0 then (r, s)
         else if maxDuration \<le> 0 then (r, s)
         else
           (r\<lparr>allowTimeList := extend_time i (sv_bootTime e + maxDuration) (rq_reason rq) (allowTimeList r),
              ar_allowType := ar_allowType r OR allowNumber\<rparr>,
            svc_post e (ST_Unapply (rq_uid rq) (rq_name rq) (rq_allowType rq) False) maxDuration s)))"

definition UpdateRecord ::
  "svc_env \<Rightarrow> ResourceRequest \<Rightarrow> AllowRecord \<times> svc_state \<Rightarrow> AllowRecord \<times> svc_state" where
  "UpdateRecord e rq = fold (UpdateRecord_type e rq) type_indices"

definition ApplyAllowResInner :: "svc_env \<Rightarrow> ResourceRequest \<Rightarrow> i32 \<Rightarrow> svc_state \<Rightarrow> svc_state" where
  "ApplyAllowResInner e rq pid s =
     (let uid = rq_uid rq; name = rq_name rq; keyStr = uid_key uid name;
          (preAllowType, r0) =
            (case map_of (allowInfoMap s) keyStr of
               None \<Rightarrow> (0, \<lparr> ar_uid = uid, ar_pid = pid, ar_name = name, ar_allowType = 0,
                            allowTimeList = [], ar_reasonCode = rq_reasonCode rq \<rparr>)
             | Some r \<Rightarrow> (ar_allowType r, r\<lparr>ar_pid := pid\<rparr>));
          (r, s) = UpdateRecord e rq (r0, s);
          s = s\<lparr>allowInfoMap := AList.update keyStr r (allowInfoMap s)\<rparr>;
          s = (if preAllowType \<noteq> ar_allowType r
               then
                 let alowTypeDiff = (ar_allowType r XOR (preAllowType AND ar_allowType r))
                 in NotifyAllowListChanged e uid name alowTypeDiff True
                      (svc_emit (SE_ReportAllowListChanged uid name alowTypeDiff True) s)
               else s);
          s = (if ar_allowType r = 0 then erase_record keyStr s else s)
      in DumpPersistantData s)"

definition ApplyAllowResource :: "svc_env \<Rightarrow> ResourceRequest \<Rightarrow> svc_state \<Rightarrow> err \<times> svc_state" where
  "ApplyAllowResource e rq s =
     (if \<not> isServiceReady s then (ERR_STANDBY_SYS_NOT_READY, s)
      else
        let checkRet = CheckCallerPermission e (rq_reasonCode rq) in
        if checkRet \<noteq> ERR_OK then (checkRet, s)
        else
          let rq = (if tokenIsHap e
                    then rq\<lparr>rq_allowType := GetExemptedResourceType e (rq_allowType rq)\<rparr> else rq)
          in if \<not> CheckAllowTypeInfo (rq_allowType rq) \<or> sint (rq_uid rq) < 0
             then (ERR_RESOURCE_TYPES_INVALID, s)
             else if sint (rq_duration rq) < 0 then (ERR_DURATION_INVALID, s)
             else (ERR_OK, ApplyAllowResInner e rq (callingPid e) s))"

section \<open>Unapplying\<close>

text \<open>The loop over the list of times: what is removed as a bit set, and what stays.\<close>

fun remove_times :: "u32 \<Rightarrow> bool \<Rightarrow> i64 \<Rightarrow> AllowTime list \<Rightarrow> u32 \<times> AllowTime list" where
  "remove_times allowType remove_all curTime [] = (0, [])"
| "remove_times allowType remove_all curTime (t # ts) =
     (let (removedNumber, kept) = remove_times allowType remove_all curTime ts;
          allowNumber = (allowType AND type_bit (allowTypeIndex t))
      in if allowNumber \<noteq> 0 \<and> (remove_all \<or> curTime \<ge> endTime t)
         then (removedNumber OR allowNumber, kept) else (removedNumber, t # kept))"

definition UnapplyAllowResInner ::
  "svc_env \<Rightarrow> i32 \<Rightarrow> string \<Rightarrow> u32 \<Rightarrow> bool \<Rightarrow> svc_state \<Rightarrow> svc_state" where
  "UnapplyAllowResInner e uid name allowType remove_all s =
     (let keyStr = uid_key uid name in
      case map_of (allowInfoMap s) keyStr of
        None \<Rightarrow> s
      | Some r \<Rightarrow>
          if (allowType AND ar_allowType r) = 0 then s
          else
            let (removedNumber, kept) = remove_times allowType remove_all (sv_bootTime e) (allowTimeList r) in
            if removedNumber = 0 then s
            else
              let s = s\<lparr>allowInfoMap := AList.update keyStr (r\<lparr>allowTimeList := kept\<rparr>) (allowInfoMap s)\<rparr>;
                  s = (if removedNumber = ar_allowType r then erase_record keyStr s
                       else s\<lparr>allowInfoMap := AList.update keyStr
                                (r\<lparr>allowTimeList := kept, ar_allowType := ar_allowType r - removedNumber\<rparr>)
                                (allowInfoMap s)\<rparr>)
              in DumpPersistantData
                   (NotifyAllowListChanged e uid name removedNumber False
                     (svc_emit (SE_ReportAllowListChanged uid name removedNumber False) s)))"

definition UnapplyAllowResource :: "svc_env \<Rightarrow> ResourceRequest \<Rightarrow> svc_state \<Rightarrow> err \<times> svc_state" where
  "UnapplyAllowResource e rq s =
     (if \<not> isServiceReady s then (ERR_STANDBY_SYS_NOT_READY, s)
      else
        let checkRet = CheckCallerPermission e (rq_reasonCode rq) in
        if checkRet \<noteq> ERR_OK then (checkRet, s)
        else
          let rq = (if tokenIsHap e
                    then rq\<lparr>rq_allowType := GetExemptedResourceType e (rq_allowType rq)\<rparr> else rq)
          in if \<not> CheckAllowTypeInfo (rq_allowType rq) \<or> sint (rq_uid rq) < 0
             then (ERR_RESOURCE_TYPES_INVALID, s)
             else (ERR_OK, UnapplyAllowResInner e (rq_uid rq) (rq_name rq) (rq_allowType rq) True s))"

definition RemoveAppAllowRecord :: "svc_env \<Rightarrow> i32 \<Rightarrow> string \<Rightarrow> bool \<Rightarrow> svc_state \<Rightarrow> err \<times> svc_state" where
  "RemoveAppAllowRecord e uid bundleName resetAll s =
     (if \<not> isServiceReady s then (ERR_STANDBY_SYS_NOT_READY, s)
      else
        let allowType = (if resetAll then MAX_ALLOW_TYPE_NUMBER
                         else MAX_ALLOW_TYPE_NUMBER XOR TIMER XOR WORK_SCHEDULER)
        in (ERR_OK, UnapplyAllowResInner e uid bundleName allowType True s))"

section \<open>Queries\<close>

definition GetTemporaryAllowList ::
  "svc_env \<Rightarrow> u32 \<Rightarrow> u32 \<Rightarrow> AllowInfo list \<times> svc_state \<Rightarrow> AllowInfo list \<times> svc_state" where
  "GetTemporaryAllowList e allowTypeIdx reasonCode = (\<lambda>(infos, s).
     fold (\<lambda>(key, r) (infos, s).
         if (ar_allowType r AND type_bit allowTypeIdx) = 0 then (infos, s)
         else if ar_reasonCode r \<noteq> reasonCode then (infos, s)
         else case List.find (\<lambda>t. allowTypeIndex t = allowTypeIdx) (allowTimeList r) of
             None \<Rightarrow> (infos, s)
           | Some t \<Rightarrow>
               let duration = max (endTime t - sv_bootTime e) 0 in
               if duration > 0
               then (infos @ [\<lparr> ai_allowType = type_bit allowTypeIdx, ai_name = ar_name r,
                                ai_duration = narrow32 duration \<rparr>], s)
               else (infos, svc_post e (ST_UnapplyRecord key None (ar_uid r) (ar_name r)) 0 s))
       (allowInfoMap s) (infos, s))"

definition GetPersistAllowList ::
  "svc_env \<Rightarrow> u32 \<Rightarrow> bool \<Rightarrow> bool \<Rightarrow> AllowInfo list \<Rightarrow> AllowInfo list" where
  "GetPersistAllowList e allowTypeIdx isAllow isApp infos =
     infos @ map (\<lambda>allowName. \<lparr> ai_allowType = type_bit allowTypeIdx, ai_name = allowName, ai_duration = - 1 \<rparr>)
       (GetEligiblePersistAllowConfig (sv_cfg e) (AllowTypeName ! unat allowTypeIdx)
          (GetCondition (sv_te e) 0) isAllow isApp)"

definition GetAllowListInner ::
  "svc_env \<Rightarrow> u32 \<Rightarrow> u32 \<Rightarrow> AllowInfo list \<times> svc_state \<Rightarrow> AllowInfo list \<times> svc_state" where
  "GetAllowListInner e allowType reasonCode =
     fold (\<lambda>i (infos, s).
         if (allowType AND type_bit i) = 0 then (infos, s)
         else
           let (infos, s) = GetTemporaryAllowList e i reasonCode (infos, s)
           in (GetPersistAllowList e i True (reasonCode = REASON_APP_API) infos, s))
       type_indices"

definition GetAllowList :: "svc_env \<Rightarrow> u32 \<Rightarrow> u32 \<Rightarrow> svc_state \<Rightarrow> err \<times> AllowInfo list \<times> svc_state" where
  "GetAllowList e allowType reasonCode s =
     (if \<not> isServiceReady s then (ERR_STANDBY_SYS_NOT_READY, [], s)
      else
        let checkRet = CheckCallerPermission e reasonCode in
        if checkRet \<noteq> ERR_OK then (checkRet, [], s)
        else if \<not> CheckAllowTypeInfo allowType then (ERR_RESOURCE_TYPES_INVALID, [], s)
        else (ERR_OK, GetAllowListInner e allowType reasonCode ([], s)))"

definition GetRestrictListInner :: "svc_env \<Rightarrow> u32 \<Rightarrow> u32 \<Rightarrow> AllowInfo list \<Rightarrow> AllowInfo list" where
  "GetRestrictListInner e restrictType reasonCode =
     fold (\<lambda>i infos.
         if (restrictType AND type_bit i) = 0 then infos
         else GetPersistAllowList e i False (reasonCode = REASON_APP_API) infos)
       type_indices"

definition GetRestrictList :: "svc_env \<Rightarrow> u32 \<Rightarrow> u32 \<Rightarrow> svc_state \<Rightarrow> err \<times> AllowInfo list" where
  "GetRestrictList e restrictType reasonCode s =
     (let checkRet = CheckCallerPermission e reasonCode in
      if checkRet \<noteq> ERR_OK then (checkRet, [])
      else if \<not> isServiceReady s then (ERR_STANDBY_SYS_NOT_READY, [])
      else if \<not> CheckAllowTypeInfo restrictType then (ERR_RESOURCE_TYPES_INVALID, [])
      else (ERR_OK, GetRestrictListInner e restrictType reasonCode []))"

definition GetEligiableRestrictSet ::
  "svc_env \<Rightarrow> u32 \<Rightarrow> string \<Rightarrow> u32 \<Rightarrow> string list \<Rightarrow> svc_state \<Rightarrow> err \<times> string list \<times> svc_state" where
  "GetEligiableRestrictSet e allowType strategyName resonCode restrictSet s =
     (let originRestrictSet = GetEligiblePersistAllowConfig (sv_cfg e) strategyName
            (GetCondition (sv_te e) 0) False (resonCode = REASON_APP_API);
          (allowInfoList, s) = GetAllowListInner e allowType resonCode ([], s);
          allowSet = std_insert_range id (map ai_name allowInfoList) []
      in (ERR_OK, std_insert_range id (filter (\<lambda>n. n \<notin> set allowSet) originRestrictSet) restrictSet, s))"

text \<open>The results \<open>isStandby\<close> of the two queries, absent when the call fails.\<close>

definition IsDeviceInStandby :: "svc_env \<Rightarrow> svc_state \<Rightarrow> err \<times> bool option" where
  "IsDeviceInStandby e s =
     (let checkRet = CheckCallerPermission e REASON_APP_API in
      if checkRet \<noteq> ERR_OK then (checkRet, None)
      else if \<not> isServiceReady s then (ERR_STANDBY_SYS_NOT_READY, None)
      else (ERR_OK, Some (sv_curState e = SLEEP)))"

definition IsStrategyEnabled :: "svc_env \<Rightarrow> string \<Rightarrow> svc_state \<Rightarrow> err \<times> bool option" where
  "IsStrategyEnabled e strategyName s =
     (let checkRet = CheckCallerPermission e REASON_APP_API in
      if checkRet \<noteq> ERR_OK then (checkRet, None)
      else if \<not> isServiceReady s then (ERR_STANDBY_SYS_NOT_READY, None)
      else (ERR_OK, Some (strategyName \<in> set (strategyList (sv_cfg e)))))"

section \<open>Restart\<close>

definition GetPidAndProcName :: "svc_env \<Rightarrow> (i32 \<times> string) list" where
  "GetPidAndProcName e =
     (case runningProcesses e of
        None \<Rightarrow> []
      | Some infos \<Rightarrow>
          let pidNameMap = fold (\<lambda>(pid, name). emplace pid name) infos []
          in (case systemProcesses e of
                None \<Rightarrow> pidNameMap
              | Some sys \<Rightarrow> fold (\<lambda>(pid, name). emplace pid name) sys pidNameMap))"

definition RecoverTimeLimitedTask :: "svc_env \<Rightarrow> svc_state \<Rightarrow> svc_state" where
  "RecoverTimeLimitedTask e s =
     fold (\<lambda>(key, r) s.
         fold (\<lambda>t s.
             let timeOut = narrow32 (endTime t - monotonicTimeMs (sv_te e))
             in svc_post e (ST_Unapply (ar_uid r) (ar_name r) MAX_ALLOW_TYPE_NUMBER False) (max 0 (sint timeOut)) s)
           (allowTimeList r) s)
       (allowInfoMap s) s"

text \<open>\<open>root\<close> is the value \<open>LoadJsonValueFromFile\<close> yields for the record file, \<open>None\<close> when it fails.\<close>

definition ParsePersistentData :: "svc_env \<Rightarrow> json option \<Rightarrow> svc_state \<Rightarrow> bool \<times> svc_state" where
  "ParsePersistentData e root s =
     (let pidNameMap = GetPidAndProcName e in
      if pidNameMap = [] then (False, s)
      else case root of
          None \<Rightarrow> (False, s)
        | Some root \<Rightarrow>
            let s = s\<lparr>allowInfoMap :=
                   fold (\<lambda>(key, value) m. case ParseFromJson value of None \<Rightarrow> m | Some r \<Rightarrow> emplace key r m)
                     (items root) (allowInfoMap s)\<rparr>;
                s = fold (\<lambda>(key, r) s. if map_of pidNameMap (ar_pid r) = Some (ar_name r) then s
                                       else erase_record key s)
                      (allowInfoMap s) s
            in (True, DumpPersistantData (RecoverTimeLimitedTask e s)))"

section \<open>Tasks of the handler\<close>

definition run_svc_task :: "svc_env \<Rightarrow> svc_task \<Rightarrow> svc_state \<Rightarrow> svc_state" where
  "run_svc_task e task s =
     (case task of
        ST_Unapply uid name allowType remove_all \<Rightarrow> UnapplyAllowResInner e uid name allowType remove_all s
      | ST_UnapplyRecord key detached uid name \<Rightarrow>
          (case detached of
             Some allowType \<Rightarrow> UnapplyAllowResInner e uid name allowType False s
           | None \<Rightarrow>
               (case map_of (allowInfoMap s) key of
                  None \<Rightarrow> s
                | Some r \<Rightarrow> UnapplyAllowResInner e uid name (ar_allowType r) False s))
      | ST_Dispatch message \<Rightarrow> svc_emit (SE_HandleEvent message) s
      | ST_RemoveApp uid bundleName \<Rightarrow> snd (RemoveAppAllowRecord e uid bundleName True s))"

end
