(* ===== verification/Allow_Inv.thy ===== *)
theory Allow_Inv
  imports Allow_List
begin

text \<open>
  The exemption list as a table: which resource types a process is exempted from and until
  when. The lemmas relate every operation on the records to that table, give the
  well-formedness of the records it rests on, and say what each operation appends to the
  queue and to the log of calls.
\<close>

section \<open>A list of times as a map\<close>

definition end_of :: "AllowTime list \<Rightarrow> u32 \<Rightarrow> i64 option" where
  "end_of ts = map_of (map (\<lambda>t. (allowTypeIndex t, endTime t)) ts)"

lemma end_of_Nil [simp]: "end_of [] i = None"
  by (simp add: end_of_def)

lemma end_of_Cons [simp]:
  "end_of (t # ts) i = (if allowTypeIndex t = i then Some (endTime t) else end_of ts i)"
  by (auto simp: end_of_def)

lemma end_of_eq_None: "end_of ts i = None \<longleftrightarrow> i \<notin> allowTypeIndex ` set ts"
  by (induction ts) auto

lemma end_of_eq_Some:
  "distinct (map allowTypeIndex ts) \<Longrightarrow>
     end_of ts i = Some et \<longleftrightarrow> (\<exists>t \<in> set ts. allowTypeIndex t = i \<and> endTime t = et)"
proof (induction ts)
  case (Cons t ts)
  have "end_of ts i = None" if "allowTypeIndex t = i"
    using Cons.prems that by (auto simp: end_of_eq_None)
  with Cons show ?case
    by (auto simp: image_iff)
qed simp

lemma end_of_extend_time:
  "end_of (extend_time i et rs ts) =
     (end_of ts)(i \<mapsto> (case end_of ts i of None \<Rightarrow> et | Some old \<Rightarrow> max old et))"
  by (induction i et rs ts rule: extend_time.induct) auto

lemma indices_extend_time:
  "allowTypeIndex ` set (extend_time i et rs ts) = insert i (allowTypeIndex ` set ts)"
  by (induction i et rs ts rule: extend_time.induct) auto

lemma distinct_extend_time:
  "distinct (map allowTypeIndex ts) \<Longrightarrow> distinct (map allowTypeIndex (extend_time i et rs ts))"
proof (induction i et rs ts rule: extend_time.induct)
  case (2 i et rs t ts)
  then show ?case
    by (auto simp: indices_extend_time)
qed simp

lemma end_of_filter:
  assumes "distinct (map allowTypeIndex ts)"
    and P: "\<And>t. P t \<longleftrightarrow> Q (allowTypeIndex t) (endTime t)"
  shows "end_of (filter P ts) i =
    (case end_of ts i of None \<Rightarrow> None | Some et \<Rightarrow> if Q i et then Some et else None)"
  using assms(1)
proof (induction ts)
  case (Cons t ts)
  have "end_of ts i = None" if "allowTypeIndex t = i"
    using Cons.prems that by (auto simp: end_of_eq_None)
  with Cons show ?case
    by (auto simp: P)
qed simp

section \<open>The bit set of a list of times\<close>

definition types_of :: "AllowTime list \<Rightarrow> u32" where
  "types_of ts = foldr (\<lambda>t acc. acc OR type_bit (allowTypeIndex t)) ts 0"

lemma types_of_Nil [simp]: "types_of [] = 0"
  by (simp add: types_of_def)

lemma types_of_Cons [simp]: "types_of (t # ts) = types_of ts OR type_bit (allowTypeIndex t)"
  by (simp add: types_of_def)

lemma bit_types_of:
  "bit (types_of ts) n \<longleftrightarrow> (\<exists>t \<in> set ts. n = unat (allowTypeIndex t) \<and> n < 32)"
  by (induction ts) (auto simp: bit_or_iff bit_type_bit)

lemma bit_types_of_index:
  assumes "\<forall>t \<in> set ts. allowTypeIndex t < 7"
  shows "bit (types_of ts) (unat i) \<longleftrightarrow> i \<in> allowTypeIndex ` set ts"
proof -
  have "unat t < 32" if "t < 7" for t :: u32
    using that by (simp add: word_less_nat_alt)
  with assms show ?thesis
    by (auto simp: bit_types_of image_iff word_eq_iff_unsigned [where 'a = nat])
qed

lemma types_of_eq_0:
  assumes "\<forall>t \<in> set ts. allowTypeIndex t < 7"
  shows "types_of ts = 0 \<longleftrightarrow> ts = []"
proof (cases ts)
  case (Cons t us)
  then have "bit (types_of ts) (unat (allowTypeIndex t))"
    using assms by (subst bit_types_of_index) auto
  then show ?thesis using Cons by (metis bit_0_eq bot_apply bot_bool_def list.distinct(1))
qed simp

lemma types_of_eqI:
  assumes "\<forall>t \<in> set ts. allowTypeIndex t < 7" "\<And>n. bit x n \<longleftrightarrow> (\<exists>t \<in> set ts. n = unat (allowTypeIndex t))"
  shows "x = types_of ts"
proof (rule bit_word_eqI)
  fix n
  have "unat t < 32" if "t < 7" for t :: u32
    using that by (simp add: word_less_nat_alt)
  with assms show "bit x n = bit (types_of ts) n"
    by (auto simp: bit_types_of)
qed

lemma types_of_extend_time:
  assumes "\<forall>t \<in> set ts. allowTypeIndex t < 7" "i < 7"
  shows "types_of (extend_time i et rs ts) = types_of ts OR type_bit i"
proof (rule bit_word_eqI)
  fix n
  have "(\<exists>t \<in> set (extend_time i et rs ts). n = unat (allowTypeIndex t)) \<longleftrightarrow>
      n \<in> unat ` (allowTypeIndex ` set (extend_time i et rs ts))"
    by auto
  also have "\<dots> \<longleftrightarrow> n = unat i \<or> (\<exists>t \<in> set ts. n = unat (allowTypeIndex t))"
    unfolding indices_extend_time by auto
  finally show "bit (types_of (extend_time i et rs ts)) n = bit (types_of ts OR type_bit i) n"
    by (auto simp: bit_types_of bit_or_iff bit_type_bit)
qed

definition hit :: "u32 \<Rightarrow> bool \<Rightarrow> i64 \<Rightarrow> AllowTime \<Rightarrow> bool" where
  "hit allowType ra now t \<longleftrightarrow> bit allowType (unat (allowTypeIndex t)) \<and> (ra \<or> now \<ge> endTime t)"

lemma remove_times_filter:
  "\<forall>t \<in> set ts. allowTypeIndex t < 7 \<Longrightarrow>
   remove_times a ra now ts = (types_of (filter (hit a ra now) ts), filter (\<lambda>t. \<not> hit a ra now t) ts)"
  by (induction ts) (auto simp: hit_def and_type_bit type_bit_nonzero Let_def)

section \<open>Well-formed records\<close>

definition times_wf :: "AllowRecord \<Rightarrow> bool" where
  "times_wf r \<longleftrightarrow> distinct (map allowTypeIndex (allowTimeList r)) \<and>
     (\<forall>t \<in> set (allowTimeList r). allowTypeIndex t < 7) \<and> ar_allowType r = types_of (allowTimeList r)"

definition record_ok :: "string \<Rightarrow> AllowRecord \<Rightarrow> bool" where
  "record_ok key r \<longleftrightarrow> key = uid_key (ar_uid r) (ar_name r) \<and> times_wf r \<and> allowTimeList r \<noteq> []"

definition al_inv :: "svc_state \<Rightarrow> bool" where
  "al_inv s \<longleftrightarrow> distinct (map fst (allowInfoMap s)) \<and> (\<forall>(key, r) \<in> set (allowInfoMap s). record_ok key r)"

lemma times_wf_types_0: "times_wf r \<Longrightarrow> ar_allowType r = 0 \<longleftrightarrow> allowTimeList r = []"
  by (simp add: times_wf_def types_of_eq_0)

lemma al_inv_record:
  "al_inv s \<Longrightarrow> map_of (allowInfoMap s) key = Some r \<Longrightarrow> record_ok key r"
  by (auto simp: al_inv_def dest: map_of_SomeD)

lemma al_inv_update:
  assumes "distinct (map fst m)" "\<forall>(key, r) \<in> set m. record_ok key r" "record_ok k r"
  shows "distinct (map fst (AList.update k r m)) \<and> (\<forall>(key, r) \<in> set (AList.update k r m). record_ok key r)"
proof -
  have "(key, v) \<in> set (AList.update k r m) \<Longrightarrow> (key, v) \<in> set m \<or> (key, v) = (k, r)" for key v
    by (induction m) (auto split: if_splits)
  with assms show ?thesis by (auto intro: AList.distinct_update)
qed

lemma al_inv_delete:
  assumes "distinct (map fst m)" "\<forall>(key, r) \<in> set m. record_ok key r"
  shows "distinct (map fst (AList.delete k m)) \<and> (\<forall>(key, r) \<in> set (AList.delete k m). record_ok key r)"
  using assms AList.distinct_delete [of m k] by (auto simp: AList.delete_eq)

section \<open>What UpdateRecord does to a record\<close>

definition active :: "svc_env \<Rightarrow> ResourceRequest \<Rightarrow> u32 \<Rightarrow> bool" where
  "active e rq i \<longleftrightarrow> bit (rq_allowType rq) (unat i) \<and> max_duration_of e rq i > 0"

definition upd_rec :: "svc_env \<Rightarrow> ResourceRequest \<Rightarrow> u32 \<Rightarrow> AllowRecord \<Rightarrow> AllowRecord" where
  "upd_rec e rq i r =
     (if active e rq i
      then r\<lparr>allowTimeList := extend_time i (sv_bootTime e + max_duration_of e rq i) (rq_reason rq) (allowTimeList r),
             ar_allowType := ar_allowType r OR type_bit i\<rparr>
      else r)"

definition posted_by :: "svc_env \<Rightarrow> ResourceRequest \<Rightarrow> u32 \<Rightarrow> svc_task \<times> i64" where
  "posted_by e rq i =
     (ST_Unapply (rq_uid rq) (rq_name rq) (rq_allowType rq) False, sv_bootTime e + max_duration_of e rq i)"

lemma UpdateRecord_fold:
  "\<forall>i \<in> set is. i < 7 \<Longrightarrow>
   fold (UpdateRecord_type e rq) is (r, s) =
     (fold (upd_rec e rq) is r, s\<lparr>svc_tasks := svc_tasks s @ map (posted_by e rq) (filter (active e rq) is)\<rparr>)"
proof (induction "is" arbitrary: r s)
  case (Cons i "is")
  have step: "UpdateRecord_type e rq i (r, s) =
      (upd_rec e rq i r,
       if active e rq i then s\<lparr>svc_tasks := svc_tasks s @ [posted_by e rq i]\<rparr> else s)"
    using Cons.prems
    by (auto simp: UpdateRecord_type_def upd_rec_def active_def posted_by_def svc_post_def Let_def
        and_type_bit type_bit_nonzero)
  show ?case
    unfolding fold_simps o_apply step using Cons by simp
qed simp

lemma upd_rec_frame [simp]:
  "ar_uid (upd_rec e rq i r) = ar_uid r" "ar_name (upd_rec e rq i r) = ar_name r"
  "ar_pid (upd_rec e rq i r) = ar_pid r" "ar_reasonCode (upd_rec e rq i r) = ar_reasonCode r"
  by (simp_all add: upd_rec_def)

lemma fold_upd_rec_frame [simp]:
  "ar_uid (fold (upd_rec e rq) is r) = ar_uid r" "ar_name (fold (upd_rec e rq) is r) = ar_name r"
  "ar_pid (fold (upd_rec e rq) is r) = ar_pid r" "ar_reasonCode (fold (upd_rec e rq) is r) = ar_reasonCode r"
  by (induction "is" arbitrary: r) simp_all

lemma upd_rec_wf: "i < 7 \<Longrightarrow> times_wf r \<Longrightarrow> times_wf (upd_rec e rq i r)"
proof -
  assume i: "i < 7" and wf: "times_wf r"
  have "\<forall>t \<in> set (extend_time i et rs (allowTimeList r)). allowTypeIndex t < 7" for et rs
  proof -
    have "allowTypeIndex ` set (extend_time i et rs (allowTimeList r)) \<subseteq> {j. j < 7}"
      unfolding indices_extend_time using i wf by (auto simp: times_wf_def)
    then show ?thesis by auto
  qed
  with i wf show ?thesis
    by (simp add: upd_rec_def times_wf_def distinct_extend_time types_of_extend_time)
qed

lemma fold_upd_rec_wf:
  "\<forall>i \<in> set is. i < 7 \<Longrightarrow> times_wf r \<Longrightarrow> times_wf (fold (upd_rec e rq) is r)"
  by (induction "is" arbitrary: r) (auto intro: upd_rec_wf)

text \<open>What an application of a request makes of the end times of a process.\<close>

definition granted_until :: "svc_env \<Rightarrow> ResourceRequest \<Rightarrow> (u32 \<Rightarrow> i64 option) \<Rightarrow> u32 \<Rightarrow> i64 option" where
  "granted_until e rq g i =
     (if i < 7 \<and> active e rq i
      then Some (case g i of None \<Rightarrow> sv_bootTime e + max_duration_of e rq i
                 | Some old \<Rightarrow> max old (sv_bootTime e + max_duration_of e rq i))
      else g i)"

lemma end_of_upd_rec:
  "end_of (allowTimeList (upd_rec e rq i r)) =
     (if active e rq i
      then (end_of (allowTimeList r))(i \<mapsto>
        (case end_of (allowTimeList r) i of None \<Rightarrow> sv_bootTime e + max_duration_of e rq i
         | Some old \<Rightarrow> max old (sv_bootTime e + max_duration_of e rq i)))
      else end_of (allowTimeList r))"
  by (simp add: upd_rec_def end_of_extend_time)

lemma end_of_fold_upd_rec:
  "distinct is \<Longrightarrow>
   end_of (allowTimeList (fold (upd_rec e rq) is r)) j =
     (if j \<in> set is \<and> active e rq j
      then Some (case end_of (allowTimeList r) j of None \<Rightarrow> sv_bootTime e + max_duration_of e rq j
                 | Some old \<Rightarrow> max old (sv_bootTime e + max_duration_of e rq j))
      else end_of (allowTimeList r) j)"
  by (induction "is" arbitrary: r) (auto simp: end_of_upd_rec)

lemma end_of_UpdateRecord:
  "end_of (allowTimeList (fold (upd_rec e rq) type_indices r)) = granted_until e rq (end_of (allowTimeList r))"
  by (rule ext) (simp add: end_of_fold_upd_rec granted_until_def set_type_indices)

end
