(* ===== verification/Allow_Table.thy ===== *)
theory Allow_Table
  imports Allow_Inv
begin

text \<open>
  The operations on the exemption list seen from outside: the table of end times they make,
  the well-formedness they keep, the tasks they leave in the queue and the calls they log.
\<close>

section \<open>The table\<close>

definition times_at :: "svc_state \<Rightarrow> string \<Rightarrow> AllowTime list" where
  "times_at s key = (case map_of (allowInfoMap s) key of None \<Rightarrow> [] | Some r \<Rightarrow> allowTimeList r)"

definition grants :: "svc_state \<Rightarrow> i32 \<Rightarrow> string \<Rightarrow> u32 \<Rightarrow> i64 option" where
  "grants s uid name = end_of (times_at s (uid_key uid name))"

definition exempt_types :: "svc_state \<Rightarrow> i32 \<times> string \<Rightarrow> u32" where
  "exempt_types s = (\<lambda>(uid, name).
     case map_of (allowInfoMap s) (uid_key uid name) of None \<Rightarrow> 0 | Some r \<Rightarrow> ar_allowType r)"

definition revoked :: "u32 \<Rightarrow> bool \<Rightarrow> i64 \<Rightarrow> (u32 \<Rightarrow> i64 option) \<Rightarrow> u32 \<Rightarrow> i64 option" where
  "revoked allowType ra now g i =
     (case g i of None \<Rightarrow> None
      | Some et \<Rightarrow> if bit allowType (unat i) \<and> (ra \<or> now \<ge> et) then None else Some et)"

lemma exempt_types_grants:
  assumes "al_inv s"
  shows "bit (exempt_types s (uid, name)) (unat i) \<longleftrightarrow> grants s uid name i \<noteq> None"
proof (cases "map_of (allowInfoMap s) (uid_key uid name)")
  case None
  then show ?thesis by (simp add: exempt_types_def grants_def times_at_def)
next
  case (Some r)
  have "record_ok (uid_key uid name) r"
    using assms Some by (rule al_inv_record)
  then have "bit (ar_allowType r) (unat i) \<longleftrightarrow> i \<in> allowTypeIndex ` set (allowTimeList r)"
    by (simp add: record_ok_def times_wf_def bit_types_of_index)
  moreover have "end_of (allowTimeList r) i \<noteq> None \<longleftrightarrow> i \<in> allowTypeIndex ` set (allowTimeList r)"
    by (simp only: end_of_eq_None not_not)
  ultimately show ?thesis
    by (simp add: Some exempt_types_def grants_def times_at_def)
qed

section \<open>Small steps\<close>

lemma svc_post_simps [simp]:
  "allowInfoMap (svc_post e t d s) = allowInfoMap s"
  "isServiceReady (svc_post e t d s) = isServiceReady s"
  "svc_effects (svc_post e t d s) = svc_effects s"
  "svc_tasks (svc_post e t d s) = svc_tasks s @ [(t, sv_bootTime e + d)]"
  by (simp_all add: svc_post_def)

lemma svc_emit_simps [simp]:
  "allowInfoMap (svc_emit ef s) = allowInfoMap s"
  "isServiceReady (svc_emit ef s) = isServiceReady s"
  "svc_effects (svc_emit ef s) = svc_effects s @ [ef]"
  "svc_tasks (svc_emit ef s) = svc_tasks s"
  by (simp_all add: svc_emit_def)

lemma DumpPersistantData_simps [simp]:
  "allowInfoMap (DumpPersistantData s) = allowInfoMap s"
  "svc_effects (DumpPersistantData s) = svc_effects s @ [SE_DumpFile (dump_json (allowInfoMap s))]"
  "svc_tasks (DumpPersistantData s) = svc_tasks s"
  by (simp_all add: DumpPersistantData_def)

lemma Notify_simps [simp]:
  "allowInfoMap (NotifyAllowListChanged e u n a b s) = allowInfoMap s"
  "svc_effects (NotifyAllowListChanged e u n a b s) = svc_effects s"
  "svc_tasks (NotifyAllowListChanged e u n a b s) = svc_tasks s @
     (if isServiceReady s
      then [(ST_Dispatch (OutMessage ALLOW_LIST_CHANGED
             [(''uid'', WInt u), (''name'', WString n), (''allowType'', WInt a), (''added'', WBool b)]),
            sv_bootTime e)] else [])"
  by (simp_all add: NotifyAllowListChanged_def DispatchEvent_def)

lemma OnProcessStatusChanged_simps [simp]:
  "allowInfoMap (OnProcessStatusChanged e u p n b s) = allowInfoMap s"
  "svc_effects (OnProcessStatusChanged e u p n b s) = svc_effects s"
  "set (svc_tasks s) \<subseteq> set (svc_tasks (OnProcessStatusChanged e u p n b s))"
  by (auto simp: OnProcessStatusChanged_def DispatchEvent_def)

lemma detach_ST_Unapply [simp]:
  "detach k t task = ST_Unapply u n a b \<longleftrightarrow> task = ST_Unapply u n a b"
  "ST_Unapply u n a b = detach k t task \<longleftrightarrow> task = ST_Unapply u n a b"
  by (auto simp: detach_def split: svc_task.splits option.splits)

lemma erase_record_simps [simp]:
  "isServiceReady (erase_record k s) = isServiceReady s"
  "svc_effects (erase_record k s) = svc_effects s"
  "allowInfoMap (erase_record k s) = AList.delete k (allowInfoMap s)"
proof -
  have "AList.delete k m = m" if "map_of m k = None" for m :: "(string \<times> AllowRecord) list"
    using that by (induction m) (auto split: if_splits)
  then show "allowInfoMap (erase_record k s) = AList.delete k (allowInfoMap s)"
    by (simp add: erase_record_def split: option.split)
qed (simp_all add: erase_record_def split: option.split)

lemma erase_record_pending [simp]:
  "(ST_Unapply u n a b, due) \<in> set (svc_tasks (erase_record k s)) \<longleftrightarrow>
     (ST_Unapply u n a b, due) \<in> set (svc_tasks s)"
  by (auto simp: erase_record_def image_iff split: option.split intro: rev_bexI)

section \<open>Applying\<close>

definition prior_type :: "ResourceRequest \<Rightarrow> svc_state \<Rightarrow> u32" where
  "prior_type rq s = exempt_types s (rq_uid rq, rq_name rq)"

definition prior_record :: "ResourceRequest \<Rightarrow> i32 \<Rightarrow> svc_state \<Rightarrow> AllowRecord" where
  "prior_record rq pid s =
     (case map_of (allowInfoMap s) (uid_key (rq_uid rq) (rq_name rq)) of
        None \<Rightarrow> \<lparr> ar_uid = rq_uid rq, ar_pid = pid, ar_name = rq_name rq, ar_allowType = 0,
                  allowTimeList = [], ar_reasonCode = rq_reasonCode rq \<rparr>
      | Some r \<Rightarrow> r\<lparr>ar_pid := pid\<rparr>)"

definition applied_record :: "svc_env \<Rightarrow> ResourceRequest \<Rightarrow> i32 \<Rightarrow> svc_state \<Rightarrow> AllowRecord" where
  "applied_record e rq pid s = fold (upd_rec e rq) type_indices (prior_record rq pid s)"

lemma prior_record_wf:
  assumes "al_inv s"
  shows "times_wf (prior_record rq pid s)"
    "uid_key (rq_uid rq) (rq_name rq) = uid_key (ar_uid (prior_record rq pid s)) (ar_name (prior_record rq pid s))"
    "ar_allowType (prior_record rq pid s) = prior_type rq s"
    "allowTimeList (prior_record rq pid s) = times_at s (uid_key (rq_uid rq) (rq_name rq))"
proof -
  let ?k = "uid_key (rq_uid rq) (rq_name rq)"
  have r: "map_of (allowInfoMap s) ?k = Some r \<Longrightarrow> record_ok ?k r" for r
    using assms by (rule al_inv_record)
  show "times_wf (prior_record rq pid s)"
    using r by (auto simp: prior_record_def record_ok_def times_wf_def split: option.split)
  show "?k = uid_key (ar_uid (prior_record rq pid s)) (ar_name (prior_record rq pid s))"
    using r by (auto simp: prior_record_def record_ok_def split: option.split)
  show "ar_allowType (prior_record rq pid s) = prior_type rq s"
    by (simp add: prior_record_def prior_type_def exempt_types_def split: option.split)
  show "allowTimeList (prior_record rq pid s) = times_at s ?k"
    by (simp add: prior_record_def times_at_def split: option.split)
qed

lemma applied_record_wf:
  assumes "al_inv s"
  shows "times_wf (applied_record e rq pid s)"
    "uid_key (rq_uid rq) (rq_name rq) = uid_key (ar_uid (applied_record e rq pid s)) (ar_name (applied_record e rq pid s))"
    "end_of (allowTimeList (applied_record e rq pid s)) = granted_until e rq (grants s (rq_uid rq) (rq_name rq))"
  unfolding applied_record_def
  using prior_record_wf [OF assms, of rq pid]
  by (auto simp: set_type_indices fold_upd_rec_wf end_of_UpdateRecord grants_def)

lemma applied_type_grows:
  assumes "al_inv s"
  shows "(prior_type rq s AND ar_allowType (applied_record e rq pid s)) = prior_type rq s"
proof -
  have grow: "(ar_allowType r AND ar_allowType (fold (upd_rec e rq) is r)) = ar_allowType r" for "is" r
  proof (induction "is" arbitrary: r)
    case (Cons i "is")
    have "(ar_allowType r AND ar_allowType (upd_rec e rq i r)) = ar_allowType r"
      by (auto simp: upd_rec_def intro!: bit_eqI simp: bit_and_iff bit_or_iff)
    with Cons [of "upd_rec e rq i r"] show ?case
      by (auto simp: bit_eq_iff bit_and_iff)
  qed simp
  show ?thesis
    using grow prior_record_wf(3) [OF assms, of rq pid] by (metis applied_record_def)
qed

text \<open>The tasks and the message an application adds, and the calls it logs.\<close>

definition applied_tasks :: "svc_env \<Rightarrow> ResourceRequest \<Rightarrow> (svc_task \<times> i64) list" where
  "applied_tasks e rq = map (posted_by e rq) (filter (active e rq) type_indices)"

lemma ApplyAllowResInner_result:
  fixes e rq pid s
  assumes "al_inv s"
  defines "k \<equiv> uid_key (rq_uid rq) (rq_name rq)"
    and "r \<equiv> applied_record e rq pid s" and "s' \<equiv> ApplyAllowResInner e rq pid s"
  shows "allowInfoMap s' =
      (if ar_allowType r = 0 then AList.delete k (AList.update k r (allowInfoMap s))
       else AList.update k r (allowInfoMap s))"
    and "svc_effects s' = svc_effects s @
      (if prior_type rq s \<noteq> ar_allowType r
       then [SE_ReportAllowListChanged (rq_uid rq) (rq_name rq)
              (ar_allowType r XOR (prior_type rq s AND ar_allowType r)) True] else []) @
      [SE_DumpFile (dump_json (allowInfoMap s'))]"
    and "(ST_Unapply u n a b, due) \<in> set (svc_tasks s') \<longleftrightarrow>
      (ST_Unapply u n a b, due) \<in> set (svc_tasks s) \<union> set (applied_tasks e rq)"
proof -
  have pre: "(case map_of (allowInfoMap s) k of
               None \<Rightarrow> (0, \<lparr> ar_uid = rq_uid rq, ar_pid = pid, ar_name = rq_name rq, ar_allowType = 0,
                            allowTimeList = [], ar_reasonCode = rq_reasonCode rq \<rparr>)
             | Some r \<Rightarrow> (ar_allowType r, r\<lparr>ar_pid := pid\<rparr>)) = (prior_type rq s, prior_record rq pid s)"
    by (simp add: prior_type_def exempt_types_def prior_record_def k_def split: option.split)
  have upd: "UpdateRecord e rq (prior_record rq pid s, s) = (r, s\<lparr>svc_tasks := svc_tasks s @ applied_tasks e rq\<rparr>)"
    by (simp add: UpdateRecord_def UpdateRecord_fold set_type_indices r_def applied_record_def applied_tasks_def)
  have s': "s' = DumpPersistantData
     (let s1 = s\<lparr>svc_tasks := svc_tasks s @ applied_tasks e rq, allowInfoMap := AList.update k r (allowInfoMap s)\<rparr>;
          s2 = (if prior_type rq s \<noteq> ar_allowType r
               then NotifyAllowListChanged e (rq_uid rq) (rq_name rq) (ar_allowType r XOR (prior_type rq s AND ar_allowType r)) True
                      (svc_emit (SE_ReportAllowListChanged (rq_uid rq) (rq_name rq) (ar_allowType r XOR (prior_type rq s AND ar_allowType r)) True) s1)
               else s1)
      in if ar_allowType r = 0 then erase_record k s2 else s2)"
    unfolding s'_def ApplyAllowResInner_def k_def [symmetric] Let_def pre prod.case upd by simp
  show "allowInfoMap s' =
      (if ar_allowType r = 0 then AList.delete k (AList.update k r (allowInfoMap s))
       else AList.update k r (allowInfoMap s))"
    unfolding s' by (simp add: Let_def)
  show "svc_effects s' = svc_effects s @
      (if prior_type rq s \<noteq> ar_allowType r
       then [SE_ReportAllowListChanged (rq_uid rq) (rq_name rq)
              (ar_allowType r XOR (prior_type rq s AND ar_allowType r)) True] else []) @
      [SE_DumpFile (dump_json (allowInfoMap s'))]"
    unfolding s' by (simp add: Let_def)
  show "(ST_Unapply u n a b, due) \<in> set (svc_tasks s') \<longleftrightarrow>
      (ST_Unapply u n a b, due) \<in> set (svc_tasks s) \<union> set (applied_tasks e rq)"
    unfolding s' by (simp add: Let_def)
qed

lemma ApplyAllowResInner_inv:
  assumes inv: "al_inv s"
  shows "al_inv (ApplyAllowResInner e rq pid s)"
proof -
  define k where "k = uid_key (rq_uid rq) (rq_name rq)"
  define r where "r = applied_record e rq pid s"
  have wf: "times_wf r" "k = uid_key (ar_uid r) (ar_name r)"
    using applied_record_wf [OF inv, where e = e and rq = rq and pid = pid] by (auto simp: r_def k_def)
  note m = ApplyAllowResInner_result(1) [OF inv, of e rq pid, folded k_def r_def]
  have d: "distinct (map fst (allowInfoMap s))" and ok: "\<forall>(key, r) \<in> set (allowInfoMap s). record_ok key r"
    using inv by (auto simp: al_inv_def)
  show ?thesis
  proof (cases "ar_allowType r = 0")
    case False
    then have "record_ok k r"
      using wf times_wf_types_0 [OF wf(1)] by (simp add: record_ok_def)
    from al_inv_update [OF d ok this] False show ?thesis
      by (simp add: al_inv_def m)
  next
    case True
    have "AList.delete k (AList.update k r (allowInfoMap s)) = AList.delete k (allowInfoMap s)"
      by (induction "allowInfoMap s") (auto simp: AList.delete_update_same)
    with True al_inv_delete [OF d ok, of k] show ?thesis
      by (simp add: al_inv_def m)
  qed
qed

lemma ApplyAllowResInner_grants:
  assumes inv: "al_inv s"
  shows "grants (ApplyAllowResInner e rq pid s) uid name =
    (if uid = rq_uid rq \<and> name = rq_name rq then granted_until e rq (grants s uid name) else grants s uid name)"
proof -
  define k where "k = uid_key (rq_uid rq) (rq_name rq)"
  define r where "r = applied_record e rq pid s"
  note wf = applied_record_wf [OF inv, where e = e and rq = rq and pid = pid, folded r_def]
  have "times_at (ApplyAllowResInner e rq pid s) key = (if key = k then allowTimeList r else times_at s key)" for key
    using times_wf_types_0 [OF wf(1)]
    by (simp add: times_at_def ApplyAllowResInner_result(1) [OF inv, of e rq pid, folded k_def r_def]
        AList.update_conv' AList.delete_conv')
  then show ?thesis
    using wf(3) by (auto simp: grants_def k_def)
qed

text \<open>Replaying an announcement on the bit set each process is exempted from.\<close>

fun replay_report :: "svc_effect \<Rightarrow> (i32 \<times> string \<Rightarrow> u32) \<Rightarrow> i32 \<times> string \<Rightarrow> u32" where
  "replay_report (SE_ReportAllowListChanged uid name allowType added) v =
     v((uid, name) := if added then v (uid, name) OR allowType else v (uid, name) AND NOT allowType)"
| "replay_report (SE_DumpFile j) v = v"
| "replay_report (SE_HandleEvent m) v = v"

lemma exempt_types_update:
  "exempt_types (s\<lparr>allowInfoMap := AList.update (uid_key u n) r m\<rparr>) =
     (exempt_types (s\<lparr>allowInfoMap := m\<rparr>))((u, n) := ar_allowType r)"
  by (rule ext) (auto simp: exempt_types_def AList.update_conv' split: prod.split)

lemma exempt_types_cong:
  "allowInfoMap s = allowInfoMap t \<Longrightarrow> exempt_types s = exempt_types t"
  by (simp add: exempt_types_def)

lemma ApplyAllowResInner_announced:
  assumes inv: "al_inv s"
  shows "\<exists>es. svc_effects (ApplyAllowResInner e rq pid s) = svc_effects s @ es \<and>
    exempt_types (ApplyAllowResInner e rq pid s) = fold replay_report es (exempt_types s)"
proof -
  define k where "k = uid_key (rq_uid rq) (rq_name rq)"
  define r where "r = applied_record e rq pid s"
  define v where "v = (rq_uid rq, rq_name rq)"
  note res = ApplyAllowResInner_result [OF inv, where e = e and rq = rq and pid = pid, folded k_def r_def]
  have types: "exempt_types (ApplyAllowResInner e rq pid s) = (exempt_types s)(v := ar_allowType r)"
    by (rule ext) (auto simp: exempt_types_def res(1) k_def v_def AList.update_conv' AList.delete_conv'
        split: prod.split)
  have grow: "(exempt_types s v AND ar_allowType r) = exempt_types s v"
    using applied_type_grows [OF inv, of rq e pid] by (simp add: r_def v_def prior_type_def)
  have "exempt_types s v OR (ar_allowType r XOR (exempt_types s v AND ar_allowType r)) = ar_allowType r"
  proof (rule bit_eqI)
    fix n
    have "bit (exempt_types s v) n \<Longrightarrow> bit (ar_allowType r) n"
      using grow by (metis bit_and_iff)
    then show "bit (exempt_types s v OR (ar_allowType r XOR (exempt_types s v AND ar_allowType r))) n =
        bit (ar_allowType r) n"
      by (auto simp: bit_or_iff bit_xor_iff bit_and_iff)
  qed
  moreover define es where "es = (if prior_type rq s \<noteq> ar_allowType r
       then [SE_ReportAllowListChanged (rq_uid rq) (rq_name rq)
              (ar_allowType r XOR (prior_type rq s AND ar_allowType r)) True] else []) @
      [SE_DumpFile (dump_json (allowInfoMap (ApplyAllowResInner e rq pid s)))]"
  ultimately have "exempt_types (ApplyAllowResInner e rq pid s) = fold replay_report es (exempt_types s)"
    by (auto simp: types prior_type_def v_def [symmetric] fun_eq_iff)
  then show ?thesis
    using res(2) unfolding es_def by blast
qed

section \<open>Unapplying\<close>

lemma UnapplyAllowResInner_cases:
  assumes inv: "al_inv s"
  obtains (none) "UnapplyAllowResInner e uid name a ra s = s"
      "filter (hit a ra (sv_bootTime e)) (times_at s (uid_key uid name)) = []"
  | (some) r removed kept s' where
      "map_of (allowInfoMap s) (uid_key uid name) = Some r" "record_ok (uid_key uid name) r"
      "removed = types_of (filter (hit a ra (sv_bootTime e)) (allowTimeList r))" "removed \<noteq> 0"
      "kept = filter (\<lambda>t. \<not> hit a ra (sv_bootTime e) t) (allowTimeList r)"
      "s' = UnapplyAllowResInner e uid name a ra s"
      "allowInfoMap s' = (if removed = ar_allowType r
         then AList.delete (uid_key uid name) (AList.update (uid_key uid name) (r\<lparr>allowTimeList := kept\<rparr>) (allowInfoMap s))
         else AList.update (uid_key uid name)
                (r\<lparr>allowTimeList := kept, ar_allowType := ar_allowType r - removed\<rparr>)
                (AList.update (uid_key uid name) (r\<lparr>allowTimeList := kept\<rparr>) (allowInfoMap s)))"
      "svc_effects s' = svc_effects s @
         [SE_ReportAllowListChanged uid name removed False, SE_DumpFile (dump_json (allowInfoMap s'))]"
      "\<And>u n b c due. (ST_Unapply u n b c, due) \<in> set (svc_tasks s') \<longleftrightarrow> (ST_Unapply u n b c, due) \<in> set (svc_tasks s)"
proof (cases "map_of (allowInfoMap s) (uid_key uid name)")
  case None
  then show ?thesis
    by (intro none) (simp_all add: UnapplyAllowResInner_def times_at_def)
next
  case (Some r)
  let ?k = "uid_key uid name"
  let ?h = "hit a ra (sv_bootTime e)"
  let ?kept = "filter (\<lambda>t. \<not> ?h t) (allowTimeList r)"
  define removed where "removed = types_of (filter ?h (allowTimeList r))"
  have ok: "record_ok ?k r"
    using inv Some by (rule al_inv_record)
  then have lt: "\<forall>t \<in> set (allowTimeList r). allowTypeIndex t < 7"
    by (simp add: record_ok_def times_wf_def)
  note rem = remove_times_filter [OF lt, of a ra "sv_bootTime e", folded removed_def]
  have lt': "\<forall>t \<in> set (filter ?h (allowTimeList r)). allowTypeIndex t < 7"
    using lt by simp
  have nil: "removed = 0 \<longleftrightarrow> filter ?h (allowTimeList r) = []"
    using types_of_eq_0 [OF lt'] by (simp add: removed_def)
  show ?thesis
  proof (cases "removed = 0")
    case True
    have "UnapplyAllowResInner e uid name a ra s = s"
      by (simp add: UnapplyAllowResInner_def Let_def Some rem True)
    then show ?thesis
      using True nil Some by (intro none) (simp_all add: times_at_def)
  next
    case False
    then obtain t where t: "t \<in> set (allowTimeList r)" "?h t"
      using nil by (auto simp: filter_empty_conv)
    have "bit (a AND ar_allowType r) (unat (allowTypeIndex t))"
      using t ok lt by (auto simp: bit_and_iff hit_def record_ok_def times_wf_def bit_types_of_index)
    then have nz: "(a AND ar_allowType r) \<noteq> 0"
      by (metis bit_0_eq bot_apply bot_bool_def)
    show ?thesis
      by (rule some [OF Some ok removed_def False refl refl])
        (auto simp: UnapplyAllowResInner_def Let_def Some rem False nz)
  qed
qed

text \<open>Removing entries with distinct types removes exactly their bits.\<close>

lemma types_of_split:
  assumes d: "distinct (map allowTypeIndex ts)" and lt: "\<forall>t \<in> set ts. allowTypeIndex t < 7"
  shows "types_of (filter (\<lambda>t. \<not> h t) ts) = types_of ts AND NOT (types_of (filter h ts))"
    and "types_of ts - types_of (filter h ts) = types_of ts AND NOT (types_of (filter h ts))"
    and "types_of (filter h ts) = types_of ts \<longleftrightarrow> filter (\<lambda>t. \<not> h t) ts = []"
proof -
  have inj: "unat (allowTypeIndex t) = unat (allowTypeIndex u) \<Longrightarrow> t \<in> set ts \<Longrightarrow> u \<in> set ts \<Longrightarrow> t = u" for t u
    using d by (auto simp: distinct_map inj_on_def word_eq_iff_unsigned [where 'a = nat])
  show split: "types_of (filter (\<lambda>t. \<not> h t) ts) = types_of ts AND NOT (types_of (filter h ts))"
    by (rule bit_word_eqI) (auto simp: bit_types_of bit_and_iff bit_not_iff dest: inj)
  show "types_of ts - types_of (filter h ts) = types_of ts AND NOT (types_of (filter h ts))"
    by (rule disjunctive_diff_eq_and_not, rule bit_word_eqI) (auto simp: bit_types_of bit_and_iff bit_not_iff)
  have sub: "bit (types_of (filter h ts)) n \<Longrightarrow> bit (types_of ts) n" for n
    by (auto simp: bit_types_of)
  have "types_of (filter h ts) = types_of ts \<longleftrightarrow> types_of (filter (\<lambda>t. \<not> h t) ts) = 0"
    unfolding split
  proof
    assume z: "types_of ts AND NOT (types_of (filter h ts)) = 0"
    show "types_of (filter h ts) = types_of ts"
    proof (rule bit_word_eqI)
      fix n :: nat
      assume "n < LENGTH(32)"
      then show "bit (types_of (filter h ts)) n = bit (types_of ts) n"
        using arg_cong [OF z, of "\<lambda>w. bit w n"] sub [of n] by (auto simp: bit_and_iff bit_not_iff)
    qed
  qed simp
  also have "\<dots> \<longleftrightarrow> filter (\<lambda>t. \<not> h t) ts = []"
    using lt by (intro types_of_eq_0) auto
  finally show "types_of (filter h ts) = types_of ts \<longleftrightarrow> filter (\<lambda>t. \<not> h t) ts = []" .
qed

lemma UnapplyAllowResInner_inv:
  assumes inv: "al_inv s"
  shows "al_inv (UnapplyAllowResInner e uid name a ra s)"
proof -
  have d: "distinct (map fst (allowInfoMap s))" and ok: "\<forall>(key, r) \<in> set (allowInfoMap s). record_ok key r"
    using inv by (auto simp: al_inv_def)
  let ?k = "uid_key uid name"
  show ?thesis
  proof (cases rule: UnapplyAllowResInner_cases [OF inv, of e uid name a ra, case_names none some])
    case none
    with inv show ?thesis by simp
  next
    case (some r removed kept s')
    have wf: "distinct (map allowTypeIndex (allowTimeList r))" "\<forall>t \<in> set (allowTimeList r). allowTypeIndex t < 7"
      and t: "ar_allowType r = types_of (allowTimeList r)"
      using some(2) by (auto simp: record_ok_def times_wf_def)
    note split = types_of_split [OF wf, of "hit a ra (sv_bootTime e)", folded t]
    let ?r = "r\<lparr>allowTimeList := kept, ar_allowType := ar_allowType r - removed\<rparr>"
    have m2: "AList.delete ?k (AList.update ?k (r\<lparr>allowTimeList := kept\<rparr>) (allowInfoMap s)) =
        AList.delete ?k (allowInfoMap s)"
      "AList.update ?k ?r (AList.update ?k (r\<lparr>allowTimeList := kept\<rparr>) (allowInfoMap s)) =
        AList.update ?k ?r (allowInfoMap s)"
      by (simp_all add: AList.delete_update_same AList.update_last)
    have "al_inv s'"
    proof (cases "removed = ar_allowType r")
      case True
      with al_inv_delete [OF d ok, of ?k] show ?thesis
        by (simp add: al_inv_def some(7) m2)
    next
      case False
      have dk: "distinct (map allowTypeIndex kept)"
        using wf(1) by (simp add: some(5) distinct_map_filter)
      have "record_ok ?k ?r"
        using some(2) False split dk unfolding some(3) some(5) record_ok_def times_wf_def by (auto simp: t)
      from al_inv_update [OF d ok this] False show ?thesis
        by (simp add: al_inv_def some(7) m2)
    qed
    then show ?thesis by (simp add: some(6))
  qed
qed

lemma revoked_none:
  "filter (hit a ra now) ts = [] \<Longrightarrow> revoked a ra now (end_of ts) i = end_of ts i"
  by (induction ts) (auto simp: revoked_def hit_def split: option.splits if_splits)

lemma UnapplyAllowResInner_grants:
  assumes inv: "al_inv s"
  shows "grants (UnapplyAllowResInner e uid name a ra s) u n =
    (if u = uid \<and> n = name then revoked a ra (sv_bootTime e) (grants s u n) else grants s u n)"
proof (cases rule: UnapplyAllowResInner_cases [OF inv, of e uid name a ra, case_names none some])
  case none
  have "revoked a ra (sv_bootTime e) (grants s uid name) i = grants s uid name i" for i
    using none(2) unfolding grants_def by (rule revoked_none)
  then show ?thesis by (auto simp: none(1))
next
  case (some r removed kept s')
  have wf: "distinct (map allowTypeIndex (allowTimeList r))" "\<forall>t \<in> set (allowTimeList r). allowTypeIndex t < 7"
    and t: "ar_allowType r = types_of (allowTimeList r)"
    using some(2) by (auto simp: record_ok_def times_wf_def)
  have at: "times_at s' key = (if key = uid_key uid name then kept else times_at s key)" for key
    using types_of_split(3) [OF wf, of "hit a ra (sv_bootTime e)", folded t some(3) some(5)]
    by (simp add: times_at_def some(7) AList.update_conv' AList.delete_conv')
  have "end_of kept i = revoked a ra (sv_bootTime e) (grants s uid name) i" for i
    unfolding some(5) revoked_def
    by (subst end_of_filter [OF wf(1), where Q = "\<lambda>j et. \<not> (bit a (unat j) \<and> (ra \<or> sv_bootTime e \<ge> et))"])
      (auto simp: hit_def grants_def times_at_def some(1) split: option.splits)
  then show ?thesis
    by (auto simp: grants_def at simp flip: some(6))
qed

lemma UnapplyAllowResInner_announced:
  assumes inv: "al_inv s"
  shows "\<exists>es. svc_effects (UnapplyAllowResInner e uid name a ra s) = svc_effects s @ es \<and>
    exempt_types (UnapplyAllowResInner e uid name a ra s) = fold replay_report es (exempt_types s)"
proof (cases rule: UnapplyAllowResInner_cases [OF inv, of e uid name a ra, case_names none some])
  case none
  then show ?thesis by simp
next
  case (some r removed kept s')
  have wf: "distinct (map allowTypeIndex (allowTimeList r))" "\<forall>t \<in> set (allowTimeList r). allowTypeIndex t < 7"
    and t: "ar_allowType r = types_of (allowTimeList r)"
    using some(2) by (auto simp: record_ok_def times_wf_def)
  have cut: "ar_allowType r - removed = ar_allowType r AND NOT removed"
    using types_of_split(2) [OF wf] by (simp add: t some(3))
  have "exempt_types s' = (exempt_types s)((uid, name) := exempt_types s (uid, name) AND NOT removed)"
  proof
    fix p :: "i32 \<times> string"
    obtain u n where p: "p = (u, n)" by (cases p)
    show "exempt_types s' p = ((exempt_types s)((uid, name) := exempt_types s (uid, name) AND NOT removed)) p"
      by (simp add: p exempt_types_def some(1) some(7) AList.update_conv' AList.delete_conv' cut)
  qed
  then show ?thesis
    unfolding some(6) [symmetric] some(8) by (intro exI conjI) (rule refl, simp)
qed

lemma UnapplyAllowResInner_pending:
  assumes inv: "al_inv s"
  shows "(ST_Unapply u n b c, due) \<in> set (svc_tasks (UnapplyAllowResInner e uid name a ra s)) \<longleftrightarrow>
    (ST_Unapply u n b c, due) \<in> set (svc_tasks s)"
proof (cases rule: UnapplyAllowResInner_cases [OF inv, of e uid name a ra, case_names none some])
  case none
  then show ?thesis by simp
next
  case (some r removed kept s')
  show ?thesis using some(9) by (simp add: some(6))
qed

end
