(* ===== verification/Allow_Steps.thy ===== *)
theory Allow_Steps
  imports Allow_Table
begin

text \<open>
  The exemption list under arbitrary sequences of requests, queries and tasks: what a query
  returns, the steps of the service, and the two invariants that hold in every reachable
  state: well-formed records, announced change by change, and a pending removal for every
  exemption. Both are interpretations of the locales of \<open>Step_System\<close>.
\<close>

section \<open>Queries\<close>

text \<open>A query only posts tasks.\<close>

definition quiet :: "svc_state \<Rightarrow> svc_state \<Rightarrow> bool" where
  "quiet s s' \<longleftrightarrow> allowInfoMap s' = allowInfoMap s \<and> svc_effects s' = svc_effects s \<and>
     isServiceReady s' = isServiceReady s \<and> set (svc_tasks s) \<subseteq> set (svc_tasks s')"

lemma quiet_refl [simp]: "quiet s s"
  by (simp add: quiet_def)

lemma quiet_trans: "quiet s t \<Longrightarrow> quiet t u \<Longrightarrow> quiet s u"
  by (auto simp: quiet_def)

lemma quiet_post [simp]: "quiet s (svc_post e t d s)"
  by (auto simp: quiet_def)

lemma fold_quiet:
  "(\<And>x infos s. quiet s (snd (f x (infos, s)))) \<Longrightarrow> quiet s (snd (fold f xs (infos, s)))"
proof (induction xs arbitrary: infos s)
  case (Cons x xs)
  show ?case
    using quiet_trans [OF Cons.prems [of s x infos] Cons.IH [OF Cons.prems, of _ "fst (f x (infos, s))"]]
    by simp
qed simp

text \<open>The unexpired exemptions of one type, in the order of the map.\<close>

definition temporary_infos :: "svc_env \<Rightarrow> u32 \<Rightarrow> u32 \<Rightarrow> (string \<times> AllowRecord) list \<Rightarrow> AllowInfo list" where
  "temporary_infos e i reasonCode m =
     concat (map (\<lambda>(key, r).
         case end_of (allowTimeList r) i of
           Some et \<Rightarrow> if ar_reasonCode r = reasonCode \<and> et > sv_bootTime e
             then [\<lparr> ai_allowType = type_bit i, ai_name = ar_name r, ai_duration = narrow32 (et - sv_bootTime e) \<rparr>]
             else []
         | None \<Rightarrow> []) m)"

lemma find_end_of: "map_option endTime (List.find (\<lambda>t. allowTypeIndex t = i) ts) = end_of ts i"
  by (induction ts) auto

lemma GetTemporaryAllowList_result:
  assumes wf: "\<forall>(key, r) \<in> set (allowInfoMap s). times_wf r" and i: "i < 7"
  shows "fst (GetTemporaryAllowList e i reasonCode (infos, s)) =
      infos @ temporary_infos e i reasonCode (allowInfoMap s)"
    and "quiet s (snd (GetTemporaryAllowList e i reasonCode (infos, s)))"
proof -
  define f where "f = (\<lambda>(key :: string, r :: AllowRecord) (infos, s).
         if (ar_allowType r AND type_bit i) = 0 then (infos, s)
         else if ar_reasonCode r \<noteq> reasonCode then (infos, s)
         else case List.find (\<lambda>t. allowTypeIndex t = i) (allowTimeList r) of
             None \<Rightarrow> (infos, s)
           | Some t \<Rightarrow>
               let duration = max (endTime t - sv_bootTime e) 0 in
               if duration > 0
               then (infos @ [\<lparr> ai_allowType = type_bit i, ai_name = ar_name r,
                                ai_duration = narrow32 duration \<rparr>], s)
               else (infos, svc_post e (ST_UnapplyRecord key None (ar_uid r) (ar_name r)) 0 s))"
  have def: "GetTemporaryAllowList e i reasonCode (infos, s) = fold f (allowInfoMap s) (infos, s)" for infos s
    by (simp add: GetTemporaryAllowList_def f_def)
  have q: "quiet s (snd (f x (infos, s)))" for x infos s
    by (auto simp: f_def Let_def split: prod.split option.split)
  show "quiet s (snd (GetTemporaryAllowList e i reasonCode (infos, s)))"
    unfolding def by (rule fold_quiet) (rule q)
  have one: "fst (f (key, r) (infos, t)) = infos @ temporary_infos e i reasonCode [(key, r)]"
    if wf: "times_wf r" for key r infos t
  proof (cases "List.find (\<lambda>t. allowTypeIndex t = i) (allowTimeList r)")
    case None
    then have "end_of (allowTimeList r) i = None"
      by (simp add: find_end_of [symmetric])
    then show ?thesis
      using None by (simp add: f_def temporary_infos_def)
  next
    case (Some t)
    then have et: "end_of (allowTimeList r) i = Some (endTime t)"
      by (simp add: find_end_of [symmetric])
    have "i \<in> allowTypeIndex ` set (allowTimeList r)"
      using et by (metis end_of_eq_None option.distinct(1))
    then have "bit (ar_allowType r) (unat i)"
      using wf by (simp add: times_wf_def bit_types_of_index)
    then have "(ar_allowType r AND type_bit i) \<noteq> 0"
      using i by (simp add: and_type_bit_eq_0)
    then show ?thesis
      using Some by (simp add: f_def temporary_infos_def et Let_def)
  qed
  have "fst (fold f m (infos, t)) = infos @ temporary_infos e i reasonCode m"
    if "\<forall>(key, r) \<in> set m. times_wf r" for m infos t
    using that
  proof (induction m arbitrary: infos t)
    case Nil
    then show ?case by (simp add: temporary_infos_def)
  next
    case (Cons x m)
    obtain key r where x: "x = (key, r)" by (cases x)
    have "fst (fold f m (f x (infos, t))) = fst (f x (infos, t)) @ temporary_infos e i reasonCode m"
      using Cons.IH [of "fst (f x (infos, t))" "snd (f x (infos, t))"] Cons.prems by simp
    then show ?case
      using one [of r key infos t] Cons.prems by (simp add: x temporary_infos_def)
  qed
  then show "fst (GetTemporaryAllowList e i reasonCode (infos, s)) =
      infos @ temporary_infos e i reasonCode (allowInfoMap s)"
    using wf unfolding def by blast
qed

lemma al_inv_wf: "al_inv s \<Longrightarrow> \<forall>(key, r) \<in> set (allowInfoMap s). times_wf r"
  by (auto simp: al_inv_def record_ok_def)

text \<open>The answer of a query for several types.\<close>

definition allow_infos :: "svc_env \<Rightarrow> u32 \<Rightarrow> u32 \<Rightarrow> (string \<times> AllowRecord) list \<Rightarrow> AllowInfo list" where
  "allow_infos e allowType reasonCode m =
     concat (map (\<lambda>i. temporary_infos e i reasonCode m @
         GetPersistAllowList e i True (reasonCode = REASON_APP_API) [])
       (filter (\<lambda>i. bit allowType (unat i)) type_indices))"

lemma GetPersistAllowList_append:
  "GetPersistAllowList e i al app infos = infos @ GetPersistAllowList e i al app []"
  by (simp add: GetPersistAllowList_def)

lemma GetAllowListInner_result:
  assumes inv: "al_inv s"
  shows "fst (GetAllowListInner e allowType reasonCode (infos, s)) =
      infos @ allow_infos e allowType reasonCode (allowInfoMap s)"
    and "quiet s (snd (GetAllowListInner e allowType reasonCode (infos, s)))"
proof -
  define f where "f = (\<lambda>i (infos, s).
         if (allowType AND type_bit i) = 0 then (infos, s)
         else
           let (infos, s) = GetTemporaryAllowList e i reasonCode (infos, s)
           in (GetPersistAllowList e i True (reasonCode = REASON_APP_API) infos, s))"
  have main: "fst (fold f is (infos, s)) = infos @
      concat (map (\<lambda>i. temporary_infos e i reasonCode (allowInfoMap s) @
         GetPersistAllowList e i True (reasonCode = REASON_APP_API) [])
       (filter (\<lambda>i. bit allowType (unat i)) is)) \<and> quiet s (snd (fold f is (infos, s)))"
    if "\<forall>i \<in> set is. i < 7" "al_inv s" for "is" infos s
    using that
  proof (induction "is" arbitrary: infos s)
    case (Cons i "is")
    have i: "i < 7" using Cons.prems by simp
    show ?case
    proof (cases "bit allowType (unat i)")
      case False
      then show ?thesis
        using Cons i by (simp add: f_def and_type_bit_eq_0)
    next
      case True
      define t where "t = snd (GetTemporaryAllowList e i reasonCode (infos, s))"
      define l where "l = temporary_infos e i reasonCode (allowInfoMap s) @
         GetPersistAllowList e i True (reasonCode = REASON_APP_API) []"
      note r = GetTemporaryAllowList_result [OF al_inv_wf [OF Cons.prems(2)] i, where e = e and reasonCode = reasonCode]
      have t: "quiet s t" using r(2) by (simp add: t_def)
      then have inv: "al_inv t" using Cons.prems(2) by (simp add: quiet_def al_inv_def)
      have "GetTemporaryAllowList e i reasonCode (infos, s) =
          (infos @ temporary_infos e i reasonCode (allowInfoMap s), t)"
        by (rule prod_eqI) (simp_all add: r(1) t_def)
      then have "f i (infos, s) = (infos @ l, t)"
        using True i GetPersistAllowList_append [of e i True "reasonCode = REASON_APP_API"
            "infos @ temporary_infos e i reasonCode (allowInfoMap s)"]
        by (simp add: f_def and_type_bit_eq_0 l_def)
      then show ?thesis
        using Cons.IH [OF _ inv, of "infos @ l"] Cons.prems(1) True t
        by (auto simp: l_def quiet_def)
    qed
  qed simp
  have "GetAllowListInner e allowType reasonCode (infos, s) = fold f type_indices (infos, s)"
    by (simp add: GetAllowListInner_def f_def)
  then show "fst (GetAllowListInner e allowType reasonCode (infos, s)) =
      infos @ allow_infos e allowType reasonCode (allowInfoMap s)"
    and "quiet s (snd (GetAllowListInner e allowType reasonCode (infos, s)))"
    using main [OF _ inv, of type_indices infos] by (simp_all add: set_type_indices allow_infos_def)
qed

section \<open>Steps\<close>

text \<open>
  A step is a request, a query, a report of the process monitor, a change of readiness, or a
  task of the handler that is due. The label is what the system answers during the step.
\<close>

inductive al_step :: "svc_env \<Rightarrow> svc_state \<Rightarrow> svc_state \<Rightarrow> bool" where
  al_apply: "al_step e s (snd (ApplyAllowResource e rq s))"
| al_unapply: "al_step e s (snd (UnapplyAllowResource e rq s))"
| al_remove_app: "al_step e s (snd (RemoveAppAllowRecord e uid bundleName resetAll s))"
| al_get: "al_step e s (snd (snd (GetAllowList e allowType reasonCode s)))"
| al_restrict: "al_step e s (snd (snd (GetEligiableRestrictSet e allowType strategy reasonCode restrictSet s)))"
| al_process: "al_step e s (OnProcessStatusChanged e uid pid bundleName isCreated s)"
| al_ready: "al_step e s (s\<lparr>isServiceReady := ready\<rparr>)"
| al_task: "i < length (svc_tasks s) \<Longrightarrow> svc_tasks s ! i = (task, due) \<Longrightarrow> due \<le> sv_bootTime e \<Longrightarrow>
     al_step e s (run_svc_task e task (s\<lparr>svc_tasks := take i (svc_tasks s) @ drop (Suc i) (svc_tasks s)\<rparr>))"

definition al_init :: "svc_state \<Rightarrow> bool" where
  "al_init s \<longleftrightarrow> allowInfoMap s = [] \<and> svc_effects s = []"

lemma al_inv_cong: "allowInfoMap s = allowInfoMap t \<Longrightarrow> al_inv s = al_inv t"
  by (simp add: al_inv_def)

lemma quiet_inv: "quiet s t \<Longrightarrow> al_inv t = al_inv s"
  by (simp add: quiet_def al_inv_def)

text \<open>What a step can do to the list: nothing, or one application or removal.\<close>

lemma ApplyAllowResource_cases:
  "snd (ApplyAllowResource e rq s) = s \<or>
   (\<exists>rq'. snd (ApplyAllowResource e rq s) = ApplyAllowResInner e rq' (callingPid e) s)"
  by (auto simp: ApplyAllowResource_def Let_def)

lemma UnapplyAllowResource_cases:
  "snd (UnapplyAllowResource e rq s) = s \<or>
   (\<exists>uid name a. snd (UnapplyAllowResource e rq s) = UnapplyAllowResInner e uid name a True s)"
  by (auto simp: UnapplyAllowResource_def Let_def)

lemma RemoveAppAllowRecord_cases:
  "snd (RemoveAppAllowRecord e uid name b s) = s \<or>
   (\<exists>a. snd (RemoveAppAllowRecord e uid name b s) = UnapplyAllowResInner e uid name a True s)"
  by (auto simp: RemoveAppAllowRecord_def Let_def)

lemma GetAllowList_quiet: "al_inv s \<Longrightarrow> quiet s (snd (snd (GetAllowList e a c s)))"
  using GetAllowListInner_result(2) [of s e a c "[]"]
  by (cases "GetAllowListInner e a c ([], s)") (auto simp: GetAllowList_def Let_def)

lemma GetEligiableRestrictSet_quiet:
  "al_inv s \<Longrightarrow> quiet s (snd (snd (GetEligiableRestrictSet e a st c rs s)))"
  using GetAllowListInner_result(2) [of s e a c "[]"]
  by (cases "GetAllowListInner e a c ([], s)") (auto simp: GetEligiableRestrictSet_def Let_def)

lemma OnProcessStatusChanged_quiet: "quiet s (OnProcessStatusChanged e u p n b s)"
  by (simp add: OnProcessStatusChanged_def DispatchEvent_def)

lemma run_svc_task_cases:
  obtains (silent) "allowInfoMap (run_svc_task e task s) = allowInfoMap s" "svc_tasks (run_svc_task e task s) = svc_tasks s"
      "svc_effects (run_svc_task e task s) = svc_effects s \<or>
       (\<exists>m. svc_effects (run_svc_task e task s) = svc_effects s @ [SE_HandleEvent m])"
      "\<And>uid name a ra. task \<noteq> ST_Unapply uid name a ra"
  | (unapply) uid name a ra where "run_svc_task e task s = UnapplyAllowResInner e uid name a ra s"
      "\<And>u n b c. task = ST_Unapply u n b c \<Longrightarrow> u = uid \<and> n = name \<and> b = a \<and> c = ra"
proof (cases task)
  case (ST_RemoveApp uid name)
  then show ?thesis
    using RemoveAppAllowRecord_cases [of e uid name True s]
    by (auto simp: run_svc_task_def intro: silent unapply)
next
  case (ST_UnapplyRecord key detached uid name)
  then show ?thesis
    by (cases detached; cases "map_of (allowInfoMap s) key")
      (auto simp: run_svc_task_def intro: silent unapply)
qed (auto simp: run_svc_task_def intro: silent unapply)

lemma al_step_cases:
  assumes "al_inv s" "al_step e s s'"
  obtains (same) "allowInfoMap s' = allowInfoMap s" "svc_effects s' = svc_effects s \<or>
       (\<exists>m. svc_effects s' = svc_effects s @ [SE_HandleEvent m])"
  | (applied) rq where "s' = ApplyAllowResInner e rq (callingPid e) s"
  | (removed) t uid name a ra where "s' = UnapplyAllowResInner e uid name a ra t"
      "allowInfoMap t = allowInfoMap s" "svc_effects t = svc_effects s"
  using assms(2)
proof cases
  case (al_apply rq)
  then show ?thesis
    using ApplyAllowResource_cases [of e rq s] by (auto intro: same applied)
next
  case (al_unapply rq)
  then show ?thesis
    using UnapplyAllowResource_cases [of e rq s] by (auto intro: same removed)
next
  case (al_remove_app uid name b)
  then show ?thesis
    using RemoveAppAllowRecord_cases [of e uid name b s] by (auto intro: same removed)
next
  case (al_get a c)
  then show ?thesis
    using GetAllowList_quiet [OF assms(1), of e a c] by (auto simp: quiet_def intro: same)
next
  case (al_restrict a st c rs)
  then show ?thesis
    using GetEligiableRestrictSet_quiet [OF assms(1), of e a st c rs] by (auto simp: quiet_def intro: same)
next
  case (al_task i task due)
  define t where "t = s\<lparr>svc_tasks := take i (svc_tasks s) @ drop (Suc i) (svc_tasks s)\<rparr>"
  have "s' = run_svc_task e task t" using al_task by (simp add: t_def)
  then show ?thesis
    by (cases rule: run_svc_task_cases [of e task t])
      (auto simp: t_def intro: same removed)
qed (auto intro: same)

lemma al_step_inv:
  assumes inv: "al_inv s" and step: "al_step e s s'"
  shows "al_inv s'"
  using inv step
proof (cases rule: al_step_cases)
  case same
  with inv al_inv_cong [OF same(1)] show ?thesis by simp
next
  case (applied rq)
  with inv show ?thesis by (simp add: ApplyAllowResInner_inv)
next
  case (removed t uid name a ra)
  with inv al_inv_cong [OF removed(2)] show ?thesis by (simp add: UnapplyAllowResInner_inv)
qed

lemma al_step_announced:
  assumes inv: "al_inv s" and step: "al_step e s s'"
  shows "\<exists>es. svc_effects s' = svc_effects s @ es \<and> exempt_types s' = fold replay_report es (exempt_types s)"
  using inv step
proof (cases rule: al_step_cases)
  case same
  from same(2) exempt_types_cong [OF same(1)] show ?thesis
    by (elim disjE) auto
next
  case (applied rq)
  with ApplyAllowResInner_announced [OF inv] show ?thesis by simp
next
  case (removed t uid name a ra)
  have "al_inv t" using inv al_inv_cong [OF removed(2)] by simp
  from UnapplyAllowResInner_announced [OF this, of e uid name a ra] exempt_types_cong [OF removed(2)]
  show ?thesis by (simp add: removed)
qed

interpretation al: announced_view al_init al_step al_inv svc_effects exempt_types replay_report
proof unfold_locales
  fix s assume "al_init s"
  then show "al_inv s" by (simp add: al_init_def al_inv_def)
qed (auto intro: al_step_inv al_step_announced)

section \<open>Every exemption has a pending removal\<close>

definition covered :: "svc_state \<Rightarrow> bool" where
  "covered s \<longleftrightarrow> (\<forall>uid name i et. grants s uid name i = Some et \<longrightarrow>
     (\<exists>a due. (ST_Unapply uid name a False, due) \<in> set (svc_tasks s) \<and> bit a (unat i) \<and> et \<le> due))"

lemma covered_mono:
  assumes "covered s"
    and "\<And>uid name i et. grants t uid name i = Some et \<Longrightarrow> grants s uid name i = Some et"
    and "\<And>uid name a due. (ST_Unapply uid name a False, due) \<in> set (svc_tasks s) \<Longrightarrow>
      (ST_Unapply uid name a False, due) \<in> set (svc_tasks t)"
  shows "covered t"
  using assms unfolding covered_def by blast

lemma grants_cong: "allowInfoMap s = allowInfoMap t \<Longrightarrow> grants s = grants t"
  by (intro ext) (simp add: grants_def times_at_def)

lemma revoked_SomeD: "revoked a ra now g i = Some et \<Longrightarrow> g i = Some et"
  by (auto simp: revoked_def split: option.splits if_splits)

lemma covered_quiet: "quiet s t \<Longrightarrow> covered s \<Longrightarrow> covered t"
  using grants_cong [of t s] by (elim covered_mono) (auto simp: quiet_def)

lemma covered_unapply:
  assumes "al_inv s" "covered s"
  shows "covered (UnapplyAllowResInner e uid name a ra s)"
  using assms(2)
proof (rule covered_mono)
  show "grants (UnapplyAllowResInner e uid name a ra s) u n i = Some et \<Longrightarrow> grants s u n i = Some et" for u n i et
    by (auto simp: UnapplyAllowResInner_grants [OF assms(1)] dest: revoked_SomeD split: if_splits)
qed (simp add: UnapplyAllowResInner_pending [OF assms(1)])

lemma covered_apply:
  assumes inv: "al_inv s" and cov: "covered s"
  shows "covered (ApplyAllowResInner e rq pid s)"
  unfolding covered_def
proof (intro allI impI)
  fix uid name i et
  let ?s = "ApplyAllowResInner e rq pid s"
  let ?new = "sv_bootTime e + max_duration_of e rq i"
  assume g: "grants ?s uid name i = Some et"
  show "\<exists>a due. (ST_Unapply uid name a False, due) \<in> set (svc_tasks ?s) \<and> bit a (unat i) \<and> et \<le> due"
  proof (cases "grants s uid name i = Some et")
    case True
    with cov show ?thesis
      unfolding covered_def by (simp add: ApplyAllowResInner_result(3) [OF inv]) blast
  next
    case False
    with g have new: "uid = rq_uid rq" "name = rq_name rq" "i < 7" "active e rq i" "et = ?new"
      by (auto simp: ApplyAllowResInner_grants [OF inv] granted_until_def max_def split: if_splits option.splits)
    have "(ST_Unapply uid name (rq_allowType rq) False, ?new) \<in> set (applied_tasks e rq)"
      using new by (auto simp: applied_tasks_def set_type_indices posted_by_def)
    then have "(ST_Unapply uid name (rq_allowType rq) False, ?new) \<in> set (svc_tasks ?s)"
      by (simp add: ApplyAllowResInner_result(3) [OF inv])
    moreover have "bit (rq_allowType rq) (unat i)"
      using new by (simp add: active_def)
    ultimately show ?thesis
      using new(5) by blast
  qed
qed

text \<open>A task that is due removes whatever it covered.\<close>

lemma covered_task:
  assumes inv: "al_inv s" and cov: "covered s"
    and i: "i < length (svc_tasks s)" "svc_tasks s ! i = (task, due)" "due \<le> sv_bootTime e"
  defines "t \<equiv> s\<lparr>svc_tasks := take i (svc_tasks s) @ drop (Suc i) (svc_tasks s)\<rparr>"
  shows "covered (run_svc_task e task t)"
proof -
  have tasks: "set (svc_tasks s) = insert (task, due) (set (svc_tasks t))"
    using id_take_nth_drop [OF i(1)] i(2) by (simp add: t_def) (metis list.set(2) set_append Un_insert_right)
  have gt: "grants t = grants s" by (rule grants_cong) (simp add: t_def)
  have inv': "al_inv t" using inv by (simp add: t_def al_inv_def)
  show ?thesis
  proof (cases rule: run_svc_task_cases [of e task t])
    case silent
    have "covered t"
      using cov unfolding covered_def gt tasks using silent(4) by blast
    then show ?thesis
      using grants_cong [OF silent(1)] silent(2) by (elim covered_mono) simp_all
  next
    case (unapply uid name a ra)
    show ?thesis
      unfolding covered_def
    proof (intro allI impI)
      fix u n j et
      assume g: "grants (run_svc_task e task t) u n j = Some et"
      have g': "grants s u n j = Some et"
        using g by (auto simp: unapply(1) UnapplyAllowResInner_grants [OF inv'] gt dest: revoked_SomeD split: if_splits)
      then obtain b d where b: "(ST_Unapply u n b False, d) \<in> set (svc_tasks s)" "bit b (unat j)" "et \<le> d"
        using cov unfolding covered_def by blast
      have "(ST_Unapply u n b False, d) \<noteq> (task, due)"
      proof
        assume eq: "(ST_Unapply u n b False, d) = (task, due)"
        then have "u = uid" "n = name" "b = a" "d \<le> sv_bootTime e"
          using unapply(2) [of u n b False] i(3) by auto
        then have "grants (run_svc_task e task t) u n j = None"
          using b g' by (simp add: unapply(1) UnapplyAllowResInner_grants [OF inv'] gt revoked_def)
        with g show False by simp
      qed
      with b show "\<exists>a due. (ST_Unapply u n a False, due) \<in> set (svc_tasks (run_svc_task e task t)) \<and>
          bit a (unat j) \<and> et \<le> due"
        by (auto simp: unapply(1) UnapplyAllowResInner_pending [OF inv'] tasks)
    qed
  qed
qed

lemma al_step_covered:
  assumes inv: "al_inv s" and cov: "covered s" and step: "al_step e s s'"
  shows "covered s'"
  using step
proof cases
  case (al_apply rq)
  then show ?thesis
    using ApplyAllowResource_cases [of e rq s] covered_apply [OF inv cov] cov by auto
next
  case (al_unapply rq)
  then show ?thesis
    using UnapplyAllowResource_cases [of e rq s] covered_unapply [OF inv cov] cov by auto
next
  case (al_remove_app uid name b)
  then show ?thesis
    using RemoveAppAllowRecord_cases [of e uid name b s] covered_unapply [OF inv cov] cov by auto
next
  case (al_get a c)
  then show ?thesis
    using covered_quiet [OF GetAllowList_quiet [OF inv, of e a c] cov] by simp
next
  case (al_restrict a st c rs)
  then show ?thesis
    using covered_quiet [OF GetEligiableRestrictSet_quiet [OF inv, of e a st c rs] cov] by simp
next
  case (al_process uid pid name b)
  then show ?thesis
    using covered_quiet [OF OnProcessStatusChanged_quiet [of s e uid pid name b] cov] by simp
next
  case (al_ready r)
  from cov show ?thesis
    unfolding al_ready by (rule covered_mono) (simp_all add: grants_def times_at_def)
next
  case (al_task i task due)
  then show ?thesis using covered_task [OF inv cov] by simp
qed

interpretation al_cover: invariant_system al_init al_step "\<lambda>s. al_inv s \<and> covered s"
proof unfold_locales
  fix s assume "al_init s"
  then show "al_inv s \<and> covered s"
    by (simp add: al_init_def al_inv_def covered_def grants_def times_at_def)
qed (auto intro: al_step_inv al_step_covered)

end
