(* ===== verification/Allow_Props.thy ===== *)
theory Allow_Props
  imports Allow_Steps
begin

text \<open>
  The properties of the exemption list: what an application grants and to whom, what a removal
  revokes, that the announcements mirror the list, that every exemption ends, what the queries
  answer, and what survives a restart. The witnesses run the operations on a small
  configuration.
\<close>

section \<open>Properties\<close>

text \<open>C22: In every reachable state the list is well formed: distinct keys made of the uid and
  the name of their record, at most one end time per type, valid types only, and an
  allowType field that is the nonempty union of the types that have an end time.\<close>

theorem allow_list_wf: "reachable al_init al_step s \<Longrightarrow> al_inv s"
  by (rule al.reachable_inv)

text \<open>C8: Applying a request refines the table of end times: for each requested type whose
  capped duration is positive the end time becomes the later of the old one and now plus
  that duration, and nothing else changes for any process.\<close>

theorem apply_grants:
  assumes "al_inv s"
  shows "grants (ApplyAllowResInner e rq pid s) uid name i =
    (if uid = rq_uid rq \<and> name = rq_name rq \<and> i < 7 \<and> bit (rq_allowType rq) (unat i) \<and>
        max_duration_of e rq i > 0
     then Some (case grants s uid name i of
            None \<Rightarrow> sv_bootTime e + max_duration_of e rq i
          | Some old \<Rightarrow> max old (sv_bootTime e + max_duration_of e rq i))
     else grants s uid name i)"
  by (simp add: ApplyAllowResInner_grants [OF assms] granted_until_def active_def split: option.split)

text \<open>C9: Unapplying removes from the table exactly the requested types of the process that have
  expired, or all requested ones when everything is to be removed, and leaves every other
  end time as it was.\<close>

theorem unapply_revokes:
  assumes "al_inv s"
  shows "grants (UnapplyAllowResInner e uid name allowType remove_all s) u n i =
    (case grants s u n i of
       None \<Rightarrow> None
     | Some et \<Rightarrow>
         if u = uid \<and> n = name \<and> bit allowType (unat i) \<and> (remove_all \<or> sv_bootTime e \<ge> et)
         then None else Some et)"
  by (auto simp: UnapplyAllowResInner_grants [OF assms] revoked_def split: option.split)

text \<open>C14: Over any sequence of requests, queries and due tasks, replaying the
  ReportAllowListChanged calls that were made gives exactly the bit set of exempted types of
  every process: no change of the list is lost, doubled or announced with the wrong bits.\<close>

theorem announcements_mirror_list:
  assumes "run al_step s ls t" "al_inv s"
  shows "\<exists>es. svc_effects t = svc_effects s @ es \<and> exempt_types t = fold replay_report es (exempt_types s)"
  using assms by (rule al.run_announced)


text \<open>When the process of an application ends, all its exemptions go except TIMER and
  WORK_SCHEDULER; when the application is uninstalled those two go as well; no other process
  is affected.\<close>

theorem remove_app_keeps:
  assumes "al_inv s" "isServiceReady s"
  shows "grants (snd (RemoveAppAllowRecord e uid name resetAll s)) u n i =
    (if u = uid \<and> n = name \<and> \<not> (\<not> resetAll \<and> (i = 2 \<or> i = 3)) then None else grants s u n i)"
proof -
  have small: "i < 7" if g: "grants s u n i = Some et" for et
  proof (cases "map_of (allowInfoMap s) (uid_key u n)")
    case (Some r)
    then have "record_ok (uid_key u n) r"
      using assms(1) by (rule al_inv_record [rotated])
    moreover have "i \<in> allowTypeIndex ` set (allowTimeList r)"
      using g Some by (metis end_of_eq_None grants_def option.distinct(1) option.simps(5) times_at_def)
    ultimately show ?thesis
      by (auto simp: record_ok_def times_wf_def)
  qed (use g in \<open>simp add: grants_def times_at_def\<close>)
  define a where "a = (if resetAll then MAX_ALLOW_TYPE_NUMBER else MAX_ALLOW_TYPE_NUMBER XOR TIMER XOR WORK_SCHEDULER)"
  have bits: "bit a (unat i) \<longleftrightarrow> resetAll \<or> (i \<noteq> 2 \<and> i \<noteq> 3)" if "i < 7"
  proof -
    have "i \<in> set type_indices" using that by (simp add: set_type_indices)
    then show ?thesis
      by (cases resetAll) (auto simp: type_indices_val a_def TIMER_def WORK_SCHEDULER_def)
  qed
  show ?thesis
    using small bits
    by (auto simp: RemoveAppAllowRecord_def assms(2) a_def [symmetric] Let_def
        UnapplyAllowResInner_grants [OF assms(1)] revoked_def split: option.split)
qed

text \<open>The list of resource numbers of an application, as a bit set.\<close>

lemma bit_exempted_types:
  "bit (exempted_types l) n \<longleftrightarrow> (\<exists>r \<in> set l. 100 < r \<and> r \<le> 108 \<and> n = unat (r - 101))"
proof -
  define f where "f = (\<lambda>(r :: u32) (acc :: u32).
      if r \<le> EXEMPT_ALL_RESOURCES \<or> r > EXEMPT_ALL_RESOURCES + of_nat MAX_ALLOW_TYPE_NUM + 1 then acc
      else acc OR push_bit (unat (r - EXEMPT_ALL_RESOURCES - 1)) 1)"
  have small: "unat (r - 101) < 32" if "100 < r" "r \<le> 108" for r :: u32
    using that by unat_arith
  have f: "bit (f r acc) n \<longleftrightarrow> bit acc n \<or> 100 < r \<and> r \<le> 108 \<and> n = unat (r - 101)" for r acc
    using small [of r]
    by (auto simp: f_def EXEMPT_ALL_RESOURCES_def not_le not_less bit_simps simp del: push_bit_of_1)
  have "bit (fold f l a) n \<longleftrightarrow> bit a n \<or> (\<exists>r \<in> set l. 100 < r \<and> r \<le> 108 \<and> n = unat (r - 101))" for a
    by (induction l arbitrary: a) (auto simp: f)
  then show ?thesis by (simp add: exempted_types_def f_def)
qed

text \<open>C17: When a request of an application changes any exemption, the caller holds the
  exemption permission, is a system application, used the application reason code, asked for
  that type, and its bundle declares that resource number or all resources.\<close>

theorem hap_grants_authorised:
  assumes "al_inv s" "tokenIsHap e"
    and "grants (snd (ApplyAllowResource e rq s)) uid name i \<noteq> grants s uid name i"
  shows "exemptionPermission e \<and> callerIsSystemApp e \<and> rq_reasonCode rq = REASON_APP_API \<and>
    bit (rq_allowType rq) (unat i) \<and>
    (\<exists>r \<in> set (QueryRunningResourcesApply e (callingUid e) (clientBundleName e (callingUid e))).
       r = 100 \<or> r = i + 101)"
proof -
  let ?l = "QueryRunningResourcesApply e (callingUid e) (clientBundleName e (callingUid e))"
  let ?a = "GetExemptedResourceType e (rq_allowType rq)"
  have ok: "CheckCallerPermission e (rq_reasonCode rq) = ERR_OK"
    and inner: "snd (ApplyAllowResource e rq s) =
      ApplyAllowResInner e (rq\<lparr>rq_allowType := ?a\<rparr>) (callingPid e) s"
    using assms(2,3) by (auto simp: ApplyAllowResource_def Let_def split: if_splits)
  from ok assms(2) have perm: "exemptionPermission e" "callerIsSystemApp e" "rq_reasonCode rq = REASON_APP_API"
    by (auto simp: CheckCallerPermission_def IsSystemAppWithPermission_def split: if_splits)
  have "i < 7" "bit ?a (unat i)"
    using assms(3) unfolding inner
    by (auto simp: apply_grants [OF assms(1)] split: if_splits)
  then have "?l \<noteq> []" "bit (rq_allowType rq) (unat i)"
      "100 \<in> set ?l \<or> (\<exists>r \<in> set ?l. 100 < r \<and> r \<le> 108 \<and> unat i = unat (r - 101))"
    by (auto simp: GetExemptedResourceType_def Let_def EXEMPT_ALL_RESOURCES_def bit_and_iff bit_exempted_types
        split: if_splits)
  then show ?thesis
    using perm by (auto simp: word_eq_iff_unsigned [where 'a = nat, symmetric])
qed

section \<open>Queries\<close>

text \<open>A query for a type reports exactly the unexpired exemptions of the requested reason
  code, each with the remaining milliseconds cut to 32 bits.\<close>

theorem temporary_list_content:
  assumes "al_inv s" "i < 7"
  shows "set (fst (GetTemporaryAllowList e i reasonCode ([], s))) =
    {\<lparr> ai_allowType = type_bit i, ai_name = name, ai_duration = narrow32 (et - sv_bootTime e) \<rparr> | uid name et r.
       grants s uid name i = Some et \<and> et > sv_bootTime e \<and>
       map_of (allowInfoMap s) (uid_key uid name) = Some r \<and> ar_reasonCode r = reasonCode}"
    (is "?l = ?r")
proof
  have d: "distinct (map fst (allowInfoMap s))" using assms(1) by (simp add: al_inv_def)
  have l: "?l = set (temporary_infos e i reasonCode (allowInfoMap s))"
    by (simp add: GetTemporaryAllowList_result [OF al_inv_wf [OF assms(1)] assms(2)])
  show "?l \<subseteq> ?r"
  proof
    fix x assume "x \<in> ?l"
    then obtain key r et where r: "(key, r) \<in> set (allowInfoMap s)" "end_of (allowTimeList r) i = Some et"
        "ar_reasonCode r = reasonCode" "et > sv_bootTime e"
        "x = \<lparr> ai_allowType = type_bit i, ai_name = ar_name r, ai_duration = narrow32 (et - sv_bootTime e) \<rparr>"
      unfolding l temporary_infos_def by (force split: option.splits if_splits)
    have m: "map_of (allowInfoMap s) key = Some r"
      using d r(1) by simp
    moreover have "key = uid_key (ar_uid r) (ar_name r)"
      using al_inv_record [OF assms(1) m] by (simp add: record_ok_def)
    ultimately have "grants s (ar_uid r) (ar_name r) i = Some et"
      using r(2) by (simp add: grants_def times_at_def)
    with r m \<open>key = uid_key (ar_uid r) (ar_name r)\<close> show "x \<in> ?r" by auto
  qed
  show "?r \<subseteq> ?l"
  proof
    fix x assume "x \<in> ?r"
    then obtain uid name et r where r: "grants s uid name i = Some et" "et > sv_bootTime e"
        "map_of (allowInfoMap s) (uid_key uid name) = Some r" "ar_reasonCode r = reasonCode"
        "x = \<lparr> ai_allowType = type_bit i, ai_name = name, ai_duration = narrow32 (et - sv_bootTime e) \<rparr>"
      by blast
    have "name = ar_name r"
      using al_inv_record [OF assms(1) r(3)] by (simp add: record_ok_def)
    moreover have "end_of (allowTimeList r) i = Some et"
      using r(1,3) by (simp add: grants_def times_at_def)
    moreover have "(uid_key uid name, r) \<in> set (allowInfoMap s)"
      using r(3) by (rule map_of_SomeD)
    ultimately show "x \<in> ?l"
      unfolding l temporary_infos_def using r by force
  qed
qed

text \<open>The restricted names of a strategy are the configured ones that are not exempted at
  the moment, added to the set the caller passes in.\<close>

theorem restrict_set_content:
  assumes "al_inv s"
  shows "set (fst (snd (GetEligiableRestrictSet e allowType strategyName reasonCode restrictSet s))) =
    set restrictSet \<union>
    (set (GetEligiblePersistAllowConfig (sv_cfg e) strategyName (GetCondition (sv_te e) 0) False
            (reasonCode = REASON_APP_API)) -
     ai_name ` set (allow_infos e allowType reasonCode (allowInfoMap s)))"
  using GetAllowListInner_result(1) [OF assms, of e allowType reasonCode "[]"]
  by (cases "GetAllowListInner e allowType reasonCode ([], s)")
    (auto simp: GetEligiableRestrictSet_def Let_def)

section \<open>Restart\<close>

lemma set_std_insert_new: "fst x \<notin> fst ` set S \<Longrightarrow> set (std_insert fst x S) = insert x (set S)"
  by (induction "fst :: 'a \<times> 'b \<Rightarrow> 'a" x S rule: std_insert.induct) auto

lemma std_insert_map_values:
  "std_insert fst (k, h v) (map (\<lambda>(k, v). (k, h v)) S) = map (\<lambda>(k, v). (k, h v)) (std_insert fst (k, v) S)"
  by (induction S) auto

text \<open>The entries of the map in the order of the stored object.\<close>

definition sorted_entries :: "(string \<times> 'a) list \<Rightarrow> (string \<times> 'a) list" where
  "sorted_entries m = fold (std_insert fst) m []"

lemma fold_std_insert_props:
  "distinct (map fst m) \<Longrightarrow> fst ` set m \<inter> fst ` set S = {} \<Longrightarrow> std_set fst S \<Longrightarrow>
   set (fold (std_insert fst) m S) = set m \<union> set S \<and> std_set fst (fold (std_insert fst) m S)"
proof (induction m arbitrary: S)
  case (Cons x m)
  have "set (std_insert fst x S) = insert x (set S)"
    using Cons.prems by (intro set_std_insert_new) auto
  moreover have "fst ` set m \<inter> fst ` set (std_insert fst x S) = {}"
    using Cons.prems by auto
  ultimately show ?case
    using Cons.IH [of "std_insert fst x S"] Cons.prems by (auto intro: std_insert_sorted)
qed simp

lemma std_set_distinct: "std_set f S \<Longrightarrow> distinct (map f S)"
  by (simp add: strict_sorted_iff)

lemma sorted_entries_props:
  assumes "distinct (map fst m)"
  shows "distinct (map fst (sorted_entries m))" "map_of (sorted_entries m) = map_of m"
proof -
  have "set (sorted_entries m) = set m \<and> std_set fst (sorted_entries m)"
    using fold_std_insert_props [OF assms, of "[]"] by (simp add: sorted_entries_def)
  then show d: "distinct (map fst (sorted_entries m))" and "map_of (sorted_entries m) = map_of m"
    using assms std_set_distinct [of fst "sorted_entries m"] by (auto simp: map_of_inject_set)
qed

lemma items_dump_json:
  assumes "m \<noteq> []"
  shows "items (dump_json m) = map (\<lambda>(k, r). (k, ParseToJson r)) (sorted_entries m)"
proof -
  have "fold (\<lambda>(k, r). std_insert fst (k, ParseToJson r)) m (map (\<lambda>(k, r). (k, ParseToJson r)) S) =
      map (\<lambda>(k, r). (k, ParseToJson r)) (fold (std_insert fst) m S)" for S
    by (induction m arbitrary: S) (auto simp: std_insert_map_values)
  from this [of "[]"] show ?thesis
    using assms by (simp add: dump_json_def sorted_entries_def)
qed

lemma load_entries:
  assumes "distinct (map fst l)" "fst ` set l \<inter> fst ` set m = {}"
    and "\<forall>(k, r) \<in> set l. ParseFromJson (ParseToJson r) = Some r"
  shows "fold (\<lambda>(key, value) m. case ParseFromJson value of None \<Rightarrow> m | Some r \<Rightarrow> emplace key r m)
      (map (\<lambda>(k, r). (k, ParseToJson r)) l) m = m @ l"
  using assms
proof (induction l arbitrary: m)
  case (Cons x l)
  obtain k r where x: "x = (k, r)" by (cases x)
  have "emplace k r m = m @ [x]"
    using Cons.prems by (auto simp: emplace_def x)
  then show ?case
    using Cons.IH [of "m @ [x]"] Cons.prems by (auto simp: x)
qed simp

lemma erase_dead:
  "map_of (allowInfoMap (fold (\<lambda>(key, r) s. if P r then s else erase_record key s) l s)) key =
     (if \<exists>r. (key, r) \<in> set l \<and> \<not> P r then None else map_of (allowInfoMap s) key)"
  by (induction l arbitrary: s) (auto simp: AList.delete_conv')

lemma Recover_map: "allowInfoMap (RecoverTimeLimitedTask e s) = allowInfoMap s"
proof -
  have inner: "allowInfoMap (fold (\<lambda>t s. svc_post e (g t) (d t) s) ts s) = allowInfoMap s" for g d s
    and ts :: "AllowTime list"
    by (induction ts arbitrary: s) simp_all
  have "allowInfoMap (fold (\<lambda>(key, r) s. fold (\<lambda>t s. svc_post e (g r t) (d r t) s) (allowTimeList r) s) m s) =
      allowInfoMap s" for g d s and m :: "(string \<times> AllowRecord) list"
    by (induction m arbitrary: s) (auto simp: inner)
  then show ?thesis
    unfolding RecoverTimeLimitedTask_def Let_def .
qed

text \<open>What a restart restores from the value that was written.\<close>

lemma restored_list:
  assumes "al_inv s0" "allowInfoMap s0 \<noteq> []"
    and "\<forall>(k, r) \<in> set (allowInfoMap s0). \<forall>t \<in> set (allowTimeList r). int64_range (endTime t)"
    and "GetPidAndProcName e \<noteq> []" "allowInfoMap s = []"
  shows "map_of (allowInfoMap (snd (ParsePersistentData e (Some (dump_json (allowInfoMap s0))) s))) key =
    (case map_of (allowInfoMap s0) key of
       None \<Rightarrow> None
     | Some r \<Rightarrow> if map_of (GetPidAndProcName e) (ar_pid r) = Some (ar_name r) then Some r else None)"
proof -
  define m where "m = allowInfoMap s0"
  define P where "P = (\<lambda>r :: AllowRecord. map_of (GetPidAndProcName e) (ar_pid r) = Some (ar_name r))"
  have d: "distinct (map fst m)" using assms(1) by (simp add: m_def al_inv_def)
  note l = sorted_entries_props [OF d]
  have "set (sorted_entries m) = set m"
    using d l by (simp add: map_of_inject_set)
  then have parse: "\<forall>(k, r) \<in> set (sorted_entries m). ParseFromJson (ParseToJson r) = Some r"
    using assms(3) by (auto simp: m_def ParseFromJson_ParseToJson)
  let ?s = "s\<lparr>allowInfoMap := sorted_entries m\<rparr>"
  have load: "fold (\<lambda>(key, value) m. case ParseFromJson value of None \<Rightarrow> m | Some r \<Rightarrow> emplace key r m)
      (items (dump_json m)) (allowInfoMap s) = sorted_entries m"
    using load_entries [OF l(1) _ parse, of "[]"] assms(2,5) by (simp add: items_dump_json m_def)
  have "allowInfoMap (snd (ParsePersistentData e (Some (dump_json m)) s)) =
      allowInfoMap (fold (\<lambda>(key, r) s. if P r then s else erase_record key s) (sorted_entries m) ?s)"
    using assms(4) by (simp add: ParsePersistentData_def Let_def load Recover_map P_def)
  moreover have "(key, r) \<in> set (sorted_entries m) \<longleftrightarrow> map_of m key = Some r" for r
    using l d by (metis map_of_eq_Some_iff)
  ultimately show ?thesis
    by (auto simp: m_def [symmetric] P_def erase_dead l split: option.split)
qed

section \<open>Witnesses\<close>

definition demo_sv_cfg :: config_state where
  "demo_sv_cfg = config_init\<lparr>defaultResourceConfigMap :=
     [(''NETWORK'', [\<lparr> cfg_isAllow = True, conditions = [DAY_STANDBY, NIGHT_STANDBY], processes = [], apps = [],
        timeLtdProcesses = [\<lparr> ltd_name = ''push'', maxDurationLim = 600 \<rparr>], timeLtdApps = [] \<rparr>])]\<rparr>"

definition demo_sv :: svc_env where
  "demo_sv = \<lparr> sv_te = demo_time, sv_cfg = demo_sv_cfg, callingUid = 1000, callingPid = 77, tokenIsHap = False,
     exemptionPermission = True, callerIsSystemApp = True, clientBundleName = (\<lambda>u. ''push''),
     resourcesApplyOf = (\<lambda>n u. Some [101, 104]), runningProcesses = Some [(77, ''push'')],
     systemProcesses = None, sv_curState = SLEEP \<rparr>"

definition demo_rq :: ResourceRequest where
  "demo_rq = \<lparr> rq_allowType = 9, rq_uid = 1000, rq_name = ''push'', rq_duration = 3600, rq_reason = ''mail'',
     rq_reasonCode = 0 \<rparr>"

definition demo_al0 :: svc_state where
  "demo_al0 = \<lparr> isServiceReady = True, allowInfoMap = [], svc_tasks = [], svc_effects = [] \<rparr>"

definition demo_al1 :: svc_state where
  "demo_al1 = snd (ApplyAllowResource demo_sv demo_rq demo_al0)"

lemma demo_al0_inv: "al_inv demo_al0"
  by (simp add: demo_al0_def al_inv_def)

lemma demo_al1_apply: "demo_al1 = ApplyAllowResInner demo_sv demo_rq 77 demo_al0"
  by (simp add: demo_al1_def ApplyAllowResource_def demo_al0_def CheckCallerPermission_def demo_sv_def
      demo_rq_def CheckAllowTypeInfo_def)

lemma demo_al1_inv: "al_inv demo_al1"
  unfolding demo_al1_apply by (rule ApplyAllowResInner_inv [OF demo_al0_inv])

lemma demo_duration:
  "max_duration_of demo_sv demo_rq 0 = 600000" "max_duration_of demo_sv demo_rq 3 = 3600000"
  "sv_bootTime demo_sv = 700"
  by (simp_all add: max_duration_of_def demo_rq_def demo_sv_def demo_sv_cfg_def WORK_SCHEDULER_def type_bit_def
      AllowTypeName_def GetMaxDuration_first eligible_def isEligible_def smin_def MSEC_PER_SEC_def
      sv_bootTime_def demo_time_def GetCondition_def REASON_APP_API_def DAY_STANDBY_def NIGHT_STANDBY_def
      curSecTimeStamp_def split_time_def)

lemma demo_al0_grants: "grants demo_al0 u n i = None"
  by (simp add: demo_al0_def grants_def times_at_def)

lemma demo_rq_simps:
  "rq_uid demo_rq = 1000" "rq_name demo_rq = ''push''" "rq_allowType demo_rq = 9"
  "rq_reason demo_rq = ''mail''" "rq_reasonCode demo_rq = 0"
  by (simp_all add: demo_rq_def)

lemma demo_al1_map:
  "allowInfoMap demo_al1 = [(uid_key 1000 ''push'',
     \<lparr> ar_uid = 1000, ar_pid = 77, ar_name = ''push'', ar_allowType = 9,
       allowTimeList = [\<lparr> allowTypeIndex = 0, endTime = 600700, at_reason = ''mail'' \<rparr>,
         \<lparr> allowTypeIndex = 3, endTime = 3600700, at_reason = ''mail'' \<rparr>], ar_reasonCode = 0 \<rparr>)]"
proof -
  have "applied_record demo_sv demo_rq 77 demo_al0 =
     \<lparr> ar_uid = 1000, ar_pid = 77, ar_name = ''push'', ar_allowType = 9,
       allowTimeList = [\<lparr> allowTypeIndex = 0, endTime = 600700, at_reason = ''mail'' \<rparr>,
         \<lparr> allowTypeIndex = 3, endTime = 3600700, at_reason = ''mail'' \<rparr>], ar_reasonCode = 0 \<rparr>"
    by (simp add: applied_record_def prior_record_def demo_al0_def type_indices_val upd_rec_def active_def
        demo_rq_simps demo_duration type_bit_def)
  then show ?thesis
    by (simp add: demo_al1_apply ApplyAllowResInner_result(1) [OF demo_al0_inv] demo_rq_simps)
      (simp add: demo_al0_def)
qed

lemma demo_al1_grants:
  "grants demo_al1 1000 ''push'' 0 = Some 600700" "grants demo_al1 1000 ''push'' 3 = Some 3600700"
  unfolding demo_al1_apply
  by (simp_all add: ApplyAllowResInner_grants [OF demo_al0_inv] demo_al0_grants granted_until_def active_def
      demo_duration demo_rq_simps)

lemma demo_al0_init: "al_init demo_al0"
  by (simp add: demo_al0_def al_init_def)

lemma demo_al1_reachable: "reachable al_init al_step demo_al1"
  unfolding demo_al1_def
  by (rule reachable_step [where l = demo_sv], rule reachable_init, rule demo_al0_init, rule al_apply)

theorem allow_list_wf_witness: "al_inv demo_al1"
  by (rule allow_list_wf) (rule demo_al1_reachable)

theorem apply_grants_witness:
  "grants (ApplyAllowResInner demo_sv demo_rq 77 demo_al1) 1000 ''push'' 3 = Some 3600700"
  by (subst apply_grants [OF demo_al1_inv])
    (simp add: demo_al1_grants demo_duration demo_rq_simps)

theorem unapply_revokes_witness:
  "grants (UnapplyAllowResInner demo_sv 1000 ''push'' 9 True demo_al1) 1000 ''push'' 0 = None \<and>
   grants (UnapplyAllowResInner demo_sv 1000 ''push'' 9 False demo_al1) 1000 ''push'' 3 = Some 3600700"
  using unapply_revokes [OF demo_al1_inv, of demo_sv 1000 "''push''" 9 True 1000 "''push''" 0]
    unapply_revokes [OF demo_al1_inv, of demo_sv 1000 "''push''" 9 False 1000 "''push''" 3]
  by (simp add: demo_al1_grants demo_duration)

theorem announcements_mirror_list_witness:
  "\<exists>es. svc_effects demo_al1 = svc_effects demo_al0 @ es \<and>
    exempt_types demo_al1 = fold replay_report es (exempt_types demo_al0)"
proof (rule announcements_mirror_list)
  show "run al_step demo_al0 [demo_sv] demo_al1"
    unfolding demo_al1_def by (rule run_cons, rule al_apply, rule run_nil)
qed (rule demo_al0_inv)


theorem remove_app_keeps_witness:
  "grants (snd (RemoveAppAllowRecord demo_sv 1000 ''push'' False (demo_al1\<lparr>isServiceReady := True\<rparr>)))
     1000 ''push'' 0 = None"
  using remove_app_keeps [of "demo_al1\<lparr>isServiceReady := True\<rparr>" demo_sv 1000 "''push''" False 1000 "''push''" 0]
    demo_al1_inv by (simp add: al_inv_def)

definition demo_hap :: svc_env where
  "demo_hap = demo_sv\<lparr>tokenIsHap := True\<rparr>"

theorem hap_grants_authorised_witness:
  "\<exists>r \<in> set (QueryRunningResourcesApply demo_hap 1000 ''push''). r = 100 \<or> r = 104"
proof -
  let ?rq = "demo_rq\<lparr>rq_reasonCode := 1\<rparr>"
  have "GetExemptedResourceType demo_hap 9 = 9"
    by (simp add: GetExemptedResourceType_def demo_hap_def demo_sv_def QueryRunningResourcesApply_def
        EXEMPT_ALL_RESOURCES_def exempted_types_def Let_def)
  then have "snd (ApplyAllowResource demo_hap ?rq demo_al0) = ApplyAllowResInner demo_hap ?rq 77 demo_al0"
    by (simp add: ApplyAllowResource_def demo_al0_def CheckCallerPermission_def IsSystemAppWithPermission_def
        REASON_APP_API_def demo_hap_def demo_sv_def demo_rq_def CheckAllowTypeInfo_def)
  then have "grants (snd (ApplyAllowResource demo_hap ?rq demo_al0)) 1000 ''push'' 3 \<noteq> None"
    by (simp add: ApplyAllowResInner_grants [OF demo_al0_inv] granted_until_def active_def demo_al0_grants
        max_duration_of_def demo_rq_def WORK_SCHEDULER_def type_bit_def MSEC_PER_SEC_def)
  then have "grants (snd (ApplyAllowResource demo_hap ?rq demo_al0)) 1000 ''push'' 3 \<noteq> grants demo_al0 1000 ''push'' 3"
    by (simp add: demo_al0_grants)
  from hap_grants_authorised [OF demo_al0_inv _ this] show ?thesis
    by (simp add: demo_hap_def demo_sv_def)
qed

theorem temporary_list_content_witness:
  "\<lparr> ai_allowType = 1, ai_name = ''push'', ai_duration = 600000 \<rparr> \<in>
     set (fst (GetTemporaryAllowList demo_sv 0 0 ([], demo_al1)))"
  by (subst temporary_list_content [OF demo_al1_inv], simp)
    (rule CollectI, rule exI [of _ 1000], rule exI [of _ "''push''"], rule exI [of _ 600700],
      simp add: demo_al1_grants demo_duration demo_al1_map type_bit_def narrow32_def)

theorem restrict_set_content_witness:
  "set (fst (snd (GetEligiableRestrictSet demo_sv 0 ''NETWORK'' 0 [''x''] demo_al1))) = {''x''}"
  by (subst restrict_set_content [OF demo_al1_inv])
    (simp add: demo_sv_def demo_sv_cfg_def GetEligiblePersistAllowConfig_range eligible_def)

section \<open>A long exemption\<close>

definition long_rq :: ResourceRequest where
  "long_rq = demo_rq\<lparr>rq_allowType := 8, rq_duration := 2147484\<rparr>"

lemma long_rq_simps:
  "rq_uid long_rq = 1000" "rq_name long_rq = ''push''" "rq_allowType long_rq = 8"
  "rq_reason long_rq = ''mail''" "rq_reasonCode long_rq = 0" "rq_duration long_rq = 2147484"
  by (simp_all add: long_rq_def demo_rq_def)

lemma long_map:
  "allowInfoMap (snd (ApplyAllowResource demo_sv long_rq demo_al0)) = [(uid_key 1000 ''push'',
     \<lparr> ar_uid = 1000, ar_pid = 77, ar_name = ''push'', ar_allowType = 8,
       allowTimeList = [\<lparr> allowTypeIndex = 3, endTime = 2147484700, at_reason = ''mail'' \<rparr>],
       ar_reasonCode = 0 \<rparr>)]"
proof -
  have inner: "snd (ApplyAllowResource demo_sv long_rq demo_al0) = ApplyAllowResInner demo_sv long_rq 77 demo_al0"
    by (simp add: ApplyAllowResource_def demo_al0_def CheckCallerPermission_def demo_sv_def
        long_rq_simps CheckAllowTypeInfo_def)
  have "max_duration_of demo_sv long_rq 3 = 2147484000"
    by (simp add: max_duration_of_def long_rq_simps WORK_SCHEDULER_def type_bit_def MSEC_PER_SEC_def)
  then have "applied_record demo_sv long_rq 77 demo_al0 =
     \<lparr> ar_uid = 1000, ar_pid = 77, ar_name = ''push'', ar_allowType = 8,
       allowTimeList = [\<lparr> allowTypeIndex = 3, endTime = 2147484700, at_reason = ''mail'' \<rparr>],
       ar_reasonCode = 0 \<rparr>"
    by (simp add: applied_record_def prior_record_def demo_al0_def type_indices_val upd_rec_def active_def
        long_rq_simps demo_duration type_bit_def)
  then show ?thesis
    by (simp add: inner ApplyAllowResInner_result(1) [OF demo_al0_inv] long_rq_simps)
      (simp add: demo_al0_def)
qed

text \<open>A work-scheduler exemption of 2147484 seconds, which the service grants, is reported
  with a negative remaining duration, because the 64-bit value is cut to 32 bits.\<close>

theorem long_exemption_reported_negative:
  "map (sint o ai_duration) (fst (GetAllowListInner demo_sv 8 0
     ([], snd (ApplyAllowResource demo_sv long_rq demo_al0)))) = [- 2147483296]"
proof -
  have "al_inv (snd (ApplyAllowResource demo_sv long_rq demo_al0))"
    using ApplyAllowResource_cases [of demo_sv long_rq demo_al0] ApplyAllowResInner_inv demo_al0_inv by metis
  then show ?thesis
    by (simp add: GetAllowListInner_result allow_infos_def type_indices_val temporary_infos_def long_map
        demo_duration GetPersistAllowList_def GetEligiblePersistAllowConfig_range eligible_def
        AllowTypeName_def REASON_APP_API_def narrow32_def)
      (simp add: demo_sv_def demo_sv_cfg_def config_init_def std_insert_range_def)
qed

end
