(* ===== verification/Strategy_Base.thy ===== *)
theory Strategy_Base
  imports Allow_Props
begin

text \<open>
  What the strategies of \<open>plugins/strategy\<close> share: the exemption flags of
  \<open>plugins/ext/include/ibase_strategy.h\<close>, the answers of the bundle manager, the application
  manager, the background task manager and the work scheduler (\<open>st_env\<close>; \<open>None\<close> is a failed
  query), and the queries to the service's own exemption list, which are the operations of
  \<open>Allow_List\<close> on the service state \<open>st_service\<close>. A query of the list only posts expiry tasks
  in the service (\<open>GetAllowList_quiet\<close> and its companions in \<open>Allow_Steps\<close>), so the strategies
  read its result and leave the service state to the steps of the service.
\<close>

section \<open>Exemption flags\<close>

definition FLAG_CONTINUOUS_TASK :: u8 where "FLAG_CONTINUOUS_TASK = 1"
definition FLAG_TRANSIENT_TASK :: u8 where "FLAG_TRANSIENT_TASK = 2"
definition FLAG_WORK_SCHEDULER :: u8 where "FLAG_WORK_SCHEDULER = 4"
definition FLAG_FOREGROUND_APP :: u8 where "FLAG_FOREGROUND_APP = 8"
definition FLAG_UNRESTRICTED :: u8 where "FLAG_UNRESTRICTED = 16"
definition FLAG_EXEMPTION :: u8 where "FLAG_EXEMPTION = 32"
definition FLAG_RESTRICTED :: u8 where "FLAG_RESTRICTED = 64"

lemmas flag_defs = FLAG_CONTINUOUS_TASK_def FLAG_TRANSIENT_TASK_def FLAG_WORK_SCHEDULER_def
  FLAG_FOREGROUND_APP_def FLAG_UNRESTRICTED_def FLAG_EXEMPTION_def FLAG_RESTRICTED_def

definition IsExempted :: "u8 \<Rightarrow> bool" where
  "IsExempted flag =
     (if (flag AND FLAG_EXEMPTION) \<noteq> 0 then True
      else if (flag AND FLAG_RESTRICTED) \<noteq> 0 then False
      else flag \<noteq> 0)"

lemma IsExempted_bits:
  "IsExempted f \<longleftrightarrow> bit f 5 \<or> (\<not> bit f 6 \<and> f \<noteq> 0)"
proof -
  have "(f AND 32) \<noteq> 0 \<longleftrightarrow> bit f 5" "(f AND 64) \<noteq> 0 \<longleftrightarrow> bit f 6"
    using bit_iff_and_push_bit_not_eq_0 [of f 5] bit_iff_and_push_bit_not_eq_0 [of f 6] by simp_all
  then show ?thesis
    by (simp add: IsExempted_def flag_defs)
qed

definition plain_flag :: "u8 \<Rightarrow> bool" where
  "plain_flag flag \<longleftrightarrow> \<not> bit flag 6"

lemma IsExempted_add: "plain_flag flag \<Longrightarrow> IsExempted f \<Longrightarrow> IsExempted (f OR flag)"
  by (auto simp: IsExempted_bits plain_flag_def bit_simps) (auto simp: bit_eq_iff bit_simps)

lemma IsExempted_remove: "plain_flag flag \<Longrightarrow> \<not> IsExempted f \<Longrightarrow> \<not> IsExempted (f AND NOT flag)"
  by (auto simp: IsExempted_bits plain_flag_def bit_simps)

definition CONTINUOUS_TASK :: string where "CONTINUOUS_TASK = ''continuous_task''"
definition TRANSIENT_TASK :: string where "TRANSIENT_TASK = ''transient_task''"
definition WORK_SCHEDULER_TASK :: string where "WORK_SCHEDULER_TASK = ''work_scheduler''"

definition BGTASK_EXEMPTION_FLAG_MAP :: "(string \<times> u8) list" where
  "BGTASK_EXEMPTION_FLAG_MAP =
     [(CONTINUOUS_TASK, FLAG_CONTINUOUS_TASK), (TRANSIENT_TASK, FLAG_TRANSIENT_TASK),
      (WORK_SCHEDULER_TASK, FLAG_WORK_SCHEDULER)]"

lemma plain_flags [simp]:
  "plain_flag FLAG_EXEMPTION"
  "plain_flag (f AND (FLAG_TRANSIENT_TASK OR FLAG_WORK_SCHEDULER))"
  "map_of BGTASK_EXEMPTION_FLAG_MAP t = Some flag \<Longrightarrow> plain_flag flag"
  by (auto simp: plain_flag_def flag_defs bit_simps BGTASK_EXEMPTION_FLAG_MAP_def split: if_splits)

definition BG_TASK_TYPE :: string where "BG_TASK_TYPE = ''type''"
definition BG_TASK_STATUS :: string where "BG_TASK_STATUS = ''started''"
definition BG_TASK_UID :: string where "BG_TASK_UID = ''uid''"
definition BG_TASK_BUNDLE_NAME :: string where "BG_TASK_BUNDLE_NAME = ''name''"
definition BG_TASK_TYPE_ID :: string where "BG_TASK_TYPE_ID = ''typeId''"
definition SA_STATUS :: string where "SA_STATUS = ''isAdded''"
definition SA_ID :: string where "SA_ID = ''systemAbilityId''"
definition NET_IDLE_POLICY_STATUS :: string where "NET_IDLE_POLICY_STATUS = ''net_idle_policy_status''"

definition APP_RES_DEEP :: u32 where "APP_RES_DEEP = 1"

section \<open>The surrounding system\<close>

record process_info =
  pi_pid :: i32
  pi_uid :: i32
  pi_name :: string

record app_info =
  app_uid :: i32
  app_name :: string
  app_isSystem :: bool

record st_env =
  st_te :: time_env
  st_cfg :: config_state
  st_service_env :: svc_env
  st_service :: svc_state
  allProcesses :: "(process_info list) option"
  applicationInfos :: "(app_info list) option"
  specialInfos :: "(app_info list) option"
  foregroundApps :: "((i32 \<times> string) list) option"
  continuousTasks :: "((i32 \<times> u32) list) option"
  transientTasks :: "((i32 \<times> string) list) option"
  runningWorks :: "((i32 \<times> string) list) option"
  systemAppByUid :: "u32 \<Rightarrow> bool option"
  appRunning :: "string \<Rightarrow> bool option"
  st_clientBundleName :: "i32 \<Rightarrow> string"
  deviceIdleTrustlist :: "(u32 list) option"
  setDeviceIdlePolicy :: "bool \<Rightarrow> int"
  workScheduleServiceId :: i32
  backgroundTaskManagerServiceId :: i32

text \<open>\<open>GetAllowListInner\<close> and \<open>GetEligiableRestrictSet\<close> of the service, for applications.\<close>

definition allow_names :: "st_env \<Rightarrow> u32 \<Rightarrow> string list" where
  "allow_names e allowType =
     map ai_name (fst (GetAllowListInner (st_service_env e) allowType REASON_APP_API ([], st_service e)))"

definition restrict_names :: "st_env \<Rightarrow> u32 \<Rightarrow> string \<Rightarrow> string list" where
  "restrict_names e allowType strategyName =
     fst (snd (GetEligiableRestrictSet (st_service_env e) allowType strategyName REASON_APP_API [] (st_service e)))"

section \<open>Flag updates on a table\<close>

text \<open>\<open>it->second.appExemptionFlag_ |= flag\<close> where an entry exists.\<close>

definition update_entry :: "'k \<Rightarrow> ('v \<Rightarrow> 'v) \<Rightarrow> ('k \<times> 'v) list \<Rightarrow> ('k \<times> 'v) list" where
  "update_entry k f m = (case map_of m k of None \<Rightarrow> m | Some v \<Rightarrow> AList.update k (f v) m)"

lemma keys_update_entry [simp]: "map fst (update_entry k f m) = map fst m"
proof -
  have "map_of m k = Some v \<Longrightarrow> map fst (AList.update k w m) = map fst m" for v w
    by (induction m) (auto split: if_splits)
  then show ?thesis
    by (simp add: update_entry_def split: option.split)
qed

lemma map_of_update_entry:
  "map_of (update_entry k f m) = (map_of m)(k := map_option f (map_of m k))"
  by (auto simp: update_entry_def AList.update_conv' split: option.split)

lemma map_of_map_values: "map_of (map (\<lambda>(k, v). (k, f v)) m) = map_option f \<circ> map_of m"
  by (induction m) auto

text \<open>
  A loop that updates the entry of a key for every element of a list, with an update that may
  be repeated.
\<close>

lemma map_of_fold_update:
  assumes "\<And>x m. g x m = (case key x of None \<Rightarrow> m | Some k \<Rightarrow> update_entry k h m)" "\<And>v. h (h v) = h v"
  shows "map_of (fold g xs m) k = map_option (if Some k \<in> key ` set xs then h else id) (map_of m k)"
proof (induction xs arbitrary: m)
  case Nil
  show ?case by (simp add: option.map_ident id_def)
next
  case (Cons x xs)
  have "map_of (g x m) k = map_option (if Some k = key x then h else id) (map_of m k)"
    by (auto simp: assms(1) map_of_update_entry option.map_ident id_def split: option.split)
  with Cons.IH [of "g x m"] show ?case
    by (auto simp: option.map_comp o_def id_def assms(2))
qed

section \<open>Chains of queries\<close>

text \<open>The first failing query ends the chain of an \<open>||\<close>.\<close>

definition and_then :: "err \<times> 's \<Rightarrow> ('s \<Rightarrow> err \<times> 's) \<Rightarrow> err \<times> 's" where
  "and_then r f = (let (ret, s) = r in if ret \<noteq> ERR_OK then (ret, s) else f s)"

lemma and_then_keeps:
  assumes "P (snd r)" "\<And>s. P s \<Longrightarrow> P (snd (f s))"
  shows "P (snd (and_then r f))"
  using assms by (cases r) (auto simp: and_then_def)

lemma and_then_ok:
  "fst r = ERR_OK \<Longrightarrow> and_then r f = f (snd r)"
  by (cases r) (simp add: and_then_def)

lemma and_then_okD: "fst (and_then r f) = ERR_OK \<Longrightarrow> fst r = ERR_OK"
  by (cases r) (auto simp: and_then_def split: if_splits)

section \<open>Answers to the start of a strategy\<close>

text \<open>The answers a start needs, when every service gives one.\<close>

record st_answers =
  ans_infos :: "app_info list"
  ans_procs :: "process_info list"
  ans_fg :: "(i32 \<times> string) list"
  ans_ct :: "(i32 \<times> u32) list"
  ans_tt :: "(i32 \<times> string) list"
  ans_ws :: "(i32 \<times> string) list"

definition answers :: "st_env \<Rightarrow> st_answers option" where
  "answers e =
     (case (applicationInfos e, allProcesses e, foregroundApps e, continuousTasks e, transientTasks e, runningWorks e) of
        (Some infos, Some procs, Some fg, Some ct, Some tt, Some ws) \<Rightarrow>
          Some \<lparr> ans_infos = infos, ans_procs = procs, ans_fg = fg, ans_ct = ct, ans_tt = tt, ans_ws = ws \<rparr>
      | _ \<Rightarrow> None)"

lemma answersD:
  "answers e = Some a \<Longrightarrow> applicationInfos e = Some (ans_infos a) \<and> allProcesses e = Some (ans_procs a) \<and>
     foregroundApps e = Some (ans_fg a) \<and> continuousTasks e = Some (ans_ct a) \<and>
     transientTasks e = Some (ans_tt a) \<and> runningWorks e = Some (ans_ws a)"
  by (auto simp: answers_def split: option.splits)

end
