(* ===== verification/Network_Strategy.thy ===== *)
theory Network_Strategy
  imports Strategy_Base
begin

text \<open>
  \<open>BaseNetworkStrategy\<close> and \<open>NetworkStrategy\<close> of \<open>plugins/strategy/src\<close>: while the device is in
  SLEEP the power-saving firewall is on and only the applications of its trust list reach the
  network.

  \<open>net_calls\<close> are the calls that leave the strategy, in order: \<open>NC_Policy b r\<close> is
  \<open>SetDeviceIdlePolicy(b)\<close> with its result \<open>r\<close>, \<open>NC_Trust l b\<close> is \<open>SetDeviceIdleTrustlist(l, b)\<close>
  (its result is only logged by the code) and \<open>NC_Dispatch\<close> a message for the service.
\<close>

section \<open>Data\<close>

record NetLimtedAppInfo =
  nl_name :: string
  nl_flag :: u8

datatype net_call = NC_Policy bool int | NC_Trust "u32 list" bool | NC_Dispatch out_message

record net_state =
  isFirewallEnabled :: bool
  isNightSleepMode :: bool
  net_isIdleMaintence :: bool
  netLimitedAppInfo :: "(i32 \<times> NetLimtedAppInfo) list"
  nightExemptionTaskType :: u32
  net_condition :: u32
  net_calls :: "net_call list"

definition CONDITIONAL_RESTRICT_NET_APP_TAG :: string where
  "CONDITIONAL_RESTRICT_NET_APP_TAG = ''conditional_restrict_net_app''"

definition NETMANAGER_SUCCESS :: int where "NETMANAGER_SUCCESS = 0"
definition NETMANAGER_ERR_STATUS_EXIST :: int where "NETMANAGER_ERR_STATUS_EXIST = 2100209"

definition or_flag :: "u8 \<Rightarrow> NetLimtedAppInfo \<Rightarrow> NetLimtedAppInfo" where
  "or_flag flag v = v\<lparr>nl_flag := nl_flag v OR flag\<rparr>"

definition and_not_flag :: "u8 \<Rightarrow> NetLimtedAppInfo \<Rightarrow> NetLimtedAppInfo" where
  "and_not_flag flag v = v\<lparr>nl_flag := nl_flag v AND NOT flag\<rparr>"

definition net_call :: "net_call \<Rightarrow> net_state \<Rightarrow> net_state" where
  "net_call c s = s\<lparr>net_calls := net_calls s @ [c]\<rparr>"

abbreviation now_condition :: "st_env \<Rightarrow> u32" where
  "now_condition e \<equiv> GetCondition (st_te e) 0"

section \<open>Flags\<close>

definition IsFlagExempted :: "st_env \<Rightarrow> u8 \<Rightarrow> bool" where
  "IsFlagExempted e flag =
     (if \<not> IsExempted flag then False
      else if now_condition e = NIGHT_STANDBY \<and> \<not> IsExempted (flag AND NOT FLAG_UNRESTRICTED) then False
      else True)"

definition GetExemptedFlag :: "st_env \<Rightarrow> u8 \<Rightarrow> u8 \<Rightarrow> net_state \<Rightarrow> bool \<times> net_state" where
  "GetExemptedFlag e appNoExemptionFlag appExemptionFlag s =
     (let s = s\<lparr>net_condition := now_condition e\<rparr> in
      (if net_condition s = NIGHT_STANDBY \<and> \<not> IsExempted (appNoExemptionFlag AND NOT FLAG_UNRESTRICTED) \<and>
            IsExempted appExemptionFlag then True
       else if \<not> IsExempted appNoExemptionFlag \<and> IsExempted appExemptionFlag then True
       else False, s))"

section \<open>Calls to the net manager\<close>

definition SetFirewallAllowedList :: "u32 list \<Rightarrow> bool \<Rightarrow> net_state \<Rightarrow> net_state" where
  "SetFirewallAllowedList uids isAdded s =
     (if uids = [] then s
      else if \<not> isAdded \<and> net_isIdleMaintence s then s
      else net_call (NC_Trust uids isAdded) s)"

definition SetNetAllowApps :: "st_env \<Rightarrow> bool \<Rightarrow> net_state \<Rightarrow> net_state" where
  "SetNetAllowApps e isAllow s =
     SetFirewallAllowedList (map fst (filter (\<lambda>(key, value). IsFlagExempted e (nl_flag value)) (netLimitedAppInfo s)))
       isAllow s"

definition HandleDeviceIdlePolicy :: "st_env \<Rightarrow> bool \<Rightarrow> net_state \<Rightarrow> int \<times> net_state" where
  "HandleDeviceIdlePolicy e enableFirewall s =
     (let ret = setDeviceIdlePolicy e enableFirewall;
          s = net_call (NC_Policy enableFirewall ret) s
      in (ret,
          if ret = NETMANAGER_SUCCESS \<or> ret = NETMANAGER_ERR_STATUS_EXIST
          then net_call (NC_Dispatch (OutMessage DEVICE_NET_IDLE_POLICY_TRANSIT
                 [(NET_IDLE_POLICY_STATUS, WBool enableFirewall)])) s
          else s))"

definition ResetFirewallAllowList :: "st_env \<Rightarrow> net_state \<Rightarrow> net_state" where
  "ResetFirewallAllowList e s =
     (case deviceIdleTrustlist e of
        None \<Rightarrow> s
      | Some uids \<Rightarrow>
          let (ret, s) = HandleDeviceIdlePolicy e False s in
          if ret \<noteq> NETMANAGER_SUCCESS \<and> ret \<noteq> NETMANAGER_ERR_STATUS_EXIST then s
          else net_call (NC_Trust uids False) s)"

definition SetFirewallStatus :: "st_env \<Rightarrow> bool \<Rightarrow> net_state \<Rightarrow> err \<times> net_state" where
  "SetFirewallStatus e enableFirewall s =
     (if enableFirewall
      then
        let s = SetNetAllowApps e enableFirewall s;
            (ret, s) = HandleDeviceIdlePolicy e enableFirewall s
        in if ret = NETMANAGER_SUCCESS then (ERR_OK, s) else (ERR_STRATEGY_DEPENDS_SA_NOT_AVAILABLE, s)
      else
        let (ret, s) = HandleDeviceIdlePolicy e enableFirewall s
        in if ret = NETMANAGER_SUCCESS \<or> ret = NETMANAGER_ERR_STATUS_EXIST
           then (ERR_OK, SetNetAllowApps e enableFirewall s)
           else (ERR_STRATEGY_DEPENDS_SA_NOT_AVAILABLE, s))"

section \<open>Collecting the applications\<close>

definition GetAllRunningAppInfo :: "st_env \<Rightarrow> net_state \<Rightarrow> err \<times> net_state" where
  "GetAllRunningAppInfo e s =
     (case allProcesses e of
        None \<Rightarrow> (ERR_STRATEGY_DEPENDS_SA_NOT_AVAILABLE, s)
      | Some infos \<Rightarrow>
          (ERR_OK, s\<lparr>netLimitedAppInfo :=
             fold (\<lambda>info. emplace (pi_uid info) \<lparr> nl_name = pi_name info, nl_flag = 0 \<rparr>) infos
               (netLimitedAppInfo s)\<rparr>))"

definition AddExemptionFlagByUid :: "i32 \<Rightarrow> u8 \<Rightarrow> net_state \<Rightarrow> net_state" where
  "AddExemptionFlagByUid uid flag s =
     s\<lparr>netLimitedAppInfo := update_entry uid (or_flag flag) (netLimitedAppInfo s)\<rparr>"

definition GetForegroundApplications :: "st_env \<Rightarrow> net_state \<Rightarrow> err \<times> net_state" where
  "GetForegroundApplications e s =
     (case foregroundApps e of
        None \<Rightarrow> (ERR_STRATEGY_DEPENDS_SA_NOT_AVAILABLE, s)
      | Some fgApps \<Rightarrow> (ERR_OK, fold (\<lambda>(uid, b). AddExemptionFlagByUid uid FLAG_FOREGROUND_APP) fgApps s))"

definition GetBackgroundTaskApp :: "st_env \<Rightarrow> net_state \<Rightarrow> err \<times> net_state" where
  "GetBackgroundTaskApp e s =
     (case (continuousTasks e, transientTasks e) of
        (Some continuousTaskList, Some transientTaskList) \<Rightarrow>
          let s = s\<lparr>net_condition := now_condition e\<rparr>;
              s = fold (\<lambda>(uid, typeId) s.
                if net_condition s = DAY_STANDBY \<or>
                   (nightExemptionTaskType s AND push_bit (unat typeId) 1) \<noteq> 0
                then AddExemptionFlagByUid uid FLAG_CONTINUOUS_TASK s else s) continuousTaskList s
          in (ERR_OK, fold (\<lambda>(uid, p). AddExemptionFlagByUid uid FLAG_TRANSIENT_TASK) transientTaskList s)
      | _ \<Rightarrow> (ERR_STRATEGY_DEPENDS_SA_NOT_AVAILABLE, s))"

definition GetWorkSchedulerTask :: "st_env \<Rightarrow> net_state \<Rightarrow> err \<times> net_state" where
  "GetWorkSchedulerTask e s =
     (case runningWorks e of
        None \<Rightarrow> (ERR_STRATEGY_DEPENDS_SA_NOT_AVAILABLE, s)
      | Some workInfos \<Rightarrow> (ERR_OK, fold (\<lambda>(uid, b). AddExemptionFlagByUid uid FLAG_WORK_SCHEDULER) workInfos s))"

definition conditional_names :: "st_env \<Rightarrow> string list" where
  "conditional_names e = GetStandbyListPara (st_cfg e) CONDITIONAL_RESTRICT_NET_APP_TAG"

text \<open>The restriction of a configured name that has no exemption besides \<open>UNRESTRICTED\<close>.\<close>

definition restrict_plain :: "NetLimtedAppInfo \<Rightarrow> NetLimtedAppInfo" where
  "restrict_plain v = (if (nl_flag v AND NOT FLAG_UNRESTRICTED) = 0 then or_flag FLAG_RESTRICTED v else v)"

definition GetExemptionConfig :: "st_env \<Rightarrow> net_state \<Rightarrow> err \<times> net_state" where
  "GetExemptionConfig e s =
     (let allowNameList = allow_names e NETWORK;
          info = map (\<lambda>(key, value). (key,
                   if nl_name value \<in> set allowNameList then or_flag FLAG_EXEMPTION value else value))
                 (netLimitedAppInfo s);
          restrictNameList = restrict_names e NETWORK ''NETWORK'';
          info = map (\<lambda>(key, value). (key,
                   if nl_name value \<in> set restrictNameList then or_flag FLAG_RESTRICTED value else value)) info;
          conditionalRestrictNameList = conditional_names e;
          info = map (\<lambda>(key, value). (key,
                   if nl_name value \<in> set conditionalRestrictNameList then restrict_plain value else value)) info
      in (ERR_OK, s\<lparr>netLimitedAppInfo := info\<rparr>))"

definition GetExemptionConfigForApp :: "st_env \<Rightarrow> string \<Rightarrow> NetLimtedAppInfo \<Rightarrow> NetLimtedAppInfo" where
  "GetExemptionConfigForApp e bundleName appInfo =
     (let appInfo = (if bundleName \<in> set (allow_names e NETWORK) then or_flag FLAG_EXEMPTION appInfo else appInfo);
          appInfo = (if bundleName \<in> set (restrict_names e NETWORK ''NETWORK'')
                     then or_flag FLAG_RESTRICTED appInfo else appInfo)
      in if bundleName \<in> set (conditional_names e) then restrict_plain appInfo else appInfo)"

definition InitNetLimitedAppInfo :: "st_env \<Rightarrow> net_state \<Rightarrow> err \<times> net_state" where
  "InitNetLimitedAppInfo e s =
     (let (ret, s) = GetAllRunningAppInfo e s in
      if ret \<noteq> ERR_OK then (ERR_STRATEGY_DEPENDS_SA_NOT_AVAILABLE, s)
      else case applicationInfos e of
        None \<Rightarrow> (ERR_STRATEGY_DEPENDS_SA_NOT_AVAILABLE, s)
      | Some infos \<Rightarrow>
          let applicationInfos = infos @ (case specialInfos e of None \<Rightarrow> [] | Some l \<Rightarrow> l);
              s = fold (\<lambda>info. if app_isSystem info then AddExemptionFlagByUid (app_uid info) FLAG_UNRESTRICTED else id)
                    applicationInfos s;
              (ret, s) = and_then (and_then (and_then (GetForegroundApplications e s) (GetBackgroundTaskApp e))
                    (GetWorkSchedulerTask e)) (GetExemptionConfig e)
          in if ret \<noteq> ERR_OK then (ERR_STRATEGY_DEPENDS_SA_NOT_AVAILABLE, s) else (ERR_OK, s))"

section \<open>Processes, exemptions and background tasks\<close>

definition GetAndCreateAppInfo :: "st_env \<Rightarrow> u32 \<Rightarrow> string \<Rightarrow> net_state \<Rightarrow> net_state" where
  "GetAndCreateAppInfo e uid bundleName s =
     (case map_of (netLimitedAppInfo s) uid of
        Some v \<Rightarrow> s
      | None \<Rightarrow>
          let v = \<lparr> nl_name = bundleName, nl_flag = 0 \<rparr>;
              v = (if systemAppByUid e uid = Some True then or_flag FLAG_UNRESTRICTED v else v)
          in s\<lparr>netLimitedAppInfo := emplace uid (GetExemptionConfigForApp e bundleName v) (netLimitedAppInfo s)\<rparr>)"

definition AddExemptionFlag :: "st_env \<Rightarrow> u32 \<Rightarrow> string \<Rightarrow> u8 \<Rightarrow> net_state \<Rightarrow> net_state" where
  "AddExemptionFlag e uid bundleName flag s =
     (if \<not> isFirewallEnabled s then s
      else
        let s = GetAndCreateAppInfo e uid bundleName s in
        case map_of (netLimitedAppInfo s) uid of
          None \<Rightarrow> s
        | Some v \<Rightarrow>
            let lastAppExemptionFlag = nl_flag v;
                v = or_flag flag v;
                v = (if bundleName \<in> set (conditional_names e) then and_not_flag FLAG_RESTRICTED v else v);
                (exempted, s) = GetExemptedFlag e lastAppExemptionFlag (nl_flag v)
                  (s\<lparr>netLimitedAppInfo := AList.update uid v (netLimitedAppInfo s)\<rparr>);
                s = (if exempted then SetFirewallAllowedList [uid] True s else s)
            in s\<lparr>netLimitedAppInfo := AList.update uid (or_flag flag v) (netLimitedAppInfo s)\<rparr>)"

definition RemoveExemptionFlag :: "st_env \<Rightarrow> u32 \<Rightarrow> u8 \<Rightarrow> net_state \<Rightarrow> net_state" where
  "RemoveExemptionFlag e uid flag s =
     (if \<not> isFirewallEnabled s then s
      else case map_of (netLimitedAppInfo s) uid of
        None \<Rightarrow> s
      | Some v \<Rightarrow>
          let lastAppExemptionFlag = nl_flag v;
              v = and_not_flag flag v;
              v = (if nl_name v \<in> set (conditional_names e) then restrict_plain v else v);
              (exempted, s) = GetExemptedFlag e (nl_flag v) lastAppExemptionFlag
                (s\<lparr>netLimitedAppInfo := AList.update uid v (netLimitedAppInfo s)\<rparr>)
          in if exempted then SetFirewallAllowedList [uid] False s else s)"

definition UpdateExemptionList :: "st_env \<Rightarrow> want option \<Rightarrow> net_state \<Rightarrow> err \<times> net_state" where
  "UpdateExemptionList e w s =
     (case w of
        None \<Rightarrow> (ERR_STANDBY_OBJECT_NULL, s)
      | Some w \<Rightarrow>
          let allowType = GetIntParam w ''allowType'' 0 in
          if (allowType AND NETWORK) = 0 then (ERR_STANDBY_STRATEGY_NOT_MATCH, s)
          else if \<not> isFirewallEnabled s then (ERR_STANDBY_CURRENT_STATE_NOT_MATCH, s)
          else
            let processName = GetStringParam w ''name''; added = GetBoolParam w ''added'' False;
                uid = GetIntParam w ''uid'' (- 1)
            in (ERR_OK, if added then AddExemptionFlag e uid processName FLAG_EXEMPTION s
                        else RemoveExemptionFlag e uid FLAG_EXEMPTION s))"

definition UpdateBgTaskAppStatus :: "st_env \<Rightarrow> want option \<Rightarrow> net_state \<Rightarrow> err \<times> net_state" where
  "UpdateBgTaskAppStatus e w s =
     (if \<not> isFirewallEnabled s then (ERR_STANDBY_CURRENT_STATE_NOT_MATCH, s)
      else case w of
        None \<Rightarrow> (ERR_STANDBY_OBJECT_NULL, s)
      | Some w \<Rightarrow>
          let tp = GetStringParam w BG_TASK_TYPE; started = GetBoolParam w BG_TASK_STATUS False;
              uid = GetIntParam w BG_TASK_UID 0; bundleName = GetStringParam w BG_TASK_BUNDLE_NAME
          in case map_of BGTASK_EXEMPTION_FLAG_MAP tp of
               None \<Rightarrow> (ERR_STANDBY_KEY_INFO_NOT_MATCH, s)
             | Some flag \<Rightarrow>
                 let s = s\<lparr>net_condition := now_condition e\<rparr>; typeId = GetIntParam w BG_TASK_TYPE_ID (- 1) in
                 if started \<and> isNightSleepMode s then (ERR_STANDBY_KEY_INFO_NOT_MATCH, s)
                 else if started \<and> net_condition s = NIGHT_STANDBY \<and> tp = CONTINUOUS_TASK \<and>
                    (sint typeId < 0 \<or> (nightExemptionTaskType s AND push_bit (unat typeId) 1) = 0)
                 then (ERR_STANDBY_KEY_INFO_NOT_MATCH, s)
                 else
                   let bundleName = (if bundleName = [] then st_clientBundleName e uid else bundleName)
                   in (ERR_OK, if started then AddExemptionFlag e uid bundleName flag s
                               else RemoveExemptionFlag e uid flag s))"

definition HandleProcessStatusChanged :: "st_env \<Rightarrow> want option \<Rightarrow> net_state \<Rightarrow> net_state" where
  "HandleProcessStatusChanged e w s =
     (if \<not> isFirewallEnabled s then s
      else case w of
        None \<Rightarrow> s
      | Some w \<Rightarrow>
          let uid = GetIntParam w ''uid'' (- 1); bundleName = GetStringParam w ''name'';
              isCreated = GetBoolParam w ''isCreated'' False;
              s = s\<lparr>net_condition := now_condition e\<rparr>
          in if isCreated then
               let s = GetAndCreateAppInfo e uid bundleName s in
               case map_of (netLimitedAppInfo s) uid of
                 None \<Rightarrow> s
               | Some v \<Rightarrow> if \<not> IsFlagExempted e (nl_flag v) then s else SetFirewallAllowedList [uid] isCreated s
             else if appRunning e bundleName = Some False then
               case map_of (netLimitedAppInfo s) uid of
                 None \<Rightarrow> s
               | Some v \<Rightarrow>
                   let s = s\<lparr>netLimitedAppInfo := AList.delete uid (netLimitedAppInfo s)\<rparr> in
                   if \<not> IsFlagExempted e (nl_flag v) then s else SetFirewallAllowedList [uid] isCreated s
             else s)"

text \<open>When the background task or work scheduler service crashes, their flags are reset.\<close>

definition ResetFirewallStatus :: "st_env \<Rightarrow> want option \<Rightarrow> net_state \<Rightarrow> net_state" where
  "ResetFirewallStatus e w s =
     (if \<not> isFirewallEnabled s \<or> net_isIdleMaintence s then s
      else case w of
        None \<Rightarrow> s
      | Some w \<Rightarrow>
          if GetBoolParam w SA_STATUS False then s
          else
            let saId = GetIntParam w SA_ID 0 in
            if saId \<noteq> workScheduleServiceId e \<and> saId \<noteq> backgroundTaskManagerServiceId e then s
            else
              let bgTaskFlag = (FLAG_TRANSIENT_TASK OR FLAG_WORK_SCHEDULER) in
              fold (\<lambda>(key, value) s.
                  if (nl_flag value AND bgTaskFlag) = 0 then s
                  else RemoveExemptionFlag e key (nl_flag value AND bgTaskFlag) s)
                (netLimitedAppInfo s) s)"

section \<open>The firewall\<close>

definition UpdateFirewallAllowList :: "st_env \<Rightarrow> net_state \<Rightarrow> err \<times> net_state" where
  "UpdateFirewallAllowList e s =
     (let s = ResetFirewallAllowList e s;
          (ret, s) = InitNetLimitedAppInfo e (s\<lparr>netLimitedAppInfo := []\<rparr>)
      in if ret \<noteq> ERR_OK then (ERR_STRATEGY_DEPENDS_SA_NOT_AVAILABLE, s)
         else (ERR_OK, (snd (SetFirewallStatus e True s))\<lparr>isFirewallEnabled := True\<rparr>))"

definition EnableNetworkFirewallInner :: "st_env \<Rightarrow> net_state \<Rightarrow> err \<times> net_state" where
  "EnableNetworkFirewallInner e s =
     (let (ret, s) = InitNetLimitedAppInfo e (s\<lparr>netLimitedAppInfo := []\<rparr>)
      in if ret \<noteq> ERR_OK then (ERR_STRATEGY_DEPENDS_SA_NOT_AVAILABLE, s)
         else (ERR_OK, snd (SetFirewallStatus e True s)))"

definition EnableNetworkFirewall :: "st_env \<Rightarrow> net_state \<Rightarrow> err \<times> net_state" where
  "EnableNetworkFirewall e s =
     (if isFirewallEnabled s then (ERR_STANDBY_STRATEGY_STATE_REPEAT, s)
      else
        let (ret, s) = EnableNetworkFirewallInner e s in
        if ret \<noteq> ERR_OK then (ret, s)
        else (ERR_OK, s\<lparr>isFirewallEnabled := True, net_isIdleMaintence := False\<rparr>))"

definition DisableNetworkFirewallInner :: "st_env \<Rightarrow> net_state \<Rightarrow> err \<times> net_state" where
  "DisableNetworkFirewallInner e s = (ERR_OK, (ResetFirewallAllowList e s)\<lparr>netLimitedAppInfo := []\<rparr>)"

definition DisableNetworkFirewall :: "st_env \<Rightarrow> want option \<Rightarrow> net_state \<Rightarrow> err \<times> net_state" where
  "DisableNetworkFirewall e w s =
     (case w of
        None \<Rightarrow> (ERR_STANDBY_OBJECT_NULL, s)
      | Some w \<Rightarrow>
          let preState = GetIntParam w PREVIOUS_STATE 0; curState = GetIntParam w CURRENT_STATE 0 in
          (ERR_OK,
           if curState = state_code MAINTENANCE \<and> preState = state_code SLEEP
           then (snd (SetFirewallStatus e False s))\<lparr>net_isIdleMaintence := True, isFirewallEnabled := False\<rparr>
           else if curState = state_code SLEEP \<and> preState = state_code MAINTENANCE
           then (snd (SetFirewallStatus e True (s\<lparr>net_isIdleMaintence := False\<rparr>)))\<lparr>isFirewallEnabled := True\<rparr>
           else if preState = state_code SLEEP \<or> preState = state_code MAINTENANCE
           then (snd (DisableNetworkFirewallInner e s))\<lparr>net_isIdleMaintence := False, isFirewallEnabled := False\<rparr>
           else s))"

definition BaseNetworkStrategy_OnCreated :: "st_env \<Rightarrow> net_state \<Rightarrow> err \<times> net_state" where
  "BaseNetworkStrategy_OnCreated e s =
     (ERR_OK, (ResetFirewallAllowList e s)\<lparr>isFirewallEnabled := False, net_isIdleMaintence := False\<rparr>)"

definition BaseNetworkStrategy_OnDestroy :: "st_env \<Rightarrow> net_state \<Rightarrow> err \<times> net_state" where
  "BaseNetworkStrategy_OnDestroy e s = (ERR_OK, ResetFirewallAllowList e s)"

definition BaseNetworkStrategy_HandleEvent :: "st_env \<Rightarrow> StandbyMessage \<Rightarrow> net_state \<Rightarrow> net_state" where
  "BaseNetworkStrategy_HandleEvent e message s =
     (if eventId message = ALLOW_LIST_CHANGED then snd (UpdateExemptionList e (msg_want message) s)
      else if eventId message = BG_TASK_STATUS_CHANGE then snd (UpdateBgTaskAppStatus e (msg_want message) s)
      else if eventId message = PROCESS_STATE_CHANGED then HandleProcessStatusChanged e (msg_want message) s
      else if eventId message = SYS_ABILITY_STATUS_CHANGED then ResetFirewallStatus e (msg_want message) s
      else s)"

section \<open>The strategy the service loads\<close>

definition NetworkStrategy_OnCreated :: "st_env \<Rightarrow> net_state \<Rightarrow> err \<times> net_state" where
  "NetworkStrategy_OnCreated e s = (ERR_OK, ResetFirewallAllowList e (s\<lparr>net_condition := now_condition e\<rparr>))"

definition NetworkStrategy_OnDestroy :: "st_env \<Rightarrow> net_state \<Rightarrow> err \<times> net_state" where
  "NetworkStrategy_OnDestroy e s = (ERR_OK, ResetFirewallAllowList e s)"

definition UpdateNetResourceConfig :: "st_env \<Rightarrow> want option \<Rightarrow> net_state \<Rightarrow> net_state" where
  "UpdateNetResourceConfig e w s =
     (case w of
        None \<Rightarrow> s
      | Some w \<Rightarrow> snd (UpdateFirewallAllowList e (s\<lparr>net_condition := GetIntParam w RES_CTRL_CONDITION 0\<rparr>)))"

definition StartNetLimit :: "st_env \<Rightarrow> want option \<Rightarrow> net_state \<Rightarrow> net_state" where
  "StartNetLimit e w s =
     (case w of
        None \<Rightarrow> s
      | Some w \<Rightarrow>
          let current_phase = GetIntParam w CURRENT_PHASE 0; current_state = GetIntParam w CURRENT_STATE 0 in
          if current_state \<noteq> state_code SLEEP \<or> current_phase \<noteq> APP_RES_DEEP then s
          else snd (EnableNetworkFirewall e s))"

definition StopNetLimit :: "st_env \<Rightarrow> want option \<Rightarrow> net_state \<Rightarrow> net_state" where
  "StopNetLimit e w s = snd (DisableNetworkFirewall e w s)"

definition UpdateAllowedList :: "st_env \<Rightarrow> want option \<Rightarrow> net_state \<Rightarrow> net_state" where
  "UpdateAllowedList e w s = snd (UpdateExemptionList e w s)"

definition NetworkStrategy_HandleEvent :: "st_env \<Rightarrow> StandbyMessage \<Rightarrow> net_state \<Rightarrow> net_state" where
  "NetworkStrategy_HandleEvent e message s =
     (if eventId message = ALLOW_LIST_CHANGED then UpdateAllowedList e (msg_want message) s
      else if eventId message = RES_CTRL_CONDITION_CHANGED then UpdateNetResourceConfig e (msg_want message) s
      else if eventId message = PHASE_TRANSIT then StartNetLimit e (msg_want message) s
      else if eventId message = STATE_TRANSIT then StopNetLimit e (msg_want message) s
      else if eventId message = BG_TASK_STATUS_CHANGE then snd (UpdateBgTaskAppStatus e (msg_want message) s)
      else if eventId message = PROCESS_STATE_CHANGED then HandleProcessStatusChanged e (msg_want message) s
      else s)"

end
