(* ===== verification/Running_Lock.thy ===== *)
theory Running_Lock
  imports Strategy_Base
begin

text \<open>
  \<open>RunningLockStrategy\<close> of \<open>plugins/strategy/src/running_lock_strategy.cpp\<close>: while the device is
  in SLEEP the running locks of applications without exemption are proxied.

  \<open>rl_calls\<close> are the calls to the power manager in order: \<open>RC_Reset\<close> is \<open>ResetRunningLocks\<close>,
  \<open>RC_Proxy b l\<close> is \<open>ProxyRunningLocks(b, l)\<close> with \<open>l\<close> the pairs of pid and uid.
\<close>

section \<open>Data\<close>

record ProxiedProcInfo =
  pp_name :: string
  pp_uid :: i32
  pp_pids :: "i32 list"
  pp_flag :: u8

datatype rl_call = RC_Reset | RC_Proxy bool "(i32 \<times> i32) list"

record rl_state =
  isProxied :: bool
  rl_isIdleMaintence :: bool
  proxiedAppInfo :: "(string \<times> ProxiedProcInfo) list"
  uidBundleNmeMap :: "(i32 \<times> string) list"
  rl_calls :: "rl_call list"

definition new_proc :: "string \<Rightarrow> i32 \<Rightarrow> ProxiedProcInfo" where
  "new_proc name uid = \<lparr> pp_name = name, pp_uid = uid, pp_pids = [], pp_flag = 0 \<rparr>"

text \<open>What \<open>operator[]\<close> inserts for a missing key.\<close>

definition default_proc :: ProxiedProcInfo where
  "default_proc = \<lparr> pp_name = '''', pp_uid = - 1, pp_pids = [], pp_flag = 0 \<rparr>"

definition add_flag :: "u8 \<Rightarrow> ProxiedProcInfo \<Rightarrow> ProxiedProcInfo" where
  "add_flag flag p = p\<lparr>pp_flag := pp_flag p OR flag\<rparr>"

definition add_pid :: "i32 \<Rightarrow> ProxiedProcInfo \<Rightarrow> ProxiedProcInfo" where
  "add_pid pid p = p\<lparr>pp_pids := std_insert sint pid (pp_pids p)\<rparr>"

section \<open>Calls to the power manager\<close>

definition SetProxiedAppList :: "(i32 \<times> i32) list \<Rightarrow> ProxiedProcInfo \<Rightarrow> (i32 \<times> i32) list" where
  "SetProxiedAppList proxiedAppList info = proxiedAppList @ map (\<lambda>pid. (pid, pp_uid info)) (pp_pids info)"

definition ProxyRunningLockList :: "bool \<Rightarrow> (i32 \<times> i32) list \<Rightarrow> rl_state \<Rightarrow> rl_state" where
  "ProxyRunningLockList b proxiedAppList s =
     (if proxiedAppList = [] then s
      else if rl_isIdleMaintence s then s
      else s\<lparr>rl_calls := rl_calls s @ [RC_Proxy b proxiedAppList]\<rparr>)"

definition ProxyAppAndProcess :: "bool \<Rightarrow> rl_state \<Rightarrow> rl_state" where
  "ProxyAppAndProcess b s =
     ProxyRunningLockList b
       (fold (\<lambda>(key, value) l. if IsExempted (pp_flag value) then l else SetProxiedAppList l value)
          (proxiedAppInfo s) []) s"

definition ClearProxyRecord :: "rl_state \<Rightarrow> rl_state" where
  "ClearProxyRecord s = s\<lparr>proxiedAppInfo := [], uidBundleNmeMap := []\<rparr>"

section \<open>Collecting the applications\<close>

definition RL_GetAllAppInfos :: "st_env \<Rightarrow> rl_state \<Rightarrow> err \<times> rl_state" where
  "RL_GetAllAppInfos e s =
     (case applicationInfos e of
        None \<Rightarrow> (ERR_STRATEGY_DEPENDS_SA_NOT_AVAILABLE, s)
      | Some infos \<Rightarrow>
          (ERR_OK, fold (\<lambda>info s.
             let s = s\<lparr>uidBundleNmeMap := emplace (app_uid info) (app_name info) (uidBundleNmeMap s)\<rparr>;
                 key = uid_key (app_uid info) (app_name info);
                 s = s\<lparr>proxiedAppInfo := emplace key (new_proc (app_name info) (app_uid info)) (proxiedAppInfo s)\<rparr>
             in if app_isSystem info
                then s\<lparr>proxiedAppInfo := update_entry key (add_flag FLAG_UNRESTRICTED) (proxiedAppInfo s)\<rparr>
                else s)
           infos s))"

definition RL_GetAllRunningAppInfo :: "st_env \<Rightarrow> rl_state \<Rightarrow> err \<times> rl_state" where
  "RL_GetAllRunningAppInfo e s =
     (case allProcesses e of
        None \<Rightarrow> (ERR_STRATEGY_DEPENDS_SA_NOT_AVAILABLE, s)
      | Some infos \<Rightarrow>
          let s = fold (\<lambda>info s.
                case map_of (uidBundleNmeMap s) (pi_uid info) of
                  None \<Rightarrow> s
                | Some bundle \<Rightarrow>
                    let key = uid_key (pi_uid info) bundle in
                    s\<lparr>proxiedAppInfo := update_entry key (add_pid (pi_pid info))
                        (emplace key (new_proc (pi_name info) (pi_uid info)) (proxiedAppInfo s))\<rparr>)
                infos s;
              runningUids = map pi_uid (filter (\<lambda>info. map_of (uidBundleNmeMap s) (pi_uid info) \<noteq> None) infos)
          in (ERR_OK, s\<lparr>proxiedAppInfo :=
               filter (\<lambda>(key, value). pp_uid value \<in> set runningUids) (proxiedAppInfo s)\<rparr>))"

definition RL_GetForegroundApplications :: "st_env \<Rightarrow> rl_state \<Rightarrow> err \<times> rl_state" where
  "RL_GetForegroundApplications e s =
     (case foregroundApps e of
        None \<Rightarrow> (ERR_STRATEGY_DEPENDS_SA_NOT_AVAILABLE, s)
      | Some fgApps \<Rightarrow>
          (ERR_OK, s\<lparr>proxiedAppInfo :=
             fold (\<lambda>(uid, bundle). update_entry (uid_key uid bundle) (add_flag FLAG_FOREGROUND_APP))
               fgApps (proxiedAppInfo s)\<rparr>))"

definition RL_GetBackgroundTaskApp :: "st_env \<Rightarrow> rl_state \<Rightarrow> err \<times> rl_state" where
  "RL_GetBackgroundTaskApp e s =
     (case (continuousTasks e, transientTasks e) of
        (Some continuousTaskList, Some transientTaskList) \<Rightarrow>
          let info = fold (\<lambda>(uid, typeId) m.
                case map_of (uidBundleNmeMap s) uid of
                  None \<Rightarrow> m
                | Some bundle \<Rightarrow> update_entry (uid_key uid bundle) (add_flag FLAG_CONTINUOUS_TASK) m)
                continuousTaskList (proxiedAppInfo s);
              info = fold (\<lambda>(uid, package). update_entry (uid_key uid package) (add_flag FLAG_TRANSIENT_TASK))
                transientTaskList info
          in (ERR_OK, s\<lparr>proxiedAppInfo := info\<rparr>)
      | _ \<Rightarrow> (ERR_STRATEGY_DEPENDS_SA_NOT_AVAILABLE, s))"

definition RL_GetWorkSchedulerTask :: "st_env \<Rightarrow> rl_state \<Rightarrow> err \<times> rl_state" where
  "RL_GetWorkSchedulerTask e s =
     (case runningWorks e of
        None \<Rightarrow> (ERR_STRATEGY_DEPENDS_SA_NOT_AVAILABLE, s)
      | Some workInfos \<Rightarrow>
          (ERR_OK, s\<lparr>proxiedAppInfo :=
             fold (\<lambda>(uid, bundle). update_entry (uid_key uid bundle) (add_flag FLAG_WORK_SCHEDULER))
               workInfos (proxiedAppInfo s)\<rparr>))"

definition RL_GetExemptionConfig :: "st_env \<Rightarrow> rl_state \<Rightarrow> err \<times> rl_state" where
  "RL_GetExemptionConfig e s =
     (let allowNameList = allow_names e RUNNING_LOCK;
          info = map (\<lambda>(key, value). (key,
                   if pp_name value \<in> set allowNameList then add_flag FLAG_EXEMPTION value else value))
                 (proxiedAppInfo s);
          restrictBundleName = restrict_names e RUNNING_LOCK ''RUNNING_LOCK'';
          info = map (\<lambda>(key, value). (key,
                   if pp_name value \<in> set restrictBundleName then add_flag FLAG_RESTRICTED value else value)) info
      in (ERR_OK, s\<lparr>proxiedAppInfo := info\<rparr>))"

definition InitProxiedAppInfo :: "st_env \<Rightarrow> rl_state \<Rightarrow> err \<times> rl_state" where
  "InitProxiedAppInfo e s =
     (let (ret, s) =
        and_then (and_then (and_then (and_then (and_then (RL_GetAllAppInfos e s) (RL_GetAllRunningAppInfo e))
          (RL_GetForegroundApplications e)) (RL_GetBackgroundTaskApp e)) (RL_GetWorkSchedulerTask e))
          (RL_GetExemptionConfig e)
      in if ret \<noteq> ERR_OK then (ERR_STRATEGY_DEPENDS_SA_NOT_AVAILABLE, s)
         else (ERR_OK, s\<lparr>uidBundleNmeMap := []\<rparr>))"

definition InitNativeProcInfo :: "rl_state \<Rightarrow> err \<times> rl_state" where
  "InitNativeProcInfo s = (ERR_OK, s)"

section \<open>Starting and stopping\<close>

definition StartProxyInner :: "st_env \<Rightarrow> rl_state \<Rightarrow> err \<times> rl_state" where
  "StartProxyInner e s =
     (let s = ClearProxyRecord s;
          (ret, s) = and_then (InitProxiedAppInfo e s) InitNativeProcInfo
      in if ret \<noteq> ERR_OK then (ERR_STRATEGY_DEPENDS_SA_NOT_AVAILABLE, ClearProxyRecord s)
         else (ERR_OK, ProxyAppAndProcess True s))"

definition StopProxyInner :: "rl_state \<Rightarrow> rl_state" where
  "StopProxyInner s = ClearProxyRecord (ProxyAppAndProcess False s)"

definition RL_OnCreated :: "rl_state \<Rightarrow> err \<times> rl_state" where
  "RL_OnCreated s = (ERR_OK, s\<lparr>rl_calls := rl_calls s @ [RC_Reset]\<rparr>)"

definition RL_OnDestroy :: "rl_state \<Rightarrow> err \<times> rl_state" where
  "RL_OnDestroy s =
     (let s = (if isProxied s \<and> \<not> rl_isIdleMaintence s then ProxyAppAndProcess False s else s)
      in (ERR_OK, s\<lparr>isProxied := False, rl_isIdleMaintence := False\<rparr>))"

definition RL_UpdateResourceConfig :: "st_env \<Rightarrow> rl_state \<Rightarrow> err \<times> rl_state" where
  "RL_UpdateResourceConfig e s = (ERR_OK, snd (StartProxyInner e (StopProxyInner s)))"

definition StartProxy :: "st_env \<Rightarrow> want option \<Rightarrow> rl_state \<Rightarrow> err \<times> rl_state" where
  "StartProxy e w s =
     (if isProxied s then (ERR_STANDBY_STRATEGY_STATE_REPEAT, s)
      else case w of
        None \<Rightarrow> (ERR_STANDBY_OBJECT_NULL, s)
      | Some w \<Rightarrow>
          let curPhase = GetIntParam w CURRENT_PHASE 0; curState = GetIntParam w CURRENT_STATE 0 in
          if curState \<noteq> state_code SLEEP \<or> curPhase \<noteq> APP_RES_DEEP
          then (ERR_STANDBY_CURRENT_STATE_NOT_MATCH, s)
          else
            let (ret, s) = StartProxyInner e s in
            if ret \<noteq> ERR_OK then (ret, s)
            else (ERR_OK, s\<lparr>isProxied := True, rl_isIdleMaintence := False\<rparr>))"

definition StopProxy :: "want option \<Rightarrow> rl_state \<Rightarrow> err \<times> rl_state" where
  "StopProxy w s =
     (if \<not> isProxied s then (ERR_STANDBY_CURRENT_STATE_NOT_MATCH, s)
      else case w of
        None \<Rightarrow> (ERR_STANDBY_OBJECT_NULL, s)
      | Some w \<Rightarrow>
          let preSt = GetIntParam w PREVIOUS_STATE 0; curSt = GetIntParam w CURRENT_STATE 0 in
          (ERR_OK,
           if curSt = state_code MAINTENANCE \<and> preSt = state_code SLEEP
           then (ProxyAppAndProcess False s)\<lparr>rl_isIdleMaintence := True\<rparr>
           else if curSt = state_code SLEEP \<and> preSt = state_code MAINTENANCE
           then ProxyAppAndProcess True (s\<lparr>rl_isIdleMaintence := False\<rparr>)
           else if preSt = state_code SLEEP \<or> preSt = state_code MAINTENANCE
           then (StopProxyInner s)\<lparr>isProxied := False, rl_isIdleMaintence := False\<rparr>
           else s))"

section \<open>Flags and processes\<close>

definition RL_AddExemptionFlag :: "i32 \<Rightarrow> string \<Rightarrow> u8 \<Rightarrow> rl_state \<Rightarrow> rl_state" where
  "RL_AddExemptionFlag uid name flag s =
     (if \<not> isProxied s then s
      else case map_of (proxiedAppInfo s) (uid_key uid name) of
        None \<Rightarrow> s
      | Some p \<Rightarrow>
          let p' = add_flag flag p;
              s = s\<lparr>proxiedAppInfo := AList.update (uid_key uid name) p' (proxiedAppInfo s)\<rparr>
          in if \<not> IsExempted (pp_flag p) \<and> IsExempted (pp_flag p')
             then ProxyRunningLockList False (SetProxiedAppList [] p') s else s)"

definition RL_RemoveExemptionFlag :: "i32 \<Rightarrow> string \<Rightarrow> u8 \<Rightarrow> rl_state \<Rightarrow> rl_state" where
  "RL_RemoveExemptionFlag uid name flag s =
     (case map_of (proxiedAppInfo s) (uid_key uid name) of
        None \<Rightarrow> s
      | Some p \<Rightarrow>
          let p' = p\<lparr>pp_flag := pp_flag p AND NOT flag\<rparr>;
              s = s\<lparr>proxiedAppInfo := AList.update (uid_key uid name) p' (proxiedAppInfo s)\<rparr>
          in if IsExempted (pp_flag p') \<or> \<not> IsExempted (pp_flag p) then s
             else ProxyRunningLockList True (SetProxiedAppList [] p') s)"

definition RL_UpdateExemptionList :: "want option \<Rightarrow> rl_state \<Rightarrow> err \<times> rl_state" where
  "RL_UpdateExemptionList w s =
     (case w of
        None \<Rightarrow> (ERR_STANDBY_OBJECT_NULL, s)
      | Some w \<Rightarrow>
          let allowType = GetIntParam w ''allowType'' 0 in
          if (allowType AND RUNNING_LOCK) = 0 then (ERR_STANDBY_STRATEGY_NOT_MATCH, s)
          else if \<not> isProxied s then (ERR_STANDBY_CURRENT_STATE_NOT_MATCH, s)
          else
            let processName = GetStringParam w ''name''; added = GetBoolParam w ''added'' False;
                uid = GetIntParam w ''uid'' (- 1)
            in (ERR_OK, if added then RL_AddExemptionFlag uid processName FLAG_EXEMPTION s
                        else RL_RemoveExemptionFlag uid processName FLAG_EXEMPTION s))"

definition RL_UpdateBgTaskAppStatus :: "st_env \<Rightarrow> want option \<Rightarrow> rl_state \<Rightarrow> err \<times> rl_state" where
  "RL_UpdateBgTaskAppStatus e w s =
     (case w of
        None \<Rightarrow> (ERR_STANDBY_OBJECT_NULL, s)
      | Some w \<Rightarrow>
          let tp = GetStringParam w BG_TASK_TYPE; started = GetBoolParam w BG_TASK_STATUS False;
              uid = GetIntParam w BG_TASK_UID 0; bundleName = GetStringParam w BG_TASK_BUNDLE_NAME
          in case map_of BGTASK_EXEMPTION_FLAG_MAP tp of
               None \<Rightarrow> (ERR_STANDBY_KEY_INFO_NOT_MATCH, s)
             | Some flag \<Rightarrow>
                 let bundleName = (if bundleName = [] then st_clientBundleName e uid else bundleName)
                 in (ERR_OK, if started then RL_AddExemptionFlag uid bundleName flag s
                             else RL_RemoveExemptionFlag uid bundleName flag s))"

definition ResetProxyStatus :: "st_env \<Rightarrow> want option \<Rightarrow> rl_state \<Rightarrow> rl_state" where
  "ResetProxyStatus e w s =
     (if \<not> isProxied s \<or> rl_isIdleMaintence s then s
      else case w of
        None \<Rightarrow> s
      | Some w \<Rightarrow>
          if GetBoolParam w SA_STATUS False then s
          else
            let saId = GetIntParam w SA_ID 0 in
            if saId \<noteq> workScheduleServiceId e \<and> saId \<noteq> backgroundTaskManagerServiceId e then s
            else
              let bgTaskFlag = (FLAG_TRANSIENT_TASK OR FLAG_WORK_SCHEDULER) in
              fold (\<lambda>(key, value) s.
                  if (pp_flag value AND bgTaskFlag) = 0 then s
                  else RL_RemoveExemptionFlag (pp_uid value) (pp_name value) (pp_flag value AND bgTaskFlag) s)
                (proxiedAppInfo s) s)"

definition RL_GetExemptionConfigForApp :: "st_env \<Rightarrow> string \<Rightarrow> ProxiedProcInfo \<Rightarrow> ProxiedProcInfo" where
  "RL_GetExemptionConfigForApp e bundleName appInfo =
     (let appInfo = (if bundleName \<in> set (allow_names e NETWORK) then add_flag FLAG_EXEMPTION appInfo else appInfo)
      in if bundleName \<in> set (restrict_names e NETWORK ''NETWORK'')
         then add_flag FLAG_RESTRICTED appInfo else appInfo)"

text \<open>The parameter \<open>uid\<close> is unsigned, so the key of a negative uid is built from another text.\<close>

definition unsigned_uid_key :: "u32 \<Rightarrow> string \<Rightarrow> string" where
  "unsigned_uid_key uid name = to_string_u32 uid @ CHR ''_'' # name"

definition RL_GetAndCreateAppInfo :: "st_env \<Rightarrow> u32 \<Rightarrow> u32 \<Rightarrow> string \<Rightarrow> rl_state \<Rightarrow> rl_state" where
  "RL_GetAndCreateAppInfo e uid pid bundleName s =
     (let mapKey = unsigned_uid_key uid bundleName in
      case map_of (proxiedAppInfo s) mapKey of
        Some p \<Rightarrow> s\<lparr>proxiedAppInfo := AList.update mapKey (add_pid pid p) (proxiedAppInfo s)\<rparr>
      | None \<Rightarrow>
          let p = add_pid pid (new_proc bundleName uid);
              p = (if systemAppByUid e uid = Some True then add_flag FLAG_UNRESTRICTED p else p)
          in s\<lparr>proxiedAppInfo :=
                 emplace mapKey (RL_GetExemptionConfigForApp e bundleName p) (proxiedAppInfo s)\<rparr>)"

definition RL_HandleProcessStatusChanged :: "st_env \<Rightarrow> want option \<Rightarrow> rl_state \<Rightarrow> rl_state" where
  "RL_HandleProcessStatusChanged e w s =
     (if \<not> isProxied s then s
      else case w of
        None \<Rightarrow> s
      | Some w \<Rightarrow>
          let uid = GetIntParam w ''uid'' (- 1); pid = GetIntParam w ''pid'' (- 1);
              bundleName = GetStringParam w ''name''; isCreated = GetBoolParam w ''isCreated'' False;
              key = uid_key uid bundleName
          in if isCreated then
               let s = RL_GetAndCreateAppInfo e uid pid bundleName s;
                   s = s\<lparr>proxiedAppInfo := emplace key default_proc (proxiedAppInfo s)\<rparr>
               in (case map_of (proxiedAppInfo s) key of
                     None \<Rightarrow> s
                   | Some p \<Rightarrow> if \<not> IsExempted (pp_flag p) then ProxyRunningLockList True [(pid, uid)] s else s)
             else
               (case map_of (proxiedAppInfo s) key of
                  None \<Rightarrow> s
                | Some p \<Rightarrow>
                    let s = (if \<not> IsExempted (pp_flag p) then ProxyRunningLockList False [(pid, uid)] s else s);
                        p = p\<lparr>pp_pids := filter (\<lambda>x. x \<noteq> pid) (pp_pids p)\<rparr>
                    in if pp_pids p = [] then s\<lparr>proxiedAppInfo := AList.delete key (proxiedAppInfo s)\<rparr>
                       else s\<lparr>proxiedAppInfo := AList.update key p (proxiedAppInfo s)\<rparr>))"

definition RunningLockStrategy_HandleEvent :: "st_env \<Rightarrow> StandbyMessage \<Rightarrow> rl_state \<Rightarrow> rl_state" where
  "RunningLockStrategy_HandleEvent e message s =
     (if eventId message = ALLOW_LIST_CHANGED then snd (RL_UpdateExemptionList (msg_want message) s)
      else if eventId message = RES_CTRL_CONDITION_CHANGED then snd (RL_UpdateResourceConfig e s)
      else if eventId message = PHASE_TRANSIT then snd (StartProxy e (msg_want message) s)
      else if eventId message = STATE_TRANSIT then snd (StopProxy (msg_want message) s)
      else if eventId message = BG_TASK_STATUS_CHANGE then snd (RL_UpdateBgTaskAppStatus e (msg_want message) s)
      else if eventId message = PROCESS_STATE_CHANGED then RL_HandleProcessStatusChanged e (msg_want message) s
      else if eventId message = SYS_ABILITY_STATUS_CHANGED then ResetProxyStatus e (msg_want message) s
      else s)"

end
