(* ===== verification/Strategy_Manager.thy ===== *)
theory Strategy_Manager
  imports Network_Strategy Running_Lock
begin

text \<open>
  \<open>StrategyManagerAdapter\<close> of \<open>plugins/strategy/src/strategy_manager_adapter.cpp\<close>: it creates the
  configured strategies and hands every message to them in the order of the configuration.
  The two strategies are static objects of the plugin, so they keep their state when the list
  is rebuilt; \<open>strategyList\<close> holds their names.
\<close>

record strat_state =
  createdList :: "string list"
  ss_net :: net_state
  ss_rl :: rl_state

definition strategyMap :: "string list" where
  "strategyMap = [''NETWORK'', ''RUNNING_LOCK'']"

definition strategy_OnCreated :: "st_env \<Rightarrow> string \<Rightarrow> strat_state \<Rightarrow> err \<times> strat_state" where
  "strategy_OnCreated e name s =
     (if name = ''NETWORK''
      then let (ret, n) = NetworkStrategy_OnCreated e (ss_net s) in (ret, s\<lparr>ss_net := n\<rparr>)
      else let (ret, r) = RL_OnCreated (ss_rl s) in (ret, s\<lparr>ss_rl := r\<rparr>))"

definition strategy_OnDestroy :: "st_env \<Rightarrow> string \<Rightarrow> strat_state \<Rightarrow> strat_state" where
  "strategy_OnDestroy e name s =
     (if name = ''NETWORK'' then s\<lparr>ss_net := snd (NetworkStrategy_OnDestroy e (ss_net s))\<rparr>
      else s\<lparr>ss_rl := snd (RL_OnDestroy (ss_rl s))\<rparr>)"

definition strategy_HandleEvent :: "st_env \<Rightarrow> StandbyMessage \<Rightarrow> string \<Rightarrow> strat_state \<Rightarrow> strat_state" where
  "strategy_HandleEvent e message name s =
     (if name = ''NETWORK'' then s\<lparr>ss_net := NetworkStrategy_HandleEvent e message (ss_net s)\<rparr>
      else s\<lparr>ss_rl := RunningLockStrategy_HandleEvent e message (ss_rl s)\<rparr>)"

definition RegisterPolicy :: "st_env \<Rightarrow> string list \<Rightarrow> strat_state \<Rightarrow> strat_state" where
  "RegisterPolicy e strategies s =
     fold (\<lambda>item s.
       if item \<notin> set strategyMap then s
       else let (ret, s) = strategy_OnCreated e item s in
            if ret = ERR_OK then s\<lparr>createdList := createdList s @ [item]\<rparr> else s) strategies s"

definition StrategyManager_Init :: "st_env \<Rightarrow> strat_state \<Rightarrow> bool \<times> strat_state" where
  "StrategyManager_Init e s =
     (let strategyConfigList = GetStrategyConfigList (st_cfg e)
      in if strategyConfigList = [] then (True, s) else (True, RegisterPolicy e strategyConfigList s))"

definition StrategyManager_UnInit :: "st_env \<Rightarrow> strat_state \<Rightarrow> bool \<times> strat_state" where
  "StrategyManager_UnInit e s =
     (True, (fold (strategy_OnDestroy e) (createdList s) s)\<lparr>createdList := []\<rparr>)"

definition StrategyManager_HandleEvent :: "st_env \<Rightarrow> StandbyMessage \<Rightarrow> strat_state \<Rightarrow> strat_state" where
  "StrategyManager_HandleEvent e message s = fold (strategy_HandleEvent e message) (createdList s) s"

text \<open>With both strategies configured, every message reaches each of them once.\<close>

lemma StrategyManager_HandleEvent_both:
  assumes "createdList s = [''NETWORK'', ''RUNNING_LOCK''] \<or> createdList s = [''RUNNING_LOCK'', ''NETWORK'']"
  shows "StrategyManager_HandleEvent e m s =
    s\<lparr>ss_net := NetworkStrategy_HandleEvent e m (ss_net s), ss_rl := RunningLockStrategy_HandleEvent e m (ss_rl s)\<rparr>"
  using assms by (auto simp: StrategyManager_HandleEvent_def strategy_HandleEvent_def)

end
