(* ===== verification/Network_Steps.thy ===== *)
theory Network_Steps
  imports Network_Strategy
begin

text \<open>
  What the net manager was told. \<open>net_view\<close> replays the calls of the strategy: whether the
  firewall is on and which uids are trusted. The invariant says that the firewall is on only
  while the strategy believes so and that every trusted uid belongs to a recorded application
  whose flags exempt it under the current day or night condition.
\<close>

section \<open>The view of the net manager\<close>

definition policy_ok :: "int \<Rightarrow> bool" where
  "policy_ok r \<longleftrightarrow> r = NETMANAGER_SUCCESS \<or> r = NETMANAGER_ERR_STATUS_EXIST"

fun replay_net :: "net_call \<Rightarrow> bool \<times> u32 set \<Rightarrow> bool \<times> u32 set" where
  "replay_net (NC_Policy b r) (p, T) = (if policy_ok r then b else p, T)"
| "replay_net (NC_Trust l b) (p, T) = (p, if b then T \<union> set l else T - set l)"
| "replay_net (NC_Dispatch m) v = v"

definition net_view :: "net_state \<Rightarrow> bool \<times> u32 set" where
  "net_view s = fold replay_net (net_calls s) (False, {})"

abbreviation firewall_on :: "net_state \<Rightarrow> bool" where "firewall_on s \<equiv> fst (net_view s)"
abbreviation trusted :: "net_state \<Rightarrow> u32 set" where "trusted s \<equiv> snd (net_view s)"

lemma net_view_call [simp]: "net_view (net_call c s) = replay_net c (net_view s)"
  by (simp add: net_view_def net_call_def)

lemma net_view_same: "net_calls t = net_calls s \<Longrightarrow> net_view t = net_view s"
  by (simp add: net_view_def)

lemma net_view_updates [simp]:
  "net_view (s\<lparr>netLimitedAppInfo := m\<rparr>) = net_view s" "net_view (s\<lparr>net_condition := c\<rparr>) = net_view s"
  "net_view (s\<lparr>isFirewallEnabled := b\<rparr>) = net_view s" "net_view (s\<lparr>net_isIdleMaintence := b\<rparr>) = net_view s"
  by (simp_all add: net_view_def)

lemma net_call_frame [simp]:
  "netLimitedAppInfo (net_call c s) = netLimitedAppInfo s" "isFirewallEnabled (net_call c s) = isFirewallEnabled s"
  "net_isIdleMaintence (net_call c s) = net_isIdleMaintence s" "net_condition (net_call c s) = net_condition s"
  "nightExemptionTaskType (net_call c s) = nightExemptionTaskType s" "isNightSleepMode (net_call c s) = isNightSleepMode s"
  by (simp_all add: net_call_def)

lemma SetFirewallAllowedList_frame [simp]:
  "netLimitedAppInfo (SetFirewallAllowedList l b s) = netLimitedAppInfo s"
  "isFirewallEnabled (SetFirewallAllowedList l b s) = isFirewallEnabled s"
  "net_isIdleMaintence (SetFirewallAllowedList l b s) = net_isIdleMaintence s"
  by (simp_all add: SetFirewallAllowedList_def)

lemma SetFirewallAllowedList_view:
  "net_view (SetFirewallAllowedList l b s) =
    (firewall_on s, if b then trusted s \<union> set l else if net_isIdleMaintence s then trusted s else trusted s - set l)"
  by (cases "net_view s") (auto simp: SetFirewallAllowedList_def)

section \<open>Exempted uids\<close>

definition exempt_at :: "u32 \<Rightarrow> u8 \<Rightarrow> bool" where
  "exempt_at c f \<longleftrightarrow> IsExempted f \<and> (c = NIGHT_STANDBY \<longrightarrow> IsExempted (f AND NOT FLAG_UNRESTRICTED))"

lemma IsFlagExempted_at: "IsFlagExempted e f \<longleftrightarrow> exempt_at (now_condition e) f"
  by (simp add: IsFlagExempted_def exempt_at_def)

definition exempt_uids :: "u32 \<Rightarrow> (i32 \<times> NetLimtedAppInfo) list \<Rightarrow> u32 set" where
  "exempt_uids c m = {uid. \<exists>v. map_of m uid = Some v \<and> exempt_at c (nl_flag v)}"

text \<open>
  The flags of a task or of an exemption. Adding one keeps an exemption; an entry that is
  exempted after adding one is so by night as well.
\<close>

definition task_flag :: "u8 \<Rightarrow> bool" where
  "task_flag f \<longleftrightarrow> f \<noteq> 0 \<and> \<not> bit f 4 \<and> \<not> bit f 6"

lemma task_flags [simp]:
  "task_flag FLAG_EXEMPTION" "map_of BGTASK_EXEMPTION_FLAG_MAP t = Some flag \<Longrightarrow> task_flag flag"
  by (auto simp: task_flag_def flag_defs bit_simps BGTASK_EXEMPTION_FLAG_MAP_def split: if_splits)

lemma nonzero_bit: "(f :: u8) \<noteq> 0 \<longleftrightarrow> (\<exists>n. bit f n)"
  using bit_imp_le_length [of f] by (auto simp: bit_eq_iff)

lemma bit_flag_values:
  "bit FLAG_UNRESTRICTED n \<longleftrightarrow> n = 4" "bit FLAG_RESTRICTED n \<longleftrightarrow> n = 6"
proof -
  have f: "FLAG_UNRESTRICTED = push_bit 4 1" "FLAG_RESTRICTED = push_bit 6 1"
    by (simp_all add: flag_defs push_bit_eq_mult)
  show "bit FLAG_UNRESTRICTED n \<longleftrightarrow> n = 4" "bit FLAG_RESTRICTED n \<longleftrightarrow> n = 6"
    unfolding f bit_push_bit_iff bit_1_iff by auto
qed

lemma bit_and_not: "bit (f AND NOT g) n \<longleftrightarrow> bit f n \<and> \<not> bit g n" for f g :: u8
  by (auto simp: bit_simps dest: bit_imp_le_length)

lemma exempt_at_bits:
  "exempt_at c f \<longleftrightarrow> bit f 5 \<or> \<not> bit f 6 \<and> (\<exists>n. bit f n \<and> (c = NIGHT_STANDBY \<longrightarrow> n \<noteq> 4))"
  by (auto simp: exempt_at_def IsExempted_bits nonzero_bit bit_and_not bit_flag_values)

lemma exempt_at_or: "exempt_at c f \<Longrightarrow> task_flag g \<Longrightarrow> exempt_at c (f OR g)"
  by (auto simp: exempt_at_bits task_flag_def bit_simps)

lemma exempt_at_or_new: "task_flag g \<Longrightarrow> IsExempted (f OR g) \<Longrightarrow> exempt_at c (f OR g)"
  by (auto simp: exempt_at_bits IsExempted_bits task_flag_def bit_simps nonzero_bit)

lemma exempt_at_unrestrict: "exempt_at c f \<Longrightarrow> exempt_at c (f AND NOT FLAG_RESTRICTED)"
  by (auto simp: exempt_at_bits bit_and_not bit_flag_values)

section \<open>The invariant\<close>

definition net_inv :: "u32 \<Rightarrow> net_state \<Rightarrow> bool" where
  "net_inv c s \<longleftrightarrow> distinct (map fst (netLimitedAppInfo s)) \<and>
     (if isFirewallEnabled s
      then \<not> net_isIdleMaintence s \<and> trusted s \<subseteq> exempt_uids c (netLimitedAppInfo s)
      else \<not> firewall_on s \<and> trusted s = {})"

lemma exempt_uids_update:
  "exempt_uids c (AList.update uid v m) =
    (if exempt_at c (nl_flag v) then insert uid (exempt_uids c m) else exempt_uids c m - {uid})"
  unfolding exempt_uids_def AList.update_conv' by auto

lemma exempt_uids_delete: "exempt_uids c (AList.delete uid m) = exempt_uids c m - {uid}"
  unfolding exempt_uids_def AList.delete_conv' by auto

lemma exempt_uids_emplace: "exempt_uids c m \<subseteq> exempt_uids c (emplace uid v m)"
  unfolding exempt_uids_def map_of_emplace by auto

lemma exempt_uids_in: "map_of m uid = Some v \<Longrightarrow> uid \<in> exempt_uids c m \<longleftrightarrow> exempt_at c (nl_flag v)"
  by (simp add: exempt_uids_def)

lemma GetExemptedFlag_at:
  "fst (GetExemptedFlag e f g s) \<longleftrightarrow> IsExempted g \<and> \<not> exempt_at (now_condition e) f"
  "snd (GetExemptedFlag e f g s) = s\<lparr>net_condition := now_condition e\<rparr>"
  by (auto simp: GetExemptedFlag_def exempt_at_def Let_def)

text \<open>The operations that run while the firewall is enabled keep it enabled.\<close>

definition enabled_inv :: "u32 \<Rightarrow> net_state \<Rightarrow> bool" where
  "enabled_inv c s \<longleftrightarrow> distinct (map fst (netLimitedAppInfo s)) \<and> isFirewallEnabled s \<and>
     \<not> net_isIdleMaintence s \<and> trusted s \<subseteq> exempt_uids c (netLimitedAppInfo s)"

lemma GetAndCreateAppInfo_inv:
  assumes "enabled_inv c s"
  shows "enabled_inv c (GetAndCreateAppInfo e uid n s)" "map_of (netLimitedAppInfo (GetAndCreateAppInfo e uid n s)) uid \<noteq> None"
  using assms exempt_uids_emplace
  by (fastforce simp: GetAndCreateAppInfo_def Let_def enabled_inv_def map_of_emplace split: option.splits)+

lemma AddExemptionFlag_inv:
  assumes "enabled_inv c s" "now_condition e = c" "task_flag flag"
  shows "enabled_inv c (AddExemptionFlag e uid n flag s)"
proof -
  define t where "t = GetAndCreateAppInfo e uid n s"
  have t: "enabled_inv c t" "map_of (netLimitedAppInfo t) uid \<noteq> None"
    unfolding t_def by (rule GetAndCreateAppInfo_inv [OF assms(1)])+
  then obtain v where v: "map_of (netLimitedAppInfo t) uid = Some v" by auto
  define v1 where "v1 = (if n \<in> set (conditional_names e) then and_not_flag FLAG_RESTRICTED (or_flag flag v) else or_flag flag v)"
  have bits: "bit (nl_flag v1) k \<longleftrightarrow> (bit (nl_flag v) k \<or> bit flag k) \<and> (n \<in> set (conditional_names e) \<longrightarrow> k \<noteq> 6)" for k
    by (auto simp: v1_def or_flag_def and_not_flag_def bit_or_iff bit_and_not bit_flag_values)
  have flag: "nl_flag v1 OR flag = nl_flag v1"
    using assms(3) by (intro bit_eqI) (auto simp: bit_or_iff bits task_flag_def)
  then have again: "or_flag flag v1 = v1"
    by (simp add: or_flag_def)
  have keep: "exempt_at c (nl_flag v1)" if "exempt_at c (nl_flag v)"
    using that assms(3) by (auto simp: exempt_at_bits bits task_flag_def)
  have new: "exempt_at c (nl_flag v1)" if "IsExempted (nl_flag v1)"
    using exempt_at_or_new [OF assms(3), of "nl_flag v1" c] that by (simp add: flag)
  define u where "u = t\<lparr>netLimitedAppInfo := AList.update uid v1 (netLimitedAppInfo t), net_condition := c\<rparr>"
  define ex where "ex \<longleftrightarrow> IsExempted (nl_flag v1) \<and> \<not> exempt_at c (nl_flag v)"
  have res: "AddExemptionFlag e uid n flag s =
      (if ex then SetFirewallAllowedList [uid] True u else u)\<lparr>netLimitedAppInfo := AList.update uid v1 (netLimitedAppInfo t)\<rparr>"
    using assms(1,2) GetExemptedFlag_at [of e "nl_flag v" "nl_flag v1"
        "t\<lparr>netLimitedAppInfo := AList.update uid v1 (netLimitedAppInfo t)\<rparr>"]
    by (simp add: AddExemptionFlag_def enabled_inv_def t_def [symmetric] v v1_def [symmetric] Let_def split_def
        again u_def ex_def AList.update_conv' del: AList.update_Some_unfold)
  have "distinct (map fst (AList.update uid v1 (netLimitedAppInfo t)))"
    using t(1) by (auto simp: enabled_inv_def)
  moreover have "trusted t \<subseteq> exempt_uids c (AList.update uid v1 (netLimitedAppInfo t))"
    using t(1) keep v by (auto simp: enabled_inv_def exempt_uids_update exempt_uids_in)
  moreover have "uid \<in> exempt_uids c (AList.update uid v1 (netLimitedAppInfo t))" if ex
    using new that by (simp add: exempt_uids_update ex_def)
  ultimately show ?thesis
    using t(1) unfolding res
    by (auto simp: enabled_inv_def SetFirewallAllowedList_view u_def)
qed

lemma RemoveExemptionFlag_inv:
  assumes "enabled_inv c s" "now_condition e = c"
  shows "enabled_inv c (RemoveExemptionFlag e uid flag s)"
proof (cases "map_of (netLimitedAppInfo s) uid")
  case None
  with assms(1) show ?thesis by (simp add: RemoveExemptionFlag_def)
next
  case (Some v)
  define v1 where "v1 = (if nl_name (and_not_flag flag v) \<in> set (conditional_names e)
    then restrict_plain (and_not_flag flag v) else and_not_flag flag v)"
  define m where "m = AList.update uid v1 (netLimitedAppInfo s)"
  define u where "u = s\<lparr>netLimitedAppInfo := m, net_condition := c\<rparr>"
  define ex where "ex \<longleftrightarrow> IsExempted (nl_flag v) \<and> \<not> exempt_at c (nl_flag v1)"
  have res: "RemoveExemptionFlag e uid flag s = (if ex then SetFirewallAllowedList [uid] False u else u)"
    using assms GetExemptedFlag_at [of e "nl_flag v1" "nl_flag v" "s\<lparr>netLimitedAppInfo := m\<rparr>"]
    by (simp add: RemoveExemptionFlag_def enabled_inv_def Some v1_def [symmetric] m_def [symmetric] Let_def split_def
        u_def ex_def)
  have "distinct (map fst m)"
    using assms(1) by (auto simp: enabled_inv_def m_def)
  moreover have "trusted s - {uid} \<subseteq> exempt_uids c m"
    using assms(1) by (auto simp: enabled_inv_def m_def exempt_uids_update)
  moreover have "trusted s \<subseteq> exempt_uids c m" if "\<not> ex"
  proof (cases "uid \<in> trusted s")
    case True
    then have "exempt_at c (nl_flag v)"
      using assms(1) exempt_uids_in [OF Some] by (auto simp: enabled_inv_def)
    with that have "exempt_at c (nl_flag v1)" by (simp add: ex_def exempt_at_def)
    then show ?thesis
      using assms(1) by (auto simp: enabled_inv_def m_def exempt_uids_update)
  qed (use assms(1) in \<open>auto simp: enabled_inv_def m_def exempt_uids_update\<close>)
  ultimately show ?thesis
    using assms(1) unfolding res by (auto simp: enabled_inv_def SetFirewallAllowedList_view u_def)
qed

lemma enabled_inv_condition [simp]: "enabled_inv c (s\<lparr>net_condition := d\<rparr>) = enabled_inv c s"
  by (simp add: enabled_inv_def)

lemma UpdateExemptionList_inv:
  "enabled_inv c s \<Longrightarrow> now_condition e = c \<Longrightarrow> enabled_inv c (snd (UpdateExemptionList e w s))"
  by (auto simp: UpdateExemptionList_def Let_def AddExemptionFlag_inv RemoveExemptionFlag_inv split: option.split)

lemma UpdateBgTaskAppStatus_inv:
  "enabled_inv c s \<Longrightarrow> now_condition e = c \<Longrightarrow> enabled_inv c (snd (UpdateBgTaskAppStatus e w s))"
  by (auto simp: UpdateBgTaskAppStatus_def Let_def AddExemptionFlag_inv RemoveExemptionFlag_inv split: option.split)

lemma HandleProcessStatusChanged_inv:
  assumes "enabled_inv c s" "now_condition e = c"
  shows "enabled_inv c (HandleProcessStatusChanged e w s)"
proof (cases w)
  case None
  with assms show ?thesis by (simp add: HandleProcessStatusChanged_def)
next
  case (Some w')
  define uid where "uid = GetIntParam w' ''uid'' (- 1)"
  define t where "t = s\<lparr>net_condition := c\<rparr>"
  define u where "u = GetAndCreateAppInfo e uid (GetStringParam w' ''name'') t"
  have t: "enabled_inv c t" using assms(1) by (simp add: t_def)
  have u: "enabled_inv c u" unfolding u_def by (rule GetAndCreateAppInfo_inv(1) [OF t])
  have created: "enabled_inv c (SetFirewallAllowedList [uid] True u)"
    if "map_of (netLimitedAppInfo u) uid = Some v" "IsFlagExempted e (nl_flag v)" for v
    using u that exempt_uids_in [OF that(1)] assms(2)
    by (auto simp: enabled_inv_def SetFirewallAllowedList_view IsFlagExempted_at)
  define d where "d = t\<lparr>netLimitedAppInfo := AList.delete uid (netLimitedAppInfo t)\<rparr>"
  have ended: "enabled_inv c (if \<not> IsFlagExempted e (nl_flag v) then d else SetFirewallAllowedList [uid] False d)"
    if "map_of (netLimitedAppInfo t) uid = Some v" for v
    using t exempt_uids_in [OF that] assms(2)
    by (auto simp: enabled_inv_def SetFirewallAllowedList_view IsFlagExempted_at d_def exempt_uids_delete)
  show ?thesis
    using assms t u created ended
    by (auto simp: HandleProcessStatusChanged_def Some Let_def uid_def [symmetric] t_def [symmetric] u_def [symmetric]
        d_def [symmetric] split: option.split)
qed

section \<open>Starting and stopping\<close>

text \<open>
  The net manager accepts the policy and reports its trust list; \<open>net_inv\<close> is what holds
  between two messages.
\<close>

definition net_answers :: "st_env \<Rightarrow> net_state \<Rightarrow> bool" where
  "net_answers e s \<longleftrightarrow> (\<forall>b. policy_ok (setDeviceIdlePolicy e b)) \<and>
     (\<exists>l. deviceIdleTrustlist e = Some l \<and> set l = trusted s)"

lemma HandleDeviceIdlePolicy_view:
  "policy_ok (setDeviceIdlePolicy e b) \<Longrightarrow> net_view (snd (HandleDeviceIdlePolicy e b s)) = (b, trusted s)"
  by (cases "net_view s") (auto simp: HandleDeviceIdlePolicy_def Let_def)

lemma HandleDeviceIdlePolicy_frame [simp]:
  "netLimitedAppInfo (snd (HandleDeviceIdlePolicy e b s)) = netLimitedAppInfo s"
  "isFirewallEnabled (snd (HandleDeviceIdlePolicy e b s)) = isFirewallEnabled s"
  "net_isIdleMaintence (snd (HandleDeviceIdlePolicy e b s)) = net_isIdleMaintence s"
  "fst (HandleDeviceIdlePolicy e b s) = setDeviceIdlePolicy e b"
  by (simp_all add: HandleDeviceIdlePolicy_def Let_def)

lemma ResetFirewallAllowList_view:
  assumes "net_answers e s"
  shows "net_view (ResetFirewallAllowList e s) = (False, {})"
proof -
  obtain l where l: "deviceIdleTrustlist e = Some l" "set l = trusted s" and ok: "\<forall>b. policy_ok (setDeviceIdlePolicy e b)"
    using assms by (auto simp: net_answers_def)
  then show ?thesis
    using HandleDeviceIdlePolicy_view [of e False s]
    by (auto simp: ResetFirewallAllowList_def Let_def split_def policy_ok_def)
qed

lemma ResetFirewallAllowList_frame [simp]:
  "netLimitedAppInfo (ResetFirewallAllowList e s) = netLimitedAppInfo s"
  "isFirewallEnabled (ResetFirewallAllowList e s) = isFirewallEnabled s"
  "net_isIdleMaintence (ResetFirewallAllowList e s) = net_isIdleMaintence s"
  by (simp_all add: ResetFirewallAllowList_def Let_def split_def split: option.split)

lemma allowed_uids:
  "distinct (map fst m) \<Longrightarrow>
     set (map fst (filter (\<lambda>(key, value). IsFlagExempted e (nl_flag value)) m)) = exempt_uids (now_condition e) m"
  by (force simp: exempt_uids_def IsFlagExempted_at)

lemma SetFirewallStatus_frame [simp]:
  "netLimitedAppInfo (snd (SetFirewallStatus e b s)) = netLimitedAppInfo s"
  "isFirewallEnabled (snd (SetFirewallStatus e b s)) = isFirewallEnabled s"
  "net_isIdleMaintence (snd (SetFirewallStatus e b s)) = net_isIdleMaintence s"
  by (simp_all add: SetFirewallStatus_def SetNetAllowApps_def Let_def split_def)

lemma SetFirewallStatus_view:
  assumes "distinct (map fst (netLimitedAppInfo s))" "policy_ok (setDeviceIdlePolicy e b)"
  shows "net_view (snd (SetFirewallStatus e b s)) =
    (b, if b then trusted s \<union> exempt_uids (now_condition e) (netLimitedAppInfo s)
        else if net_isIdleMaintence s then trusted s
        else trusted s - exempt_uids (now_condition e) (netLimitedAppInfo s))"
  using assms(2) HandleDeviceIdlePolicy_view [OF assms(2)] allowed_uids [OF assms(1), of e]
  by (cases b) (auto simp: SetFirewallStatus_def SetNetAllowApps_def Let_def split_def SetFirewallAllowedList_view policy_ok_def)

section \<open>Collecting the applications\<close>

text \<open>The collection only touches the record and the remembered condition.\<close>

definition collects :: "net_state \<Rightarrow> net_state \<Rightarrow> bool" where
  "collects s t \<longleftrightarrow> net_calls t = net_calls s \<and> isFirewallEnabled t = isFirewallEnabled s \<and>
     net_isIdleMaintence t = net_isIdleMaintence s \<and> nightExemptionTaskType t = nightExemptionTaskType s \<and>
     (distinct (map fst (netLimitedAppInfo s)) \<longrightarrow> distinct (map fst (netLimitedAppInfo t)))"

lemma collects_refl [simp]: "collects s s"
  by (simp add: collects_def)

lemma collects_trans: "collects s t \<Longrightarrow> collects t u \<Longrightarrow> collects s u"
  by (simp add: collects_def)

lemma collects_fold: "(\<And>x s. collects s (g x s)) \<Longrightarrow> collects s (fold g xs s)"
proof (induction xs arbitrary: s)
  case (Cons x xs)
  from collects_trans [OF Cons.prems Cons.IH [OF Cons.prems]] show ?case by simp
qed simp

lemma collects_condition [simp]: "collects s (s\<lparr>net_condition := c\<rparr>)"
  by (simp add: collects_def)

lemma collects_flag [simp]: "collects s (AddExemptionFlagByUid uid f s)"
  by (simp add: collects_def AddExemptionFlagByUid_def)

lemma collects_queries:
  "collects s (snd (GetAllRunningAppInfo e s))" "collects s (snd (GetForegroundApplications e s))"
  "collects s (snd (GetBackgroundTaskApp e s))" "collects s (snd (GetWorkSchedulerTask e s))"
  "collects s (snd (GetExemptionConfig e s))"
proof -
  have "distinct (map fst m) \<Longrightarrow> distinct (map fst (fold (\<lambda>info. emplace (pi_uid info) (h info)) infos m))"
    for h and infos :: "process_info list" and m :: "(i32 \<times> NetLimtedAppInfo) list"
    by (induction infos arbitrary: m) auto
  then show "collects s (snd (GetAllRunningAppInfo e s))"
    by (simp add: GetAllRunningAppInfo_def collects_def split: option.split)
  show "collects s (snd (GetForegroundApplications e s))"
    by (auto simp: GetForegroundApplications_def intro!: collects_fold split: option.split)
  show "collects s (snd (GetWorkSchedulerTask e s))"
    by (auto simp: GetWorkSchedulerTask_def intro!: collects_fold split: option.split)
  define g1 g2 where "g1 = (\<lambda>(uid, typeId :: u32) s.
      if net_condition s = DAY_STANDBY \<or> (nightExemptionTaskType s AND push_bit (unat typeId) 1) \<noteq> 0
      then AddExemptionFlagByUid uid FLAG_CONTINUOUS_TASK s else s)"
    and "g2 = (\<lambda>(uid, p :: string). AddExemptionFlagByUid uid FLAG_TRANSIENT_TASK)"
  have "collects s (fold g2 tt (fold g1 ct (s\<lparr>net_condition := now_condition e\<rparr>)))" for ct tt
    by (rule collects_trans [OF collects_trans [OF collects_condition collects_fold] collects_fold])
      (auto simp: g1_def g2_def)
  then show "collects s (snd (GetBackgroundTaskApp e s))"
    by (auto simp: GetBackgroundTaskApp_def Let_def g1_def g2_def split: option.split)
  show "collects s (snd (GetExemptionConfig e s))"
    by (simp add: GetExemptionConfig_def Let_def collects_def split_def comp_def)
qed

lemma collects_Init: "collects s (snd (InitNetLimitedAppInfo e s))"
proof -
  define P where "P = (\<lambda>t. collects s t)"
  have step: "P u \<Longrightarrow> P (snd (GetForegroundApplications e u))" "P u \<Longrightarrow> P (snd (GetBackgroundTaskApp e u))"
      "P u \<Longrightarrow> P (snd (GetWorkSchedulerTask e u))" "P u \<Longrightarrow> P (snd (GetExemptionConfig e u))" for u
    using collects_trans [of s u] collects_queries [of u e] by (simp_all add: P_def)
  define t where "t = snd (GetAllRunningAppInfo e s)"
  have t: "P t" using collects_queries(1) by (simp add: P_def t_def)
  show ?thesis
  proof (cases "fst (GetAllRunningAppInfo e s) \<noteq> ERR_OK \<or> applicationInfos e = None")
    case True
    then have "snd (InitNetLimitedAppInfo e s) = t"
      by (cases "applicationInfos e") (simp_all add: InitNetLimitedAppInfo_def Let_def split_def t_def)
    with t show ?thesis by (simp add: P_def)
  next
    case False
    then obtain infos where infos: "applicationInfos e = Some infos" by auto
    define g where "g = (\<lambda>info :: app_info. if app_isSystem info then AddExemptionFlagByUid (app_uid info) FLAG_UNRESTRICTED else id)"
    define l where "l = infos @ (case specialInfos e of None \<Rightarrow> [] | Some l \<Rightarrow> l)"
    define r where "r = and_then (and_then (and_then (GetForegroundApplications e (fold g l t)) (GetBackgroundTaskApp e))
                    (GetWorkSchedulerTask e)) (GetExemptionConfig e)"
    have "P (fold g l t)"
      using t unfolding P_def by (rule collects_trans) (rule collects_fold, simp add: g_def)
    then have "P (snd r)"
      unfolding r_def by (intro and_then_keeps [where P = P]) (simp_all add: step)
    moreover have "snd (InitNetLimitedAppInfo e s) = snd r"
      using False by (simp add: InitNetLimitedAppInfo_def infos Let_def split_def t_def r_def g_def l_def)
    ultimately show ?thesis by (simp add: P_def)
  qed
qed

section \<open>Messages\<close>

lemma net_inv_enabled: "isFirewallEnabled s \<Longrightarrow> net_inv c s \<longleftrightarrow> enabled_inv c s"
  by (simp add: net_inv_def enabled_inv_def)

lemma enabled_inv_net_inv: "enabled_inv c s \<Longrightarrow> net_inv c s"
  by (simp add: net_inv_def enabled_inv_def)

lemma UpdateExemptionList_net_inv:
  "net_inv c s \<Longrightarrow> now_condition e = c \<Longrightarrow> net_inv c (snd (UpdateExemptionList e w s))"
  by (cases "isFirewallEnabled s")
    (auto simp: net_inv_enabled intro: enabled_inv_net_inv UpdateExemptionList_inv,
      auto simp: UpdateExemptionList_def Let_def split: option.split)

lemma UpdateBgTaskAppStatus_net_inv:
  "net_inv c s \<Longrightarrow> now_condition e = c \<Longrightarrow> net_inv c (snd (UpdateBgTaskAppStatus e w s))"
  by (cases "isFirewallEnabled s")
    (auto simp: net_inv_enabled intro: enabled_inv_net_inv UpdateBgTaskAppStatus_inv,
      auto simp: UpdateBgTaskAppStatus_def)

lemma HandleProcessStatusChanged_net_inv:
  "net_inv c s \<Longrightarrow> now_condition e = c \<Longrightarrow> net_inv c (HandleProcessStatusChanged e w s)"
  by (cases "isFirewallEnabled s")
    (auto simp: net_inv_enabled intro: enabled_inv_net_inv HandleProcessStatusChanged_inv,
      auto simp: HandleProcessStatusChanged_def)

lemma EnableNetworkFirewall_cases:
  assumes "\<not> isFirewallEnabled s" "net_view s = (False, {})" "net_answers e s"
  defines "t \<equiv> snd (EnableNetworkFirewall e s)"
  shows "distinct (map fst (netLimitedAppInfo t))"
    and "fst (EnableNetworkFirewall e s) = ERR_OK \<Longrightarrow>
      isFirewallEnabled t \<and> \<not> net_isIdleMaintence t \<and> net_view t = (True, exempt_uids (now_condition e) (netLimitedAppInfo t)) \<and>
      netLimitedAppInfo t = netLimitedAppInfo (snd (InitNetLimitedAppInfo e (s\<lparr>netLimitedAppInfo := []\<rparr>)))"
    and "fst (EnableNetworkFirewall e s) \<noteq> ERR_OK \<Longrightarrow> \<not> isFirewallEnabled t \<and> net_view t = (False, {})"
proof -
  define r u where "r = fst (InitNetLimitedAppInfo e (s\<lparr>netLimitedAppInfo := []\<rparr>))"
    and "u = snd (InitNetLimitedAppInfo e (s\<lparr>netLimitedAppInfo := []\<rparr>))"
  have init: "InitNetLimitedAppInfo e (s\<lparr>netLimitedAppInfo := []\<rparr>) = (r, u)" by (simp add: r_def u_def)
  have u: "distinct (map fst (netLimitedAppInfo u))" "net_view u = (False, {})" "\<not> isFirewallEnabled u"
    using collects_Init [of "s\<lparr>netLimitedAppInfo := []\<rparr>" e] assms(1,2)
    by (auto simp: u_def collects_def net_view_def)
  have ok: "policy_ok (setDeviceIdlePolicy e True)" using assms(3) by (simp add: net_answers_def)
  note on = SetFirewallStatus_view [OF u(1) ok]
  have e: "EnableNetworkFirewall e s = (if r \<noteq> ERR_OK then (ERR_STRATEGY_DEPENDS_SA_NOT_AVAILABLE, u)
      else (ERR_OK, (snd (SetFirewallStatus e True u))\<lparr>isFirewallEnabled := True, net_isIdleMaintence := False\<rparr>))"
    using assms(1) by (simp add: EnableNetworkFirewall_def EnableNetworkFirewallInner_def Let_def init)
  show "distinct (map fst (netLimitedAppInfo t))" using u(1) by (simp add: t_def e)
  show "fst (EnableNetworkFirewall e s) = ERR_OK \<Longrightarrow>
      isFirewallEnabled t \<and> \<not> net_isIdleMaintence t \<and> net_view t = (True, exempt_uids (now_condition e) (netLimitedAppInfo t)) \<and>
      netLimitedAppInfo t = netLimitedAppInfo (snd (InitNetLimitedAppInfo e (s\<lparr>netLimitedAppInfo := []\<rparr>)))"
    using on u(2) by (auto simp: t_def e init split: if_splits)
  show "fst (EnableNetworkFirewall e s) \<noteq> ERR_OK \<Longrightarrow> \<not> isFirewallEnabled t \<and> net_view t = (False, {})"
    using u(2,3) by (auto simp: t_def e split: if_splits)
qed

lemma net_inv_off: "net_inv c s \<Longrightarrow> \<not> isFirewallEnabled s \<Longrightarrow> net_view s = (False, {})"
  by (cases "net_view s") (simp add: net_inv_def)

lemma StartNetLimit_inv:
  assumes "net_inv c s" "now_condition e = c" "net_answers e s"
  shows "net_inv c (StartNetLimit e w s)"
proof (cases "isFirewallEnabled s")
  case True
  with assms(1) show ?thesis by (auto simp: StartNetLimit_def EnableNetworkFirewall_def Let_def split: option.split)
next
  case False
  note en = EnableNetworkFirewall_cases [OF False net_inv_off [OF assms(1) False] assms(3)]
  have "net_inv c (snd (EnableNetworkFirewall e s))"
    using en assms(2) by (cases "fst (EnableNetworkFirewall e s) = ERR_OK") (auto simp: net_inv_def)
  with assms(1) show ?thesis by (auto simp: StartNetLimit_def Let_def split: option.split)
qed

lemma StopNetLimit_inv:
  assumes inv: "net_inv c s" and c: "now_condition e = c" and ans: "net_answers e s"
  shows "net_inv c (StopNetLimit e w s)"
proof -
  have d: "distinct (map fst (netLimitedAppInfo s))" using inv by (simp add: net_inv_def)
  have ok: "policy_ok (setDeviceIdlePolicy e b)" for b using ans by (simp add: net_answers_def)
  have sub: "trusted s \<subseteq> exempt_uids c (netLimitedAppInfo s)" "\<not> isFirewallEnabled s \<Longrightarrow> trusted s = {}"
      "isFirewallEnabled s \<Longrightarrow> \<not> net_isIdleMaintence s"
    using inv by (auto simp: net_inv_def split: if_splits)
  have enter: "net_inv c ((snd (SetFirewallStatus e False s))\<lparr>net_isIdleMaintence := True, isFirewallEnabled := False\<rparr>)"
    using SetFirewallStatus_view [OF d ok, of False] sub d c by (auto simp: net_inv_def)
  have d': "distinct (map fst (netLimitedAppInfo (s\<lparr>net_isIdleMaintence := False\<rparr>)))" using d by simp
  have leave: "net_inv c ((snd (SetFirewallStatus e True (s\<lparr>net_isIdleMaintence := False\<rparr>)))\<lparr>isFirewallEnabled := True\<rparr>)"
    using SetFirewallStatus_view [OF d' ok, of True] sub(1) d c by (auto simp: net_inv_def)
  have stop: "net_inv c ((snd (DisableNetworkFirewallInner e s))\<lparr>net_isIdleMaintence := False, isFirewallEnabled := False\<rparr>)"
    using ResetFirewallAllowList_view [OF ans] by (simp add: net_inv_def DisableNetworkFirewallInner_def)
  show ?thesis
    using inv enter leave stop by (auto simp: StopNetLimit_def DisableNetworkFirewall_def Let_def split: option.split)
qed

lemma UpdateFirewallAllowList_cases:
  assumes "net_answers e s"
  defines "t \<equiv> snd (UpdateFirewallAllowList e s)"
  shows "distinct (map fst (netLimitedAppInfo t))" "net_isIdleMaintence t = net_isIdleMaintence s"
    and "fst (UpdateFirewallAllowList e s) = ERR_OK \<Longrightarrow>
      isFirewallEnabled t \<and> net_view t = (True, exempt_uids (now_condition e) (netLimitedAppInfo t))"
    and "fst (UpdateFirewallAllowList e s) \<noteq> ERR_OK \<Longrightarrow>
      isFirewallEnabled t = isFirewallEnabled s \<and> net_view t = (False, {})"
proof -
  define s1 where "s1 = (ResetFirewallAllowList e s)\<lparr>netLimitedAppInfo := []\<rparr>"
  define r u where "r = fst (InitNetLimitedAppInfo e s1)" and "u = snd (InitNetLimitedAppInfo e s1)"
  have init: "InitNetLimitedAppInfo e s1 = (r, u)" by (simp add: r_def u_def)
  have s1: "net_view s1 = (False, {})" using ResetFirewallAllowList_view [OF assms(1)] by (simp add: s1_def)
  have u: "distinct (map fst (netLimitedAppInfo u))" "net_view u = (False, {})"
      "isFirewallEnabled u = isFirewallEnabled s" "net_isIdleMaintence u = net_isIdleMaintence s"
    using collects_Init [of s1 e] s1 by (auto simp: u_def collects_def net_view_def) (auto simp: s1_def)
  have ok: "policy_ok (setDeviceIdlePolicy e True)" using assms(1) by (simp add: net_answers_def)
  note on = SetFirewallStatus_view [OF u(1) ok]
  have e: "UpdateFirewallAllowList e s = (if r \<noteq> ERR_OK then (ERR_STRATEGY_DEPENDS_SA_NOT_AVAILABLE, u)
      else (ERR_OK, (snd (SetFirewallStatus e True u))\<lparr>isFirewallEnabled := True\<rparr>))"
    by (simp add: UpdateFirewallAllowList_def Let_def s1_def [symmetric] init)
  show "distinct (map fst (netLimitedAppInfo t))" "net_isIdleMaintence t = net_isIdleMaintence s"
    "fst (UpdateFirewallAllowList e s) = ERR_OK \<Longrightarrow>
      isFirewallEnabled t \<and> net_view t = (True, exempt_uids (now_condition e) (netLimitedAppInfo t))"
    "fst (UpdateFirewallAllowList e s) \<noteq> ERR_OK \<Longrightarrow>
      isFirewallEnabled t = isFirewallEnabled s \<and> net_view t = (False, {})"
    using on u by (auto simp: t_def e split: if_splits)
qed

section \<open>The strategy as a step system\<close>

text \<open>
  A step handles one message with the answers \<open>e\<close> of the other services. The day and night
  condition only changes with the message the service sends at the switch, which it only does
  in SLEEP, so not during maintenance.
\<close>

inductive net_step :: "st_env \<times> StandbyMessage \<Rightarrow> u32 \<times> net_state \<Rightarrow> u32 \<times> net_state \<Rightarrow> bool" where
  net_handle: "net_answers e s \<Longrightarrow> eventId m \<noteq> RES_CTRL_CONDITION_CHANGED \<Longrightarrow> now_condition e = c \<Longrightarrow>
    net_step (e, m) (c, s) (c, NetworkStrategy_HandleEvent e m s)"
| net_switch: "net_answers e s \<Longrightarrow> eventId m = RES_CTRL_CONDITION_CHANGED \<Longrightarrow> msg_want m \<noteq> None \<Longrightarrow>
    \<not> net_isIdleMaintence s \<Longrightarrow> net_step (e, m) (c, s) (now_condition e, NetworkStrategy_HandleEvent e m s)"

inductive_cases net_stepE: "net_step (e, m) (c, s) (c', s')"

definition net_start :: net_state where
  "net_start = \<lparr> isFirewallEnabled = False, isNightSleepMode = False, net_isIdleMaintence = False,
     netLimitedAppInfo = [], nightExemptionTaskType = 0, net_condition = 0, net_calls = [] \<rparr>"

lemma net_step_inv:
  assumes "net_inv c s" "net_step (e, m) (c, s) (c', s')"
  shows "net_inv c' s'"
proof (rule net_stepE [OF assms(2)])
  assume "c' = c" "s' = NetworkStrategy_HandleEvent e m s" "net_answers e s"
    "eventId m \<noteq> RES_CTRL_CONDITION_CHANGED" "now_condition e = c"
  then show ?thesis
    using assms(1) UpdateExemptionList_net_inv StartNetLimit_inv StopNetLimit_inv
      UpdateBgTaskAppStatus_net_inv HandleProcessStatusChanged_net_inv
    by (simp add: NetworkStrategy_HandleEvent_def UpdateAllowedList_def)
next
  fix v
  assume a: "c' = now_condition e" "s' = NetworkStrategy_HandleEvent e m s" "net_answers e s"
    "eventId m = RES_CTRL_CONDITION_CHANGED" "msg_want m = Some v" "\<not> net_isIdleMaintence s"
  then obtain w where w: "msg_want m = Some w" by auto
  define t where "t = s\<lparr>net_condition := GetIntParam w RES_CTRL_CONDITION 0\<rparr>"
  have t: "net_answers e t" "\<not> net_isIdleMaintence t"
    using a by (auto simp: t_def net_answers_def)
  have "s' = snd (UpdateFirewallAllowList e t)"
    using a w by (simp add: NetworkStrategy_HandleEvent_def UpdateNetResourceConfig_def t_def event_id_defs)
  then show ?thesis
    using UpdateFirewallAllowList_cases [OF t(1)] t(2) a(1)
    by (cases "fst (UpdateFirewallAllowList e t) = ERR_OK") (auto simp: net_inv_def)
qed

interpretation net: invariant_system "\<lambda>(c, s). s = net_start" net_step "\<lambda>(c, s). net_inv c s"
proof unfold_locales
  show "case x of (c, s) \<Rightarrow> net_inv c s" if "case x of (c, s) \<Rightarrow> s = net_start" for x
    using that by (auto simp: net_inv_def net_start_def net_view_def)
  show "case y of (c, s) \<Rightarrow> net_inv c s" if "case x of (c, s) \<Rightarrow> net_inv c s" "net_step l x y" for x l y
    using that net_step_inv by (cases l; cases x; cases y) auto
qed

end
