(* ===== verification/Network_Start.thy ===== *)
theory Network_Start
  imports Network_Steps
begin

text \<open>
  Which uids the net manager is told to trust when the firewall starts, in terms of the
  answers of the other services: \<open>InitNetLimitedAppInfo\<close> computes the flags of every running
  uid, query by query.
\<close>

lemma or_flag_idem [simp]: "or_flag f (or_flag f v) = or_flag f v"
  by (simp add: or_flag_def ac_simps)

lemma cond_or_flag: "(if c then or_flag f else id) v = v\<lparr>nl_flag := nl_flag v OR (if c then f else 0)\<rparr>"
  by (simp add: or_flag_def)

lemma AddByUid_fold:
  assumes "\<And>x s. net_condition s = c \<Longrightarrow> nightExemptionTaskType s = nt \<Longrightarrow>
      g x s = (case key x of None \<Rightarrow> s | Some k \<Rightarrow> AddExemptionFlagByUid k f s)"
    and "net_condition s = c" "nightExemptionTaskType s = nt"
  shows "map_of (netLimitedAppInfo (fold g xs s)) uid =
      map_option (if Some uid \<in> key ` set xs then or_flag f else id) (map_of (netLimitedAppInfo s) uid) \<and>
    net_condition (fold g xs s) = c \<and> nightExemptionTaskType (fold g xs s) = nt"
proof -
  define h where "h = (\<lambda>x m. case key x of None \<Rightarrow> m | Some k \<Rightarrow> update_entry k (or_flag f) m)"
  have "netLimitedAppInfo (fold g xs s) = fold h xs (netLimitedAppInfo s) \<and>
      net_condition (fold g xs s) = c \<and> nightExemptionTaskType (fold g xs s) = nt"
    using assms(2,3)
  proof (induction xs arbitrary: s)
    case (Cons x xs)
    have "net_condition (g x s) = c" "nightExemptionTaskType (g x s) = nt"
        "netLimitedAppInfo (g x s) = h x (netLimitedAppInfo s)"
      using assms(1) [OF Cons.prems] Cons.prems
      by (auto simp: AddExemptionFlagByUid_def h_def split: option.split)
    with Cons.IH [of "g x s"] show ?case by simp
  qed simp
  moreover have "map_of (fold h xs m) uid = map_option (if Some uid \<in> key ` set xs then or_flag f else id) (map_of m uid)" for m
    by (rule map_of_fold_update) (simp_all add: h_def)
  ultimately show ?thesis by simp
qed

section \<open>The queries\<close>

definition first_proc :: "process_info list \<Rightarrow> i32 \<Rightarrow> string option" where
  "first_proc procs uid = map_option pi_name (List.find (\<lambda>i. pi_uid i = uid) procs)"

lemma GetAllRunningAppInfo_map:
  assumes "allProcesses e = Some procs" "netLimitedAppInfo s = []"
  shows "map_of (netLimitedAppInfo (snd (GetAllRunningAppInfo e s))) uid =
    map_option (\<lambda>n. \<lparr> nl_name = n, nl_flag = 0 \<rparr>) (first_proc procs uid)"
proof -
  have "map_of (fold (\<lambda>info. emplace (pi_uid info) \<lparr> nl_name = pi_name info, nl_flag = 0 \<rparr>) procs m) uid =
      (case map_of m uid of Some v \<Rightarrow> Some v
       | None \<Rightarrow> map_option (\<lambda>n. \<lparr> nl_name = n, nl_flag = 0 \<rparr>) (first_proc procs uid))" for m
  proof (induction procs arbitrary: m)
    case (Cons i procs)
    show ?case
      unfolding fold_simps comp_def Cons.IH by (auto simp: map_of_emplace first_proc_def split: option.split)
  qed (simp add: first_proc_def split: option.split)
  from this [of "[]"] show ?thesis
    using assms by (simp add: GetAllRunningAppInfo_def)
qed

text \<open>The flags of a running uid: \<open>n\<close> is the name of its first process.\<close>

definition night_task :: "u32 \<Rightarrow> st_answers \<Rightarrow> i32 \<Rightarrow> u32 \<Rightarrow> bool" where
  "night_task nt a uid c \<longleftrightarrow>
     (\<exists>t. (uid, t) \<in> set (ans_ct a) \<and> (c = DAY_STANDBY \<or> (nt AND push_bit (unat t) 1) \<noteq> 0))"

definition system_uid :: "st_env \<Rightarrow> st_answers \<Rightarrow> i32 \<Rightarrow> bool" where
  "system_uid e a uid \<longleftrightarrow>
     (\<exists>i \<in> set (ans_infos a) \<union> set (case specialInfos e of None \<Rightarrow> [] | Some l \<Rightarrow> l). app_uid i = uid \<and> app_isSystem i)"

definition base_flags :: "st_env \<Rightarrow> u32 \<Rightarrow> st_answers \<Rightarrow> i32 \<Rightarrow> u8" where
  "base_flags e nt a uid =
     (((((if system_uid e a uid then FLAG_UNRESTRICTED else 0)
      OR (if uid \<in> fst ` set (ans_fg a) then FLAG_FOREGROUND_APP else 0))
      OR (if night_task nt a uid (now_condition e) then FLAG_CONTINUOUS_TASK else 0))
      OR (if uid \<in> fst ` set (ans_tt a) then FLAG_TRANSIENT_TASK else 0))
      OR (if uid \<in> fst ` set (ans_ws a) then FLAG_WORK_SCHEDULER else 0))"

definition config_info :: "st_env \<Rightarrow> NetLimtedAppInfo \<Rightarrow> NetLimtedAppInfo" where
  "config_info e v =
     (let v = (if nl_name v \<in> set (allow_names e NETWORK) then or_flag FLAG_EXEMPTION v else v);
          v = (if nl_name v \<in> set (restrict_names e NETWORK ''NETWORK'') then or_flag FLAG_RESTRICTED v else v)
      in if nl_name v \<in> set (conditional_names e) then restrict_plain v else v)"

lemma GetExemptionConfig_map:
  "map_of (netLimitedAppInfo (snd (GetExemptionConfig e s))) uid =
    map_option (config_info e) (map_of (netLimitedAppInfo s) uid)"
proof -
  have "netLimitedAppInfo (snd (GetExemptionConfig e s)) = map (\<lambda>(k, v). (k, config_info e v)) (netLimitedAppInfo s)"
    by (simp add: GetExemptionConfig_def config_info_def Let_def split_def comp_def)
  then show ?thesis by (simp add: map_of_map_values)
qed

lemma InitNetLimitedAppInfo_map:
  assumes a: "answers e = Some a" and s: "netLimitedAppInfo s = []"
  shows "fst (InitNetLimitedAppInfo e s) = ERR_OK"
    and "map_of (netLimitedAppInfo (snd (InitNetLimitedAppInfo e s))) uid =
      map_option (\<lambda>n. config_info e \<lparr> nl_name = n, nl_flag = base_flags e (nightExemptionTaskType s) a uid \<rparr>)
        (first_proc (ans_procs a) uid)"
proof -
  note q = answersD [OF a]
  define nt where "nt = nightExemptionTaskType s"
  define special where "special = (case specialInfos e of None \<Rightarrow> [] | Some l \<Rightarrow> l)"
  define g0 where "g0 = (\<lambda>info :: app_info. if app_isSystem info then AddExemptionFlagByUid (app_uid info) FLAG_UNRESTRICTED else id)"
  define g1 where "g1 = (\<lambda>(uid, b :: string). AddExemptionFlagByUid uid FLAG_FOREGROUND_APP)"
  define g2 where "g2 = (\<lambda>(uid, typeId :: u32) s.
      if net_condition s = DAY_STANDBY \<or> (nightExemptionTaskType s AND push_bit (unat typeId) 1) \<noteq> 0
      then AddExemptionFlagByUid uid FLAG_CONTINUOUS_TASK s else s)"
  define g3 where "g3 = (\<lambda>(uid, p :: string). AddExemptionFlagByUid uid FLAG_TRANSIENT_TASK)"
  define g4 where "g4 = (\<lambda>(uid, b :: string). AddExemptionFlagByUid uid FLAG_WORK_SCHEDULER)"
  define s1 s2 s3 s4 s5 s6 s7 where "s1 = snd (GetAllRunningAppInfo e s)" and "s2 = fold g0 (ans_infos a @ special) s1"
    and "s3 = fold g1 (ans_fg a) s2" and "s4 = s3\<lparr>net_condition := now_condition e\<rparr>"
    and "s5 = fold g2 (ans_ct a) s4" and "s6 = fold g3 (ans_tt a) s5" and "s7 = fold g4 (ans_ws a) s6"
  note defs = s2_def s3_def s4_def s5_def s6_def s7_def
  have chain: "InitNetLimitedAppInfo e s = (ERR_OK, snd (GetExemptionConfig e s7))"
    using q by (simp add: InitNetLimitedAppInfo_def Let_def split_def special_def GetForegroundApplications_def
        GetBackgroundTaskApp_def GetWorkSchedulerTask_def and_then_def GetExemptionConfig_def
        GetAllRunningAppInfo_def defs s1_def g0_def g1_def g2_def g3_def g4_def)
  then show "fst (InitNetLimitedAppInfo e s) = ERR_OK" by simp
  have nt1: "nightExemptionTaskType s1 = nt"
    using q by (simp add: s1_def GetAllRunningAppInfo_def nt_def)
  define k0 where "k0 = (\<lambda>i :: app_info. if app_isSystem i then Some (app_uid i) else None)"
  define k2 where "k2 = (\<lambda>(uid, t). if now_condition e = DAY_STANDBY \<or> (nt AND push_bit (unat (t :: u32)) 1) \<noteq> 0
      then Some (uid :: i32) else None)"
  have f0: "map_of (netLimitedAppInfo s2) uid = map_option (if Some uid \<in> k0 ` set (ans_infos a @ special) then or_flag FLAG_UNRESTRICTED else id)
      (map_of (netLimitedAppInfo s1) uid) \<and> net_condition s2 = net_condition s1 \<and> nightExemptionTaskType s2 = nt" for uid
    unfolding s2_def by (rule AddByUid_fold) (auto simp: g0_def k0_def nt1)
  have f1: "map_of (netLimitedAppInfo s3) uid = map_option (if Some uid \<in> (\<lambda>x. Some (fst x)) ` set (ans_fg a) then or_flag FLAG_FOREGROUND_APP else id)
      (map_of (netLimitedAppInfo s2) uid) \<and> net_condition s3 = net_condition s2 \<and> nightExemptionTaskType s3 = nt" for uid
    unfolding s3_def using f0 by (intro AddByUid_fold) (auto simp: g1_def split_def)
  have f2: "map_of (netLimitedAppInfo s5) uid = map_option (if Some uid \<in> k2 ` set (ans_ct a) then or_flag FLAG_CONTINUOUS_TASK else id)
      (map_of (netLimitedAppInfo s4) uid) \<and> net_condition s5 = now_condition e \<and> nightExemptionTaskType s5 = nt" for uid
    unfolding s5_def using f1 by (intro AddByUid_fold) (auto simp: g2_def k2_def s4_def split: prod.split)
  have f3: "map_of (netLimitedAppInfo s6) uid = map_option (if Some uid \<in> (\<lambda>x. Some (fst x)) ` set (ans_tt a) then or_flag FLAG_TRANSIENT_TASK else id)
      (map_of (netLimitedAppInfo s5) uid) \<and> net_condition s6 = now_condition e \<and> nightExemptionTaskType s6 = nt" for uid
    unfolding s6_def using f2 by (intro AddByUid_fold) (auto simp: g3_def split_def)
  have f4: "map_of (netLimitedAppInfo s7) uid = map_option (if Some uid \<in> (\<lambda>x. Some (fst x)) ` set (ans_ws a) then or_flag FLAG_WORK_SCHEDULER else id)
      (map_of (netLimitedAppInfo s6) uid) \<and> net_condition s7 = now_condition e \<and> nightExemptionTaskType s7 = nt" for uid
    unfolding s7_def using f3 by (intro AddByUid_fold) (auto simp: g4_def split_def)
  have keys: "Some uid \<in> k0 ` set (ans_infos a @ special) \<longleftrightarrow> system_uid e a uid"
    "Some uid \<in> k2 ` set (ans_ct a) \<longleftrightarrow> night_task nt a uid (now_condition e)"
    "\<And>l :: (i32 \<times> string) list. Some uid \<in> (\<lambda>x. Some (fst x)) ` set l \<longleftrightarrow> uid \<in> fst ` set l"
    by (force simp: k0_def system_uid_def special_def) (auto simp: k2_def night_task_def image_iff split_def Bex_def)
  have s4: "netLimitedAppInfo s4 = netLimitedAppInfo s3" by (simp add: s4_def)
  have "map_of (netLimitedAppInfo s7) uid =
      map_option (\<lambda>n. \<lparr> nl_name = n, nl_flag = base_flags e nt a uid \<rparr>) (first_proc (ans_procs a) uid)"
    using f4 [of uid] f3 [of uid] f2 [of uid] f1 [of uid] f0 [of uid]
      GetAllRunningAppInfo_map [OF conjunct1 [OF conjunct2 [OF q]] s, of uid]
    unfolding keys s4 s1_def [symmetric]
    by (cases "first_proc (ans_procs a) uid") (simp_all add: cond_or_flag base_flags_def)
  then show "map_of (netLimitedAppInfo (snd (InitNetLimitedAppInfo e s))) uid =
      map_option (\<lambda>n. config_info e \<lparr> nl_name = n, nl_flag = base_flags e (nightExemptionTaskType s) a uid \<rparr>)
        (first_proc (ans_procs a) uid)"
    by (simp add: chain GetExemptionConfig_map nt_def option.map_comp o_def)
qed

section \<open>The uids a start trusts\<close>

definition busy :: "u32 \<Rightarrow> st_answers \<Rightarrow> i32 \<Rightarrow> u32 \<Rightarrow> bool" where
  "busy nt a uid c \<longleftrightarrow> uid \<in> fst ` set (ans_fg a) \<or> night_task nt a uid c \<or>
     uid \<in> fst ` set (ans_tt a) \<or> uid \<in> fst ` set (ans_ws a)"

definition net_allowed :: "st_env \<Rightarrow> u32 \<Rightarrow> st_answers \<Rightarrow> i32 \<Rightarrow> string \<Rightarrow> bool" where
  "net_allowed e nt a uid n \<longleftrightarrow>
     n \<in> set (allow_names e NETWORK) \<or>
     (n \<notin> set (restrict_names e NETWORK ''NETWORK'') \<and>
      (busy nt a uid (now_condition e) \<or>
       (now_condition e \<noteq> NIGHT_STANDBY \<and> system_uid e a uid \<and> n \<notin> set (conditional_names e))))"

definition to_trust :: "st_env \<Rightarrow> u32 \<Rightarrow> st_answers \<Rightarrow> u32 set" where
  "to_trust e nt a = {uid. \<exists>n. first_proc (ans_procs a) uid = Some n \<and> net_allowed e nt a uid n}"

lemma config_info_exempt:
  assumes "\<not> bit f 5" "\<not> bit f 6"
  shows "exempt_at c (nl_flag (config_info e \<lparr> nl_name = n, nl_flag = f \<rparr>)) \<longleftrightarrow>
    n \<in> set (allow_names e NETWORK) \<or>
    (n \<notin> set (restrict_names e NETWORK ''NETWORK'') \<and>
     (f AND NOT FLAG_UNRESTRICTED \<noteq> 0 \<or> (c \<noteq> NIGHT_STANDBY \<and> f \<noteq> 0 \<and> n \<notin> set (conditional_names e))))"
proof -
  have ex: "bit FLAG_EXEMPTION k \<longleftrightarrow> k = 5" for k
  proof -
    have x: "FLAG_EXEMPTION = push_bit 5 1" by (simp add: flag_defs push_bit_eq_mult)
    show ?thesis unfolding x bit_push_bit_iff bit_1_iff by auto
  qed
  have z: "f AND NOT FLAG_UNRESTRICTED \<noteq> 0 \<longleftrightarrow> (\<exists>k. bit f k \<and> k \<noteq> 4)"
    by (simp add: nonzero_bit bit_and_not bit_flag_values)
  have zx: "(f OR FLAG_EXEMPTION) AND NOT FLAG_UNRESTRICTED \<noteq> 0" "(f OR FLAG_RESTRICTED) AND NOT FLAG_UNRESTRICTED \<noteq> 0"
      "((f OR FLAG_EXEMPTION) OR FLAG_RESTRICTED) AND NOT FLAG_UNRESTRICTED \<noteq> 0"
    by (auto simp: nonzero_bit bit_and_not bit_flag_values bit_or_iff ex intro: exI [of _ 5] exI [of _ 6])
  show ?thesis
    using assms zx z
    by (auto simp: config_info_def restrict_plain_def or_flag_def Let_def exempt_at_bits bit_or_iff ex bit_flag_values
        nonzero_bit)
qed

lemma base_flags_bits:
  "\<not> bit (base_flags e nt a uid) 5" "\<not> bit (base_flags e nt a uid) 6"
  "base_flags e nt a uid AND NOT FLAG_UNRESTRICTED \<noteq> 0 \<longleftrightarrow> busy nt a uid (now_condition e)"
  "base_flags e nt a uid \<noteq> 0 \<longleftrightarrow> busy nt a uid (now_condition e) \<or> system_uid e a uid"
  unfolding base_flags_def busy_def
  by (simp_all add: flag_defs bit_simps split: if_split)

lemma to_trust_start:
  assumes "answers e = Some a" "netLimitedAppInfo s = []"
  shows "exempt_uids (now_condition e) (netLimitedAppInfo (snd (InitNetLimitedAppInfo e s))) =
    to_trust e (nightExemptionTaskType s) a"
  unfolding exempt_uids_def to_trust_def InitNetLimitedAppInfo_map(2) [OF assms]
  by (auto simp: config_info_exempt base_flags_bits net_allowed_def)

end
