(* ===== verification/Running_Lock_Record.thy ===== *)
theory Running_Lock_Record
  imports Running_Lock
begin

text \<open>
  The set of proxied running locks. \<open>proxied_view\<close> is what the strategy believes: the pairs of
  pid and uid of every recorded application without exemption, or nothing during
  maintenance. \<open>announces\<close> says that the calls to the power manager made by an operation take
  the view before it to the view after it. The record is well formed when the key of an
  entry is built from its uid and no pid belongs to two entries (\<open>record_wf\<close>).
\<close>

section \<open>The record and the view\<close>

definition pairs :: "ProxiedProcInfo \<Rightarrow> (i32 \<times> i32) set" where
  "pairs p = (\<lambda>pid. (pid, pp_uid p)) ` set (pp_pids p)"

definition proxied_pairs :: "(string \<times> ProxiedProcInfo) list \<Rightarrow> (i32 \<times> i32) set" where
  "proxied_pairs m = {x. \<exists>k p. map_of m k = Some p \<and> \<not> IsExempted (pp_flag p) \<and> x \<in> pairs p}"

definition record_wf :: "(string \<times> ProxiedProcInfo) list \<Rightarrow> bool" where
  "record_wf m \<longleftrightarrow> distinct (map fst m) \<and>
     (\<forall>k p. map_of m k = Some p \<longrightarrow> (\<exists>n. k = uid_key (pp_uid p) n)) \<and>
     (\<forall>k p k' p' pid. map_of m k = Some p \<longrightarrow> map_of m k' = Some p' \<longrightarrow>
        pid \<in> set (pp_pids p) \<longrightarrow> pid \<in> set (pp_pids p') \<longrightarrow> k = k')"

definition proxied_view :: "rl_state \<Rightarrow> (i32 \<times> i32) set" where
  "proxied_view s = (if rl_isIdleMaintence s then {} else proxied_pairs (proxiedAppInfo s))"

definition rl_inv :: "rl_state \<Rightarrow> bool" where
  "rl_inv s \<longleftrightarrow> record_wf (proxiedAppInfo s) \<and>
     (\<not> isProxied s \<longrightarrow> proxiedAppInfo s = [] \<and> \<not> rl_isIdleMaintence s)"

fun replay_call :: "rl_call \<Rightarrow> (i32 \<times> i32) set \<Rightarrow> (i32 \<times> i32) set" where
  "replay_call RC_Reset v = {}"
| "replay_call (RC_Proxy b l) v = (if b then v \<union> set l else v - set l)"

definition announces :: "rl_state \<Rightarrow> rl_state \<Rightarrow> bool" where
  "announces s s' \<longleftrightarrow> (\<exists>es. rl_calls s' = rl_calls s @ es \<and> proxied_view s' = fold replay_call es (proxied_view s))"

lemma announces_trans: "announces s t \<Longrightarrow> announces t u \<Longrightarrow> announces s u"
  by (force simp: announces_def)

lemma announces_same: "rl_calls s' = rl_calls s \<Longrightarrow> proxied_view s' = proxied_view s \<Longrightarrow> announces s s'"
  unfolding announces_def by (intro exI [of _ "[]"]) simp

text \<open>A call together with the change of the record it announces.\<close>

lemma announces_call:
  assumes "rl_isIdleMaintence t = rl_isIdleMaintence s" "rl_calls t = rl_calls s"
    and "\<not> rl_isIdleMaintence s \<Longrightarrow> proxied_pairs (proxiedAppInfo t) =
      (if b then proxied_pairs (proxiedAppInfo s) \<union> set l else proxied_pairs (proxiedAppInfo s) - set l)"
  shows "announces s (ProxyRunningLockList b l t)"
proof (cases "l = [] \<or> rl_isIdleMaintence s")
  case True
  then have "ProxyRunningLockList b l t = t"
    using assms(1) by (auto simp: ProxyRunningLockList_def)
  with True show ?thesis
    using assms by (intro announces_same) (auto simp: proxied_view_def)
next
  case False
  then show ?thesis
    using assms unfolding announces_def
    by (intro exI [of _ "[RC_Proxy b l]"]) (auto simp: ProxyRunningLockList_def proxied_view_def)
qed

lemma ProxyRunningLockList_frame [simp]:
  "proxiedAppInfo (ProxyRunningLockList b l s) = proxiedAppInfo s"
  "isProxied (ProxyRunningLockList b l s) = isProxied s"
  "rl_isIdleMaintence (ProxyRunningLockList b l s) = rl_isIdleMaintence s"
  "uidBundleNmeMap (ProxyRunningLockList b l s) = uidBundleNmeMap s"
  by (simp_all add: ProxyRunningLockList_def)

lemma set_SetProxiedAppList [simp]: "set (SetProxiedAppList l p) = set l \<union> pairs p"
  by (auto simp: SetProxiedAppList_def pairs_def)

lemma set_proxied_list:
  assumes "distinct (map fst m)"
  shows "set (fold (\<lambda>(key, value) l. if IsExempted (pp_flag value) then l else SetProxiedAppList l value) m [])
    = proxied_pairs m"
proof -
  have "set (fold (\<lambda>(key, value) l. if IsExempted (pp_flag value) then l else SetProxiedAppList l value) m l) =
      set l \<union> {x. \<exists>k p. (k, p) \<in> set m \<and> \<not> IsExempted (pp_flag p) \<and> x \<in> pairs p}" for l
  proof (induction m arbitrary: l)
    case (Cons x m)
    obtain k p where x: "x = (k, p)" by (cases x)
    have "{y. \<exists>k' p'. (k', p') \<in> set (x # m) \<and> \<not> IsExempted (pp_flag p') \<and> y \<in> pairs p'} =
        (if IsExempted (pp_flag p) then {} else pairs p) \<union>
        {y. \<exists>k' p'. (k', p') \<in> set m \<and> \<not> IsExempted (pp_flag p') \<and> y \<in> pairs p'}"
      by (cases "IsExempted (pp_flag p)") (simp_all add: x set_eq_iff, blast+)
    then show ?case
      using Cons.IH by (simp add: x Un_assoc)
  qed simp
  then show ?thesis
    using assms by (simp add: proxied_pairs_def)
qed

lemma proxied_pairs_Nil [simp]: "proxied_pairs [] = {}"
  by (simp add: proxied_pairs_def)

lemma record_wf_Nil [simp]: "record_wf []"
  by (simp add: record_wf_def)

section \<open>Changing one entry\<close>

lemma record_wf_update:
  assumes "record_wf m" "\<exists>n. k = uid_key (pp_uid p) n"
    and "\<And>k' p' pid. map_of m k' = Some p' \<Longrightarrow> pid \<in> set (pp_pids p) \<Longrightarrow> pid \<in> set (pp_pids p') \<Longrightarrow> k' = k"
  shows "record_wf (AList.update k p m)"
  using assms unfolding record_wf_def AList.update_conv'
  by (auto intro: AList.distinct_update split: if_splits)

lemma record_wf_delete: "record_wf m \<Longrightarrow> record_wf (AList.delete k m)"
  unfolding record_wf_def AList.delete_conv' by (auto intro: AList.distinct_delete split: if_splits)

lemma proxied_pairs_other:
  assumes "record_wf m" "map_of m k = Some p" "map_of m k' = Some p'" "k \<noteq> k'"
  shows "pairs p \<inter> pairs p' = {}"
  using assms unfolding record_wf_def pairs_def by auto

lemma proxied_pairs_update:
  "proxied_pairs (AList.update k p m) =
     (if IsExempted (pp_flag p) then {} else pairs p) \<union>
     {x. \<exists>k' p'. map_of m k' = Some p' \<and> k' \<noteq> k \<and> \<not> IsExempted (pp_flag p') \<and> x \<in> pairs p'}"
  unfolding proxied_pairs_def AList.update_conv' by (auto split: if_splits)

lemma proxied_pairs_split:
  "map_of m k = Some p \<Longrightarrow> proxied_pairs m =
     (if IsExempted (pp_flag p) then {} else pairs p) \<union>
     {x. \<exists>k' p'. map_of m k' = Some p' \<and> k' \<noteq> k \<and> \<not> IsExempted (pp_flag p') \<and> x \<in> pairs p'}"
  unfolding proxied_pairs_def by (auto split: if_splits) (metis option.inject)+

lemma proxied_pairs_delete:
  "proxied_pairs (AList.delete k m) =
     {x. \<exists>k' p'. map_of m k' = Some p' \<and> k' \<noteq> k \<and> \<not> IsExempted (pp_flag p') \<and> x \<in> pairs p'}"
  unfolding proxied_pairs_def AList.delete_conv' by (auto split: if_splits)

text \<open>The pairs of one entry do not occur elsewhere.\<close>

lemma proxied_pairs_apart:
  assumes "record_wf m" "map_of m k = Some p" "q \<subseteq> pairs p"
  shows "q \<inter> {x. \<exists>k' p'. map_of m k' = Some p' \<and> k' \<noteq> k \<and> \<not> IsExempted (pp_flag p') \<and> x \<in> pairs p'} = {}"
  using assms proxied_pairs_other [OF assms(1,2)] by blast

text \<open>Replacing the flag of an entry.\<close>

lemma flag_change:
  fixes f
  assumes wf: "record_wf m" and k: "map_of m k = Some p"
  defines "p' \<equiv> p\<lparr>pp_flag := f\<rparr>"
  shows "record_wf (AList.update k p' m)"
    and "\<not> IsExempted (pp_flag p) \<Longrightarrow> IsExempted f \<Longrightarrow>
      proxied_pairs (AList.update k p' m) = proxied_pairs m - pairs p'"
    and "IsExempted (pp_flag p) \<Longrightarrow> \<not> IsExempted f \<Longrightarrow>
      proxied_pairs (AList.update k p' m) = proxied_pairs m \<union> pairs p'"
    and "IsExempted (pp_flag p) = IsExempted f \<Longrightarrow> proxied_pairs (AList.update k p' m) = proxied_pairs m"
proof -
  have pp: "pairs p' = pairs p" by (simp add: p'_def pairs_def)
  note split = proxied_pairs_update [of k p' m] proxied_pairs_split [OF k]
  note apart = proxied_pairs_apart [OF wf k subset_refl]
  show "record_wf (AList.update k p' m)"
  proof (rule record_wf_update [OF wf])
    show "\<exists>n. k = uid_key (pp_uid p') n"
      using wf k by (simp add: record_wf_def p'_def)
    show "map_of m k' = Some q \<Longrightarrow> pid \<in> set (pp_pids p') \<Longrightarrow> pid \<in> set (pp_pids q) \<Longrightarrow> k' = k" for k' q pid
      using wf k unfolding record_wf_def p'_def by auto
  qed
  show "\<not> IsExempted (pp_flag p) \<Longrightarrow> IsExempted f \<Longrightarrow>
      proxied_pairs (AList.update k p' m) = proxied_pairs m - pairs p'"
    using apart by (auto simp: split pp) (simp_all add: p'_def)
  show "IsExempted (pp_flag p) \<Longrightarrow> \<not> IsExempted f \<Longrightarrow>
      proxied_pairs (AList.update k p' m) = proxied_pairs m \<union> pairs p'"
    by (auto simp: split pp) (simp_all add: p'_def)
  show "IsExempted (pp_flag p) = IsExempted f \<Longrightarrow> proxied_pairs (AList.update k p' m) = proxied_pairs m"
    by (simp add: split pp) (simp add: p'_def)
qed

section \<open>Operations\<close>

lemma announces_flag:
  fixes f
  assumes "record_wf (proxiedAppInfo s)" "map_of (proxiedAppInfo s) k = Some p"
  defines "t \<equiv> s\<lparr>proxiedAppInfo := AList.update k (p\<lparr>pp_flag := f\<rparr>) (proxiedAppInfo s)\<rparr>"
  shows "\<not> IsExempted (pp_flag p) \<Longrightarrow> IsExempted f \<Longrightarrow>
      announces s (ProxyRunningLockList False (SetProxiedAppList [] (p\<lparr>pp_flag := f\<rparr>)) t)"
    and "IsExempted (pp_flag p) \<Longrightarrow> \<not> IsExempted f \<Longrightarrow>
      announces s (ProxyRunningLockList True (SetProxiedAppList [] (p\<lparr>pp_flag := f\<rparr>)) t)"
    and "IsExempted (pp_flag p) = IsExempted f \<Longrightarrow> announces s t"
proof -
  note c = flag_change [OF assms(1,2), of f]
  show "\<not> IsExempted (pp_flag p) \<Longrightarrow> IsExempted f \<Longrightarrow>
      announces s (ProxyRunningLockList False (SetProxiedAppList [] (p\<lparr>pp_flag := f\<rparr>)) t)"
    by (rule announces_call) (simp_all add: t_def c(2))
  show "IsExempted (pp_flag p) \<Longrightarrow> \<not> IsExempted f \<Longrightarrow>
      announces s (ProxyRunningLockList True (SetProxiedAppList [] (p\<lparr>pp_flag := f\<rparr>)) t)"
    by (rule announces_call) (simp_all add: t_def c(3))
  show "IsExempted (pp_flag p) = IsExempted f \<Longrightarrow> announces s t"
    by (rule announces_same) (simp_all add: t_def c(4) proxied_view_def)
qed

lemma RL_AddExemptionFlag_ok:
  assumes "rl_inv s" "plain_flag flag"
  shows "rl_inv (RL_AddExemptionFlag uid name flag s) \<and> announces s (RL_AddExemptionFlag uid name flag s)"
proof -
  have refl: "announces s s" by (rule announces_same) simp_all
  show ?thesis
  proof (cases "isProxied s")
    case False
    with assms refl show ?thesis by (simp add: RL_AddExemptionFlag_def)
  next
    case True
    note pr = True
    show ?thesis
    proof (cases "map_of (proxiedAppInfo s) (uid_key uid name)")
      case None
      with pr assms refl show ?thesis by (simp add: RL_AddExemptionFlag_def)
    next
      case (Some p)
      have wf: "record_wf (proxiedAppInfo s)" using assms(1) by (simp add: rl_inv_def)
      note a = announces_flag [OF wf Some, of "pp_flag p OR flag"]
      have same: "IsExempted (pp_flag p) \<Longrightarrow> IsExempted (pp_flag p OR flag)"
        using IsExempted_add [OF assms(2)] .
      show ?thesis
        using pr Some assms(1) flag_change(1) [OF wf Some, of "pp_flag p OR flag"] a same
        by (auto simp: RL_AddExemptionFlag_def Let_def add_flag_def rl_inv_def)
    qed
  qed
qed

lemma RL_RemoveExemptionFlag_ok:
  assumes "rl_inv s" "plain_flag flag"
  shows "rl_inv (RL_RemoveExemptionFlag uid name flag s) \<and> announces s (RL_RemoveExemptionFlag uid name flag s)"
proof (cases "map_of (proxiedAppInfo s) (uid_key uid name)")
  case None
  with assms announces_same [of s s] show ?thesis by (simp add: RL_RemoveExemptionFlag_def)
next
  case (Some p)
  have wf: "record_wf (proxiedAppInfo s)" using assms(1) by (simp add: rl_inv_def)
  note a = announces_flag [OF wf Some, of "pp_flag p AND NOT flag"]
  have same: "\<not> IsExempted (pp_flag p) \<Longrightarrow> \<not> IsExempted (pp_flag p AND NOT flag)"
    using IsExempted_remove [OF assms(2)] .
  show ?thesis
    using Some assms(1) flag_change(1) [OF wf Some, of "pp_flag p AND NOT flag"] a same
    by (auto simp: RL_RemoveExemptionFlag_def Let_def rl_inv_def)
qed

lemma ProxyAppAndProcess_ok:
  assumes "record_wf (proxiedAppInfo s)"
  shows "\<exists>es. rl_calls (ProxyAppAndProcess b s) = rl_calls s @ es \<and>
    (\<forall>v. fold replay_call es v =
      (if rl_isIdleMaintence s then v
       else if b then v \<union> proxied_pairs (proxiedAppInfo s) else v - proxied_pairs (proxiedAppInfo s)))"
    and "proxiedAppInfo (ProxyAppAndProcess b s) = proxiedAppInfo s"
    and "isProxied (ProxyAppAndProcess b s) = isProxied s"
    and "rl_isIdleMaintence (ProxyAppAndProcess b s) = rl_isIdleMaintence s"
proof -
  define l where "l = fold (\<lambda>(key, value) l. if IsExempted (pp_flag value) then l else SetProxiedAppList l value)
          (proxiedAppInfo s) []"
  have l: "set l = proxied_pairs (proxiedAppInfo s)"
    using set_proxied_list assms by (auto simp: l_def record_wf_def)
  have "ProxyAppAndProcess b s = ProxyRunningLockList b l s"
    by (simp add: ProxyAppAndProcess_def l_def)
  moreover have "\<exists>es. rl_calls (ProxyRunningLockList b l s) = rl_calls s @ es \<and>
    (\<forall>v. fold replay_call es v =
      (if rl_isIdleMaintence s then v else if b then v \<union> set l else v - set l))"
    by (rule exI [of _ "if l = [] \<or> rl_isIdleMaintence s then [] else [RC_Proxy b l]"])
      (auto simp: ProxyRunningLockList_def)
  ultimately show "\<exists>es. rl_calls (ProxyAppAndProcess b s) = rl_calls s @ es \<and>
    (\<forall>v. fold replay_call es v =
      (if rl_isIdleMaintence s then v
       else if b then v \<union> proxied_pairs (proxiedAppInfo s) else v - proxied_pairs (proxiedAppInfo s)))"
    unfolding l [symmetric] by (simp only:)
qed (simp_all add: ProxyAppAndProcess_def)

lemma StopProxyInner_ok:
  assumes "record_wf (proxiedAppInfo s)"
  shows "announces s (StopProxyInner s)" "proxiedAppInfo (StopProxyInner s) = []"
    "isProxied (StopProxyInner s) = isProxied s"
    "rl_isIdleMaintence (StopProxyInner s) = rl_isIdleMaintence s"
proof -
  obtain es where "rl_calls (ProxyAppAndProcess False s) = rl_calls s @ es"
    "\<forall>v. fold replay_call es v =
      (if rl_isIdleMaintence s then v else v - proxied_pairs (proxiedAppInfo s))"
    using ProxyAppAndProcess_ok(1) [OF assms, of False] by auto
  then show "announces s (StopProxyInner s)"
    unfolding announces_def
    by (intro exI [of _ es]) (auto simp: StopProxyInner_def ClearProxyRecord_def proxied_view_def)
qed (simp_all add: StopProxyInner_def ClearProxyRecord_def ProxyAppAndProcess_ok(3,4) assms)

section \<open>The record that a start builds\<close>

text \<open>Operations on flags do not change which entries, uids and pids there are.\<close>

definition same_shape :: "(string \<times> ProxiedProcInfo) list \<Rightarrow> (string \<times> ProxiedProcInfo) list \<Rightarrow> bool" where
  "same_shape m m' \<longleftrightarrow> map fst m' = map fst m \<and>
     (\<forall>k. map_option (\<lambda>p. (pp_uid p, pp_pids p)) (map_of m' k) = map_option (\<lambda>p. (pp_uid p, pp_pids p)) (map_of m k))"

lemma same_shape_refl [simp]: "same_shape m m"
  by (simp add: same_shape_def)

lemma same_shape_trans: "same_shape m1 m2 \<Longrightarrow> same_shape m2 m3 \<Longrightarrow> same_shape m1 m3"
  by (simp add: same_shape_def)

lemma same_shapeD: "same_shape m m' \<Longrightarrow> map_of m' k = Some p \<Longrightarrow> \<exists>q. map_of m k = Some q \<and> pp_uid q = pp_uid p \<and> pp_pids q = pp_pids p"
proof -
  assume sh: "same_shape m m'" and k: "map_of m' k = Some p"
  from sh have "map_option (\<lambda>p. (pp_uid p, pp_pids p)) (map_of m k) = map_option (\<lambda>p. (pp_uid p, pp_pids p)) (map_of m' k)"
    by (simp add: same_shape_def)
  then show ?thesis
    using k by auto
qed

lemma record_wf_key: "record_wf m \<Longrightarrow> map_of m k = Some p \<Longrightarrow> \<exists>n. k = uid_key (pp_uid p) n"
  by (simp add: record_wf_def)

lemma record_wf_pid:
  "record_wf m \<Longrightarrow> map_of m k = Some p \<Longrightarrow> map_of m k' = Some p' \<Longrightarrow>
     pid \<in> set (pp_pids p) \<Longrightarrow> pid \<in> set (pp_pids p') \<Longrightarrow> k = k'"
  unfolding record_wf_def by blast

lemma record_wf_shape:
  assumes sh: "same_shape m m'" and wf: "record_wf m"
  shows "record_wf m'"
  unfolding record_wf_def
proof (intro conjI allI impI)
  show "distinct (map fst m')" using sh wf by (simp add: same_shape_def record_wf_def)
next
  fix k p assume "map_of m' k = Some p"
  from same_shapeD [OF sh this] record_wf_key [OF wf] show "\<exists>n. k = uid_key (pp_uid p) n"
    by fastforce
next
  fix k p k' p' pid
  assume a: "map_of m' k = Some p" "map_of m' k' = Some p'" "pid \<in> set (pp_pids p)" "pid \<in> set (pp_pids p')"
  obtain q q' where q: "map_of m k = Some q" "pp_pids q = pp_pids p" "map_of m k' = Some q'" "pp_pids q' = pp_pids p'"
    using same_shapeD [OF sh a(1)] same_shapeD [OF sh a(2)] by blast
  show "k = k'"
    by (rule record_wf_pid [OF wf q(1,3), of pid]) (simp_all add: q a)
qed

lemma add_flag_frame [simp]:
  "pp_uid (add_flag f p) = pp_uid p" "pp_pids (add_flag f p) = pp_pids p" "pp_name (add_flag f p) = pp_name p"
  by (simp_all add: add_flag_def)

lemma same_shape_update_entry: "same_shape m (update_entry k (add_flag f) m)"
  by (auto simp: same_shape_def map_of_update_entry option.map_comp o_def)

lemma same_shape_fold:
  "(\<And>x m. same_shape m (g x m)) \<Longrightarrow> same_shape m (fold g xs m)"
proof (induction xs arbitrary: m)
  case (Cons x xs)
  show ?case using same_shape_trans [OF Cons.prems [of m x] Cons.IH [OF Cons.prems]] by simp
qed simp

lemma same_shape_map: "same_shape m (map (\<lambda>(k, v). (k, if P v then add_flag f v else v)) m)"
  unfolding same_shape_def by (induction m) auto

lemma record_wf_filter: "record_wf m \<Longrightarrow> record_wf (filter (\<lambda>(k, v). Q v) m)"
proof -
  assume wf: "record_wf m"
  then have d: "distinct (map fst m)" by (simp add: record_wf_def)
  have "map_of (filter (\<lambda>(k, v). Q v) m) k = Some p \<Longrightarrow> map_of m k = Some p" for k p
    using d by (auto dest!: map_of_SomeD)
  moreover have "distinct (map fst (filter (\<lambda>(k, v). Q v) m))"
    using d by (rule distinct_map_filter)
  ultimately show ?thesis
    using wf unfolding record_wf_def by blast
qed

lemma record_wf_emplace:
  assumes "record_wf m" "k = uid_key uid n"
  shows "record_wf (emplace k (new_proc name uid) m)"
  using assms unfolding record_wf_def map_of_emplace
  by (auto simp: new_proc_def intro: distinct_emplace split: if_splits)

lemma set_add_pid: "set (pp_pids (add_pid pid p)) = insert pid (set (pp_pids p))"
proof -
  have "sint ` set (std_insert sint pid l) = sint ` insert pid (set l)" for l :: "i32 list"
    by simp
  then have "set (std_insert sint pid l) = insert pid (set l)" for l :: "i32 list"
    by (rule inj_image_eq_iff [THEN iffD1, rotated]) (auto intro: injI)
  then show ?thesis by (simp add: add_pid_def)
qed

lemma record_wf_add_pid:
  assumes wf: "record_wf m" and new: "\<And>k' p'. map_of m k' = Some p' \<Longrightarrow> pid \<in> set (pp_pids p') \<Longrightarrow> k' = k"
  shows "record_wf (update_entry k (add_pid pid) m)"
proof -
  note pids = set_add_pid [of pid]
  show ?thesis
    unfolding update_entry_def
  proof (cases "map_of m k")
    case (Some p)
    have "record_wf (AList.update k (add_pid pid p) m)"
    proof (rule record_wf_update [OF wf])
      show "\<exists>n. k = uid_key (pp_uid (add_pid pid p)) n"
        using wf Some by (simp add: record_wf_def add_pid_def)
      show "map_of m k' = Some p' \<Longrightarrow> q \<in> set (pp_pids (add_pid pid p)) \<Longrightarrow> q \<in> set (pp_pids p') \<Longrightarrow> k' = k" for k' p' q
        using wf Some new unfolding record_wf_def pids by auto
    qed
    then show "record_wf (case map_of m k of None \<Rightarrow> m | Some v \<Rightarrow> AList.update k (add_pid pid v) m)"
      by (simp add: Some)
  qed (simp add: wf)
qed

definition same_control :: "rl_state \<Rightarrow> rl_state \<Rightarrow> bool" where
  "same_control s s' \<longleftrightarrow> rl_calls s' = rl_calls s \<and> isProxied s' = isProxied s \<and>
     rl_isIdleMaintence s' = rl_isIdleMaintence s"

lemma same_control_refl [simp]: "same_control s s"
  by (simp add: same_control_def)

lemma same_control_fold: "(\<And>x s. same_control s (g x s)) \<Longrightarrow> same_control s (fold g xs s)"
proof (induction xs arbitrary: s)
  case (Cons x xs)
  from Cons.prems [of s x] Cons.IH [OF Cons.prems, of "g x s"] show ?case
    by (simp add: same_control_def)
qed simp

definition no_pids :: "(string \<times> ProxiedProcInfo) list \<Rightarrow> bool" where
  "no_pids m \<longleftrightarrow> (\<forall>k p. map_of m k = Some p \<longrightarrow> pp_pids p = [])"

lemma no_pids_shape: "same_shape m m' \<Longrightarrow> no_pids m \<Longrightarrow> no_pids m'"
  unfolding no_pids_def using same_shapeD by metis

lemma no_pids_emplace: "no_pids m \<Longrightarrow> no_pids (emplace k (new_proc n u) m)"
  by (auto simp: no_pids_def map_of_emplace new_proc_def split: if_splits)

lemma RL_GetAllAppInfos_ok:
  assumes "record_wf (proxiedAppInfo s)" "no_pids (proxiedAppInfo s)"
  shows "same_control s (snd (RL_GetAllAppInfos e s)) \<and>
    record_wf (proxiedAppInfo (snd (RL_GetAllAppInfos e s))) \<and> no_pids (proxiedAppInfo (snd (RL_GetAllAppInfos e s)))"
proof -
  define g where "g = (\<lambda>(info :: app_info) s.
             let s = s\<lparr>uidBundleNmeMap := emplace (app_uid info) (app_name info) (uidBundleNmeMap s)\<rparr>;
                 key = uid_key (app_uid info) (app_name info);
                 s = s\<lparr>proxiedAppInfo := emplace key (new_proc (app_name info) (app_uid info)) (proxiedAppInfo s)\<rparr>
             in if app_isSystem info
                then s\<lparr>proxiedAppInfo := update_entry key (add_flag FLAG_UNRESTRICTED) (proxiedAppInfo s)\<rparr>
                else (s :: rl_state))"
  have step: "same_control s (g x s) \<and> record_wf (proxiedAppInfo (g x s)) \<and> no_pids (proxiedAppInfo (g x s))"
    if "record_wf (proxiedAppInfo s)" "no_pids (proxiedAppInfo s)" for x s
    using that record_wf_emplace [OF that(1) refl, of "app_uid x" "app_name x" "app_name x"]
      no_pids_emplace [OF that(2)] record_wf_shape [OF same_shape_update_entry] no_pids_shape [OF same_shape_update_entry]
    by (simp add: g_def Let_def same_control_def)
  have "same_control s (fold g xs s) \<and> record_wf (proxiedAppInfo (fold g xs s)) \<and> no_pids (proxiedAppInfo (fold g xs s))"
    if "record_wf (proxiedAppInfo s)" "no_pids (proxiedAppInfo s)" for xs s
    using that
  proof (induction xs arbitrary: s)
    case (Cons x xs)
    from step [OF Cons.prems, of x] Cons.IH [of "g x s"] show ?case
      by (simp add: same_control_def)
  qed simp
  with assms show ?thesis
    by (simp add: RL_GetAllAppInfos_def g_def split: option.split)
qed

lemma RL_GetAllRunningAppInfo_ok:
  assumes "record_wf (proxiedAppInfo s)" "no_pids (proxiedAppInfo s)"
    and "\<And>infos. allProcesses e = Some infos \<Longrightarrow> distinct (map pi_pid infos)"
  shows "same_control s (snd (RL_GetAllRunningAppInfo e s)) \<and>
    record_wf (proxiedAppInfo (snd (RL_GetAllRunningAppInfo e s)))"
proof -
  define g where "g = (\<lambda>(info :: process_info) (s :: rl_state).
                case map_of (uidBundleNmeMap s) (pi_uid info) of
                  None \<Rightarrow> s
                | Some bundle \<Rightarrow>
                    let key = uid_key (pi_uid info) bundle in
                    s\<lparr>proxiedAppInfo := update_entry key (add_pid (pi_pid info))
                        (emplace key (new_proc (pi_name info) (pi_uid info)) (proxiedAppInfo s))\<rparr>)"
  define old where "old = (\<lambda>pid (m :: (string \<times> ProxiedProcInfo) list). \<exists>k p. map_of m k = Some p \<and> pid \<in> set (pp_pids p))"
  have pids: "set (pp_pids (add_pid pid p)) = insert pid (set (pp_pids p))" for pid p
    by (rule set_add_pid)
  have step: "same_control s (g x s) \<and> record_wf (proxiedAppInfo (g x s)) \<and>
      (\<forall>pid. old pid (proxiedAppInfo (g x s)) \<longrightarrow> old pid (proxiedAppInfo s) \<or> pid = pi_pid x)"
    if wf: "record_wf (proxiedAppInfo s)" and new: "\<not> old (pi_pid x) (proxiedAppInfo s)" for x s
  proof (cases "map_of (uidBundleNmeMap s) (pi_uid x)")
    case None
    with wf show ?thesis by (simp add: g_def)
  next
    case (Some bn)
    define key where "key = uid_key (pi_uid x) bn"
    define m where "m = emplace key (new_proc (pi_name x) (pi_uid x)) (proxiedAppInfo s)"
    have gm: "g x s = s\<lparr>proxiedAppInfo := update_entry key (add_pid (pi_pid x)) m\<rparr>"
      by (simp add: g_def Some key_def m_def Let_def)
    have om: "old pid m \<Longrightarrow> old pid (proxiedAppInfo s)" for pid
      by (auto simp: old_def m_def map_of_emplace new_proc_def split: if_splits)
    have "record_wf m" unfolding m_def key_def by (rule record_wf_emplace [OF wf refl])
    then have "record_wf (update_entry key (add_pid (pi_pid x)) m)"
      using om new by (intro record_wf_add_pid) (auto simp: old_def)
    moreover have "old pid (update_entry key (add_pid (pi_pid x)) m) \<Longrightarrow> old pid m \<or> pid = pi_pid x" for pid
      unfolding old_def by (auto simp: map_of_update_entry pids split: if_splits; blast)
    ultimately show ?thesis
      using om by (auto simp: gm same_control_def)
  qed
  have main: "same_control s (fold g xs s) \<and> record_wf (proxiedAppInfo (fold g xs s))"
    if "record_wf (proxiedAppInfo s)" "distinct (map pi_pid xs)" "\<forall>x \<in> set xs. \<not> old (pi_pid x) (proxiedAppInfo s)" for xs s
    using that
  proof (induction xs arbitrary: s)
    case (Cons x xs)
    have st: "same_control s (g x s) \<and> record_wf (proxiedAppInfo (g x s)) \<and>
      (\<forall>pid. old pid (proxiedAppInfo (g x s)) \<longrightarrow> old pid (proxiedAppInfo s) \<or> pid = pi_pid x)"
      using Cons.prems by (intro step) auto
    have "\<forall>y \<in> set xs. \<not> old (pi_pid y) (proxiedAppInfo (g x s))"
    proof
      fix y assume y: "y \<in> set xs"
      then have "pi_pid y \<in> pi_pid ` set xs" by (rule imageI)
      with Cons.prems(2) have "pi_pid y \<noteq> pi_pid x" by auto
      moreover have "\<not> old (pi_pid y) (proxiedAppInfo s)" using Cons.prems(3) y by simp
      ultimately show "\<not> old (pi_pid y) (proxiedAppInfo (g x s))" using st by blast
    qed
    with st Cons.IH [of "g x s"] Cons.prems(2) show ?case
      by (simp add: same_control_def)
  qed simp
  show ?thesis
  proof (cases "allProcesses e")
    case None
    with assms show ?thesis by (simp add: RL_GetAllRunningAppInfo_def)
  next
    case (Some infos)
    have "\<forall>x \<in> set infos. \<not> old (pi_pid x) (proxiedAppInfo s)"
      using assms(2) by (auto simp: old_def no_pids_def)
    with main [OF assms(1) assms(3) [OF Some]] show ?thesis
      by (simp add: RL_GetAllRunningAppInfo_def Some g_def [symmetric] Let_def same_control_def record_wf_filter)
  qed
qed

text \<open>The remaining queries only change flags.\<close>

definition only_flags :: "rl_state \<Rightarrow> rl_state \<Rightarrow> bool" where
  "only_flags s s' \<longleftrightarrow> same_control s s' \<and> same_shape (proxiedAppInfo s) (proxiedAppInfo s')"

lemma only_flags_queries:
  "only_flags s (snd (RL_GetForegroundApplications e s))"
  "only_flags s (snd (RL_GetBackgroundTaskApp e s))"
  "only_flags s (snd (RL_GetWorkSchedulerTask e s))"
  "only_flags s (snd (RL_GetExemptionConfig e s))"
proof -
  have one: "same_shape m ((\<lambda>(u, b). update_entry (uid_key u b) (add_flag f)) x m)" for m f and x :: "i32 \<times> string"
    by (auto simp: same_shape_update_entry split: prod.split)
  have many: "same_shape m (fold (\<lambda>(u, b). update_entry (uid_key u b) (add_flag f)) xs m)" for m f and xs :: "(i32 \<times> string) list"
    by (rule same_shape_fold) (rule one)
  show "only_flags s (snd (RL_GetForegroundApplications e s))"
    by (auto simp: RL_GetForegroundApplications_def only_flags_def same_control_def many split: option.split)
  show "only_flags s (snd (RL_GetWorkSchedulerTask e s))"
    by (auto simp: RL_GetWorkSchedulerTask_def only_flags_def same_control_def many split: option.split)
  have "same_shape m (fold (\<lambda>(uid, typeId) m.
        case map_of (uidBundleNmeMap s) uid of
          None \<Rightarrow> m
        | Some b \<Rightarrow> update_entry (uid_key uid b) (add_flag FLAG_CONTINUOUS_TASK) m) xs m)" for m and xs :: "(i32 \<times> u32) list"
    by (rule same_shape_fold) (auto simp: same_shape_update_entry split: option.split)
  then show "only_flags s (snd (RL_GetBackgroundTaskApp e s))"
    using same_shape_trans [OF _ many]
    by (auto simp: RL_GetBackgroundTaskApp_def only_flags_def same_control_def Let_def split: option.split)
  show "only_flags s (snd (RL_GetExemptionConfig e s))"
    using same_shape_trans [OF same_shape_map same_shape_map]
    by (simp add: RL_GetExemptionConfig_def only_flags_def same_control_def Let_def)
qed

lemma only_flags_wf:
  "only_flags s s' \<Longrightarrow> same_control t s \<and> record_wf (proxiedAppInfo s) \<Longrightarrow>
     same_control t s' \<and> record_wf (proxiedAppInfo s')"
  using record_wf_shape by (auto simp: only_flags_def same_control_def)

lemma InitProxiedAppInfo_ok:
  assumes "proxiedAppInfo s = []" "\<And>infos. allProcesses e = Some infos \<Longrightarrow> distinct (map pi_pid infos)"
  shows "same_control s (snd (InitProxiedAppInfo e s)) \<and> record_wf (proxiedAppInfo (snd (InitProxiedAppInfo e s)))"
proof -
  define P where "P = (\<lambda>t. same_control s t \<and> record_wf (proxiedAppInfo t))"
  have "same_control s (snd (RL_GetAllAppInfos e s)) \<and> record_wf (proxiedAppInfo (snd (RL_GetAllAppInfos e s))) \<and>
      no_pids (proxiedAppInfo (snd (RL_GetAllAppInfos e s)))"
    using assms(1) by (intro RL_GetAllAppInfos_ok) (simp_all add: no_pids_def)
  moreover define r0 where "r0 = and_then (RL_GetAllAppInfos e s) (RL_GetAllRunningAppInfo e)"
  ultimately have "P (snd r0)"
    using RL_GetAllRunningAppInfo_ok [OF _ _ assms(2), where s = "snd (RL_GetAllAppInfos e s)"]
    by (cases "RL_GetAllAppInfos e s") (auto simp: and_then_def P_def same_control_def)
  moreover have "P t \<Longrightarrow> P (snd (RL_GetForegroundApplications e t))" "P t \<Longrightarrow> P (snd (RL_GetBackgroundTaskApp e t))"
    "P t \<Longrightarrow> P (snd (RL_GetWorkSchedulerTask e t))" "P t \<Longrightarrow> P (snd (RL_GetExemptionConfig e t))" for t
    unfolding P_def by (rule only_flags_wf, rule only_flags_queries, assumption)+
  ultimately have "P (snd (and_then (and_then (and_then (and_then r0
          (RL_GetForegroundApplications e)) (RL_GetBackgroundTaskApp e)) (RL_GetWorkSchedulerTask e))
          (RL_GetExemptionConfig e)))"
    by (intro and_then_keeps [where P = P])
  then show ?thesis
    unfolding InitProxiedAppInfo_def P_def r0_def by (auto simp: same_control_def split: prod.split)
qed

lemma StartProxyInner_ok:
  assumes "proxiedAppInfo s = []" "\<And>infos. allProcesses e = Some infos \<Longrightarrow> distinct (map pi_pid infos)"
  defines "t \<equiv> snd (StartProxyInner e s)"
  shows "record_wf (proxiedAppInfo t)" "announces s t"
    "isProxied t = isProxied s" "rl_isIdleMaintence t = rl_isIdleMaintence s"
    "fst (StartProxyInner e s) \<noteq> ERR_OK \<Longrightarrow> proxiedAppInfo t = []"
proof -
  define u where "u = snd (InitProxiedAppInfo e (ClearProxyRecord s))"
  have u: "same_control (ClearProxyRecord s) u" "record_wf (proxiedAppInfo u)"
    using InitProxiedAppInfo_ok [of "ClearProxyRecord s" e] assms(2)
    by (auto simp: u_def ClearProxyRecord_def)
  have start: "StartProxyInner e s =
      (if fst (InitProxiedAppInfo e (ClearProxyRecord s)) \<noteq> ERR_OK
       then (ERR_STRATEGY_DEPENDS_SA_NOT_AVAILABLE, ClearProxyRecord u) else (ERR_OK, ProxyAppAndProcess True u))"
    by (cases "InitProxiedAppInfo e (ClearProxyRecord s)")
      (auto simp: StartProxyInner_def Let_def and_then_def InitNativeProcInfo_def u_def)
  note p = ProxyAppAndProcess_ok [OF u(2)]
  have ctl: "rl_calls u = rl_calls s" "isProxied u = isProxied s" "rl_isIdleMaintence u = rl_isIdleMaintence s"
    using u(1) by (simp_all add: same_control_def ClearProxyRecord_def)
  show "record_wf (proxiedAppInfo t)" "isProxied t = isProxied s" "rl_isIdleMaintence t = rl_isIdleMaintence s"
    using u(2) p ctl by (auto simp: t_def start ClearProxyRecord_def)
  show "fst (StartProxyInner e s) \<noteq> ERR_OK \<Longrightarrow> proxiedAppInfo t = []"
    by (auto simp: t_def start ClearProxyRecord_def split: if_splits)
  show "announces s t"
  proof (cases "fst (InitProxiedAppInfo e (ClearProxyRecord s)) \<noteq> ERR_OK")
    case True
    then have "t = ClearProxyRecord u" by (simp add: t_def start)
    then show ?thesis
      using ctl assms(1) by (intro announces_same) (simp_all add: ClearProxyRecord_def proxied_view_def)
  next
    case False
    then have t: "t = ProxyAppAndProcess True u" by (simp add: t_def start)
    obtain es where "rl_calls t = rl_calls s @ es"
        "\<forall>v. fold replay_call es v = (if rl_isIdleMaintence s then v else v \<union> proxied_pairs (proxiedAppInfo u))"
      using p(1) [of True] ctl by (auto simp: t)
    then show ?thesis
      unfolding announces_def using assms(1) ctl p
      by (intro exI [of _ es]) (auto simp: t proxied_view_def)
  qed
qed

end
