(* ===== verification/Running_Lock_Steps.thy ===== *)
theory Running_Lock_Steps
  imports Running_Lock_Record
begin

text \<open>
  Every handler of \<open>RunningLockStrategy\<close> keeps \<open>rl_inv\<close> and announces its change of the proxied
  pairs to the power manager (\<open>announces\<close>).
\<close>

lemma proxied_pairs_emplace:
  assumes "map_of m k = None"
  shows "proxied_pairs (emplace k p m) = (if IsExempted (pp_flag p) then {} else pairs p) \<union> proxied_pairs m"
proof -
  have "map_of (emplace k p m) = (map_of m)(k \<mapsto> p)"
    using assms by (simp add: map_of_emplace)
  then show ?thesis
    using assms unfolding proxied_pairs_def by (auto split: if_splits) (metis option.distinct(1))+
qed

section \<open>Steps\<close>

lemma RL_UpdateResourceConfig_ok:
  assumes "rl_inv s" "isProxied s" "\<And>infos. allProcesses e = Some infos \<Longrightarrow> distinct (map pi_pid infos)"
  shows "rl_inv (snd (RL_UpdateResourceConfig e s)) \<and> announces s (snd (RL_UpdateResourceConfig e s))"
proof -
  have wf: "record_wf (proxiedAppInfo s)" using assms(1) by (simp add: rl_inv_def)
  note st = StopProxyInner_ok [OF wf]
  note sp = StartProxyInner_ok [OF st(2), where e = e, OF assms(3)]
  show ?thesis
    using sp(1,3) st(3) assms(2) announces_trans [OF st(1) sp(2)]
    by (simp add: RL_UpdateResourceConfig_def rl_inv_def)
qed

lemma StartProxy_ok:
  assumes "rl_inv s" "\<And>infos. allProcesses e = Some infos \<Longrightarrow> distinct (map pi_pid infos)"
  shows "rl_inv (snd (StartProxy e w s)) \<and> announces s (snd (StartProxy e w s))"
proof (cases "isProxied s")
  case True
  with assms announces_same [of s s] show ?thesis by (simp add: StartProxy_def)
next
  case False
  then have r: "proxiedAppInfo s = []" "\<not> rl_isIdleMaintence s" using assms(1) by (auto simp: rl_inv_def)
  note sp = StartProxyInner_ok [OF r(1), where e = e, OF assms(2)]
  define t where "t = snd (StartProxyInner e s)"
  have "announces s (t\<lparr>isProxied := True, rl_isIdleMaintence := False\<rparr>)"
    using sp(2,4) r(2) by (simp add: t_def announces_def proxied_view_def)
  then show ?thesis
    using False assms(1) sp announces_same [of s s]
    by (cases "StartProxyInner e s") (auto simp: StartProxy_def Let_def rl_inv_def t_def split: option.split)
qed

lemma StopProxy_ok:
  assumes "rl_inv s"
  shows "rl_inv (snd (StopProxy w s)) \<and> announces s (snd (StopProxy w s))"
proof (cases "isProxied s")
  case False
  with assms announces_same [of s s] show ?thesis by (simp add: StopProxy_def)
next
  case True
  have wf: "record_wf (proxiedAppInfo s)" using assms(1) by (simp add: rl_inv_def)
  have refl: "announces s s" by (rule announces_same) simp_all
  have enter: "announces s ((ProxyAppAndProcess False s)\<lparr>rl_isIdleMaintence := True\<rparr>)"
  proof -
    obtain es where es: "rl_calls (ProxyAppAndProcess False s) = rl_calls s @ es"
      "\<forall>v. fold replay_call es v = (if rl_isIdleMaintence s then v else v - proxied_pairs (proxiedAppInfo s))"
      using ProxyAppAndProcess_ok(1) [OF wf, of False] by auto
    then show ?thesis
      unfolding announces_def by (intro exI [of _ es]) (auto simp: proxied_view_def)
  qed
  have leave: "announces s (ProxyAppAndProcess True (s\<lparr>rl_isIdleMaintence := False\<rparr>))"
  proof -
    let ?t = "s\<lparr>rl_isIdleMaintence := False\<rparr>"
    have wf': "record_wf (proxiedAppInfo ?t)" using wf by simp
    obtain es where es: "rl_calls (ProxyAppAndProcess True ?t) = rl_calls s @ es"
      "\<forall>v. fold replay_call es v = v \<union> proxied_pairs (proxiedAppInfo s)"
      using ProxyAppAndProcess_ok(1) [OF wf', of True] by auto
    then show ?thesis
      unfolding announces_def using ProxyAppAndProcess_ok(2,4) [OF wf', of True]
      by (intro exI [of _ es]) (auto simp: proxied_view_def)
  qed
  have stop: "announces s ((StopProxyInner s)\<lparr>isProxied := False, rl_isIdleMaintence := False\<rparr>)"
    using StopProxyInner_ok [OF wf] by (cases "rl_isIdleMaintence s") (auto simp: announces_def proxied_view_def)
  show ?thesis
    using True wf refl enter leave stop StopProxyInner_ok(2) [OF wf] ProxyAppAndProcess_ok(2,3) wf
    by (auto simp: StopProxy_def Let_def rl_inv_def ProxyAppAndProcess_def split: option.split)
qed

lemma RL_UpdateExemptionList_ok:
  assumes "rl_inv s"
  shows "rl_inv (snd (RL_UpdateExemptionList w s)) \<and> announces s (snd (RL_UpdateExemptionList w s))"
  using assms RL_AddExemptionFlag_ok RL_RemoveExemptionFlag_ok announces_same [of s s]
  by (auto simp: RL_UpdateExemptionList_def Let_def split: option.split)

lemma RL_UpdateBgTaskAppStatus_ok:
  assumes "rl_inv s"
  shows "rl_inv (snd (RL_UpdateBgTaskAppStatus e w s)) \<and> announces s (snd (RL_UpdateBgTaskAppStatus e w s))"
  using assms RL_AddExemptionFlag_ok RL_RemoveExemptionFlag_ok announces_same [of s s]
  by (auto simp: RL_UpdateBgTaskAppStatus_def Let_def split: option.split)

lemma ResetProxyStatus_ok:
  assumes "rl_inv s"
  shows "rl_inv (ResetProxyStatus e w s) \<and> announces s (ResetProxyStatus e w s)"
proof -
  have refl: "announces s s" by (rule announces_same) simp_all
  define g where "g = (\<lambda>(key :: string, v :: ProxiedProcInfo) s.
      if (pp_flag v AND (FLAG_TRANSIENT_TASK OR FLAG_WORK_SCHEDULER)) = 0 then s
      else RL_RemoveExemptionFlag (pp_uid v) (pp_name v)
             (pp_flag v AND (FLAG_TRANSIENT_TASK OR FLAG_WORK_SCHEDULER)) s)"
  have step: "rl_inv (g x t) \<and> announces t (g x t)" if "rl_inv t" for x t
    using that RL_RemoveExemptionFlag_ok [OF that] announces_same [of t t]
    by (auto simp: g_def split: prod.split)
  have "rl_inv (fold g m t) \<and> announces t (fold g m t)" if "rl_inv t" for m t
    using that
  proof (induction m arbitrary: t)
    case Nil
    then show ?case by (simp add: announces_same)
  next
    case (Cons x m)
    have "rl_inv (g x t)" "announces t (g x t)" using step [OF Cons.prems] by auto
    with Cons.IH [of "g x t"] announces_trans [of t "g x t" "fold g m (g x t)"] show ?case
      by simp
  qed
  from this [OF assms, of "proxiedAppInfo s"] assms refl show ?thesis
    by (auto simp: ResetProxyStatus_def Let_def g_def split: option.split)
qed

text \<open>The process monitor's view: a pid belongs to at most one application.\<close>

definition pid_of :: "rl_state \<Rightarrow> i32 \<Rightarrow> string \<Rightarrow> bool" where
  "pid_of s pid key \<longleftrightarrow> (\<forall>k p. map_of (proxiedAppInfo s) k = Some p \<longrightarrow> pid \<in> set (pp_pids p) \<longrightarrow> k = key)"

lemma unsigned_uid_key_nonneg:
  "0 \<le> sint uid \<Longrightarrow> unsigned_uid_key uid name = uid_key uid name"
proof -
  assume nn: "0 \<le> sint (uid :: u32)"
  have "sint uid < 2 ^ 31"
    using sint_less [of uid] by simp
  with nn have "uint uid = sint uid"
    unfolding uint_sint by (intro take_bit_int_eq_self) simp_all
  then show ?thesis
    by (simp add: unsigned_uid_key_def uid_key_def to_string_u32_def to_string_i32_def)
qed

lemma process_created_ok:
  fixes uid pid :: i32 and e
  assumes inv: "rl_inv s" and pr: "isProxied s" and nn: "0 \<le> sint uid" and own: "pid_of s pid (uid_key uid name)"
  defines "k \<equiv> uid_key uid name"
  defines "t \<equiv> RL_GetAndCreateAppInfo e uid pid name s"
  shows "\<exists>p. map_of (proxiedAppInfo t) k = Some p \<and> rl_inv t \<and>
    (if IsExempted (pp_flag p) then announces s t else announces s (ProxyRunningLockList True [(pid, uid)] t))"
proof -
  have wf: "record_wf (proxiedAppInfo s)" using inv by (simp add: rl_inv_def)
  have key: "unsigned_uid_key uid name = k" using nn by (simp add: unsigned_uid_key_nonneg k_def)
  have own': "map_of (proxiedAppInfo s) k' = Some p' \<Longrightarrow> pid \<in> set (pp_pids p') \<Longrightarrow> k' = k" for k' p'
    using own by (auto simp: pid_of_def k_def)
  obtain p m where t: "t = s\<lparr>proxiedAppInfo := m\<rparr>" and mk: "map_of m k = Some p" "record_wf m"
      "pp_uid p = uid"
      "proxied_pairs m = (if IsExempted (pp_flag p) then proxied_pairs (proxiedAppInfo s)
         else proxied_pairs (proxiedAppInfo s) \<union> {(pid, uid)})"
  proof (cases "map_of (proxiedAppInfo s) k")
    case (Some q)
    let ?m = "AList.update k (add_pid pid q) (proxiedAppInfo s)"
    have uid: "pp_uid q = uid" using record_wf_key [OF wf Some] by (auto simp: k_def)
    have pairs: "pairs (add_pid pid q) = insert (pid, uid) (pairs q)"
      by (simp add: pairs_def set_add_pid) (simp add: add_pid_def uid)
    have flag: "pp_flag (add_pid pid q) = pp_flag q" by (simp add: add_pid_def)
    have "?m = update_entry k (add_pid pid) (proxiedAppInfo s)"
      by (simp add: update_entry_def Some)
    moreover have "record_wf (update_entry k (add_pid pid) (proxiedAppInfo s))"
      using own' by (rule record_wf_add_pid [OF wf])
    ultimately have "record_wf ?m" by simp
    moreover have "proxied_pairs ?m = (if IsExempted (pp_flag (add_pid pid q)) then proxied_pairs (proxiedAppInfo s)
         else proxied_pairs (proxiedAppInfo s) \<union> {(pid, uid)})"
      by (auto simp: proxied_pairs_update proxied_pairs_split [OF Some] pairs flag)
    ultimately show ?thesis
      using Some uid by (intro that [of ?m "add_pid pid q"])
        (simp_all add: t_def RL_GetAndCreateAppInfo_def key Let_def AList.update_conv' add_pid_def)
  next
    case None
    define q where "q = RL_GetExemptionConfigForApp e name
        (if systemAppByUid e uid = Some True then add_flag FLAG_UNRESTRICTED (add_pid pid (new_proc name uid))
         else add_pid pid (new_proc name uid))"
    have q: "pp_uid q = uid" "pp_pids q = [pid]"
      by (simp_all add: q_def RL_GetExemptionConfigForApp_def Let_def add_pid_def new_proc_def)
    let ?m = "emplace k q (proxiedAppInfo s)"
    have mo: "map_of ?m = (map_of (proxiedAppInfo s))(k \<mapsto> q)"
      by (simp add: map_of_emplace None)
    have "record_wf ?m"
      unfolding record_wf_def mo
    proof (intro conjI allI impI)
      show "distinct (map fst ?m)" using wf by (auto simp: record_wf_def)
    next
      fix k' p' assume "((map_of (proxiedAppInfo s))(k \<mapsto> q)) k' = Some p'"
      then show "\<exists>n. k' = uid_key (pp_uid p') n"
        using q record_wf_key [OF wf] by (auto simp: k_def split: if_splits)
    next
      fix k1 p1 k2 p2 x
      assume "((map_of (proxiedAppInfo s))(k \<mapsto> q)) k1 = Some p1" "((map_of (proxiedAppInfo s))(k \<mapsto> q)) k2 = Some p2"
        "x \<in> set (pp_pids p1)" "x \<in> set (pp_pids p2)"
      then show "k1 = k2"
        using q own' record_wf_pid [OF wf] by (auto split: if_splits)
    qed
    moreover have "proxied_pairs ?m = (if IsExempted (pp_flag q) then proxied_pairs (proxiedAppInfo s)
         else proxied_pairs (proxiedAppInfo s) \<union> {(pid, uid)})"
      using None by (auto simp: proxied_pairs_emplace pairs_def q)
    moreover have "t = s\<lparr>proxiedAppInfo := ?m\<rparr>"
      by (simp add: t_def RL_GetAndCreateAppInfo_def key Let_def None q_def)
    ultimately show ?thesis
      using q by (intro that [of ?m q]) (simp_all add: mo)
  qed
  have "rl_inv t" using inv pr mk(2) by (simp add: t rl_inv_def)
  moreover have "announces s t" if "IsExempted (pp_flag p)"
    using that mk(4) by (intro announces_same) (simp_all add: t proxied_view_def)
  moreover have "announces s (ProxyRunningLockList True [(pid, uid)] t)" if "\<not> IsExempted (pp_flag p)"
    using that mk(4) by (intro announces_call) (simp_all add: t)
  ultimately show ?thesis
    using mk(1) by (intro exI [of _ p]) (simp add: t)
qed

lemma process_ended_ok:
  fixes uid pid :: i32
  assumes inv: "rl_inv s" and pr: "isProxied s" and own: "pid_of s pid (uid_key uid name)"
    and k: "map_of (proxiedAppInfo s) (uid_key uid name) = Some p"
  defines "k \<equiv> uid_key uid name" and "p' \<equiv> p\<lparr>pp_pids := filter (\<lambda>x. x \<noteq> pid) (pp_pids p)\<rparr>"
  defines "m \<equiv> if pp_pids p' = [] then AList.delete k (proxiedAppInfo s) else AList.update k p' (proxiedAppInfo s)"
  shows "rl_inv (s\<lparr>proxiedAppInfo := m\<rparr>)"
    and "if IsExempted (pp_flag p) then announces s (s\<lparr>proxiedAppInfo := m\<rparr>)
      else announces s (ProxyRunningLockList False [(pid, uid)] (s\<lparr>proxiedAppInfo := m\<rparr>))"
proof -
  have wf: "record_wf (proxiedAppInfo s)" using inv by (simp add: rl_inv_def)
  have some: "map_of (proxiedAppInfo s) k = Some p" using k by (simp add: k_def)
  have uid: "pp_uid p = uid" using record_wf_key [OF wf some] by (auto simp: k_def)
  have own': "map_of (proxiedAppInfo s) k' = Some q \<Longrightarrow> pid \<in> set (pp_pids q) \<Longrightarrow> k' = k" for k' q
    using own by (auto simp: pid_of_def k_def)
  have upd: "record_wf (AList.update k p' (proxiedAppInfo s))"
  proof (rule record_wf_update [OF wf])
    show "\<exists>n. k = uid_key (pp_uid p') n" by (auto simp: p'_def uid k_def)
    show "map_of (proxiedAppInfo s) k' = Some q \<Longrightarrow> x \<in> set (pp_pids p') \<Longrightarrow> x \<in> set (pp_pids q) \<Longrightarrow> k' = k" for k' q x
      using record_wf_pid [OF wf some] by (auto simp: p'_def)
  qed
  then have wfm: "record_wf m"
    using record_wf_delete [OF wf] by (simp add: m_def)
  then show "rl_inv (s\<lparr>proxiedAppInfo := m\<rparr>)"
    using pr by (simp add: rl_inv_def)
  have pairs': "pairs p' = pairs p - {(pid, uid)}"
    by (auto simp: pairs_def p'_def uid)
  have rest: "(pid, uid) \<notin> {x. \<exists>k' q. map_of (proxiedAppInfo s) k' = Some q \<and> k' \<noteq> k \<and> \<not> IsExempted (pp_flag q) \<and> x \<in> pairs q}"
    using own' by (auto simp: pairs_def)
  have mp: "proxied_pairs m = (if IsExempted (pp_flag p) then {} else pairs p') \<union>
     {x. \<exists>k' q. map_of (proxiedAppInfo s) k' = Some q \<and> k' \<noteq> k \<and> \<not> IsExempted (pp_flag q) \<and> x \<in> pairs q}"
    (is "_ = _ \<union> ?rest")
  proof (cases "pp_pids p' = []")
    case True
    then have "pairs p' = {}" by (simp add: pairs_def)
    with True show ?thesis by (simp add: m_def proxied_pairs_delete)
  next
    case False
    then show ?thesis by (simp add: m_def proxied_pairs_update) (simp add: p'_def)
  qed
  show "if IsExempted (pp_flag p) then announces s (s\<lparr>proxiedAppInfo := m\<rparr>)
      else announces s (ProxyRunningLockList False [(pid, uid)] (s\<lparr>proxiedAppInfo := m\<rparr>))"
  proof (cases "IsExempted (pp_flag p)")
    case True
    then have "proxied_pairs m = proxied_pairs (proxiedAppInfo s)"
      by (simp add: mp proxied_pairs_split [OF some])
    with True show ?thesis by (simp add: announces_same proxied_view_def)
  next
    case False
    then have "proxied_pairs m = proxied_pairs (proxiedAppInfo s) - {(pid, uid)}"
      using rest by (auto simp: mp proxied_pairs_split [OF some] pairs')
    with False show ?thesis by (simp add: announces_call)
  qed
qed

lemma RL_HandleProcessStatusChanged_ok:
  fixes s :: rl_state and w :: want
  assumes inv: "rl_inv s"
    and nn: "0 \<le> sint (GetIntParam w ''uid'' (- 1))"
    and own: "pid_of s (GetIntParam w ''pid'' (- 1))
      (uid_key (GetIntParam w ''uid'' (- 1)) (GetStringParam w ''name''))"
  shows "rl_inv (RL_HandleProcessStatusChanged e (Some w) s) \<and>
    announces s (RL_HandleProcessStatusChanged e (Some w) s)"
proof (cases "isProxied s")
  case False
  with inv announces_same [of s s] show ?thesis by (simp add: RL_HandleProcessStatusChanged_def)
next
  case True
  define uid pid name where "uid = GetIntParam w ''uid'' (- 1)" and "pid = GetIntParam w ''pid'' (- 1)"
    and "name = GetStringParam w ''name''"
  note d = uid_def [symmetric] pid_def [symmetric] name_def [symmetric]
  show ?thesis
  proof (cases "GetBoolParam w ''isCreated'' False")
    case created: True
    define t where "t = RL_GetAndCreateAppInfo e uid pid name s"
    obtain p where p: "map_of (proxiedAppInfo t) (uid_key uid name) = Some p" "rl_inv t"
        "if IsExempted (pp_flag p) then announces s t else announces s (ProxyRunningLockList True [(pid, uid)] t)"
      using process_created_ok [OF inv True nn [unfolded d] own [unfolded d], of e] by (auto simp: t_def)
    have "emplace (uid_key uid name) default_proc (proxiedAppInfo t) = proxiedAppInfo t"
      using p(1) map_of_eq_None_iff [of "proxiedAppInfo t" "uid_key uid name"] by (simp add: emplace_def)
    with p True created show ?thesis
      by (simp add: RL_HandleProcessStatusChanged_def Let_def d t_def [symmetric])
        (simp add: rl_inv_def)
  next
    case ended: False
    show ?thesis
    proof (cases "map_of (proxiedAppInfo s) (uid_key uid name)")
      case None
      with inv True ended announces_same [of s s] show ?thesis
        by (simp add: RL_HandleProcessStatusChanged_def Let_def d)
    next
      case (Some p)
      note ok = process_ended_ok [OF inv True own [unfolded d] Some]
      have swap: "(ProxyRunningLockList b l s)\<lparr>proxiedAppInfo := m\<rparr> =
          ProxyRunningLockList b l (s\<lparr>proxiedAppInfo := m\<rparr>)" for b l m
        by (simp add: ProxyRunningLockList_def)
      from ok True ended Some show ?thesis
        by (cases "IsExempted (pp_flag p)";
            cases "filter (\<lambda>x. x \<noteq> pid) (pp_pids p) = []")
          (simp_all add: RL_HandleProcessStatusChanged_def Let_def d swap, simp_all add: rl_inv_def)
    qed
  qed
qed

section \<open>The strategy as a step system\<close>

text \<open>
  A step handles one message with the answers \<open>e\<close> of the other services. The application
  manager lists every process once; the process monitor reports uids as the system assigns
  them and a pid for one application at a time; and the day and night switch (the only
  sender of \<open>RES_CTRL_CONDITION_CHANGED\<close>) is handled while proxying.
\<close>

inductive rl_step :: "st_env \<times> StandbyMessage \<Rightarrow> rl_state \<Rightarrow> rl_state \<Rightarrow> bool" where
  rl_handle: "(\<And>infos. allProcesses e = Some infos \<Longrightarrow> distinct (map pi_pid infos)) \<Longrightarrow>
    (eventId m = RES_CTRL_CONDITION_CHANGED \<Longrightarrow> isProxied s) \<Longrightarrow>
    (\<And>w. eventId m = PROCESS_STATE_CHANGED \<Longrightarrow> msg_want m = Some w \<Longrightarrow>
       0 \<le> sint (GetIntParam w ''uid'' (- 1)) \<and>
       pid_of s (GetIntParam w ''pid'' (- 1)) (uid_key (GetIntParam w ''uid'' (- 1)) (GetStringParam w ''name''))) \<Longrightarrow>
    rl_step (e, m) s (RunningLockStrategy_HandleEvent e m s)"

inductive_cases rl_stepE: "rl_step (e, m) s s'"

definition rl_start :: rl_state where
  "rl_start = \<lparr> isProxied = False, rl_isIdleMaintence = False, proxiedAppInfo = [], uidBundleNmeMap = [], rl_calls = [] \<rparr>"

lemma rl_step_ok:
  assumes "rl_inv s" "rl_step l s s'"
  shows "rl_inv s' \<and> announces s s'"
proof (cases l)
  case (Pair e m)
  note 1 = rl_stepE [OF assms(2) [unfolded Pair]]
  show ?thesis
  proof (rule 1)
    assume s': "s' = RunningLockStrategy_HandleEvent e m s"
    assume d: "\<And>infos. allProcesses e = Some infos \<Longrightarrow> distinct (map pi_pid infos)"
    assume r: "eventId m = RES_CTRL_CONDITION_CHANGED \<Longrightarrow> isProxied s"
    assume g: "\<And>w. eventId m = PROCESS_STATE_CHANGED \<Longrightarrow> msg_want m = Some w \<Longrightarrow>
         0 \<le> sint (GetIntParam w ''uid'' (- 1)) \<and>
         pid_of s (GetIntParam w ''pid'' (- 1)) (uid_key (GetIntParam w ''uid'' (- 1)) (GetStringParam w ''name''))"
    have refl: "announces s s" by (rule announces_same) simp_all
    have proc: "rl_inv (RL_HandleProcessStatusChanged e (msg_want m) s) \<and>
        announces s (RL_HandleProcessStatusChanged e (msg_want m) s)" if "eventId m = PROCESS_STATE_CHANGED"
    proof (cases "msg_want m")
      case None
      with assms(1) refl show ?thesis by (simp add: RL_HandleProcessStatusChanged_def)
    next
      case (Some w)
      from RL_HandleProcessStatusChanged_ok [OF assms(1)] g [OF that Some] show ?thesis by (simp add: Some)
    qed
    show ?thesis
      unfolding s' RunningLockStrategy_HandleEvent_def
      using assms(1) refl proc RL_UpdateExemptionList_ok [OF assms(1)] RL_UpdateResourceConfig_ok [OF assms(1) r d]
        StartProxy_ok [OF assms(1) d] StopProxy_ok [OF assms(1)] RL_UpdateBgTaskAppStatus_ok [OF assms(1)]
        ResetProxyStatus_ok [OF assms(1)]
      by (simp split: if_split)
  qed
qed

interpretation rl: announced_view "\<lambda>s. s = rl_start" rl_step rl_inv rl_calls proxied_view replay_call
proof unfold_locales
  show "rl_inv s" if "s = rl_start" for s
    using that by (simp add: rl_inv_def rl_start_def)
  show "rl_inv s'" if "rl_inv s" "rl_step l s s'" for s l s'
    using rl_step_ok [OF that] by simp
  show "\<exists>es. rl_calls s' = rl_calls s @ es \<and> proxied_view s' = fold replay_call es (proxied_view s)"
    if "rl_inv s" "rl_step l s s'" for s l s'
    using rl_step_ok [OF that] by (simp add: announces_def)
qed

end
