(* ===== verification/Running_Lock_Start.thy ===== *)
theory Running_Lock_Start
  imports Running_Lock_Steps
begin

text \<open>
  Which running locks a start proxies, in terms of the answers of the other services:
  \<open>InitProxiedAppInfo\<close> computes, query by query, the flags and the pids of every application.
  \<open>entry_view\<close> is the part of an entry that matters, its pids as a set.
\<close>

section \<open>Entries\<close>

definition entry_view :: "(string \<times> ProxiedProcInfo) list \<Rightarrow> string \<Rightarrow> (string \<times> i32 \<times> i32 set \<times> u8) option" where
  "entry_view m k = map_option (\<lambda>p. (pp_name p, pp_uid p, set (pp_pids p), pp_flag p)) (map_of m k)"

lemma proxied_pairs_view:
  "proxied_pairs m = {(pid, uid). \<exists>k n P f. entry_view m k = Some (n, uid, P, f) \<and> \<not> IsExempted f \<and> pid \<in> P}"
  unfolding proxied_pairs_def entry_view_def pairs_def by fastforce

definition with_flag :: "u8 \<Rightarrow> string \<times> i32 \<times> i32 set \<times> u8 \<Rightarrow> string \<times> i32 \<times> i32 set \<times> u8" where
  "with_flag f x = (case x of (n, u, P, g) \<Rightarrow> (n, u, P, g OR f))"

lemma entry_view_add_flag:
  "entry_view (update_entry k (add_flag f) m) = (entry_view m)(k := map_option (with_flag f) (entry_view m k))"
  by (auto simp: entry_view_def map_of_update_entry option.map_comp o_def with_flag_def add_flag_def)

lemma add_flag_idem [simp]: "add_flag f (add_flag f p) = add_flag f p"
  by (simp add: add_flag_def ac_simps)

lemma entry_view_fold_flag:
  assumes "\<And>x m. g x m = (case key x of None \<Rightarrow> m | Some k \<Rightarrow> update_entry k (add_flag f) m)"
  shows "entry_view (fold g xs m) k =
    map_option (if Some k \<in> key ` set xs then with_flag f else id) (entry_view m k)"
  unfolding entry_view_def map_of_fold_update [where g = g and key = key and h = "add_flag f", OF assms add_flag_idem]
  by (auto simp: option.map_comp o_def with_flag_def add_flag_def)

lemma entry_view_map_flag:
  "entry_view (map (\<lambda>(k, v). (k, if Q (pp_name v) then add_flag f v else v)) m) k =
    map_option (\<lambda>x. if Q (fst x) then with_flag f x else x) (entry_view m k)"
  unfolding entry_view_def map_of_map_values [of "\<lambda>v. if Q (pp_name v) then add_flag f v else v" m]
  by (cases "map_of m k") (auto simp: with_flag_def add_flag_def)

lemma entry_view_emplace:
  "entry_view (emplace k p m) = (if entry_view m k = None
     then (entry_view m)(k \<mapsto> (pp_name p, pp_uid p, set (pp_pids p), pp_flag p)) else entry_view m)"
  by (auto simp: entry_view_def map_of_emplace)

lemma add_pid_frame [simp]:
  "pp_uid (add_pid pid p) = pp_uid p" "pp_name (add_pid pid p) = pp_name p" "pp_flag (add_pid pid p) = pp_flag p"
  by (simp_all add: add_pid_def)

lemma entry_view_add_pid:
  "entry_view (update_entry k (add_pid pid) m) =
    (entry_view m)(k := map_option (\<lambda>(n, u, P, f). (n, u, insert pid P, f)) (entry_view m k))"
  by (rule ext) (auto simp: entry_view_def map_of_update_entry option.map_comp o_def set_add_pid)

section \<open>Applications\<close>

text \<open>The application a uid stands for is the first one the bundle manager lists.\<close>

definition first_app :: "app_info list \<Rightarrow> i32 \<Rightarrow> string option" where
  "first_app infos uid = map_option app_name (List.find (\<lambda>i. app_uid i = uid) infos)"

lemma RL_GetAllAppInfos_view:
  assumes "applicationInfos e = Some infos"
  shows "fst (RL_GetAllAppInfos e (ClearProxyRecord s)) = ERR_OK"
    and "map_of (uidBundleNmeMap (snd (RL_GetAllAppInfos e (ClearProxyRecord s)))) uid = first_app infos uid"
    and "entry_view (proxiedAppInfo (snd (RL_GetAllAppInfos e (ClearProxyRecord s)))) (uid_key uid n) =
      (if \<exists>i \<in> set infos. app_uid i = uid \<and> app_name i = n
       then Some (n, uid, {}, if \<exists>i \<in> set infos. app_uid i = uid \<and> app_name i = n \<and> app_isSystem i
                              then FLAG_UNRESTRICTED else 0)
       else None)"
proof -
  define g where "g = (\<lambda>(info :: app_info) s.
     let s = s\<lparr>uidBundleNmeMap := emplace (app_uid info) (app_name info) (uidBundleNmeMap s)\<rparr>;
         key = uid_key (app_uid info) (app_name info);
         s = s\<lparr>proxiedAppInfo := emplace key (new_proc (app_name info) (app_uid info)) (proxiedAppInfo s)\<rparr>
     in if app_isSystem info
        then s\<lparr>proxiedAppInfo := update_entry key (add_flag FLAG_UNRESTRICTED) (proxiedAppInfo s)\<rparr>
        else s :: rl_state)"
  have r: "RL_GetAllAppInfos e s = (ERR_OK, fold g infos s)" for s
    using assms by (simp add: RL_GetAllAppInfos_def g_def)
  show "fst (RL_GetAllAppInfos e (ClearProxyRecord s)) = ERR_OK" by (simp add: r)
  have "map_of (uidBundleNmeMap (fold g xs t)) uid =
      (case map_of (uidBundleNmeMap t) uid of None \<Rightarrow> first_app xs uid | Some n \<Rightarrow> Some n)" for xs t
  proof (induction xs arbitrary: t)
    case (Cons x xs)
    have "map_of (uidBundleNmeMap (g x t)) uid = (case map_of (uidBundleNmeMap t) uid of
        None \<Rightarrow> if app_uid x = uid then Some (app_name x) else None | Some n \<Rightarrow> Some n)"
      by (auto simp: g_def Let_def map_of_emplace split: option.split)
    with Cons.IH [of "g x t"] show ?case
      by (auto simp: first_app_def split: option.split)
  qed (simp add: first_app_def split: option.split)
  from this [of infos "ClearProxyRecord s"]
  show "map_of (uidBundleNmeMap (snd (RL_GetAllAppInfos e (ClearProxyRecord s)))) uid = first_app infos uid"
    by (simp add: r) (simp add: ClearProxyRecord_def)
  have "entry_view (proxiedAppInfo (fold g xs t)) (uid_key uid n) =
     (case entry_view (proxiedAppInfo t) (uid_key uid n) of
        Some x \<Rightarrow> Some (if \<exists>i \<in> set xs. app_uid i = uid \<and> app_name i = n \<and> app_isSystem i
                          then with_flag FLAG_UNRESTRICTED x else x)
      | None \<Rightarrow> if \<exists>i \<in> set xs. app_uid i = uid \<and> app_name i = n
          then Some (n, uid, {}, if \<exists>i \<in> set xs. app_uid i = uid \<and> app_name i = n \<and> app_isSystem i
                              then FLAG_UNRESTRICTED else 0)
          else None)" for xs t
  proof (induction xs arbitrary: t)
    case (Cons x xs)
    have "entry_view (proxiedAppInfo (g x t)) (uid_key uid n) =
      (if app_uid x = uid \<and> app_name x = n
       then Some (let v = (case entry_view (proxiedAppInfo t) (uid_key uid n) of Some v \<Rightarrow> v | None \<Rightarrow> (n, uid, {}, 0))
         in if app_isSystem x then with_flag FLAG_UNRESTRICTED v else v)
       else entry_view (proxiedAppInfo t) (uid_key uid n))"
      by (auto simp: g_def Let_def entry_view_add_flag entry_view_emplace new_proc_def split: option.split)
    with Cons.IH [of "g x t"] show ?case
      by (cases "entry_view (proxiedAppInfo t) (uid_key uid n)") (auto simp: Let_def with_flag_def)
  qed (simp split: option.split)
  from this [of infos "ClearProxyRecord s"]
  show "entry_view (proxiedAppInfo (snd (RL_GetAllAppInfos e (ClearProxyRecord s)))) (uid_key uid n) =
      (if \<exists>i \<in> set infos. app_uid i = uid \<and> app_name i = n
       then Some (n, uid, {}, if \<exists>i \<in> set infos. app_uid i = uid \<and> app_name i = n \<and> app_isSystem i
                              then FLAG_UNRESTRICTED else 0)
       else None)"
    by (simp add: r) (simp add: ClearProxyRecord_def entry_view_def)
qed

section \<open>Processes\<close>

lemma entry_view_filter:
  assumes "distinct (map fst m)"
  shows "entry_view (filter (\<lambda>(k, v). Q (pp_uid v)) m) k =
    (case entry_view m k of None \<Rightarrow> None | Some x \<Rightarrow> if Q (fst (snd x)) then Some x else None)"
proof -
  have "map_of (filter (\<lambda>(k, v). Q (pp_uid v)) m) k =
      (case map_of m k of None \<Rightarrow> None | Some v \<Rightarrow> if Q (pp_uid v) then Some v else None)"
    using assms
  proof (induction m)
    case (Cons x m)
    have "map_of m k = None" if "k = fst x"
      using Cons.prems that by (auto simp: map_of_eq_None_iff)
    with Cons show ?case by (cases x) (auto split: option.split)
  qed simp
  then show ?thesis by (auto simp: entry_view_def split: option.split)
qed

definition pids_of_app :: "process_info list \<Rightarrow> (i32 \<Rightarrow> string option) \<Rightarrow> i32 \<Rightarrow> string \<Rightarrow> i32 set" where
  "pids_of_app procs app uid n = {pid. app uid = Some n \<and> (\<exists>i \<in> set procs. pi_pid i = pid \<and> pi_uid i = uid)}"

lemma RL_GetAllRunningAppInfo_view:
  assumes "allProcesses e = Some procs" "distinct (map fst (proxiedAppInfo s))"
    and "\<forall>uid n. map_of (uidBundleNmeMap s) uid = Some n \<longrightarrow> (\<exists>f. entry_view (proxiedAppInfo s) (uid_key uid n) = Some (n, uid, {}, f))"
    and "entry_view (proxiedAppInfo s) (uid_key uid n) = map_option (\<lambda>f. (n, uid, {}, f)) fo"
  shows "fst (RL_GetAllRunningAppInfo e s) = ERR_OK"
    and "uidBundleNmeMap (snd (RL_GetAllRunningAppInfo e s)) = uidBundleNmeMap s"
    and "entry_view (proxiedAppInfo (snd (RL_GetAllRunningAppInfo e s))) (uid_key uid n) =
      (if map_of (uidBundleNmeMap s) uid \<noteq> None \<and> (\<exists>i \<in> set procs. pi_uid i = uid)
       then map_option (\<lambda>f. (n, uid, pids_of_app procs (map_of (uidBundleNmeMap s)) uid n, f)) fo else None)"
proof -
  define g where "g = (\<lambda>(info :: process_info) (s :: rl_state).
     case map_of (uidBundleNmeMap s) (pi_uid info) of
       None \<Rightarrow> s
     | Some b \<Rightarrow>
         let key = uid_key (pi_uid info) b in
         s\<lparr>proxiedAppInfo := update_entry key (add_pid (pi_pid info))
             (emplace key (new_proc (pi_name info) (pi_uid info)) (proxiedAppInfo s))\<rparr>)"
  have B: "uidBundleNmeMap (fold g xs t) = uidBundleNmeMap t" for xs t
    by (induction xs arbitrary: t) (auto simp: g_def Let_def split: option.split)
  have r: "RL_GetAllRunningAppInfo e s = (ERR_OK, (fold g procs s)\<lparr>proxiedAppInfo :=
      filter (\<lambda>(key, value). pp_uid value \<in> set (map pi_uid (filter (\<lambda>info. map_of (uidBundleNmeMap s) (pi_uid info) \<noteq> None) procs)))
        (proxiedAppInfo (fold g procs s))\<rparr>)"
    using assms(1) by (simp add: RL_GetAllRunningAppInfo_def Let_def g_def [symmetric] B)
  show "fst (RL_GetAllRunningAppInfo e s) = ERR_OK"
    "uidBundleNmeMap (snd (RL_GetAllRunningAppInfo e s)) = uidBundleNmeMap s"
    by (simp_all add: r B)
  have d: "distinct (map fst (proxiedAppInfo t)) \<Longrightarrow> distinct (map fst (proxiedAppInfo (fold g xs t)))" for xs t
  proof (induction xs arbitrary: t)
    case (Cons x xs)
    have "distinct (map fst (proxiedAppInfo (g x t)))"
      using Cons.prems by (auto simp: g_def Let_def intro: distinct_emplace split: option.split)
    from Cons.IH [OF this] show ?case by simp
  qed simp
  have "entry_view (proxiedAppInfo (fold g xs t)) (uid_key uid n) = map_option
      (\<lambda>(a, u, P, f). (a, u, P \<union> pids_of_app xs (map_of (uidBundleNmeMap t)) uid n, f))
      (entry_view (proxiedAppInfo t) (uid_key uid n))"
    if "\<And>u a. map_of (uidBundleNmeMap t) u = Some a \<Longrightarrow> entry_view (proxiedAppInfo t) (uid_key u a) \<noteq> None" for xs t
    using that
  proof (induction xs arbitrary: t)
    case Nil
    show ?case by (simp add: pids_of_app_def option.map_ident split_def)
  next
    case (Cons x xs)
    have v: "entry_view (proxiedAppInfo (g x t)) k =
        (if map_option (uid_key (pi_uid x)) (map_of (uidBundleNmeMap t) (pi_uid x)) = Some k
         then map_option (\<lambda>(a, u, P, f). (a, u, insert (pi_pid x) P, f)) (entry_view (proxiedAppInfo t) k)
         else entry_view (proxiedAppInfo t) k)" for k
      using Cons.prems [of "pi_uid x"]
      by (auto simp: g_def Let_def entry_view_add_pid entry_view_emplace split: option.split)
    have b: "uidBundleNmeMap (g x t) = uidBundleNmeMap t"
      using B [of "[x]" t] by simp
    have "entry_view (proxiedAppInfo (g x t)) (uid_key u a) \<noteq> None"
      if "map_of (uidBundleNmeMap (g x t)) u = Some a" for u a
      using Cons.prems [of u a] that by (auto simp: v b)
    from Cons.IH [OF this] show ?case
      by (auto simp: v b pids_of_app_def option.map_comp o_def split_def
          intro!: option.map_cong0 split: option.splits)
  qed
  from this [of s procs] assms(3,4)
  have "entry_view (proxiedAppInfo (fold g procs s)) (uid_key uid n) =
      map_option (\<lambda>f. (n, uid, pids_of_app procs (map_of (uidBundleNmeMap s)) uid n, f)) fo"
    by (cases fo) fastforce+
  then show "entry_view (proxiedAppInfo (snd (RL_GetAllRunningAppInfo e s))) (uid_key uid n) =
      (if map_of (uidBundleNmeMap s) uid \<noteq> None \<and> (\<exists>i \<in> set procs. pi_uid i = uid)
       then map_option (\<lambda>f. (n, uid, pids_of_app procs (map_of (uidBundleNmeMap s)) uid n, f)) fo else None)"
    using entry_view_filter [OF d [OF assms(2)],
        of "\<lambda>u. u \<in> set (map pi_uid (filter (\<lambda>info. map_of (uidBundleNmeMap s) (pi_uid info) \<noteq> None) procs))" procs
        "uid_key uid n"]
    by (cases fo) (auto simp: r)
qed

section \<open>Flags\<close>

lemma cond_flag:
  "map_option (if c then with_flag f else id) (Some (n, u, P, g)) = Some (n, u, P, g OR (if c then f else 0))"
  by (simp add: with_flag_def)

lemma RL_GetForegroundApplications_view:
  assumes "foregroundApps e = Some fg"
  shows "fst (RL_GetForegroundApplications e s) = ERR_OK"
    and "uidBundleNmeMap (snd (RL_GetForegroundApplications e s)) = uidBundleNmeMap s"
    and "entry_view (proxiedAppInfo (snd (RL_GetForegroundApplications e s))) (uid_key uid n) =
      map_option (if (uid, n) \<in> set fg then with_flag FLAG_FOREGROUND_APP else id) (entry_view (proxiedAppInfo s) (uid_key uid n))"
proof -
  show "fst (RL_GetForegroundApplications e s) = ERR_OK"
    "uidBundleNmeMap (snd (RL_GetForegroundApplications e s)) = uidBundleNmeMap s"
    using assms by (simp_all add: RL_GetForegroundApplications_def)
  show "entry_view (proxiedAppInfo (snd (RL_GetForegroundApplications e s))) (uid_key uid n) =
      map_option (if (uid, n) \<in> set fg then with_flag FLAG_FOREGROUND_APP else id) (entry_view (proxiedAppInfo s) (uid_key uid n))"
    using assms entry_view_fold_flag [where key = "\<lambda>(uid, b). Some (uid_key uid b)" and f = FLAG_FOREGROUND_APP
        and g = "\<lambda>(uid, b). update_entry (uid_key uid b) (add_flag FLAG_FOREGROUND_APP)" and xs = fg and m = "proxiedAppInfo s"
        and k = "uid_key uid n"]
    by (auto simp: RL_GetForegroundApplications_def split_def image_iff)
qed

lemma RL_GetBackgroundTaskApp_view:
  assumes "continuousTasks e = Some ct" "transientTasks e = Some tt"
  shows "fst (RL_GetBackgroundTaskApp e s) = ERR_OK"
    and "uidBundleNmeMap (snd (RL_GetBackgroundTaskApp e s)) = uidBundleNmeMap s"
    and "entry_view (proxiedAppInfo (snd (RL_GetBackgroundTaskApp e s))) (uid_key uid n) =
      map_option (if (uid, n) \<in> set tt then with_flag FLAG_TRANSIENT_TASK else id)
        (map_option (if map_of (uidBundleNmeMap s) uid = Some n \<and> uid \<in> fst ` set ct then with_flag FLAG_CONTINUOUS_TASK else id)
          (entry_view (proxiedAppInfo s) (uid_key uid n)))"
proof -
  show "fst (RL_GetBackgroundTaskApp e s) = ERR_OK"
    "uidBundleNmeMap (snd (RL_GetBackgroundTaskApp e s)) = uidBundleNmeMap s"
    using assms by (simp_all add: RL_GetBackgroundTaskApp_def Let_def)
  define g where "g = (\<lambda>(uid, typeId :: u32) m.
      case map_of (uidBundleNmeMap s) uid of
        None \<Rightarrow> m
      | Some b \<Rightarrow> update_entry (uid_key uid b) (add_flag FLAG_CONTINUOUS_TASK) m)"
  define key where "key = (\<lambda>(uid, typeId :: u32). map_option (uid_key uid) (map_of (uidBundleNmeMap s) uid))"
  have "entry_view (fold g ct m) (uid_key uid n) =
      map_option (if Some (uid_key uid n) \<in> key ` set ct then with_flag FLAG_CONTINUOUS_TASK else id) (entry_view m (uid_key uid n))" for m
    by (rule entry_view_fold_flag) (auto simp: g_def key_def split: option.split)
  moreover have "Some (uid_key uid n) \<in> key ` set ct \<longleftrightarrow> map_of (uidBundleNmeMap s) uid = Some n \<and> uid \<in> fst ` set ct"
    by (auto simp: key_def image_iff split_def Bex_def eq_commute [of "Some (uid_key uid n)"])
  moreover have "entry_view (fold (\<lambda>(uid, b). update_entry (uid_key uid b) (add_flag FLAG_TRANSIENT_TASK)) tt m) (uid_key uid n) =
      map_option (if (uid, n) \<in> set tt then with_flag FLAG_TRANSIENT_TASK else id) (entry_view m (uid_key uid n))" for m
    using entry_view_fold_flag [where key = "\<lambda>(uid, b). Some (uid_key uid b)" and f = FLAG_TRANSIENT_TASK
        and g = "\<lambda>(uid, b). update_entry (uid_key uid b) (add_flag FLAG_TRANSIENT_TASK)" and xs = tt and m = m
        and k = "uid_key uid n"]
    by (auto simp: split_def image_iff)
  ultimately show "entry_view (proxiedAppInfo (snd (RL_GetBackgroundTaskApp e s))) (uid_key uid n) =
      map_option (if (uid, n) \<in> set tt then with_flag FLAG_TRANSIENT_TASK else id)
        (map_option (if map_of (uidBundleNmeMap s) uid = Some n \<and> uid \<in> fst ` set ct then with_flag FLAG_CONTINUOUS_TASK else id)
          (entry_view (proxiedAppInfo s) (uid_key uid n)))"
    using assms by (simp add: RL_GetBackgroundTaskApp_def Let_def g_def [symmetric])
qed

lemma RL_GetWorkSchedulerTask_view:
  assumes "runningWorks e = Some ws"
  shows "fst (RL_GetWorkSchedulerTask e s) = ERR_OK"
    and "uidBundleNmeMap (snd (RL_GetWorkSchedulerTask e s)) = uidBundleNmeMap s"
    and "entry_view (proxiedAppInfo (snd (RL_GetWorkSchedulerTask e s))) (uid_key uid n) =
      map_option (if (uid, n) \<in> set ws then with_flag FLAG_WORK_SCHEDULER else id) (entry_view (proxiedAppInfo s) (uid_key uid n))"
proof -
  show "fst (RL_GetWorkSchedulerTask e s) = ERR_OK"
    "uidBundleNmeMap (snd (RL_GetWorkSchedulerTask e s)) = uidBundleNmeMap s"
    using assms by (simp_all add: RL_GetWorkSchedulerTask_def)
  show "entry_view (proxiedAppInfo (snd (RL_GetWorkSchedulerTask e s))) (uid_key uid n) =
      map_option (if (uid, n) \<in> set ws then with_flag FLAG_WORK_SCHEDULER else id) (entry_view (proxiedAppInfo s) (uid_key uid n))"
    using assms entry_view_fold_flag [where key = "\<lambda>(uid, b). Some (uid_key uid b)" and f = FLAG_WORK_SCHEDULER
        and g = "\<lambda>(uid, b). update_entry (uid_key uid b) (add_flag FLAG_WORK_SCHEDULER)" and xs = ws and m = "proxiedAppInfo s"
        and k = "uid_key uid n"]
    by (auto simp: RL_GetWorkSchedulerTask_def split_def image_iff)
qed

lemma RL_GetExemptionConfig_view:
  assumes "entry_view (proxiedAppInfo s) k = Some (n, u, P, f)"
  shows "entry_view (proxiedAppInfo (snd (RL_GetExemptionConfig e s))) k =
    Some (n, u, P, (f OR (if n \<in> set (allow_names e RUNNING_LOCK) then FLAG_EXEMPTION else 0))
      OR (if n \<in> set (restrict_names e RUNNING_LOCK ''RUNNING_LOCK'') then FLAG_RESTRICTED else 0))"
  using assms
    entry_view_map_flag [of "\<lambda>n. n \<in> set (allow_names e RUNNING_LOCK)" FLAG_EXEMPTION "proxiedAppInfo s" k]
  by (simp add: RL_GetExemptionConfig_def Let_def
      entry_view_map_flag [of "\<lambda>n. n \<in> set (restrict_names e RUNNING_LOCK ''RUNNING_LOCK'')"] with_flag_def ac_simps
      del: map_map)

lemma IsExempted_sum:
  "IsExempted (((((((if a then FLAG_UNRESTRICTED else 0) OR (if b then FLAG_FOREGROUND_APP else 0))
      OR (if c then FLAG_CONTINUOUS_TASK else 0)) OR (if d then FLAG_TRANSIENT_TASK else 0))
      OR (if w then FLAG_WORK_SCHEDULER else 0)) OR (if x then FLAG_EXEMPTION else 0)) OR (if r then FLAG_RESTRICTED else 0))
   \<longleftrightarrow> x \<or> (\<not> r \<and> (a \<or> b \<or> c \<or> d \<or> w))"
  by (cases a; cases b; cases c; cases d; cases w; cases x; cases r) (simp_all add: IsExempted_def flag_defs)

section \<open>A start\<close>

text \<open>The locks an application keeps unproxied, and the pairs a start proxies.\<close>

definition app_exempted :: "st_env \<Rightarrow> st_answers \<Rightarrow> i32 \<Rightarrow> string \<Rightarrow> bool" where
  "app_exempted e a uid n \<longleftrightarrow>
     n \<in> set (allow_names e RUNNING_LOCK) \<or>
     (n \<notin> set (restrict_names e RUNNING_LOCK ''RUNNING_LOCK'') \<and>
      ((\<exists>i \<in> set (ans_infos a). app_uid i = uid \<and> app_name i = n \<and> app_isSystem i) \<or>
       (uid, n) \<in> set (ans_fg a) \<or> uid \<in> fst ` set (ans_ct a) \<or>
       (uid, n) \<in> set (ans_tt a) \<or> (uid, n) \<in> set (ans_ws a)))"

definition to_proxy :: "st_env \<Rightarrow> st_answers \<Rightarrow> (i32 \<times> i32) set" where
  "to_proxy e a = {(pid, uid). \<exists>n. first_app (ans_infos a) uid = Some n \<and>
     (\<exists>i \<in> set (ans_procs a). pi_pid i = pid \<and> pi_uid i = uid) \<and> \<not> app_exempted e a uid n}"

lemma first_app_in: "first_app infos uid = Some n \<Longrightarrow> \<exists>i \<in> set infos. app_uid i = uid \<and> app_name i = n"
  unfolding first_app_def by (induction infos) (auto split: if_splits)

lemma InitProxiedAppInfo_answers:
  assumes "fst (InitProxiedAppInfo e s) = ERR_OK"
  shows "\<exists>a. answers e = Some a"
proof -
  let ?q = "and_then (and_then (and_then (and_then (and_then (RL_GetAllAppInfos e s) (RL_GetAllRunningAppInfo e))
          (RL_GetForegroundApplications e)) (RL_GetBackgroundTaskApp e)) (RL_GetWorkSchedulerTask e))
          (RL_GetExemptionConfig e)"
  have ok: "fst ?q = ERR_OK"
    using assms by (cases ?q) (auto simp: InitProxiedAppInfo_def split: if_splits)
  note o5 = and_then_okD [OF ok]
  note o4 = and_then_okD [OF o5]
  note o3 = and_then_okD [OF o4]
  note o2 = and_then_okD [OF o3]
  note o1 = and_then_okD [OF o2]
  from o1 o2 o3 o4 o5 show ?thesis
    unfolding and_then_ok [OF o1] and_then_ok [OF o2, unfolded and_then_ok [OF o1]]
    by (auto simp: answers_def RL_GetAllAppInfos_def RL_GetAllRunningAppInfo_def
      RL_GetForegroundApplications_def RL_GetBackgroundTaskApp_def RL_GetWorkSchedulerTask_def
      and_then_def split: option.splits if_splits prod.splits)
qed

definition app_flags :: "st_env \<Rightarrow> st_answers \<Rightarrow> i32 \<Rightarrow> string \<Rightarrow> u8" where
  "app_flags e a uid n =
     ((((((if \<exists>i \<in> set (ans_infos a). app_uid i = uid \<and> app_name i = n \<and> app_isSystem i then FLAG_UNRESTRICTED else 0)
        OR (if (uid, n) \<in> set (ans_fg a) then FLAG_FOREGROUND_APP else 0))
        OR (if first_app (ans_infos a) uid = Some n \<and> uid \<in> fst ` set (ans_ct a) then FLAG_CONTINUOUS_TASK else 0))
        OR (if (uid, n) \<in> set (ans_tt a) then FLAG_TRANSIENT_TASK else 0))
        OR (if (uid, n) \<in> set (ans_ws a) then FLAG_WORK_SCHEDULER else 0))
        OR (if n \<in> set (allow_names e RUNNING_LOCK) then FLAG_EXEMPTION else 0))
        OR (if n \<in> set (restrict_names e RUNNING_LOCK ''RUNNING_LOCK'') then FLAG_RESTRICTED else 0)"

lemma InitProxiedAppInfo_view:
  assumes "answers e = Some a"
  shows "fst (InitProxiedAppInfo e (ClearProxyRecord s)) = ERR_OK"
    and "entry_view (proxiedAppInfo (snd (InitProxiedAppInfo e (ClearProxyRecord s)))) (uid_key uid n) =
      (if (\<exists>i \<in> set (ans_infos a). app_uid i = uid \<and> app_name i = n) \<and> (\<exists>i \<in> set (ans_procs a). pi_uid i = uid)
       then Some (n, uid, pids_of_app (ans_procs a) (first_app (ans_infos a)) uid n, app_flags e a uid n)
       else None)"
proof -
  from assms have q: "applicationInfos e = Some (ans_infos a)" "allProcesses e = Some (ans_procs a)"
      "foregroundApps e = Some (ans_fg a)" "continuousTasks e = Some (ans_ct a)" "transientTasks e = Some (ans_tt a)"
      "runningWorks e = Some (ans_ws a)"
    by (auto simp: answers_def split: option.splits)
  define s1 s2 s3 s4 s5 s6 where "s1 = snd (RL_GetAllAppInfos e (ClearProxyRecord s))"
    and "s2 = snd (RL_GetAllRunningAppInfo e s1)" and "s3 = snd (RL_GetForegroundApplications e s2)"
    and "s4 = snd (RL_GetBackgroundTaskApp e s3)" and "s5 = snd (RL_GetWorkSchedulerTask e s4)"
    and "s6 = snd (RL_GetExemptionConfig e s5)"
  note v1 = RL_GetAllAppInfos_view [OF q(1), of s, folded s1_def]
  have d1: "distinct (map fst (proxiedAppInfo s1))"
    using RL_GetAllAppInfos_ok [of "ClearProxyRecord s" e]
    by (simp add: s1_def record_wf_def ClearProxyRecord_def no_pids_def)
  have known: "\<forall>u m. map_of (uidBundleNmeMap s1) u = Some m \<longrightarrow>
      (\<exists>f. entry_view (proxiedAppInfo s1) (uid_key u m) = Some (m, u, {}, f))"
    using first_app_in [of "ans_infos a"] by (simp add: v1(2,3))
  have e1: "entry_view (proxiedAppInfo s1) (uid_key uid n) = map_option (\<lambda>f. (n, uid, {}, f))
      (if \<exists>i \<in> set (ans_infos a). app_uid i = uid \<and> app_name i = n
       then Some (if \<exists>i \<in> set (ans_infos a). app_uid i = uid \<and> app_name i = n \<and> app_isSystem i then FLAG_UNRESTRICTED else 0)
       else None)"
    unfolding v1(3) by simp
  note v2 = RL_GetAllRunningAppInfo_view [OF q(2) d1 known e1, folded s2_def]
  note v3 = RL_GetForegroundApplications_view [OF q(3), of s2, folded s3_def]
  note v4 = RL_GetBackgroundTaskApp_view [OF q(4,5), of s3, folded s4_def]
  note v5 = RL_GetWorkSchedulerTask_view [OF q(6), of s4, folded s5_def]
  have chain: "InitProxiedAppInfo e (ClearProxyRecord s) = (ERR_OK, s6\<lparr>uidBundleNmeMap := []\<rparr>)"
    using v1(1) v2(1) v3(1) v4(1) v5(1)
    by (simp add: InitProxiedAppInfo_def and_then_ok s1_def [symmetric] s2_def [symmetric] s3_def [symmetric]
        s4_def [symmetric] s5_def [symmetric] s6_def) (simp add: RL_GetExemptionConfig_def Let_def)
  then show "fst (InitProxiedAppInfo e (ClearProxyRecord s)) = ERR_OK" by simp
  have app: "map_of (uidBundleNmeMap s1) = first_app (ans_infos a)"
    using v1(2) by (rule ext)
  have known': "first_app (ans_infos a) uid \<noteq> None" if "i \<in> set (ans_infos a)" "app_uid i = uid" for i
    using that by (auto simp: first_app_def find_None_iff)
  have result: "proxiedAppInfo (snd (InitProxiedAppInfo e (ClearProxyRecord s))) = proxiedAppInfo s6"
    by (simp add: chain)
  have none: "entry_view (proxiedAppInfo (snd (RL_GetExemptionConfig e s5))) k = None"
    if "entry_view (proxiedAppInfo s5) k = None" for k
  proof -
    have "map_option (\<lambda>p. (pp_uid p, pp_pids p)) (map_of (proxiedAppInfo (snd (RL_GetExemptionConfig e s5))) k) =
        map_option (\<lambda>p. (pp_uid p, pp_pids p)) (map_of (proxiedAppInfo s5) k)"
      using only_flags_queries(4) [of s5 e] by (simp add: only_flags_def same_shape_def)
    then show ?thesis
      using that by (simp add: entry_view_def)
  qed
  show "entry_view (proxiedAppInfo (snd (InitProxiedAppInfo e (ClearProxyRecord s)))) (uid_key uid n) =
      (if (\<exists>i \<in> set (ans_infos a). app_uid i = uid \<and> app_name i = n) \<and> (\<exists>i \<in> set (ans_procs a). pi_uid i = uid)
       then Some (n, uid, pids_of_app (ans_procs a) (first_app (ans_infos a)) uid n, app_flags e a uid n)
       else None)"
  proof (cases "(\<exists>i \<in> set (ans_infos a). app_uid i = uid \<and> app_name i = n) \<and> (\<exists>i \<in> set (ans_procs a). pi_uid i = uid)")
    case True
    then have "entry_view (proxiedAppInfo s2) (uid_key uid n) =
        Some (n, uid, pids_of_app (ans_procs a) (first_app (ans_infos a)) uid n,
          if \<exists>i \<in> set (ans_infos a). app_uid i = uid \<and> app_name i = n \<and> app_isSystem i then FLAG_UNRESTRICTED else 0)"
      using known' unfolding v2(3) app by auto
    then have "entry_view (proxiedAppInfo s5) (uid_key uid n) =
        Some (n, uid, pids_of_app (ans_procs a) (first_app (ans_infos a)) uid n,
         (((((if \<exists>i \<in> set (ans_infos a). app_uid i = uid \<and> app_name i = n \<and> app_isSystem i then FLAG_UNRESTRICTED else 0)
           OR (if (uid, n) \<in> set (ans_fg a) then FLAG_FOREGROUND_APP else 0))
           OR (if first_app (ans_infos a) uid = Some n \<and> uid \<in> fst ` set (ans_ct a) then FLAG_CONTINUOUS_TASK else 0))
           OR (if (uid, n) \<in> set (ans_tt a) then FLAG_TRANSIENT_TASK else 0))
           OR (if (uid, n) \<in> set (ans_ws a) then FLAG_WORK_SCHEDULER else 0)))"
      by (simp only: v5(3) v4(3) v3(2,3) v2(2) app cond_flag)
    then show ?thesis
      unfolding result if_P [OF True] s6_def app_flags_def by (rule RL_GetExemptionConfig_view)
  next
    case False
    then have "entry_view (proxiedAppInfo s2) (uid_key uid n) = None"
      unfolding v2(3) by auto
    then have "entry_view (proxiedAppInfo s5) (uid_key uid n) = None"
      by (simp add: v5(3) v4(3) v3(3))
    then show ?thesis
      unfolding result if_not_P [OF False] s6_def by (rule none)
  qed
qed

lemma to_proxy_start:
  fixes s
  assumes a: "answers e = Some a" and d: "distinct (map pi_pid (ans_procs a))"
  defines "m \<equiv> proxiedAppInfo (snd (InitProxiedAppInfo e (ClearProxyRecord s)))"
  shows "proxied_pairs m = to_proxy e a"
proof -
  have procs: "infos = ans_procs a" if "allProcesses e = Some infos" for infos
    using that a by (auto simp: answers_def split: option.splits)
  have wf: "record_wf m"
    using InitProxiedAppInfo_ok [of "ClearProxyRecord s" e] procs d by (auto simp: m_def ClearProxyRecord_def)
  note view = InitProxiedAppInfo_view(2) [OF a, of s, folded m_def]
  have keys: "\<exists>uid n. k = uid_key uid n" if "entry_view m k \<noteq> None" for k
    using that record_wf_key [OF wf, of k] unfolding entry_view_def by blast
  have "(pid, uid) \<in> proxied_pairs m \<longleftrightarrow>
      (\<exists>n. entry_view m (uid_key uid n) \<noteq> None \<and> \<not> IsExempted (app_flags e a uid n) \<and>
         pid \<in> pids_of_app (ans_procs a) (first_app (ans_infos a)) uid n)" for pid uid
  proof
    assume "(pid, uid) \<in> proxied_pairs m"
    then obtain k n P f where k: "entry_view m k = Some (n, uid, P, f)" "\<not> IsExempted f" "pid \<in> P"
      unfolding proxied_pairs_view by blast
    from keys [of k] k(1) obtain uid' n' where k': "k = uid_key uid' n'" by auto
    with k view [of uid' n'] show "\<exists>n. entry_view m (uid_key uid n) \<noteq> None \<and> \<not> IsExempted (app_flags e a uid n) \<and>
         pid \<in> pids_of_app (ans_procs a) (first_app (ans_infos a)) uid n"
      by (intro exI [of _ n]) (auto split: if_splits)
  next
    assume "\<exists>n. entry_view m (uid_key uid n) \<noteq> None \<and> \<not> IsExempted (app_flags e a uid n) \<and>
         pid \<in> pids_of_app (ans_procs a) (first_app (ans_infos a)) uid n"
    then obtain n where n: "entry_view m (uid_key uid n) \<noteq> None" "\<not> IsExempted (app_flags e a uid n)"
        "pid \<in> pids_of_app (ans_procs a) (first_app (ans_infos a)) uid n" by blast
    then have "entry_view m (uid_key uid n) =
        Some (n, uid, pids_of_app (ans_procs a) (first_app (ans_infos a)) uid n, app_flags e a uid n)"
      using view [of uid n] by (auto split: if_splits)
    with n(2,3) show "(pid, uid) \<in> proxied_pairs m"
      unfolding proxied_pairs_view by blast
  qed
  moreover have "entry_view m (uid_key uid n) \<noteq> None \<and> \<not> IsExempted (app_flags e a uid n) \<and>
      pid \<in> pids_of_app (ans_procs a) (first_app (ans_infos a)) uid n \<longleftrightarrow>
      first_app (ans_infos a) uid = Some n \<and> (\<exists>i \<in> set (ans_procs a). pi_pid i = pid \<and> pi_uid i = uid) \<and>
      \<not> app_exempted e a uid n" for pid uid n
    using view [of uid n] first_app_in [of "ans_infos a" uid n]
    by (auto simp: app_flags_def IsExempted_sum app_exempted_def pids_of_app_def split: if_splits)
  ultimately show ?thesis
    unfolding to_proxy_def by auto
qed

end
