(* ===== verification/Strategy_Contract.thy ===== *)
theory Strategy_Contract
  imports Strategy_Base
begin

text \<open>
  The interface of \<open>IBaseStrategy\<close> (\<open>plugins/ext/include/ibase_strategy.h\<close>) as its callers rely
  on it: a strategy is a handler of messages that puts a restriction on when the deep phase of
  SLEEP begins, lifts all of it when the device leaves SLEEP or MAINTENANCE, and does not react to
  the other phases and to the events of the state machine. The network strategy, the running
  lock strategy and the strategy manager each keep the contract; the manager's part is proved
  from those of the two strategies.
\<close>

section \<open>Messages a strategy reacts to\<close>

definition want_holds :: "(want \<Rightarrow> bool) \<Rightarrow> StandbyMessage \<Rightarrow> bool" where
  "want_holds P m = (case msg_want m of None \<Rightarrow> False | Some w \<Rightarrow> P w)"

definition restricted_code :: "i32 \<Rightarrow> bool" where
  "restricted_code c \<longleftrightarrow> c = state_code SLEEP \<or> c = state_code MAINTENANCE"

definition enters_deep :: "StandbyMessage \<Rightarrow> bool" where
  "enters_deep m \<longleftrightarrow> eventId m = PHASE_TRANSIT \<and>
     want_holds (\<lambda>w. GetIntParam w CURRENT_STATE 0 = state_code SLEEP \<and> GetIntParam w CURRENT_PHASE 0 = APP_RES_DEEP) m"

definition leaves_sleep :: "StandbyMessage \<Rightarrow> bool" where
  "leaves_sleep m \<longleftrightarrow> eventId m = STATE_TRANSIT \<and>
     want_holds (\<lambda>w. restricted_code (GetIntParam w PREVIOUS_STATE 0) \<and> \<not> restricted_code (GetIntParam w CURRENT_STATE 0)) m"

definition unheeded :: "StandbyMessage \<Rightarrow> bool" where
  "unheeded m \<longleftrightarrow> eventId m \<in> {COMMON_EVENT, DEVICE_NET_IDLE_POLICY_TRANSIT, SCREEN_OFF_HALF_HOUR} \<or>
     eventId m = PHASE_TRANSIT \<and> want_holds (\<lambda>w. GetIntParam w CURRENT_PHASE 0 \<noteq> APP_RES_DEEP) m"

lemma want_holdsE:
  assumes "want_holds P m" obtains w where "msg_want m = Some w" "P w"
  using assms by (auto simp: want_holds_def split: option.splits)

definition deliver_all :: "('e \<Rightarrow> 'm \<Rightarrow> 's \<Rightarrow> 's) \<Rightarrow> ('e \<times> 'm) list \<Rightarrow> 's \<Rightarrow> 's" where
  "deliver_all handle = fold (\<lambda>(e, m). handle e m)"

lemma deliver_all_simps [simp]:
  "deliver_all handle [] s = s"
  "deliver_all handle ((e, m) # ms) s = deliver_all handle ms (handle e m s)"
  "deliver_all handle (ms @ ns) s = deliver_all handle ns (deliver_all handle ms s)"
  by (simp_all add: deliver_all_def)

section \<open>The contract\<close>

text \<open>
  \<open>answering e s\<close>: the services give the answers the strategy needs in state \<open>s\<close>;
  \<open>fresh s\<close>: nothing is restricted yet. What the outside world sees of the strategy is
  \<open>view s\<close>, with \<open>lifted\<close> for no restriction at all.
\<close>

locale restricting_strategy =
  fixes handle :: "st_env \<Rightarrow> StandbyMessage \<Rightarrow> 's \<Rightarrow> 's"
    and answering :: "st_env \<Rightarrow> 's \<Rightarrow> bool"
    and fresh :: "'s \<Rightarrow> bool"
    and view :: "'s \<Rightarrow> 'v"
    and restriction :: "st_env \<Rightarrow> 's \<Rightarrow> st_answers \<Rightarrow> 'v"
    and lifted :: 'v
  assumes passes: "unheeded m \<Longrightarrow> handle e m s = s"
    and restricts: "answering e s \<Longrightarrow> fresh s \<Longrightarrow> answers e = Some a \<Longrightarrow> distinct (map pi_pid (ans_procs a)) \<Longrightarrow>
      enters_deep m \<Longrightarrow> view (handle e m s) = restriction e s a"
    and lifts: "answering e s \<Longrightarrow> leaves_sleep m \<Longrightarrow> view (handle e m s) = lifted"
begin

lemma passes_all: "\<forall>(e, m) \<in> set ms. unheeded m \<Longrightarrow> deliver_all handle ms s = s"
  by (induction ms) (auto simp: passes)

lemma night:
  assumes "answering e s" "fresh s" "answers e = Some a" "distinct (map pi_pid (ans_procs a))" "enters_deep m"
    and "\<forall>(e, m) \<in> set ms. unheeded m" "\<forall>(e, m) \<in> set ns. unheeded m"
  shows "view (deliver_all handle (ms @ (e, m) # ns) s) = restriction e s a"
  using restricts [OF assms(1-5)] assms(6,7) by (simp add: passes_all)

lemma morning:
  assumes "answering e s" "leaves_sleep m"
    and "\<forall>(e, m) \<in> set ms. unheeded m" "\<forall>(e, m) \<in> set ns. unheeded m"
  shows "view (deliver_all handle (ms @ (e, m) # ns) s) = lifted"
  using lifts [OF assms(1,2)] assms(3,4) by (simp add: passes_all)

end

end
