(* ===== verification/Running_Lock_Props.thy ===== *)
theory Running_Lock_Props
  imports Running_Lock_Start Strategy_Contract
begin

text \<open>
  The properties of the running lock strategy, stated over what the power manager was told:
  \<open>power_locked s\<close> replays the calls made so far. The set is the one the record describes, a
  start proxies exactly the running applications without exemption, maintenance lifts the
  proxies and puts the same ones back, waking up lifts all of them, and a day and night
  switch before the deep phase leaves locks proxied that a wake-up does not lift.
\<close>

definition power_locked :: "rl_state \<Rightarrow> (i32 \<times> i32) set" where
  "power_locked s = fold replay_call (rl_calls s) {}"

abbreviation rl_reachable :: "rl_state \<Rightarrow> bool" where
  "rl_reachable \<equiv> reachable (\<lambda>s. s = rl_start) rl_step"

lemma power_locked_view: "rl_reachable s \<Longrightarrow> power_locked s = proxied_view s"
  unfolding power_locked_def
  by (subst rl.reachable_announced) (auto simp: rl_start_def proxied_view_def)

text \<open>What the calls amount to is what the record describes.\<close>

definition rl_sound :: "rl_state \<Rightarrow> bool" where
  "rl_sound s \<longleftrightarrow> rl_inv s \<and> power_locked s = proxied_view s"

lemma rl_reachable_sound: "rl_reachable s \<Longrightarrow> rl_sound s"
  by (simp add: rl_sound_def power_locked_view rl.reachable_inv)

lemma rl_sound_created: "rl_sound (snd (RL_OnCreated rl_start))"
  by (simp add: rl_sound_def RL_OnCreated_def rl_start_def rl_inv_def proxied_view_def power_locked_def)

lemma announces_power:
  "announces s t \<Longrightarrow> power_locked s = proxied_view s \<Longrightarrow> power_locked t = proxied_view t"
  by (auto simp: announces_def power_locked_def)

lemma rl_sound_step: "rl_sound s \<Longrightarrow> rl_step l s s' \<Longrightarrow> rl_sound s'"
  using rl_step_ok [of s l s'] announces_power [of s s'] by (simp add: rl_sound_def)

lemma StartProxyInner_answers:
  assumes "answers e = Some a" "distinct (map pi_pid (ans_procs a))"
  shows "fst (StartProxyInner e s) = ERR_OK"
    and "proxied_pairs (proxiedAppInfo (snd (StartProxyInner e s))) = to_proxy e a"
proof -
  note init = InitProxiedAppInfo_view(1) [OF assms(1), of s]
  have "StartProxyInner e s = (ERR_OK, ProxyAppAndProcess True (snd (InitProxiedAppInfo e (ClearProxyRecord s))))"
    using init by (cases "InitProxiedAppInfo e (ClearProxyRecord s)")
      (simp add: StartProxyInner_def Let_def and_then_def InitNativeProcInfo_def)
  then show "fst (StartProxyInner e s) = ERR_OK"
    "proxied_pairs (proxiedAppInfo (snd (StartProxyInner e s))) = to_proxy e a"
    using to_proxy_start [OF assms, of s] by (simp_all add: ProxyAppAndProcess_def)
qed

lemma answers_procs: "answers e = Some a \<Longrightarrow> allProcesses e = Some infos \<Longrightarrow> infos = ans_procs a"
  by (auto simp: answers_def split: option.splits)

lemmas rl_handle_simps = RunningLockStrategy_HandleEvent_def event_id_defs

lemma deep_phase_proxies:
  assumes "rl_sound s" "\<not> isProxied s"
    and "answers e = Some a" "distinct (map pi_pid (ans_procs a))"
    and "eventId m = PHASE_TRANSIT" "msg_want m = Some w"
    and "GetIntParam w CURRENT_STATE 0 = state_code SLEEP" "GetIntParam w CURRENT_PHASE 0 = APP_RES_DEEP"
  shows "power_locked (RunningLockStrategy_HandleEvent e m s) = to_proxy e a"
proof -
  have inv: "rl_inv s" and view: "power_locked s = proxied_view s" using assms(1) by (simp_all add: rl_sound_def)
  define t where "t = snd (StartProxyInner e s)"
  have h: "RunningLockStrategy_HandleEvent e m s = t\<lparr>isProxied := True, rl_isIdleMaintence := False\<rparr>"
    using assms(2,5-8) StartProxyInner_answers(1) [OF assms(3,4), of s]
    by (cases "StartProxyInner e s") (simp add: rl_handle_simps StartProxy_def t_def)
  have "announces s (snd (StartProxy e (Some w) s))"
    using StartProxy_ok [OF inv] assms(4) answers_procs [OF assms(3)] by blast
  then have "announces s (RunningLockStrategy_HandleEvent e m s)"
    using assms(5,6) by (simp add: rl_handle_simps)
  from announces_power [OF this view] show ?thesis
    using StartProxyInner_answers(2) [OF assms(3,4), of s] by (simp add: h proxied_view_def t_def)
qed

lemma wake_releases_all:
  assumes "rl_sound s" "eventId m = STATE_TRANSIT" "msg_want m = Some w"
    and "GetIntParam w PREVIOUS_STATE 0 \<in> {state_code SLEEP, state_code MAINTENANCE}"
    and "GetIntParam w CURRENT_STATE 0 \<notin> {state_code SLEEP, state_code MAINTENANCE}"
  shows "power_locked (RunningLockStrategy_HandleEvent e m s) = {}"
proof -
  have inv: "rl_inv s" and view: "power_locked s = proxied_view s" using assms(1) by (simp_all add: rl_sound_def)
  define t where "t = snd (StopProxy (Some w) s)"
  have h: "RunningLockStrategy_HandleEvent e m s = t"
    using assms(2,3) by (simp add: rl_handle_simps t_def)
  have "rl_inv t" "announces s t" using StopProxy_ok [OF inv] by (auto simp: t_def)
  moreover have "\<not> isProxied t"
    using assms(4,5) by (auto simp: t_def StopProxy_def Let_def)
  ultimately show ?thesis
    using announces_power [OF _ view, of t]
    by (simp add: h rl_inv_def proxied_view_def)
qed

section \<open>The contract of a strategy\<close>

interpretation rl_contract: restricting_strategy RunningLockStrategy_HandleEvent "\<lambda>_. rl_sound"
  "\<lambda>s. \<not> isProxied s" power_locked "\<lambda>e s a. to_proxy e a" "{}"
proof unfold_locales
  show "RunningLockStrategy_HandleEvent e m s = s" if "unheeded m" for m e s
    using that by (auto simp: unheeded_def rl_handle_simps StartProxy_def elim: want_holdsE)
  show "power_locked (RunningLockStrategy_HandleEvent e m s) = to_proxy e a"
    if "rl_sound s" "\<not> isProxied s" "answers e = Some a" "distinct (map pi_pid (ans_procs a))" "enters_deep m" for e s a m
    using that deep_phase_proxies [where m = m] by (fastforce simp: enters_deep_def elim: want_holdsE)
  show "power_locked (RunningLockStrategy_HandleEvent e m s) = {}" if "rl_sound s" "leaves_sleep m" for e s m
    using that wake_releases_all [where m = m] by (fastforce simp: leaves_sleep_def restricted_code_def elim: want_holdsE)
qed

section \<open>Properties\<close>


text \<open>In every reachable state the record is well formed: distinct keys built from the uid
  of their entry, no pid in two entries, and nothing recorded while not proxying.\<close>

theorem proxy_record_wf: "rl_reachable s \<Longrightarrow> rl_inv s"
  by (rule rl.reachable_inv)

text \<open>C12: Entering the deep phase of SLEEP proxies exactly the locks of the running processes
  whose application is neither configured as exempted nor, unless it is restricted, a system
  application, in the foreground or busy with a background task.\<close>

theorem start_proxies_exactly:
  assumes "rl_reachable s" "\<not> isProxied s"
    and "answers e = Some a" "distinct (map pi_pid (ans_procs a))"
    and "eventId m = PHASE_TRANSIT" "msg_want m = Some w"
    and "GetIntParam w CURRENT_STATE 0 = state_code SLEEP" "GetIntParam w CURRENT_PHASE 0 = APP_RES_DEEP"
  shows "power_locked (RunningLockStrategy_HandleEvent e m s) = to_proxy e a"
  by (rule deep_phase_proxies [OF rl_reachable_sound [OF assms(1)] assms(2-)])

text \<open>C29: A period of MAINTENANCE lifts all proxies and the return to SLEEP puts exactly the
  same ones back.\<close>

theorem maintenance_roundtrip:
  assumes "rl_reachable s" "isProxied s" "\<not> rl_isIdleMaintence s"
    and "eventId m1 = STATE_TRANSIT" "msg_want m1 = Some w1"
    and "GetIntParam w1 PREVIOUS_STATE 0 = state_code SLEEP" "GetIntParam w1 CURRENT_STATE 0 = state_code MAINTENANCE"
    and "eventId m2 = STATE_TRANSIT" "msg_want m2 = Some w2"
    and "GetIntParam w2 PREVIOUS_STATE 0 = state_code MAINTENANCE" "GetIntParam w2 CURRENT_STATE 0 = state_code SLEEP"
  shows "power_locked (RunningLockStrategy_HandleEvent e1 m1 s) = {} \<and>
    power_locked (RunningLockStrategy_HandleEvent e2 m2 (RunningLockStrategy_HandleEvent e1 m1 s)) = power_locked s"
proof -
  have codes: "state_code SLEEP \<noteq> state_code MAINTENANCE" by (simp add: state_code_def)
  have inv: "rl_inv s" using assms(1) by (rule rl.reachable_inv)
  define t u where "t = snd (StopProxy (Some w1) s)" and "u = snd (StopProxy (Some w2) t)"
  have h: "RunningLockStrategy_HandleEvent e1 m1 s = t" "RunningLockStrategy_HandleEvent e2 m2 t = u"
    using assms(4,5,8,9) by (simp_all add: rl_handle_simps t_def u_def)
  have t: "t = (ProxyAppAndProcess False s)\<lparr>rl_isIdleMaintence := True\<rparr>"
    using assms(2,6,7) codes by (simp add: t_def StopProxy_def Let_def)
  have "isProxied t" "proxiedAppInfo t = proxiedAppInfo s"
    using assms(2) by (simp_all add: t ProxyAppAndProcess_def)
  then have u: "proxiedAppInfo u = proxiedAppInfo s" "\<not> rl_isIdleMaintence u"
    using assms(10,11) codes by (simp_all add: u_def StopProxy_def Let_def ProxyAppAndProcess_def)
  have "rl_inv t" "announces s t" using StopProxy_ok [OF inv] by (auto simp: t_def)
  then have "power_locked t = proxied_view t" "announces t u"
    using announces_power [OF _ power_locked_view [OF assms(1)], of t] StopProxy_ok [of t "Some w2"] by (auto simp: u_def)
  then show ?thesis
    using announces_power [of t u] power_locked_view [OF assms(1)] assms(3) u
    by (simp add: h proxied_view_def) (simp add: t)
qed

text \<open>C38: A day and night switch that is handled while nothing is proxied yet (SLEEP before its
  deep phase) proxies the locks of all applications without exemption, and a wake-up that
  follows does not lift them.\<close>

theorem condition_switch_leaks:
  assumes "rl_reachable s" "\<not> isProxied s"
    and "answers e = Some a" "distinct (map pi_pid (ans_procs a))"
    and "eventId m = RES_CTRL_CONDITION_CHANGED" "eventId wake = STATE_TRANSIT"
  shows "power_locked (RunningLockStrategy_HandleEvent e' wake (RunningLockStrategy_HandleEvent e m s)) = to_proxy e a"
proof -
  have inv: "rl_inv s" using assms(1) by (rule rl.reachable_inv)
  then have wf: "record_wf (proxiedAppInfo s)" by (simp add: rl_inv_def)
  define t where "t = StopProxyInner s"
  define u where "u = snd (StartProxyInner e t)"
  note st = StopProxyInner_ok [OF wf, folded t_def]
  have idle: "\<not> rl_isIdleMaintence s" using inv assms(2) by (simp add: rl_inv_def)
  note sp = StartProxyInner_ok [OF st(2), of e, folded u_def]
  have "announces t u" "isProxied u = isProxied t" "rl_isIdleMaintence u = rl_isIdleMaintence t"
    using sp answers_procs [OF assms(3)] assms(4) by blast+
  then have u: "announces s u" "\<not> isProxied u" "\<not> rl_isIdleMaintence u"
    using announces_trans [OF st(1)] st(3,4) assms(2) idle by simp_all
  have h: "RunningLockStrategy_HandleEvent e' wake (RunningLockStrategy_HandleEvent e m s) = u"
    using u(2) assms(5,6) by (simp add: rl_handle_simps RL_UpdateResourceConfig_def t_def [symmetric] u_def [symmetric]
        StopProxy_def)
  show ?thesis
    using announces_power [OF u(1) power_locked_view [OF assms(1)]] u(3)
      StartProxyInner_answers(2) [OF assms(3,4), of t]
    by (simp add: h proxied_view_def u_def)
qed

section \<open>Witnesses\<close>

text \<open>Two applications run: the system application \<open>sys\<close> and the exemption-free \<open>game\<close>.\<close>

definition demo_st :: st_env where
  "demo_st = \<lparr> st_te = demo_time, st_cfg = config_init,
     st_service_env = demo_sv\<lparr>sv_cfg := config_init\<rparr>, st_service = demo_al0,
     allProcesses = Some [\<lparr> pi_pid = 11, pi_uid = 1001, pi_name = ''game'' \<rparr>, \<lparr> pi_pid = 12, pi_uid = 1002, pi_name = ''sys'' \<rparr>],
     applicationInfos = Some [\<lparr> app_uid = 1001, app_name = ''game'', app_isSystem = False \<rparr>,
       \<lparr> app_uid = 1002, app_name = ''sys'', app_isSystem = True \<rparr>],
     specialInfos = Some [], foregroundApps = Some [], continuousTasks = Some [], transientTasks = Some [],
     runningWorks = Some [], systemAppByUid = (\<lambda>u. Some False), appRunning = (\<lambda>n. Some True),
     st_clientBundleName = (\<lambda>u. ''''), deviceIdleTrustlist = Some [], setDeviceIdlePolicy = (\<lambda>b. 0),
     workScheduleServiceId = 1904, backgroundTaskManagerServiceId = 1903 \<rparr>"

definition demo_answers :: st_answers where
  "demo_answers = \<lparr>
     ans_infos = [\<lparr> app_uid = 1001, app_name = ''game'', app_isSystem = False \<rparr>,
       \<lparr> app_uid = 1002, app_name = ''sys'', app_isSystem = True \<rparr>],
     ans_procs = [\<lparr> pi_pid = 11, pi_uid = 1001, pi_name = ''game'' \<rparr>, \<lparr> pi_pid = 12, pi_uid = 1002, pi_name = ''sys'' \<rparr>],
     ans_fg = [], ans_ct = [], ans_tt = [], ans_ws = [] \<rparr>"

lemma demo_answers: "answers demo_st = Some demo_answers" "distinct (map pi_pid (ans_procs demo_answers))"
  by (simp_all add: answers_def demo_st_def demo_answers_def)

definition demo_message :: "u32 \<Rightarrow> want_params \<Rightarrow> StandbyMessage" where
  "demo_message ev ps = \<lparr> eventId = ev, action = COMMON_EVENT_OTHER 0, msg_want = Some (want_of ps) \<rparr>"

definition state_message :: "StandbyState \<Rightarrow> StandbyState \<Rightarrow> StandbyMessage" where
  "state_message pre cur = demo_message STATE_TRANSIT
     [(PREVIOUS_STATE, WInt (state_code pre)), (CURRENT_STATE, WInt (state_code cur))]"

definition deep_message :: StandbyMessage where
  "deep_message = demo_message PHASE_TRANSIT
     [(CURRENT_STATE, WInt (state_code SLEEP)), (CURRENT_PHASE, WInt APP_RES_DEEP)]"

lemma demo_message_simps [simp]:
  "eventId (state_message p c) = STATE_TRANSIT" "eventId deep_message = PHASE_TRANSIT"
  "\<exists>w. msg_want (state_message p c) = Some w \<and> GetIntParam w PREVIOUS_STATE 0 = state_code p \<and>
     GetIntParam w CURRENT_STATE 0 = state_code c"
  "\<exists>w. msg_want deep_message = Some w \<and> GetIntParam w CURRENT_STATE 0 = state_code SLEEP \<and>
     GetIntParam w CURRENT_PHASE 0 = APP_RES_DEEP"
  by (simp_all add: state_message_def deep_message_def demo_message_def want_of_def want_key_defs)

lemma demo_names: "allow_names demo_st tp = []" "restrict_names demo_st tp n = []"
proof -
  let ?e = "demo_sv\<lparr>sv_cfg := config_init\<rparr>"
  have "allow_infos ?e tp REASON_APP_API [] = []"
    by (simp add: allow_infos_def type_indices_val temporary_infos_def GetPersistAllowList_def
        GetEligiblePersistAllowConfig_range eligible_def config_init_def std_insert_range_def)
  then have none: "fst (GetAllowListInner ?e tp REASON_APP_API ([], demo_al0)) = []"
    using GetAllowListInner_result(1) [OF demo_al0_inv, of ?e tp REASON_APP_API "[]"]
    by (simp add: demo_al0_def)
  then show "allow_names demo_st tp = []" "restrict_names demo_st tp n = []"
    by (simp_all add: prod.case_eq_if allow_names_def demo_st_def restrict_names_def GetEligiableRestrictSet_def Let_def
        GetEligiblePersistAllowConfig_range eligible_def config_init_def std_insert_range_def)
qed

lemma demo_to_proxy: "to_proxy demo_st demo_answers = {(11, 1001)}"
  by (auto simp: to_proxy_def app_exempted_def demo_names) (auto simp: demo_answers_def first_app_def split: if_splits)

lemma rl_start_reachable: "rl_reachable rl_start"
  by (rule reachable_init) simp

definition demo_rl :: rl_state where
  "demo_rl = RunningLockStrategy_HandleEvent demo_st deep_message rl_start"

lemma rl_handle_reachable:
  assumes "rl_reachable s" "eventId m \<noteq> RES_CTRL_CONDITION_CHANGED" "eventId m \<noteq> PROCESS_STATE_CHANGED"
  shows "rl_reachable (RunningLockStrategy_HandleEvent demo_st m s)"
proof (rule reachable_step [where l = "(demo_st, m)", OF assms(1)])
  show "rl_step (demo_st, m) s (RunningLockStrategy_HandleEvent demo_st m s)"
    using assms(2,3) by (intro rl_handle) (auto simp: demo_st_def)
qed

lemma demo_rl_reachable: "rl_reachable demo_rl"
  unfolding demo_rl_def
  by (rule rl_handle_reachable [OF rl_start_reachable]) (simp_all add: event_id_defs)

lemma demo_rl_state: "isProxied demo_rl" "\<not> rl_isIdleMaintence demo_rl"
proof -
  obtain w where "msg_want deep_message = Some w" "GetIntParam w CURRENT_STATE 0 = state_code SLEEP"
      "GetIntParam w CURRENT_PHASE 0 = APP_RES_DEEP"
    using demo_message_simps(4) by blast
  then show "isProxied demo_rl" "\<not> rl_isIdleMaintence demo_rl"
    using StartProxyInner_answers(1) [OF demo_answers, of rl_start]
    by (cases "StartProxyInner demo_st rl_start";
        simp add: demo_rl_def rl_handle_simps StartProxy_def rl_start_def)+
qed


theorem proxy_record_wf_witness: "rl_inv demo_rl"
  by (rule proxy_record_wf) (rule demo_rl_reachable)

theorem start_proxies_exactly_witness:
  "power_locked (RunningLockStrategy_HandleEvent demo_st deep_message rl_start) = {(11, 1001)}"
proof -
  obtain w where w: "msg_want deep_message = Some w" "GetIntParam w CURRENT_STATE 0 = state_code SLEEP"
      "GetIntParam w CURRENT_PHASE 0 = APP_RES_DEEP"
    using demo_message_simps(4) by blast
  show ?thesis
    using start_proxies_exactly [OF rl_start_reachable _ demo_answers _ w] by (simp add: demo_to_proxy rl_start_def)
qed

theorem maintenance_roundtrip_witness:
  "power_locked (RunningLockStrategy_HandleEvent demo_st (state_message MAINTENANCE SLEEP)
     (RunningLockStrategy_HandleEvent demo_st (state_message SLEEP MAINTENANCE) demo_rl)) = power_locked demo_rl"
proof -
  obtain w where w: "msg_want (state_message SLEEP MAINTENANCE) = Some w"
      "GetIntParam w PREVIOUS_STATE 0 = state_code SLEEP" "GetIntParam w CURRENT_STATE 0 = state_code MAINTENANCE"
    using demo_message_simps(3) by blast
  obtain v where v: "msg_want (state_message MAINTENANCE SLEEP) = Some v"
      "GetIntParam v PREVIOUS_STATE 0 = state_code MAINTENANCE" "GetIntParam v CURRENT_STATE 0 = state_code SLEEP"
    using demo_message_simps(3) by blast
  show ?thesis
    using maintenance_roundtrip [OF demo_rl_reachable demo_rl_state _ w _ v] by simp
qed

theorem condition_switch_leaks_witness:
  "power_locked (RunningLockStrategy_HandleEvent demo_st (state_message SLEEP WORKING)
     (RunningLockStrategy_HandleEvent demo_st (demo_message RES_CTRL_CONDITION_CHANGED []) rl_start)) = {(11, 1001)}"
  using condition_switch_leaks [OF rl_start_reachable _ demo_answers,
      of "demo_message RES_CTRL_CONDITION_CHANGED []" "state_message SLEEP WORKING"]
  by (simp add: demo_to_proxy rl_start_def) (simp add: demo_message_def)

end
