(* ===== verification/Strategy_Manager_Props.thy ===== *)
theory Strategy_Manager_Props
  imports Strategy_Manager Network_Props Running_Lock_Props
begin

text \<open>
  The strategy manager keeps the contract of a strategy whenever both strategies are created:
  what the world sees of it is the pair of what the net manager and the power manager were told.
\<close>

abbreviation both_created :: "strat_state \<Rightarrow> bool" where
  "both_created s \<equiv> createdList s = [''NETWORK'', ''RUNNING_LOCK''] \<or> createdList s = [''RUNNING_LOCK'', ''NETWORK'']"

definition restriction_view :: "strat_state \<Rightarrow> (bool \<times> u32 set) \<times> (i32 \<times> i32) set" where
  "restriction_view s = (net_view (ss_net s), power_locked (ss_rl s))"

definition both_answering :: "st_env \<Rightarrow> strat_state \<Rightarrow> bool" where
  "both_answering e s \<longleftrightarrow> both_created s \<and> net_answers e (ss_net s) \<and> rl_sound (ss_rl s)"

definition both_fresh :: "strat_state \<Rightarrow> bool" where
  "both_fresh s \<longleftrightarrow> (\<exists>c. net_inv c (ss_net s)) \<and> \<not> isFirewallEnabled (ss_net s) \<and> \<not> isProxied (ss_rl s)"

definition both_restriction :: "st_env \<Rightarrow> strat_state \<Rightarrow> st_answers \<Rightarrow> (bool \<times> u32 set) \<times> (i32 \<times> i32) set" where
  "both_restriction e s a = ((True, to_trust e (nightExemptionTaskType (ss_net s)) a), to_proxy e a)"

interpretation both_contract: restricting_strategy StrategyManager_HandleEvent both_answering both_fresh
  restriction_view both_restriction "((False, {}), {})"
proof unfold_locales
  fix m e s assume "unheeded m"
  then have "strategy_HandleEvent e m name s = s" for name s
    by (simp add: strategy_HandleEvent_def net_contract.passes rl_contract.passes)
  then have "fold (strategy_HandleEvent e m) l s = s" for l by (induction l) simp_all
  then show "StrategyManager_HandleEvent e m s = s" by (simp add: StrategyManager_HandleEvent_def)
next
  fix e s a m
  assume "both_answering e s" "both_fresh s" "answers e = Some a" "distinct (map pi_pid (ans_procs a))" "enters_deep m"
  then show "restriction_view (StrategyManager_HandleEvent e m s) = both_restriction e s a"
    by (simp add: both_answering_def both_fresh_def restriction_view_def both_restriction_def
        StrategyManager_HandleEvent_both net_contract.restricts rl_contract.restricts)
next
  fix e s m
  assume "both_answering e s" "leaves_sleep m"
  then show "restriction_view (StrategyManager_HandleEvent e m s) = ((False, {}), {})"
    by (simp add: both_answering_def restriction_view_def
        StrategyManager_HandleEvent_both net_contract.lifts rl_contract.lifts)
qed

end
