(* ===== verification/State_Base.thy ===== *)
theory State_Base
  imports Time_Provider
begin

text \<open>
  The objects of the standby state machine: \<open>BaseState\<close> and \<open>StateWithMaint\<close>
  (\<open>plugins/ext/src/base_state.cpp\<close>), the data of \<open>StateManagerAdapter\<close>
  (\<open>plugins/ext/include/istate_manager_adapter.h\<close>) and of the constraint manager with its
  monitors (\<open>plugins/extend_constraints\<close>), and the operations every state shares: timers, the
  running lock, tasks of the event handler, the length of a maintenance interval.

  One \<open>sm_state\<close> holds all of them. The five state objects are the function \<open>objs\<close>, the smart
  pointers \<open>curStatePtr_\<close> and \<open>preStatePtr_\<close> are the states they point at, and \<open>inited\<close> says
  that they are not null. The event handler is the queue \<open>tasks\<close> of named closures with their
  delay; a closure is a value of \<open>sm_task\<close>, run by \<open>run_task\<close> of \<open>State_Machine\<close>. Calls that
  leave the component (time service, power manager, sensors, dispatch of messages,
  notification of subscribers) are appended to \<open>effects\<close>; their answers are fields of
  \<open>sm_env\<close>. The weak pointers of the original always lock while the plugin is loaded, so the
  branches for an expired pointer are not modelled.
\<close>

section \<open>Data\<close>

record ConstraintEvalParam =
  ev_curState :: u32
  ev_curPhase :: u32
  ev_nextState :: u32
  ev_nextPhase :: u32
  ev_isRepeatedDetection :: bool

definition mk_param :: "u32 \<Rightarrow> u32 \<Rightarrow> u32 \<Rightarrow> u32 \<Rightarrow> ConstraintEvalParam" where
  "mk_param cs cp ns np = \<lparr> ev_curState = cs, ev_curPhase = cp, ev_nextState = ns, ev_nextPhase = np,
     ev_isRepeatedDetection = False \<rparr>"

definition GetHashValue :: "ConstraintEvalParam \<Rightarrow> u32" where
  "GetHashValue p =
     (let res = push_bit 24 (ev_curState p) + push_bit 16 (ev_curPhase p) +
                push_bit 8 (ev_nextState p) + push_bit 1 (ev_nextPhase p)
      in if ev_isRepeatedDetection p then res + 1 else res)"

datatype sensor_type = ACCELEROMETER | SIGNIFICANT_MOTION | Other_Sensor nat

datatype sensor_callback = No_Callback | AcceleromterCallback | RepeatAcceleromterCallback | MotionSensorCallback

datatype monitor = ChargeMonitor | MotionMonitor | RepeatedMotionMonitor

record motion_mon =
  detectionTimeOut :: i32
  restTimeOut :: i32
  totalTimeOut :: i32
  mon_params :: ConstraintEvalParam
  isMonitoring :: bool
  sensorUserMap :: "(sensor_type \<times> sensor_callback) list"

datatype sm_task =
    T_CheckScreenStatus
  | T_TransitNextState StandbyState
  | T_FirstPhase StandbyState
  | T_NextPhase StandbyState
  | T_RepeatedDetection
  | T_RetryPhase i32
  | T_EndEval bool
  | T_StopMonitoringInner monitor
  | T_PeriodlyMotion monitor

datatype timer_owner = Half_Hour_Timer | Enter_Timer StandbyState | Repeat_Timer

datatype sm_effect =
    E_Dispatch out_message
  | E_ReportStandbyState StandbyState
  | E_StartTimer u64 i64
  | E_StopTimer u64
  | E_DestroyTimer u64
  | E_Lock
  | E_UnLock
  | E_SubscribeSensor sensor_type
  | E_SetBatch sensor_type
  | E_ActivateSensor sensor_type
  | E_DeactivateSensor sensor_type
  | E_UnsubscribeSensor sensor_type

record state_obj =
  curPhase :: u32
  nextState :: StandbyState
  enterStandbyTimerId :: u64
  timedTaskMap :: "(string \<times> u64) list"
  darkTimeOut :: i32
  maintIntervalIndex :: int
  maintInterval :: "i32 list"
  isRepeatedDetection :: bool
  repeatedDetectionTimerId :: u64

record sm_state =
  objs :: "StandbyState \<Rightarrow> state_obj"
  inited :: bool
  curState :: StandbyState
  preState :: StandbyState
  isEvalution :: bool
  isBlocked :: bool
  screenOffTimeStamp :: i64
  scrOffHalfHourTimerId :: u64
  isScreenOn :: bool
  scrOffHalfHourCtrl :: bool
  isSleepState :: bool
  stateRecordList :: "(StandbyState \<times> i64) list"
  runningLockStatus :: bool
  standbyRunningLock :: bool
  cm_isEvaluation :: bool
  cm_curMonitor :: "monitor option"
  cm_constraintMap :: "(u32 \<times> monitor) list"
  cm_monitorList :: "monitor list"
  mons :: "monitor \<Rightarrow> motion_mon"
  tasks :: "(string \<times> sm_task \<times> i64) list"
  effects :: "sm_effect list"

datatype charge_state = CHARGE_STATE_ENABLE | CHARGE_STATE_FULL | Charge_Other nat

record sm_env =
  te :: time_env
  cfg :: config_state
  createTimer :: "timer_owner \<Rightarrow> u64"
  startTimer :: "u64 \<Rightarrow> i64 \<Rightarrow> bool"
  createLock :: bool
  powerScreenOn :: bool
  chargingStatus :: charge_state
  allSensors_ret :: int
  allSensors_info :: "sensor_type list option"
  allSensors_count :: int
  subscribeSensor :: "sensor_type \<Rightarrow> int"
  activateSensor :: "sensor_type \<Rightarrow> int"

definition DARK_TIMEOUT :: string where "DARK_TIMEOUT = ''dark_timeout''"
definition NAP_TIMEOUT :: string where "NAP_TIMEOUT = ''nap_timeout''"
definition NAP_MAINTENANCE_TIMEOUT :: string where "NAP_MAINTENANCE_TIMEOUT = ''nap_maintenance_timeout''"
definition SLEEP_MAINT_TIMEOUT :: string where "SLEEP_MAINT_TIMEOUT = ''sleep_maintenance_timeout''"
definition NAP_MAINT_DURATION :: string where "NAP_MAINT_DURATION = ''nap_interval''"
definition SLEEP_MAINT_DURATOIN :: string where "SLEEP_MAINT_DURATOIN = ''sleep_interval''"
definition NAP_SWITCH :: string where "NAP_SWITCH = ''nap_switch''"
definition SLEEP_SWITCH :: string where "SLEEP_SWITCH = ''sleep_switch''"
definition DETECT_MOTION_CONFIG :: string where "DETECT_MOTION_CONFIG = ''detect_motion''"

section \<open>Shared operations\<close>

definition upd_obj :: "StandbyState \<Rightarrow> (state_obj \<Rightarrow> state_obj) \<Rightarrow> sm_state \<Rightarrow> sm_state" where
  "upd_obj st f s = s\<lparr>objs := (objs s)(st := f (objs s st))\<rparr>"

definition emit :: "sm_effect \<Rightarrow> sm_state \<Rightarrow> sm_state" where
  "emit ef s = s\<lparr>effects := effects s @ [ef]\<rparr>"

definition PostTask :: "string \<Rightarrow> sm_task \<Rightarrow> i64 \<Rightarrow> sm_state \<Rightarrow> sm_state" where
  "PostTask name task delay s = s\<lparr>tasks := tasks s @ [(name, task, delay)]\<rparr>"

definition RemoveTask :: "string \<Rightarrow> sm_state \<Rightarrow> sm_state" where
  "RemoveTask name s = s\<lparr>tasks := filter (\<lambda>t. fst t \<noteq> name) (tasks s)\<rparr>"

definition GetWallTimeMs :: "sm_env \<Rightarrow> i64" where
  "GetWallTimeMs e = wallTimeMs (te e)"

definition GetCurInnerPhase :: "sm_state \<Rightarrow> u32" where
  "GetCurInnerPhase s = curPhase (objs s (curState s))"

definition IsInFinalPhase :: "StandbyState \<Rightarrow> sm_state \<Rightarrow> bool" where
  "IsInFinalPhase st s \<longleftrightarrow> (st = NAP \<or> st = SLEEP \<longrightarrow> curPhase (objs s st) = PHASE_END)"

definition SetTimedTask :: "StandbyState \<Rightarrow> string \<Rightarrow> u64 \<Rightarrow> sm_state \<Rightarrow> sm_state" where
  "SetTimedTask st timedTaskName timedTaskId =
     upd_obj st (\<lambda>b. b\<lparr>timedTaskMap := AList.update timedTaskName timedTaskId (timedTaskMap b)\<rparr>)"

definition StartStateTransitionTimer ::
  "sm_env \<Rightarrow> StandbyState \<Rightarrow> i64 \<Rightarrow> sm_state \<Rightarrow> err \<times> sm_state" where
  "StartStateTransitionTimer e st triggerTime s =
     (let timerId = enterStandbyTimerId (objs s st); at = GetWallTimeMs e + triggerTime in
      if timerId = 0 then (ERR_STANDBY_TIMER_SERVICE_ERROR, s)
      else if \<not> startTimer e timerId at
      then (ERR_STANDBY_TIMER_SERVICE_ERROR, emit (E_StartTimer timerId at) s)
      else (ERR_OK, SetTimedTask st TRANSIT_NEXT_STATE_TIMED_TASK timerId (emit (E_StartTimer timerId at) s)))"

definition StopTimedTask :: "StandbyState \<Rightarrow> string \<Rightarrow> sm_state \<Rightarrow> err \<times> sm_state" where
  "StopTimedTask st timedTaskName s =
     (case map_of (timedTaskMap (objs s st)) timedTaskName of
        None \<Rightarrow> (ERR_STANDBY_TIMERID_NOT_EXIST, s)
      | Some timerId \<Rightarrow> (ERR_OK, if timerId > 0 then emit (E_StopTimer timerId) s else s))"

definition DestroyAllTimedTask :: "StandbyState \<Rightarrow> sm_state \<Rightarrow> sm_state" where
  "DestroyAllTimedTask st s =
     upd_obj st (\<lambda>b. b\<lparr>timedTaskMap := []\<rparr>)
       (fold (\<lambda>(name, timerId) s.
            let s = RemoveTask name s in
            if timerId > 0 then emit (E_DestroyTimer timerId) (emit (E_StopTimer timerId) s) else s)
          (timedTaskMap (objs s st)) s)"

definition InitRunningLock :: "sm_env \<Rightarrow> sm_state \<Rightarrow> sm_state" where
  "InitRunningLock e s = s\<lparr>runningLockStatus := False, standbyRunningLock := createLock e\<rparr>"

definition AcquireStandbyRunningLock :: "sm_env \<Rightarrow> sm_state \<Rightarrow> sm_state" where
  "AcquireStandbyRunningLock e s =
     (if runningLockStatus s then s
      else
        let s = (if \<not> standbyRunningLock s then s\<lparr>standbyRunningLock := createLock e\<rparr> else s);
            s = (if standbyRunningLock s then emit E_Lock s else s)
        in s\<lparr>runningLockStatus := True\<rparr>)"

definition ReleaseStandbyRunningLock :: "sm_state \<Rightarrow> sm_state" where
  "ReleaseStandbyRunningLock s =
     (if \<not> runningLockStatus s then s
      else (if \<not> standbyRunningLock s then s else emit E_UnLock s)\<lparr>runningLockStatus := False\<rparr>)"

definition CalculateMaintTimeOut :: "sm_env \<Rightarrow> StandbyState \<Rightarrow> bool \<Rightarrow> sm_state \<Rightarrow> i64 \<times> sm_state" where
  "CalculateMaintTimeOut e st isFirstInterval s =
     (let b = objs s st; mainIntervalSize = int (length (maintInterval b)) in
      if mainIntervalSize \<le> 0 then (0, s)
      else
        let idx = (if isFirstInterval then maintIntervalIndex b
                   else min (maintIntervalIndex b + 1) (mainIntervalSize - 1));
            s = upd_obj st (\<lambda>b. b\<lparr>maintIntervalIndex := idx\<rparr>) s;
            timeOut = sint (maintInterval b ! nat idx);
            (ok, timeDiff) = TimeDiffToDayNightSwitch (te e) 0
        in if GetCondition (te e) timeOut = NIGHT_STANDBY \<and> ok
           then (timeOut * MSEC_PER_SEC + (timeDiff + randomDelay (te e) 0 (30 * 60 * 1000)), s)
           else (timeOut * MSEC_PER_SEC, s))"

text \<open>\<open>StartTransitNextState\<close> posts the closure that \<open>run_task\<close> runs for \<open>T_TransitNextState\<close>.\<close>

definition StartTransitNextState :: "StandbyState \<Rightarrow> sm_state \<Rightarrow> sm_state" where
  "StartTransitNextState st = PostTask TRANSIT_NEXT_STATE_TIMED_TASK (T_TransitNextState st) 0"

definition TransitToPhaseInner :: "StandbyState \<Rightarrow> u32 \<Rightarrow> u32 \<Rightarrow> sm_state \<Rightarrow> sm_state" where
  "TransitToPhaseInner st prePhase phase =
     emit (E_Dispatch (OutMessage PHASE_TRANSIT
       [(CURRENT_STATE, WInt (state_code st)), (PREVIOUS_PHASE, WInt prePhase),
        (CURRENT_PHASE, WInt phase)]))"

section \<open>Reports and the half-hour control\<close>

definition SendNotification :: "StandbyState \<Rightarrow> bool \<Rightarrow> sm_state \<Rightarrow> sm_state" where
  "SendNotification pre needDispatchEvent s =
     (let s1 = (if needDispatchEvent
                then emit (E_Dispatch (OutMessage STATE_TRANSIT
                       [(PREVIOUS_STATE, WInt (state_code pre)),
                        (CURRENT_STATE, WInt (state_code (curState s)))])) s
                else s)
      in emit (E_ReportStandbyState (curState s)) s1)"

definition OnScreenOffHalfHourInner :: "bool \<Rightarrow> bool \<Rightarrow> sm_state \<Rightarrow> sm_state" where
  "OnScreenOffHalfHourInner ctrl repeated s =
     (if ctrl \<and> \<not> (curState s = SLEEP \<or> preState s = SLEEP \<and> curState s = MAINTENANCE) then s
      else if \<not> repeated \<and> scrOffHalfHourCtrl s = ctrl then s
      else emit (E_Dispatch (OutMessage SCREEN_OFF_HALF_HOUR [(SCR_OFF_HALF_HOUR_STATUS, WBool ctrl)]))
             (s\<lparr>scrOffHalfHourCtrl := ctrl\<rparr>))"

text \<open>\<open>PostSyncTask\<close> returns after the closure has run, on the handler's own thread at once.\<close>

definition OnScreenOffHalfHour :: "bool \<Rightarrow> bool \<Rightarrow> sm_state \<Rightarrow> sm_state" where
  "OnScreenOffHalfHour ctrl repeated = OnScreenOffHalfHourInner ctrl repeated"

definition MAX_RECORD_SIZE :: nat where "MAX_RECORD_SIZE = 10"

definition RecordStateTransition :: "sm_env \<Rightarrow> sm_state \<Rightarrow> sm_state" where
  "RecordStateTransition e s =
     (let l = stateRecordList s @ [(preState s, monotonicTimeMs (te e))]
      in s\<lparr>stateRecordList := if length l > MAX_RECORD_SIZE then tl l else l\<rparr>)"

end
