(* ===== verification/State_Machine.thy ===== *)
theory State_Machine
  imports State_Base
begin

text \<open>
  The standby state machine: the five states (\<open>plugins/standby_state/src/*_state.cpp\<close>), their
  manager (\<open>state_manager_adapter.cpp\<close>) and the constraint manager with its monitors
  (\<open>plugins/extend_constraints/src\<close>).

  The classes call one another in a circle (the manager starts an evaluation, the constraint
  manager ends it, the state of the moment reacts and may ask the manager for another
  transition). The circle is never closed: a reaction only ever asks for a transition towards
  WORKING, which starts no evaluation. \<open>TransitToState_with\<close> is the body of \<open>TransitToState\<close> with
  the entering branch as an argument, \<open>TransitToWorking\<close> its instance for the nested calls, and
  \<open>TransitToState_WORKING\<close> shows that this instance is the full function.
\<close>

section \<open>Entering and leaving a state\<close>

definition WorkingState_BeginState :: "sm_state \<Rightarrow> err \<times> sm_state" where
  "WorkingState_BeginState s =
     (ERR_OK, PostTask TRANSIT_NEXT_STATE_CONDITION_TASK T_CheckScreenStatus 0
        (upd_obj WORKING (\<lambda>b. b\<lparr>curPhase := 0\<rparr>) s))"

definition WorkingState_EndState :: "sm_state \<Rightarrow> err \<times> sm_state" where
  "WorkingState_EndState s = (ERR_OK, RemoveTask TRANSIT_NEXT_STATE_CONDITION_TASK s)"

definition DarkState_BeginState :: "sm_env \<Rightarrow> sm_state \<Rightarrow> err \<times> sm_state" where
  "DarkState_BeginState e s =
     (let s = upd_obj DARK (\<lambda>b. b\<lparr>curPhase := 0\<rparr>) s in
      if nextState (objs s DARK) \<noteq> DARK
      then StartStateTransitionTimer e DARK (sint (darkTimeOut (objs s DARK))) s
      else (ERR_OK, s))"

definition DarkState_EndState :: "sm_state \<Rightarrow> err \<times> sm_state" where
  "DarkState_EndState s =
     (ERR_OK, RemoveTask TRANSIT_NEXT_STATE_TIMED_TASK
        (snd (StopTimedTask DARK TRANSIT_NEXT_STATE_TIMED_TASK s)))"

definition NapState_BeginState :: "sm_env \<Rightarrow> sm_state \<Rightarrow> err \<times> sm_state" where
  "NapState_BeginState e s =
     (if preState s = MAINTENANCE then
        (let s = upd_obj NAP (\<lambda>b. b\<lparr>nextState := MAINTENANCE\<rparr>) s;
             (maintIntervalTimeOut, s) = CalculateMaintTimeOut e NAP False s
         in (ERR_OK, if maintIntervalTimeOut \<noteq> 0
                     then snd (StartStateTransitionTimer e NAP maintIntervalTimeOut s) else s))
      else
        (let s = upd_obj NAP (\<lambda>b. b\<lparr>maintIntervalIndex := 0, curPhase := PHASE_BEGIN\<rparr>) s;
             s = (if GetStandbySwitch (cfg e) SLEEP_SWITCH then
                    let s = upd_obj NAP (\<lambda>b. b\<lparr>nextState := SLEEP\<rparr>) s;
                        napTimeOut = min (MSEC_PER_SEC * sint (GetStandbyParam (cfg e) NAP_TIMEOUT))
                                         (GetNapTimeOut (te e))
                    in snd (StartStateTransitionTimer e NAP napTimeOut s)
                  else s)
         in (ERR_OK, PostTask TRANSIT_NEXT_PHASE_INSTANT_TASK (T_FirstPhase NAP) 0 s)))"

definition NapState_EndState :: "sm_state \<Rightarrow> err \<times> sm_state" where
  "NapState_EndState s =
     (ERR_OK, RemoveTask TRANSIT_NEXT_PHASE_INSTANT_TASK (RemoveTask TRANSIT_NEXT_STATE_TIMED_TASK
        (snd (StopTimedTask NAP TRANSIT_NEXT_STATE_TIMED_TASK s))))"

definition MaintenanceState_BeginState :: "sm_env \<Rightarrow> sm_state \<Rightarrow> err \<times> sm_state" where
  "MaintenanceState_BeginState e s =
     (let next = preState s;
          s = upd_obj MAINTENANCE (\<lambda>b. b\<lparr>nextState := next\<rparr>) s;
          endMaintTimeOut = (if next = NAP then sint (GetStandbyParam (cfg e) NAP_MAINTENANCE_TIMEOUT)
                             else sint (GetStandbyParam (cfg e) SLEEP_MAINT_TIMEOUT))
      in StartStateTransitionTimer e MAINTENANCE (endMaintTimeOut * MSEC_PER_SEC) s)"

definition MaintenanceState_EndState :: "sm_state \<Rightarrow> err \<times> sm_state" where
  "MaintenanceState_EndState s =
     (ERR_OK, RemoveTask TRANSIT_NEXT_STATE_TIMED_TASK
        (snd (StopTimedTask MAINTENANCE TRANSIT_NEXT_STATE_TIMED_TASK s)))"

definition CheckScrenOffHalfHour :: "sm_env \<Rightarrow> sm_state \<Rightarrow> sm_state" where
  "CheckScrenOffHalfHour e s =
     (if GetWallTimeMs e - screenOffTimeStamp s \<ge> HALF_HOUR then OnScreenOffHalfHour True False s else s)"

definition SleepState_BeginState :: "sm_env \<Rightarrow> sm_state \<Rightarrow> err \<times> sm_state" where
  "SleepState_BeginState e s =
     (let s = upd_obj SLEEP (\<lambda>b. b\<lparr>isRepeatedDetection := False\<rparr>) s in
      if preState s = MAINTENANCE then
        (let (maintIntervalTimeOut, s) = CalculateMaintTimeOut e SLEEP False s
         in (ERR_OK, if maintIntervalTimeOut \<noteq> 0
                     then snd (StartStateTransitionTimer e SLEEP maintIntervalTimeOut s) else s))
      else
        (let s = upd_obj SLEEP (\<lambda>b. b\<lparr>maintIntervalIndex := 0, curPhase := PHASE_BEGIN\<rparr>) s;
             (maintIntervalTimeOut, s) = CalculateMaintTimeOut e SLEEP True s;
             s = PostTask TRANSIT_NEXT_PHASE_INSTANT_TASK (T_FirstPhase SLEEP) 0 s;
             s = snd (StartStateTransitionTimer e SLEEP maintIntervalTimeOut s)
         in (ERR_OK, CheckScrenOffHalfHour e s)))"

definition SleepState_EndState :: "sm_state \<Rightarrow> err \<times> sm_state" where
  "SleepState_EndState s =
     (let s = snd (StopTimedTask SLEEP TRANSIT_NEXT_STATE_TIMED_TASK s);
          s = snd (StopTimedTask SLEEP REPEATED_MOTION_DETECTION_TASK s);
          s = RemoveTask TRANSIT_NEXT_STATE_TIMED_TASK s;
          s = RemoveTask TRANSIT_NEXT_PHASE_INSTANT_TASK s
      in (ERR_OK, RemoveTask REPEATED_MOTION_DETECTION_TASK s))"

text \<open>The virtual calls \<open>BeginState\<close>, \<open>EndState\<close> and \<open>CheckTransitionValid\<close> on a state object.\<close>

primrec BeginState :: "sm_env \<Rightarrow> StandbyState \<Rightarrow> sm_state \<Rightarrow> err \<times> sm_state" where
  "BeginState e WORKING = WorkingState_BeginState"
| "BeginState e DARK = DarkState_BeginState e"
| "BeginState e NAP = NapState_BeginState e"
| "BeginState e MAINTENANCE = MaintenanceState_BeginState e"
| "BeginState e SLEEP = SleepState_BeginState e"

primrec EndState :: "StandbyState \<Rightarrow> sm_state \<Rightarrow> err \<times> sm_state" where
  "EndState WORKING = WorkingState_EndState"
| "EndState DARK = DarkState_EndState"
| "EndState NAP = NapState_EndState"
| "EndState MAINTENANCE = MaintenanceState_EndState"
| "EndState SLEEP = SleepState_EndState"

definition WorkingState_CheckTransitionValid :: "StandbyState \<Rightarrow> bool" where
  "WorkingState_CheckTransitionValid next \<longleftrightarrow> next \<noteq> MAINTENANCE"
definition DarkState_CheckTransitionValid :: "StandbyState \<Rightarrow> bool" where
  "DarkState_CheckTransitionValid next \<longleftrightarrow> next \<noteq> MAINTENANCE"
definition NapState_CheckTransitionValid :: "StandbyState \<Rightarrow> bool" where
  "NapState_CheckTransitionValid next \<longleftrightarrow> True"
definition MaintenanceState_CheckTransitionValid :: "StandbyState \<Rightarrow> bool" where
  "MaintenanceState_CheckTransitionValid next \<longleftrightarrow> next \<noteq> DARK"
definition SleepState_CheckTransitionValid :: "StandbyState \<Rightarrow> bool" where
  "SleepState_CheckTransitionValid next \<longleftrightarrow> next \<noteq> NAP"

primrec CheckTransitionValid :: "StandbyState \<Rightarrow> StandbyState \<Rightarrow> bool" where
  "CheckTransitionValid WORKING = WorkingState_CheckTransitionValid"
| "CheckTransitionValid DARK = DarkState_CheckTransitionValid"
| "CheckTransitionValid NAP = NapState_CheckTransitionValid"
| "CheckTransitionValid MAINTENANCE = MaintenanceState_CheckTransitionValid"
| "CheckTransitionValid SLEEP = SleepState_CheckTransitionValid"

lemmas check_transition_defs = WorkingState_CheckTransitionValid_def DarkState_CheckTransitionValid_def
  NapState_CheckTransitionValid_def MaintenanceState_CheckTransitionValid_def
  SleepState_CheckTransitionValid_def

definition TransitToStateInner :: "sm_env \<Rightarrow> StandbyState \<Rightarrow> sm_state \<Rightarrow> err \<times> sm_state" where
  "TransitToStateInner e next s =
     (let s = snd (EndState (curState s) s);
          s = s\<lparr>preState := curState s, curState := next\<rparr>;
          s = snd (BeginState e next s);
          s = RecordStateTransition e s;
          s = SendNotification (preState s) True s
      in (ERR_OK, ReleaseStandbyRunningLock s))"

section \<open>Stopping an evaluation\<close>

definition upd_mon :: "monitor \<Rightarrow> (motion_mon \<Rightarrow> motion_mon) \<Rightarrow> sm_state \<Rightarrow> sm_state" where
  "upd_mon m f s = s\<lparr>mons := (mons s)(m := f (mons s m))\<rparr>"

definition StopSensor :: "monitor \<Rightarrow> sm_state \<Rightarrow> sm_state" where
  "StopSensor m s =
     (if \<not> isMonitoring (mons s m) then s
      else fold (\<lambda>(sensor, _) s. emit (E_UnsubscribeSensor sensor) (emit (E_DeactivateSensor sensor) s))
             (sensorUserMap (mons s m)) s)"

definition StopMonitoringInner :: "monitor \<Rightarrow> sm_state \<Rightarrow> sm_state" where
  "StopMonitoringInner m s = upd_mon m (\<lambda>b. b\<lparr>isMonitoring := False\<rparr>) (StopSensor m s)"

primrec StopMonitoring :: "monitor \<Rightarrow> sm_state \<Rightarrow> sm_state" where
  "StopMonitoring ChargeMonitor s = s"
| "StopMonitoring MotionMonitor s = StopMonitoringInner MotionMonitor (RemoveTask MOTION_DECTION_TASK s)"
| "StopMonitoring RepeatedMotionMonitor s =
     StopMonitoringInner RepeatedMotionMonitor (RemoveTask MOTION_DECTION_TASK s)"

definition cm_StopEvalution :: "sm_state \<Rightarrow> err \<times> sm_state" where
  "cm_StopEvalution s =
     (if \<not> cm_isEvaluation s then (ERR_STANDBY_STATE_TIMING_SEQ_ERROR, s)
      else let s = s\<lparr>cm_isEvaluation := False\<rparr> in
        case cm_curMonitor s of
          None \<Rightarrow> (ERR_OK, s)
        | Some m \<Rightarrow> (ERR_OK, (StopMonitoring m s)\<lparr>cm_curMonitor := None\<rparr>))"

definition StopEvalution :: "sm_state \<Rightarrow> sm_state" where
  "StopEvalution s =
     (if isEvalution s then (snd (cm_StopEvalution s))\<lparr>isEvalution := False\<rparr> else s)"

section \<open>Transitions\<close>

definition UnblockCurrentState :: "sm_state \<Rightarrow> sm_state" where
  "UnblockCurrentState s = s\<lparr>isBlocked := False\<rparr>"

definition ExitStandby :: "sm_env \<Rightarrow> StandbyState \<Rightarrow> sm_state \<Rightarrow> err \<times> sm_state" where
  "ExitStandby e next s =
     (let s = (if isEvalution s then (snd (cm_StopEvalution s))\<lparr>isEvalution := False\<rparr> else s);
          s = UnblockCurrentState s;
          s = (if scrOffHalfHourCtrl s then OnScreenOffHalfHour False False s else s)
      in (ERR_OK, snd (TransitToStateInner e next s)))"

definition TransitWithMaint :: "sm_env \<Rightarrow> StandbyState \<Rightarrow> sm_state \<Rightarrow> err \<times> sm_state" where
  "TransitWithMaint e next s =
     TransitToStateInner e next
       (if next = WORKING \<and> scrOffHalfHourCtrl s then OnScreenOffHalfHour False False s else s)"

definition TransitToState_with ::
  "(StandbyState \<Rightarrow> sm_state \<Rightarrow> err \<times> sm_state) \<Rightarrow> sm_env \<Rightarrow> StandbyState \<Rightarrow> sm_state \<Rightarrow> err \<times> sm_state" where
  "TransitToState_with enter e next s =
     (if \<not> inited s then (ERR_STANDBY_STATE_TRANSITION_FAILED, s)
      else if \<not> CheckTransitionValid (curState s) next then (ERR_STANDBY_STATE_TRANSITION_FAILED, s)
      else if curState s = next then (ERR_OK, UnblockCurrentState s)
      else if next = MAINTENANCE \<or> curState s = MAINTENANCE then TransitWithMaint e next s
      else if curState s < next then enter next s
      else ExitStandby e next s)"

definition TransitToWorking :: "sm_env \<Rightarrow> sm_state \<Rightarrow> err \<times> sm_state" where
  "TransitToWorking e = TransitToState_with (\<lambda>_ s. (ERR_OK, s)) e WORKING"

definition OnStateBlocked :: "sm_env \<Rightarrow> StandbyState \<Rightarrow> sm_state \<Rightarrow> sm_state" where
  "OnStateBlocked e st s =
     (if st \<noteq> NAP then s
      else
        let (maintIntervalTimeOut, s) = CalculateMaintTimeOut e NAP True s;
            s = (if maintIntervalTimeOut > 0 then
                   snd (StartStateTransitionTimer e NAP maintIntervalTimeOut
                     (upd_obj NAP (\<lambda>b. b\<lparr>nextState := MAINTENANCE\<rparr>) s))
                 else s)
        in ReleaseStandbyRunningLock s)"

definition BlockCurrentState :: "sm_env \<Rightarrow> sm_state \<Rightarrow> sm_state" where
  "BlockCurrentState e s = (let s = s\<lparr>isBlocked := True\<rparr> in OnStateBlocked e (curState s) s)"

section \<open>The result of an evaluation\<close>

definition WorkingState_EndEvalCurrentState :: "sm_env \<Rightarrow> bool \<Rightarrow> sm_state \<Rightarrow> sm_state" where
  "WorkingState_EndEvalCurrentState e evalResult s =
     (if evalResult then snd (TransitToStateInner e DARK s) else BlockCurrentState e s)"

definition DarkState_EndEvalCurrentState :: "sm_env \<Rightarrow> bool \<Rightarrow> sm_state \<Rightarrow> sm_state" where
  "DarkState_EndEvalCurrentState e evalResult s =
     (if \<not> evalResult then BlockCurrentState e s
      else if nextState (objs s DARK) \<noteq> DARK
      then snd (TransitToStateInner e (nextState (objs s DARK)) s)
      else s)"

definition HandleEvalResToSleepState :: "sm_env \<Rightarrow> bool \<Rightarrow> sm_state \<Rightarrow> sm_state" where
  "HandleEvalResToSleepState e evalResult s =
     (if \<not> evalResult then snd (TransitToWorking e s)
      else if nextState (objs s NAP) \<noteq> NAP then snd (TransitToStateInner e SLEEP s)
      else s)"

definition NapState_SetPhaseTransitTask :: "bool \<Rightarrow> sm_state \<Rightarrow> sm_state" where
  "NapState_SetPhaseTransitTask evalResult s =
     (let p = curPhase (objs s NAP);
          s = (if evalResult then TransitToPhaseInner NAP p (p + 1) s else s);
          s = upd_obj NAP (\<lambda>b. b\<lparr>curPhase := curPhase b + 1\<rparr>) s
      in if curPhase (objs s NAP) < PHASE_END
         then PostTask TRANSIT_NEXT_PHASE_INSTANT_TASK (T_NextPhase NAP) 0 s
         else ReleaseStandbyRunningLock s)"

definition NapState_EndEvalCurrentState :: "sm_env \<Rightarrow> bool \<Rightarrow> sm_state \<Rightarrow> sm_state" where
  "NapState_EndEvalCurrentState e evalResult s =
     (if curPhase (objs s NAP) = PHASE_END then HandleEvalResToSleepState e evalResult s
      else NapState_SetPhaseTransitTask evalResult s)"

definition SetPhaseTransitOrRepeatedTask :: "sm_env \<Rightarrow> sm_state \<Rightarrow> sm_state" where
  "SetPhaseTransitOrRepeatedTask e s =
     (let s = upd_obj SLEEP (\<lambda>b. b\<lparr>curPhase := curPhase b + 1\<rparr>) s in
      if curPhase (objs s SLEEP) < PHASE_END
      then PostTask TRANSIT_NEXT_PHASE_INSTANT_TASK (T_NextPhase SLEEP) 0 s
      else
        let s = ReleaseStandbyRunningLock s; timerId = repeatedDetectionTimerId (objs s SLEEP) in
        if timerId = 0 then s
        else emit (E_StartTimer timerId (GetWallTimeMs e + REPEATED_MOTION_DETECTION_INTERVAL)) s)"

definition SleepState_EndEvalCurrentState :: "sm_env \<Rightarrow> bool \<Rightarrow> sm_state \<Rightarrow> sm_state" where
  "SleepState_EndEvalCurrentState e evalResult s =
     (let p = curPhase (objs s SLEEP) in
      if p < PHASE_END then
        SetPhaseTransitOrRepeatedTask e (if evalResult then TransitToPhaseInner SLEEP p (p + 1) s else s)
      else
        upd_obj SLEEP (\<lambda>b. b\<lparr>isRepeatedDetection := False\<rparr>)
          (if \<not> evalResult \<and> isRepeatedDetection (objs s SLEEP) then snd (TransitToWorking e s) else s))"

primrec State_EndEvalCurrentState :: "sm_env \<Rightarrow> StandbyState \<Rightarrow> bool \<Rightarrow> sm_state \<Rightarrow> sm_state" where
  "State_EndEvalCurrentState e WORKING = WorkingState_EndEvalCurrentState e"
| "State_EndEvalCurrentState e DARK = DarkState_EndEvalCurrentState e"
| "State_EndEvalCurrentState e NAP = NapState_EndEvalCurrentState e"
| "State_EndEvalCurrentState e MAINTENANCE = (\<lambda>_ s. s)"
| "State_EndEvalCurrentState e SLEEP = SleepState_EndEvalCurrentState e"

definition EndEvalCurrentState :: "sm_env \<Rightarrow> bool \<Rightarrow> sm_state \<Rightarrow> err \<times> sm_state" where
  "EndEvalCurrentState e evalResult s =
     (if \<not> isEvalution s then (ERR_STANDBY_STATE_TIMING_SEQ_ERROR, s)
      else let s = snd (cm_StopEvalution (s\<lparr>isEvalution := False\<rparr>))
           in (ERR_OK, State_EndEvalCurrentState e (curState s) evalResult s))"

section \<open>Starting an evaluation\<close>

definition ChargeStateMonitor_StartMonitoring :: "sm_env \<Rightarrow> sm_state \<Rightarrow> sm_state" where
  "ChargeStateMonitor_StartMonitoring e s =
     snd (EndEvalCurrentState e
       (chargingStatus e \<noteq> CHARGE_STATE_ENABLE \<and> chargingStatus e \<noteq> CHARGE_STATE_FULL) s)"

fun StartSensor_loop :: "sm_env \<Rightarrow> sensor_type list \<Rightarrow> sm_state \<Rightarrow> err \<times> sm_state" where
  "StartSensor_loop e [] s = (ERR_OK, s)"
| "StartSensor_loop e (sensor # rest) s =
     (let s = emit (E_SubscribeSensor sensor) s in
      if subscribeSensor e sensor \<noteq> 0 then (ERR_STANDBY_START_SENSOR_FAILED, s)
      else
        let s = emit (E_ActivateSensor sensor) (emit (E_SetBatch sensor) s) in
        if activateSensor e sensor \<noteq> 0 then (ERR_STANDBY_START_SENSOR_FAILED, s)
        else StartSensor_loop e rest s)"

definition StartSensor :: "sm_env \<Rightarrow> monitor \<Rightarrow> sm_state \<Rightarrow> err \<times> sm_state" where
  "StartSensor e m s = StartSensor_loop e (map fst (sensorUserMap (mons s m))) s"

definition StartMonitoringInner :: "sm_env \<Rightarrow> monitor \<Rightarrow> sm_state \<Rightarrow> err \<times> sm_state" where
  "StartMonitoringInner e m s =
     (let s = upd_mon m (\<lambda>b. b\<lparr>isMonitoring := True\<rparr>) s;
          (ret, s) = StartSensor e m s
      in if ret = ERR_OK then (ERR_OK, s) else (ERR_STANDBY_START_SENSOR_FAILED, StopSensor m s))"

definition StopMotionDetection :: "monitor \<Rightarrow> sm_state \<Rightarrow> sm_state" where
  "StopMotionDetection m s =
     PostTask MOTION_DECTION_TASK (T_StopMonitoringInner m) (sint (detectionTimeOut (mons s m))) s"

definition PeriodlyStartMotionDetection :: "sm_env \<Rightarrow> monitor \<Rightarrow> sm_state \<Rightarrow> sm_state" where
  "PeriodlyStartMotionDetection e m s =
     (let (ret, s) = StartMonitoringInner e m s in
      if ret \<noteq> ERR_OK then BlockCurrentState e s
      else
        let s = StopMotionDetection m s
        in PostTask MOTION_DECTION_TASK (T_PeriodlyMotion m)
             (sint (detectionTimeOut (mons s m) + restTimeOut (mons s m))) s)"

definition MotionSensorMonitor_StartMonitoring :: "sm_env \<Rightarrow> monitor \<Rightarrow> sm_state \<Rightarrow> sm_state" where
  "MotionSensorMonitor_StartMonitoring e m s =
     PeriodlyStartMotionDetection e m
       (PostTask MOTION_DECTION_TASK (T_EndEval True) (sint (totalTimeOut (mons s m))) s)"

primrec StartMonitoring :: "sm_env \<Rightarrow> monitor \<Rightarrow> sm_state \<Rightarrow> sm_state" where
  "StartMonitoring e ChargeMonitor = ChargeStateMonitor_StartMonitoring e"
| "StartMonitoring e MotionMonitor = MotionSensorMonitor_StartMonitoring e MotionMonitor"
| "StartMonitoring e RepeatedMotionMonitor = MotionSensorMonitor_StartMonitoring e RepeatedMotionMonitor"

definition cm_StartEvalution :: "sm_env \<Rightarrow> ConstraintEvalParam \<Rightarrow> sm_state \<Rightarrow> err \<times> sm_state" where
  "cm_StartEvalution e params s =
     (if cm_isEvaluation s then (ERR_STANDBY_STATE_TIMING_SEQ_ERROR, s)
      else
        let s = s\<lparr>cm_isEvaluation := True\<rparr> in
        case map_of (cm_constraintMap s) (GetHashValue params) of
          None \<Rightarrow> (ERR_OK, snd (EndEvalCurrentState e True (s\<lparr>cm_curMonitor := None\<rparr>)))
        | Some m \<Rightarrow> (ERR_OK, StartMonitoring e m (s\<lparr>cm_curMonitor := Some m\<rparr>)))"

definition StartEvalCurrentState :: "sm_env \<Rightarrow> ConstraintEvalParam \<Rightarrow> sm_state \<Rightarrow> err \<times> sm_state" where
  "StartEvalCurrentState e params s =
     (ERR_OK, snd (cm_StartEvalution e params (s\<lparr>isEvalution := True\<rparr>)))"

definition EnterStandby :: "sm_env \<Rightarrow> StandbyState \<Rightarrow> sm_state \<Rightarrow> err \<times> sm_state" where
  "EnterStandby e next s =
     (if isBlocked s then (ERR_STANDBY_STATAE_BLOCKED, s)
      else (ERR_OK, snd (StartEvalCurrentState e
              (mk_param (state_code (curState s)) (GetCurInnerPhase s) (state_code next) 0) s)))"

definition TransitToState :: "sm_env \<Rightarrow> StandbyState \<Rightarrow> sm_state \<Rightarrow> err \<times> sm_state" where
  "TransitToState e = TransitToState_with (EnterStandby e) e"

lemma not_less_WORKING [simp]: "\<not> st < WORKING"
  by (simp add: less_StandbyState_def)

lemma TransitToState_WORKING: "TransitToState e WORKING = TransitToWorking e"
  by (rule ext) (simp add: TransitToState_def TransitToWorking_def TransitToState_with_def)

section \<open>The closures run by the event handler\<close>

definition TransitToPhase :: "sm_env \<Rightarrow> StandbyState \<Rightarrow> u32 \<Rightarrow> u32 \<Rightarrow> sm_state \<Rightarrow> sm_state" where
  "TransitToPhase e st phase nextPhase s =
     snd (StartEvalCurrentState e (mk_param (state_code st) phase (state_code st) nextPhase) s)"

definition checkScreenStatus :: "sm_env \<Rightarrow> sm_state \<Rightarrow> sm_state" where
  "checkScreenStatus e s = (if \<not> isScreenOn s then snd (TransitToState e DARK s) else s)"

definition TransitNextState_task :: "sm_env \<Rightarrow> StandbyState \<Rightarrow> sm_state \<Rightarrow> sm_state" where
  "TransitNextState_task e st s =
     (let s = AcquireStandbyRunningLock e s;
          s = (if isEvalution s then StopEvalution s else s);
          (ret, s) = TransitToState e (nextState (objs s st)) s
      in if ret \<noteq> ERR_OK then ReleaseStandbyRunningLock (BlockCurrentState e s) else s)"

definition RepeatedDetection_task :: "sm_env \<Rightarrow> sm_state \<Rightarrow> sm_state" where
  "RepeatedDetection_task e s =
     (let s = upd_obj SLEEP (\<lambda>b. b\<lparr>isRepeatedDetection := True\<rparr>) s; p = curPhase (objs s SLEEP)
      in snd (StartEvalCurrentState e
           ((mk_param (state_code SLEEP) p (state_code SLEEP) p)\<lparr>ev_isRepeatedDetection := True\<rparr>) s))"

definition StartPeriodlyMotionDetection :: "sm_state \<Rightarrow> sm_state" where
  "StartPeriodlyMotionDetection = PostTask REPEATED_MOTION_DETECTION_TASK T_RepeatedDetection 0"

definition TryToEnterNextPhase :: "sm_env \<Rightarrow> i32 \<Rightarrow> sm_state \<Rightarrow> sm_state" where
  "TryToEnterNextPhase e retryTimeOut s =
     (let p = curPhase (objs s SLEEP) in
      if isEvalution s
      then PostTask TRANSIT_NEXT_PHASE_INSTANT_TASK (T_RetryPhase retryTimeOut) (sint retryTimeOut) s
      else if p < PHASE_END then TransitToPhase e SLEEP p (p + 1) s else s)"

primrec run_task :: "sm_env \<Rightarrow> sm_task \<Rightarrow> sm_state \<Rightarrow> sm_state" where
  "run_task e T_CheckScreenStatus s = checkScreenStatus e s"
| "run_task e (T_TransitNextState st) s = TransitNextState_task e st s"
| "run_task e (T_FirstPhase st) s =
     (let s = AcquireStandbyRunningLock e s; p = curPhase (objs s st) in TransitToPhase e st p (p + 1) s)"
| "run_task e (T_NextPhase st) s = (let p = curPhase (objs s st) in TransitToPhase e st p (p + 1) s)"
| "run_task e T_RepeatedDetection s = RepeatedDetection_task e s"
| "run_task e (T_RetryPhase t) s = TryToEnterNextPhase e t s"
| "run_task e (T_EndEval evalResult) s = snd (EndEvalCurrentState e evalResult s)"
| "run_task e (T_StopMonitoringInner m) s = StopMonitoringInner m s"
| "run_task e (T_PeriodlyMotion m) s = PeriodlyStartMotionDetection e m s"

text \<open>A timer that fires runs its callback, which posts or runs a closure on the handler.\<close>

primrec timer_callback :: "timer_owner \<Rightarrow> sm_state \<Rightarrow> sm_state" where
  "timer_callback Half_Hour_Timer s = OnScreenOffHalfHour True False s"
| "timer_callback (Enter_Timer st) s = StartTransitNextState st s"
| "timer_callback Repeat_Timer s = StartPeriodlyMotionDetection s"

section \<open>Events\<close>

definition HandleScrOffHalfHour :: "sm_env \<Rightarrow> event_action \<Rightarrow> sm_state \<Rightarrow> sm_state" where
  "HandleScrOffHalfHour e act s =
     (if scrOffHalfHourTimerId s = 0 then s
      else if act = COMMON_EVENT_SCREEN_OFF then
        emit (E_StartTimer (scrOffHalfHourTimerId s) (GetWallTimeMs e + HALF_HOUR))
          (s\<lparr>isScreenOn := False, screenOffTimeStamp := GetWallTimeMs e\<rparr>)
      else if act = COMMON_EVENT_SCREEN_ON then
        emit (E_StopTimer (scrOffHalfHourTimerId s)) (s\<lparr>isScreenOn := True\<rparr>)
      else s)"

definition HandleOpenCloseLid :: "sm_env \<Rightarrow> event_action \<Rightarrow> sm_state \<Rightarrow> sm_state" where
  "HandleOpenCloseLid e act s = (if act = LID_OPEN then snd (TransitToState e WORKING s) else s)"

definition HandleScreenStatus :: "event_action \<Rightarrow> sm_state \<Rightarrow> sm_state" where
  "HandleScreenStatus act s =
     (if act = COMMON_EVENT_SCREEN_ON then s\<lparr>isScreenOn := True\<rparr>
      else if act = COMMON_EVENT_SCREEN_OFF then s\<lparr>isScreenOn := False\<rparr> else s)"

definition TransitHoldSleepState :: "sm_env \<Rightarrow> sm_state \<Rightarrow> sm_state" where
  "TransitHoldSleepState e s =
     (let s = (if curState s \<noteq> SLEEP then snd (TransitToStateInner e SLEEP (UnblockCurrentState s)) else s);
          s = snd (StopTimedTask (curState s) TRANSIT_NEXT_STATE_TIMED_TASK s)
      in snd (StopTimedTask (curState s) REPEATED_MOTION_DETECTION_TASK s))"

definition HandleUserSleepState :: "sm_env \<Rightarrow> StandbyMessage \<Rightarrow> sm_state \<Rightarrow> sm_state" where
  "HandleUserSleepState e msg s =
     (if isScreenOn s then s
      else case msg_want msg of
        None \<Rightarrow> s
      | Some w \<Rightarrow>
          let s = s\<lparr>isSleepState := GetBoolParam w ''isSleep'' False\<rparr> in
          if isSleepState s then TransitHoldSleepState e s
          else if curState s = SLEEP then snd (BeginState e (curState s) s) else s)"

definition CheckEnterDarkState :: "event_action \<Rightarrow> sm_state \<Rightarrow> bool" where
  "CheckEnterDarkState act s \<longleftrightarrow>
     (if isScreenOn s then False
      else if act = COMMON_EVENT_SCREEN_OFF \<or> act = COMMON_EVENT_DISCHARGING \<or>
              act = COMMON_EVENT_USB_DEVICE_DETACHED then True
      else True)"

definition HandleCommonEvent :: "sm_env \<Rightarrow> StandbyMessage \<Rightarrow> sm_state \<Rightarrow> sm_state" where
  "HandleCommonEvent e msg s =
     (let act = action msg;
          s = HandleScrOffHalfHour e act s;
          s = HandleOpenCloseLid e act s;
          s = HandleScreenStatus act s;
          s = (if act = COMMON_EVENT_SCREEN_ON \<or> act = COMMON_EVENT_SCREEN_UNLOCKED \<or>
                  act = COMMON_EVENT_CHARGING \<or> act = COMMON_EVENT_USB_DEVICE_ATTACHED
               then snd (TransitToState e WORKING s) else s);
          s = (if act = COMMON_EVENT_USER_SLEEP_STATE_CHANGED then HandleUserSleepState e msg s else s);
          s = (if act = COMMON_EVENT_ENTER_FORCE_SLEEP then TransitHoldSleepState e s else s)
      in if curState s \<noteq> WORKING then s
         else if CheckEnterDarkState act s then snd (TransitToState e DARK s) else s)"

definition HandleEvent :: "sm_env \<Rightarrow> StandbyMessage \<Rightarrow> sm_state \<Rightarrow> sm_state" where
  "HandleEvent e msg s =
     (if eventId msg = COMMON_EVENT then HandleCommonEvent e msg s
      else if eventId msg = RES_CTRL_CONDITION_CHANGED then SendNotification (curState s) False s
      else s)"

end
