(* ===== verification/State_Lifecycle.thy ===== *)
theory State_Lifecycle
  imports State_Machine
begin

text \<open>
  Start and stop of the state manager and of the constraint manager with its monitors, and the
  dump commands of the state manager. A dump command reads its arguments by index without
  checking their number; the result is \<open>None\<close> where the code reads past the end of the vector.
\<close>

section \<open>State objects\<close>

definition base_obj :: "StandbyState \<Rightarrow> state_obj" where
  "base_obj next = \<lparr> curPhase = 0, nextState = next, enterStandbyTimerId = 0, timedTaskMap = [],
     darkTimeOut = 0, maintIntervalIndex = 0, maintInterval = [], isRepeatedDetection = False,
     repeatedDetectionTimerId = 0 \<rparr>"

definition DarkState :: "config_state \<Rightarrow> state_obj" where
  "DarkState c = (base_obj (if GetStandbySwitch c NAP_SWITCH then NAP
       else if GetStandbySwitch c SLEEP_SWITCH then SLEEP else DARK))
     \<lparr>darkTimeOut := narrow32 (MSEC_PER_SEC * sint (GetStandbyParam c DARK_TIMEOUT))\<rparr>"

definition NapState :: "config_state \<Rightarrow> state_obj" where
  "NapState c = (base_obj NAP)\<lparr>maintInterval := GetStandbyDurationList c NAP_MAINT_DURATION\<rparr>"

definition SleepState :: "config_state \<Rightarrow> state_obj" where
  "SleepState c = (base_obj MAINTENANCE)\<lparr>maintInterval := GetStandbyDurationList c SLEEP_MAINT_DURATOIN\<rparr>"

primrec new_obj :: "config_state \<Rightarrow> StandbyState \<Rightarrow> state_obj" where
  "new_obj c WORKING = base_obj WORKING"
| "new_obj c DARK = DarkState c"
| "new_obj c NAP = NapState c"
| "new_obj c MAINTENANCE = base_obj WORKING"
| "new_obj c SLEEP = SleepState c"

definition BaseState_Init :: "sm_env \<Rightarrow> StandbyState \<Rightarrow> sm_state \<Rightarrow> err \<times> sm_state" where
  "BaseState_Init e st s =
     (let timerId = createTimer e (Enter_Timer st);
          s = upd_obj st (\<lambda>b. b\<lparr>enterStandbyTimerId := timerId\<rparr>) s
      in (if timerId = 0 then ERR_STANDBY_STATE_INIT_FAILED else ERR_OK, s))"

definition SleepState_Init :: "sm_env \<Rightarrow> sm_state \<Rightarrow> err \<times> sm_state" where
  "SleepState_Init e s =
     (let (ret, s) = BaseState_Init e SLEEP s in
      if ret \<noteq> ERR_OK then (ret, s)
      else if \<not> GetStandbySwitch (cfg e) DETECT_MOTION_CONFIG then (ERR_OK, s)
      else
        let timerId = createTimer e Repeat_Timer;
            s = upd_obj SLEEP (\<lambda>b. b\<lparr>repeatedDetectionTimerId := timerId\<rparr>) s
        in if timerId = 0 then (ERR_STANDBY_STATE_INIT_FAILED, s)
           else (ERR_OK, SetTimedTask SLEEP REPEATED_MOTION_DETECTION_TASK timerId s))"

primrec State_Init :: "sm_env \<Rightarrow> StandbyState \<Rightarrow> sm_state \<Rightarrow> err \<times> sm_state" where
  "State_Init e WORKING = (\<lambda>s. (ERR_OK, s))"
| "State_Init e DARK = BaseState_Init e DARK"
| "State_Init e NAP = BaseState_Init e NAP"
| "State_Init e MAINTENANCE = BaseState_Init e MAINTENANCE"
| "State_Init e SLEEP = SleepState_Init e"

definition BaseState_UnInit :: "StandbyState \<Rightarrow> sm_state \<Rightarrow> sm_state" where
  "BaseState_UnInit st s = upd_obj st (\<lambda>b. b\<lparr>enterStandbyTimerId := 0\<rparr>) (DestroyAllTimedTask st s)"

primrec State_UnInit :: "StandbyState \<Rightarrow> sm_state \<Rightarrow> sm_state" where
  "State_UnInit WORKING s = s"
| "State_UnInit DARK s = BaseState_UnInit DARK s"
| "State_UnInit NAP s = BaseState_UnInit NAP s"
| "State_UnInit MAINTENANCE s = BaseState_UnInit MAINTENANCE s"
| "State_UnInit SLEEP s =
     upd_obj SLEEP (\<lambda>b. b\<lparr>isRepeatedDetection := False, repeatedDetectionTimerId := 0\<rparr>)
       (BaseState_UnInit SLEEP s)"

section \<open>State manager\<close>

definition indexToState :: "StandbyState list" where
  "indexToState = [WORKING, DARK, NAP, MAINTENANCE, SLEEP]"

fun Init_states :: "sm_env \<Rightarrow> StandbyState list \<Rightarrow> sm_state \<Rightarrow> bool \<times> sm_state" where
  "Init_states e [] s = (True, s)"
| "Init_states e (st # rest) s =
     (let (ret, s) = State_Init e st s in if ret \<noteq> ERR_OK then (False, s) else Init_states e rest s)"

definition StateManager_Init :: "sm_env \<Rightarrow> sm_state \<Rightarrow> bool \<times> sm_state" where
  "StateManager_Init e s =
     (let s = InitRunningLock e s;
          s = s\<lparr>objs := new_obj (cfg e), scrOffHalfHourTimerId := createTimer e Half_Hour_Timer\<rparr>;
          (ok, s) = Init_states e indexToState s
      in if \<not> ok then (False, s)
         else
           let s = s\<lparr>curState := WORKING, preState := WORKING, inited := True, isScreenOn := powerScreenOn e\<rparr>;
               (ret, s) = BeginState e WORKING s
           in if ret \<noteq> ERR_OK then (False, s) else (True, SendNotification (preState s) True s))"

definition StateManager_UnInit :: "sm_env \<Rightarrow> sm_state \<Rightarrow> bool \<times> sm_state" where
  "StateManager_UnInit e s =
     (let s = snd (TransitToState e WORKING s);
          s = snd (EndState (curState s) s);
          s = fold State_UnInit indexToState s;
          s = (if scrOffHalfHourTimerId s > 0
               then emit (E_DestroyTimer (scrOffHalfHourTimerId s)) (emit (E_StopTimer (scrOffHalfHourTimerId s)) s)
               else s)
      in (True, ReleaseStandbyRunningLock s))"

section \<open>Constraint manager\<close>

definition RegisterConstraintCallback :: "ConstraintEvalParam \<Rightarrow> monitor \<Rightarrow> sm_state \<Rightarrow> sm_state" where
  "RegisterConstraintCallback params m s =
     s\<lparr>cm_constraintMap := emplace (GetHashValue params) m (cm_constraintMap s)\<rparr>"

definition ChargeStateMonitor_Init :: "sm_state \<Rightarrow> bool \<times> sm_state" where
  "ChargeStateMonitor_Init s =
     (True, RegisterConstraintCallback (mk_param (state_code WORKING) 0 (state_code DARK) 0) ChargeMonitor s)"

definition CheckSersorUsable :: "sensor_type list option \<Rightarrow> int \<Rightarrow> sensor_type \<Rightarrow> bool" where
  "CheckSersorUsable sensorInfo count sensorTypeId =
     (case sensorInfo of
        None \<Rightarrow> False
      | Some infos \<Rightarrow>
          if \<not> (count > 0 \<and> count < 200) then False
          else sensorTypeId \<in> set (take (nat count) infos))"

definition InitSensorUserMap :: "monitor \<Rightarrow> sensor_type list option \<Rightarrow> int \<Rightarrow> sm_state \<Rightarrow> bool \<times> sm_state" where
  "InitSensorUserMap m sensorInfo count s =
     (if sensorInfo = None then (False, s)
      else
        let s = upd_mon m (\<lambda>b. b\<lparr>sensorUserMap :=
                  fold (\<lambda>sensorType um. if CheckSersorUsable sensorInfo count sensorType
                                        then emplace sensorType No_Callback um else um)
                    [ACCELEROMETER, SIGNIFICANT_MOTION] (sensorUserMap b)\<rparr>) s
        in (sensorUserMap (mons s m) \<noteq> [], s))"

definition AssignAcclerometerSensorCallBack :: "monitor \<Rightarrow> sm_state \<Rightarrow> sm_state" where
  "AssignAcclerometerSensorCallBack m s =
     (if map_of (sensorUserMap (mons s m)) ACCELEROMETER = None then s
      else upd_mon m (\<lambda>b. b\<lparr>sensorUserMap := AList.update ACCELEROMETER
             (if ev_isRepeatedDetection (mon_params b) then RepeatAcceleromterCallback else AcceleromterCallback)
             (sensorUserMap b)\<rparr>) s)"

definition AssignMotionSensorCallBack :: "monitor \<Rightarrow> sm_state \<Rightarrow> sm_state" where
  "AssignMotionSensorCallBack m s =
     (if map_of (sensorUserMap (mons s m)) SIGNIFICANT_MOTION = None then s
      else upd_mon m (\<lambda>b. b\<lparr>sensorUserMap :=
             AList.update SIGNIFICANT_MOTION MotionSensorCallback (sensorUserMap b)\<rparr>) s)"

definition MotionSensorMonitor_Init :: "sm_env \<Rightarrow> monitor \<Rightarrow> sm_state \<Rightarrow> bool \<times> sm_state" where
  "MotionSensorMonitor_Init e m s =
     (if allSensors_ret e \<noteq> 0 then (False, s)
      else
        let (ok, s) = InitSensorUserMap m (allSensors_info e) (allSensors_count e) s in
        if \<not> ok then (False, s)
        else
          let s = AssignAcclerometerSensorCallBack m s;
              s = AssignMotionSensorCallBack m s
          in (True, RegisterConstraintCallback (mon_params (mons s m)) m s))"

primrec Monitor_Init :: "sm_env \<Rightarrow> monitor \<Rightarrow> sm_state \<Rightarrow> bool \<times> sm_state" where
  "Monitor_Init e ChargeMonitor = ChargeStateMonitor_Init"
| "Monitor_Init e MotionMonitor = MotionSensorMonitor_Init e MotionMonitor"
| "Monitor_Init e RepeatedMotionMonitor = MotionSensorMonitor_Init e RepeatedMotionMonitor"

definition mk_monitor :: "i32 \<Rightarrow> i32 \<Rightarrow> i32 \<Rightarrow> ConstraintEvalParam \<Rightarrow> motion_mon" where
  "mk_monitor detection rest totalT params = \<lparr> detectionTimeOut = detection, restTimeOut = rest,
     totalTimeOut = totalT, mon_params = params, isMonitoring = False, sensorUserMap = [] \<rparr>"

definition ConstraintManager_Init :: "sm_env \<Rightarrow> sm_state \<Rightarrow> bool \<times> sm_state" where
  "ConstraintManager_Init e s =
     (let s = s\<lparr>cm_monitorList := cm_monitorList s @ [ChargeMonitor]\<rparr>;
          s = (if GetStandbySwitch (cfg e) DETECT_MOTION_CONFIG then
                 let motionDetectParams = mk_param (state_code NAP) PHASE_END (state_code SLEEP) PHASE_BEGIN;
                     s = upd_mon MotionMonitor (\<lambda>_. mk_monitor MOTION_DETECTION_TIMEOUT REST_TIMEOUT
                           TOTAL_TIMEOUT motionDetectParams) s;
                     repeatedMotionParams = (mk_param (state_code SLEEP) PHASE_END (state_code SLEEP) PHASE_END)
                           \<lparr>ev_isRepeatedDetection := True\<rparr>;
                     s = upd_mon RepeatedMotionMonitor (\<lambda>_. mk_monitor PERIODLY_TASK_DECTION_TIMEOUT
                           PERIODLY_TASK_REST_TIMEOUT PERIODLY_TASK_TOTAL_TIMEOUT repeatedMotionParams) s
                 in s\<lparr>cm_monitorList := cm_monitorList s @ [MotionMonitor, RepeatedMotionMonitor]\<rparr>
               else s)
      in (True, fold (\<lambda>m s. snd (Monitor_Init e m s)) (cm_monitorList s) s))"

definition ConstraintManager_UnInit :: "sm_state \<Rightarrow> bool \<times> sm_state" where
  "ConstraintManager_UnInit s =
     (True, s\<lparr>cm_monitorList := [], cm_constraintMap := [], cm_curMonitor := None, cm_isEvaluation := False\<rparr>)"

section \<open>Dump commands\<close>

definition arg_at :: "string list \<Rightarrow> nat \<Rightarrow> string option" where
  "arg_at args i = (if i < length args then Some (args ! i) else None)"

definition newline :: string where "newline = [char_of (10 :: nat)]"

definition DumpShowDetailInfo :: "sm_state \<Rightarrow> string \<Rightarrow> string" where
  "DumpShowDetailInfo s result =
     result @ ''isEvalution: '' @ to_string_bool (isEvalution s) @ '', isBlocking: '' @
       to_string_bool (isBlocked s) @ '', current state: '' @ state_name (curState s) @
       '', current phase: '' @ to_string_u32 (GetCurInnerPhase s) @ '', previous state: '' @
       state_name (preState s) @ '', scrOffHalfHourCtrl: '' @ to_string_bool (scrOffHalfHourCtrl s) @
       '', isScreenOn: '' @ to_string_bool (isScreenOn s) @ newline @
     (if stateRecordList s = [] then newline @ ''state record is empty'' @ newline
      else newline @ ''state transition record:'' @ newline) @
     concat (map (\<lambda>(stateIndex, timeStamp).
         state_name stateIndex @ [char_of (9 :: nat)] @ to_string_int timeStamp @ newline) (stateRecordList s))"

definition DumpResetState :: "sm_env \<Rightarrow> sm_state \<Rightarrow> string \<Rightarrow> sm_state \<times> string" where
  "DumpResetState e s result =
     (snd (StateManager_Init e (snd (StateManager_UnInit e s))),
      result @ newline @ ''reset state and validate debug parameter'' @ newline)"

definition state_of_name :: "string \<Rightarrow> StandbyState option" where
  "state_of_name n = List.find (\<lambda>st. state_name st = n) indexToState"

definition DumpEnterSpecifiedState ::
  "sm_env \<Rightarrow> string list \<Rightarrow> sm_state \<Rightarrow> string \<Rightarrow> (sm_state \<times> string) option" where
  "DumpEnterSpecifiedState e args s result =
     (let s = s\<lparr>isBlocked := False\<rparr> in
      case arg_at args 2 of
        None \<Rightarrow> None
      | Some third \<Rightarrow>
          if third = ''false'' then Some (StartTransitNextState (curState s) s, result)
          else case state_of_name (args ! 1) of
                 None \<Rightarrow> Some (s, result @ ''state name is not correct'')
               | Some st \<Rightarrow> Some (snd (TransitToStateInner e st s), result))"

definition DumpActivateMotion ::
  "sm_env \<Rightarrow> string list \<Rightarrow> sm_state \<Rightarrow> string \<Rightarrow> (sm_state \<times> string) option" where
  "DumpActivateMotion e args s result =
     (case arg_at args 1 of
        None \<Rightarrow> None
      | Some second \<Rightarrow>
          if second = ''--motion'' then
            Some (PostTask '''' (T_EndEval False) (sint MOTION_DETECTION_TIMEOUT)
                    (StartTransitNextState (curState s) s),
                  result @ ''finished start periodly sensor'' @ newline)
          else if second = ''--blocked'' then Some (BlockCurrentState e s, result)
          else if second = ''--halfhour'' then Some (OnScreenOffHalfHourInner True True s, result)
          else Some (s, result))"

definition SleepState_ShellDump :: "string list \<Rightarrow> sm_state \<Rightarrow> string \<Rightarrow> (sm_state \<times> string) option" where
  "SleepState_ShellDump args s result =
     (case arg_at args 0 of
        None \<Rightarrow> None
      | Some first \<Rightarrow>
          if first \<noteq> ''-S'' then Some (s, result)
          else case arg_at args 1 of
            None \<Rightarrow> None
          | Some second \<Rightarrow>
              if second = ''--repeat'' then
                Some (PostTask '''' (T_EndEval False) 100 (StartPeriodlyMotionDetection s),
                      result @ ''finished start repeated sensor'' @ newline)
              else Some (s, result))"

definition State_ShellDump :: "string list \<Rightarrow> sm_state \<Rightarrow> string \<Rightarrow> (sm_state \<times> string) option" where
  "State_ShellDump args s result =
     (if curState s = SLEEP then SleepState_ShellDump args s result else Some (s, result))"

definition StateManager_ShellDump ::
  "sm_env \<Rightarrow> string list \<Rightarrow> sm_state \<Rightarrow> string \<Rightarrow> (sm_state \<times> string) option" where
  "StateManager_ShellDump e args s result =
     (case arg_at args 0 of
        None \<Rightarrow> None
      | Some first \<Rightarrow>
          (case (if first = ''-D'' then
                   (let result = DumpShowDetailInfo s result in
                    case arg_at args 1 of
                      None \<Rightarrow> None
                    | Some second \<Rightarrow>
                        if second = ''--reset_state'' then Some (DumpResetState e s result)
                        else Some (s, result))
                 else if first = ''-E'' then DumpEnterSpecifiedState e args s result
                 else if first = ''-S'' then DumpActivateMotion e args s result
                 else Some (s, result)) of
             None \<Rightarrow> None
           | Some (s, result) \<Rightarrow> State_ShellDump args s result))"

end
