(* ===== verification/State_Invariants.thy ===== *)
theory State_Invariants
  imports State_Lifecycle
begin

text \<open>
  What the operations of the state machine preserve. \<open>ctl\<close> collects the fields the manager
  controls; entering or leaving a state, timers, tasks and reports leave them alone. The rest
  of the theory proves, operation by operation, the invariant \<open>sm_inv\<close> of the machine.
\<close>

section \<open>What the shared operations leave unchanged\<close>

definition ctl where
  "ctl s = (inited s, curState s, preState s, isEvalution s, isBlocked s, isScreenOn s,
     stateRecordList s, cm_isEvaluation s, cm_curMonitor s, cm_constraintMap s)"

lemma ctl_D:
  "ctl s = ctl t \<Longrightarrow>
     inited s = inited t \<and> curState s = curState t \<and> preState s = preState t \<and>
     isEvalution s = isEvalution t \<and> isBlocked s = isBlocked t \<and> isScreenOn s = isScreenOn t \<and>
     stateRecordList s = stateRecordList t \<and> cm_isEvaluation s = cm_isEvaluation t \<and>
     cm_curMonitor s = cm_curMonitor t \<and> cm_constraintMap s = cm_constraintMap t"
  by (simp add: ctl_def)

lemma shared_ctl [frame_simps]:
  "ctl (emit ef s) = ctl s"
  "ctl (PostTask n t d s) = ctl s"
  "ctl (RemoveTask n s) = ctl s"
  "ctl (upd_obj st f s) = ctl s"
  "ctl (upd_mon m g s) = ctl s"
  "ctl (SetTimedTask st n i s) = ctl s"
  "ctl (AcquireStandbyRunningLock e s) = ctl s"
  "ctl (ReleaseStandbyRunningLock s) = ctl s"
  "ctl (OnScreenOffHalfHour c r s) = ctl s"
  "ctl (SendNotification pre b s) = ctl s"
  "ctl (TransitToPhaseInner st p q s) = ctl s"
  "ctl (s\<lparr>runningLockStatus := l\<rparr>) = ctl s"
  "ctl (s\<lparr>standbyRunningLock := l\<rparr>) = ctl s"
  by (simp_all add: ctl_def emit_def PostTask_def RemoveTask_def upd_obj_def upd_mon_def SetTimedTask_def
      AcquireStandbyRunningLock_def ReleaseStandbyRunningLock_def OnScreenOffHalfHour_def
      OnScreenOffHalfHourInner_def SendNotification_def TransitToPhaseInner_def Let_def)

lemma timer_ctl [frame_simps]:
  "ctl (snd (StartStateTransitionTimer e st t s)) = ctl s"
  "ctl (snd (StopTimedTask st n s)) = ctl s"
  "ctl (snd (CalculateMaintTimeOut e st b s)) = ctl s"
  "ctl (CheckScrenOffHalfHour e s) = ctl s"
  by (simp_all add: StartStateTransitionTimer_def StopTimedTask_def CalculateMaintTimeOut_def
      CheckScrenOffHalfHour_def frame_simps Let_def split: option.split prod.split)

lemmas shared_fields [simp] = shared_ctl [THEN ctl_D] timer_ctl [THEN ctl_D]

lemma CalculateMaintTimeOut_ctl: "CalculateMaintTimeOut e st b s = (t, s') \<Longrightarrow> ctl s' = ctl s"
  using timer_ctl(3) [of e st b s] by simp

lemma BeginState_ctl [frame_simps]: "ctl (snd (BeginState e st s)) = ctl s"
  by (cases st)
    (auto simp: WorkingState_BeginState_def DarkState_BeginState_def NapState_BeginState_def
      MaintenanceState_BeginState_def SleepState_BeginState_def frame_simps Let_def
      dest: CalculateMaintTimeOut_ctl split: prod.split)

lemma EndState_ctl [frame_simps]: "ctl (snd (EndState st s)) = ctl s"
  by (cases st)
    (simp_all add: WorkingState_EndState_def DarkState_EndState_def NapState_EndState_def
      MaintenanceState_EndState_def SleepState_EndState_def frame_simps Let_def)

lemmas state_fields [simp] = BeginState_ctl [THEN ctl_D] EndState_ctl [THEN ctl_D]

lemma record_fields [simp]:
  "inited (RecordStateTransition e s) = inited s"
  "curState (RecordStateTransition e s) = curState s"
  "preState (RecordStateTransition e s) = preState s"
  "isEvalution (RecordStateTransition e s) = isEvalution s"
  "isBlocked (RecordStateTransition e s) = isBlocked s"
  "isScreenOn (RecordStateTransition e s) = isScreenOn s"
  "cm_isEvaluation (RecordStateTransition e s) = cm_isEvaluation s"
  "cm_curMonitor (RecordStateTransition e s) = cm_curMonitor s"
  "cm_constraintMap (RecordStateTransition e s) = cm_constraintMap s"
  "objs (RecordStateTransition e s) = objs s"
  "tasks (RecordStateTransition e s) = tasks s"
  by (simp_all add: RecordStateTransition_def Let_def)

lemma record_length:
  "length (stateRecordList s) \<le> MAX_RECORD_SIZE \<Longrightarrow>
     length (stateRecordList (RecordStateTransition e s)) \<le> MAX_RECORD_SIZE"
  by (simp add: RecordStateTransition_def Let_def MAX_RECORD_SIZE_def)

lemma Release_lock [simp]: "\<not> runningLockStatus (ReleaseStandbyRunningLock s)"
  by (simp add: ReleaseStandbyRunningLock_def)

text \<open>The control fields after a transition.\<close>

lemma TransitToStateInner_fields [simp]:
  "inited (snd (TransitToStateInner e next s)) = inited s"
  "curState (snd (TransitToStateInner e next s)) = next"
  "preState (snd (TransitToStateInner e next s)) = curState s"
  "isEvalution (snd (TransitToStateInner e next s)) = isEvalution s"
  "isBlocked (snd (TransitToStateInner e next s)) = isBlocked s"
  "isScreenOn (snd (TransitToStateInner e next s)) = isScreenOn s"
  "cm_isEvaluation (snd (TransitToStateInner e next s)) = cm_isEvaluation s"
  "cm_curMonitor (snd (TransitToStateInner e next s)) = cm_curMonitor s"
  "cm_constraintMap (snd (TransitToStateInner e next s)) = cm_constraintMap s"
  "fst (TransitToStateInner e next s) = ERR_OK"
  "\<not> runningLockStatus (snd (TransitToStateInner e next s))"
  by (simp_all add: TransitToStateInner_def Let_def)

lemma TransitToStateInner_records:
  "length (stateRecordList s) \<le> MAX_RECORD_SIZE \<Longrightarrow>
     length (stateRecordList (snd (TransitToStateInner e next s))) \<le> MAX_RECORD_SIZE"
  unfolding TransitToStateInner_def Let_def by (simp add: record_length)

section \<open>The state objects\<close>

definition obj_inv :: "StandbyState \<Rightarrow> state_obj \<Rightarrow> bool" where
  "obj_inv st b \<longleftrightarrow>
     curPhase b \<le> PHASE_END \<and>
     0 \<le> maintIntervalIndex b \<and>
     (maintInterval b \<noteq> [] \<longrightarrow> maintIntervalIndex b < int (length (maintInterval b))) \<and>
     (st = DARK \<longrightarrow> nextState b \<in> {DARK, NAP, SLEEP})"

definition objs_inv :: "sm_state \<Rightarrow> bool" where
  "objs_inv s \<longleftrightarrow> (\<forall>st. obj_inv st (objs s st))"

lemma objs_inv_cong: "objs s' = objs s \<Longrightarrow> objs_inv s' = objs_inv s"
  by (simp add: objs_inv_def)

lemma objs_frame [simp]:
  "objs (emit ef s) = objs s"
  "objs (PostTask n t d s) = objs s"
  "objs (RemoveTask n s) = objs s"
  "objs (upd_mon m g s) = objs s"
  "objs (AcquireStandbyRunningLock e s) = objs s"
  "objs (ReleaseStandbyRunningLock s) = objs s"
  "objs (OnScreenOffHalfHour c r s) = objs s"
  "objs (SendNotification pre b s) = objs s"
  "objs (TransitToPhaseInner st p q s) = objs s"
  "objs (snd (StopTimedTask st n s)) = objs s"
  "objs (CheckScrenOffHalfHour e s) = objs s"
  "objs (UnblockCurrentState s) = objs s"
  by (simp_all add: emit_def PostTask_def RemoveTask_def upd_mon_def AcquireStandbyRunningLock_def
      ReleaseStandbyRunningLock_def OnScreenOffHalfHour_def OnScreenOffHalfHourInner_def
      SendNotification_def TransitToPhaseInner_def StopTimedTask_def CheckScrenOffHalfHour_def
      UnblockCurrentState_def Let_def split: option.split)

lemma objs_upd_obj [simp]: "objs (upd_obj st f s) = (objs s)(st := f (objs s st))"
  by (simp add: upd_obj_def)

lemma objs_inv_upd:
  "objs_inv s \<Longrightarrow> (\<And>b. obj_inv st b \<Longrightarrow> obj_inv st (f b)) \<Longrightarrow> objs_inv (upd_obj st f s)"
  by (simp add: objs_inv_def)

lemma objs_inv_StartTimer [intro]:
  "objs_inv s \<Longrightarrow> objs_inv (snd (StartStateTransitionTimer e st t s))"
  by (auto simp: StartStateTransitionTimer_def SetTimedTask_def Let_def objs_inv_def obj_inv_def)

lemma objs_inv_CalculateMaintTimeOut [intro]:
  "objs_inv s \<Longrightarrow> objs_inv (snd (CalculateMaintTimeOut e st b s))"
  by (fastforce simp: CalculateMaintTimeOut_def Let_def objs_inv_def obj_inv_def split: prod.split)

lemma objs_inv_CalculateMaintTimeOut':
  "CalculateMaintTimeOut e st b s = (t, s') \<Longrightarrow> objs_inv s \<Longrightarrow> objs_inv s'"
  using objs_inv_CalculateMaintTimeOut [of s e st b] by simp

lemma phase_zero [simp]: "(0 :: u32) \<le> PHASE_END" "PHASE_BEGIN \<le> PHASE_END"
  by (simp_all add: PHASE_END_def PHASE_BEGIN_def)

lemma objs_inv_BeginState [intro]: "objs_inv s \<Longrightarrow> objs_inv (snd (BeginState e st s))"
proof (cases st)
  case WORKING
  then show "objs_inv s \<Longrightarrow> ?thesis"
    by (auto simp: WorkingState_BeginState_def objs_inv_def obj_inv_def)
next
  case DARK
  then show "objs_inv s \<Longrightarrow> ?thesis"
    by (auto simp: DarkState_BeginState_def Let_def obj_inv_def
        intro!: objs_inv_StartTimer objs_inv_upd)
next
  case NAP
  then show "objs_inv s \<Longrightarrow> ?thesis"
    by (auto simp: NapState_BeginState_def Let_def obj_inv_def objs_inv_cong [OF objs_frame(2)]
        intro!: objs_inv_StartTimer objs_inv_upd elim!: objs_inv_CalculateMaintTimeOut'
        split: prod.split)
next
  case MAINTENANCE
  then show "objs_inv s \<Longrightarrow> ?thesis"
    by (auto simp: MaintenanceState_BeginState_def Let_def obj_inv_def
        intro!: objs_inv_StartTimer objs_inv_upd)
next
  case SLEEP
  then show "objs_inv s \<Longrightarrow> ?thesis"
    by (auto simp: SleepState_BeginState_def Let_def obj_inv_def objs_inv_cong [OF objs_frame(2)]
        objs_inv_cong [OF objs_frame(11)]
        intro!: objs_inv_StartTimer objs_inv_upd elim!: objs_inv_CalculateMaintTimeOut'
        split: prod.split)
qed

lemma objs_EndState [simp]: "objs (snd (EndState st s)) = objs s"
  by (cases st)
    (simp_all add: WorkingState_EndState_def DarkState_EndState_def NapState_EndState_def
      MaintenanceState_EndState_def SleepState_EndState_def Let_def)

lemma objs_inv_fields [simp]:
  "objs_inv (s\<lparr>preState := p, curState := c\<rparr>) = objs_inv s"
  "objs_inv (s\<lparr>isBlocked := b\<rparr>) = objs_inv s"
  "objs_inv (s\<lparr>isEvalution := b\<rparr>) = objs_inv s"
  "objs_inv (s\<lparr>cm_isEvaluation := b\<rparr>) = objs_inv s"
  "objs_inv (s\<lparr>cm_curMonitor := m\<rparr>) = objs_inv s"
  "objs_inv (s\<lparr>isScreenOn := b\<rparr>) = objs_inv s"
  "objs_inv (s\<lparr>isSleepState := b\<rparr>) = objs_inv s"
  by (simp_all add: objs_inv_def)

lemma objs_inv_TransitToStateInner [intro]:
  "objs_inv s \<Longrightarrow> objs_inv (snd (TransitToStateInner e next s))"
  by (auto simp: TransitToStateInner_def Let_def objs_inv_cong [OF objs_frame(6)]
      objs_inv_cong [OF objs_frame(8)] objs_inv_cong [OF record_fields(10)]
      objs_inv_cong [OF objs_EndState] intro!: objs_inv_BeginState)

section \<open>The invariant of the machine\<close>

text \<open>
  The transitions that have a constraint: the charge monitor guards WORKING to DARK, the motion
  monitors guard the last phase of NAP and the repeated detection in the last phase of SLEEP.
\<close>

definition charge_param :: ConstraintEvalParam where
  "charge_param = mk_param (state_code WORKING) 0 (state_code DARK) 0"
definition motion_param :: ConstraintEvalParam where
  "motion_param = mk_param (state_code NAP) PHASE_END (state_code SLEEP) PHASE_BEGIN"
definition repeated_param :: ConstraintEvalParam where
  "repeated_param =
     (mk_param (state_code SLEEP) PHASE_END (state_code SLEEP) PHASE_END)\<lparr>ev_isRepeatedDetection := True\<rparr>"

definition constraints_inv :: "(u32 \<times> monitor) list \<Rightarrow> bool" where
  "constraints_inv m \<longleftrightarrow>
     (\<forall>h mon. map_of m h = Some mon \<longrightarrow>
        (h, mon) \<in> {(GetHashValue charge_param, ChargeMonitor), (GetHashValue motion_param, MotionMonitor),
                    (GetHashValue repeated_param, RepeatedMotionMonitor)})"

text \<open>
  The manager is initialised; it and the constraint manager agree on whether an evaluation is
  running, and a monitor is set only during one; the record of transitions is bounded; the
  state objects are in range; only the constraints above exist; and the maintenance state is only ever entered from, and will
  return to, NAP or SLEEP.
\<close>

definition maint_inv :: "sm_state \<Rightarrow> bool" where
  "maint_inv s \<longleftrightarrow>
     (curState s = MAINTENANCE \<longrightarrow>
        preState s \<in> {NAP, SLEEP} \<and> nextState (objs s MAINTENANCE) = preState s)"

definition sm_inv :: "sm_state \<Rightarrow> bool" where
  "sm_inv s \<longleftrightarrow>
     inited s \<and> isEvalution s = cm_isEvaluation s \<and>
     (\<not> cm_isEvaluation s \<longrightarrow> cm_curMonitor s = None) \<and>
     length (stateRecordList s) \<le> MAX_RECORD_SIZE \<and> objs_inv s \<and> maint_inv s \<and>
     constraints_inv (cm_constraintMap s)"

named_theorems inv_intros \<open>operations that preserve the invariant of the state machine\<close>

lemma sm_inv_cong: "ctl s' = ctl s \<Longrightarrow> objs s' = objs s \<Longrightarrow> sm_inv s' = sm_inv s"
  using ctl_D [of s' s] by (simp add: sm_inv_def maint_inv_def objs_inv_def)

lemma sm_inv_shared [simp]:
  "sm_inv (emit ef s) = sm_inv s"
  "sm_inv (PostTask n t d s) = sm_inv s"
  "sm_inv (RemoveTask n s) = sm_inv s"
  "sm_inv (upd_mon m g s) = sm_inv s"
  "sm_inv (AcquireStandbyRunningLock e s) = sm_inv s"
  "sm_inv (ReleaseStandbyRunningLock s) = sm_inv s"
  "sm_inv (OnScreenOffHalfHour c r s) = sm_inv s"
  "sm_inv (SendNotification pre b s) = sm_inv s"
  "sm_inv (TransitToPhaseInner st p q s) = sm_inv s"
  "sm_inv (snd (StopTimedTask st n s)) = sm_inv s"
  by (rule sm_inv_cong; simp add: frame_simps)+

lemma sm_inv_fields [simp]:
  "sm_inv (s\<lparr>isBlocked := b\<rparr>) = sm_inv s"
  "sm_inv (s\<lparr>isScreenOn := b\<rparr>) = sm_inv s"
  "sm_inv (s\<lparr>isSleepState := b\<rparr>) = sm_inv s"
  "sm_inv (s\<lparr>screenOffTimeStamp := t\<rparr>) = sm_inv s"
  "sm_inv (s\<lparr>isScreenOn := b, screenOffTimeStamp := t\<rparr>) = sm_inv s"
  "sm_inv (UnblockCurrentState s) = sm_inv s"
  by (simp_all add: sm_inv_def maint_inv_def objs_inv_def UnblockCurrentState_def)

lemma sm_inv_upd_obj:
  "sm_inv s \<Longrightarrow> (\<And>b. obj_inv st b \<Longrightarrow> obj_inv st (f b)) \<Longrightarrow>
     (\<And>b. st = MAINTENANCE \<Longrightarrow> nextState (f b) = nextState b) \<Longrightarrow> sm_inv (upd_obj st f s)"
  by (auto simp: sm_inv_def maint_inv_def intro!: objs_inv_upd)

lemma next_maint_StartTimer [simp]:
  "nextState (objs (snd (StartStateTransitionTimer e st t s)) st') = nextState (objs s st')"
  by (simp add: StartStateTransitionTimer_def SetTimedTask_def Let_def)

lemma next_maint_Calculate [simp]:
  "nextState (objs (snd (CalculateMaintTimeOut e st b s)) st') = nextState (objs s st')"
  by (simp add: CalculateMaintTimeOut_def Let_def split: prod.split)

lemma next_Calculate:
  "CalculateMaintTimeOut e st b s = (t, s') \<Longrightarrow> nextState (objs s' st') = nextState (objs s st')"
  using next_maint_Calculate [of e st b s st'] by simp

lemma sm_inv_StartTimer [inv_intros]:
  "sm_inv s \<Longrightarrow> sm_inv (snd (StartStateTransitionTimer e st t s))"
  by (auto simp: sm_inv_def maint_inv_def)

lemma sm_inv_Calculate [inv_intros]:
  "sm_inv s \<Longrightarrow> sm_inv (snd (CalculateMaintTimeOut e st b s))"
  by (auto simp: sm_inv_def maint_inv_def)

lemma sm_inv_TransitToStateInner [inv_intros]:
  assumes "sm_inv s" and "next = MAINTENANCE \<longrightarrow> curState s \<in> {NAP, SLEEP}"
  shows "sm_inv (snd (TransitToStateInner e next s))"
proof -
  have "nextState (objs (snd (TransitToStateInner e MAINTENANCE s)) MAINTENANCE) = curState s"
    by (simp add: TransitToStateInner_def MaintenanceState_BeginState_def Let_def)
  with assms show ?thesis
    by (auto simp: sm_inv_def maint_inv_def intro!: TransitToStateInner_records)
qed

lemma sm_inv_BeginState [inv_intros]:
  assumes "sm_inv s" and "st \<noteq> MAINTENANCE"
  shows "sm_inv (snd (BeginState e st s))"
proof -
  have "nextState (objs (snd (BeginState e st s)) MAINTENANCE) = nextState (objs s MAINTENANCE)"
    using assms(2)
    by (cases st) (auto simp: WorkingState_BeginState_def DarkState_BeginState_def
        NapState_BeginState_def SleepState_BeginState_def Let_def split: prod.split
        dest!: next_Calculate [where st' = MAINTENANCE])
  with assms(1) show ?thesis
    by (auto simp: sm_inv_def maint_inv_def)
qed

section \<open>Evaluation\<close>

lemma fold_emit_frame:
  "ctl (fold (\<lambda>(sensor, _) s. emit (f sensor) (emit (g sensor) s)) xs s) = ctl s"
  "objs (fold (\<lambda>(sensor, _) s. emit (f sensor) (emit (g sensor) s)) xs s) = objs s"
  by (induction xs arbitrary: s) (auto simp: frame_simps)

lemma StopMonitoring_frame [frame_simps]:
  "ctl (StopSensor m s) = ctl s" "objs (StopSensor m s) = objs s"
  "ctl (StopMonitoringInner m s) = ctl s" "objs (StopMonitoringInner m s) = objs s"
  "ctl (StopMonitoring m s) = ctl s" "objs (StopMonitoring m s) = objs s"
  by (cases m; simp add: StopSensor_def StopMonitoringInner_def fold_emit_frame frame_simps)+

lemma sm_inv_StopMonitoringInner [inv_intros]: "sm_inv (StopMonitoringInner m s) = sm_inv s"
  by (rule sm_inv_cong) (simp_all add: frame_simps)

lemmas StopMonitoring_fields [simp] = StopMonitoring_frame(1,3,5) [THEN ctl_D] StopMonitoring_frame(2,4,6)

lemma cm_StopEvalution_fields [simp]:
  "inited (snd (cm_StopEvalution s)) = inited s"
  "curState (snd (cm_StopEvalution s)) = curState s"
  "preState (snd (cm_StopEvalution s)) = preState s"
  "isEvalution (snd (cm_StopEvalution s)) = isEvalution s"
  "isBlocked (snd (cm_StopEvalution s)) = isBlocked s"
  "isScreenOn (snd (cm_StopEvalution s)) = isScreenOn s"
  "stateRecordList (snd (cm_StopEvalution s)) = stateRecordList s"
  "cm_constraintMap (snd (cm_StopEvalution s)) = cm_constraintMap s"
  "objs (snd (cm_StopEvalution s)) = objs s"
  "cm_isEvaluation (snd (cm_StopEvalution s)) = False"
  "cm_isEvaluation s \<Longrightarrow> cm_curMonitor (snd (cm_StopEvalution s)) = None"
  "\<not> cm_isEvaluation s \<Longrightarrow> snd (cm_StopEvalution s) = s"
  by (auto simp: cm_StopEvalution_def Let_def split: option.split)

text \<open>After an evaluation has been stopped on both sides.\<close>

lemma sm_inv_stopped [inv_intros]:
  "sm_inv s \<Longrightarrow> isEvalution s \<Longrightarrow> sm_inv (snd (cm_StopEvalution (s\<lparr>isEvalution := False\<rparr>)))"
  by (simp add: sm_inv_def maint_inv_def objs_inv_def)

lemma sm_inv_stopped' [inv_intros]:
  "sm_inv s \<Longrightarrow> isEvalution s \<Longrightarrow> sm_inv ((snd (cm_StopEvalution s))\<lparr>isEvalution := False\<rparr>)"
  by (simp add: sm_inv_def maint_inv_def objs_inv_def)

lemma sm_inv_StopEvalution [inv_intros]: "sm_inv s \<Longrightarrow> sm_inv (StopEvalution s)"
  by (simp add: StopEvalution_def inv_intros)

lemma StopEvalution_fields [simp]:
  "curState (StopEvalution s) = curState s" "preState (StopEvalution s) = preState s"
  "isBlocked (StopEvalution s) = isBlocked s" "isScreenOn (StopEvalution s) = isScreenOn s"
  "objs (StopEvalution s) = objs s" "inited (StopEvalution s) = inited s"
  by (simp_all add: StopEvalution_def)

lemma sm_inv_ExitStandby [inv_intros]:
  "sm_inv s \<Longrightarrow> next \<noteq> MAINTENANCE \<Longrightarrow> sm_inv (snd (ExitStandby e next s))"
  by (auto simp: ExitStandby_def Let_def intro!: inv_intros)

lemma sm_inv_TransitWithMaint [inv_intros]:
  "sm_inv s \<Longrightarrow> next = MAINTENANCE \<longrightarrow> curState s \<in> {NAP, SLEEP} \<Longrightarrow>
     sm_inv (snd (TransitWithMaint e next s))"
  by (auto simp: TransitWithMaint_def intro!: inv_intros)

lemma sm_inv_TransitToState_with:
  assumes inv: "sm_inv s"
    and enter: "\<And>st s. sm_inv s \<Longrightarrow> sm_inv (snd (enter st s))"
  shows "sm_inv (snd (TransitToState_with enter e next s))"
proof -
  have "next = MAINTENANCE \<Longrightarrow> CheckTransitionValid (curState s) next \<Longrightarrow> curState s \<noteq> next \<Longrightarrow>
      curState s \<in> {NAP, SLEEP}"
    by (cases "curState s") (auto simp: check_transition_defs)
  then show ?thesis
    using inv enter by (auto simp: TransitToState_with_def intro!: inv_intros)
qed

lemma sm_inv_TransitToWorking [inv_intros]: "sm_inv s \<Longrightarrow> sm_inv (snd (TransitToWorking e s))"
  unfolding TransitToWorking_def by (rule sm_inv_TransitToState_with) simp_all

lemma sm_inv_OnStateBlocked [inv_intros]: "sm_inv s \<Longrightarrow> sm_inv (OnStateBlocked e st s)"
proof -
  assume inv: "sm_inv s"
  have "sm_inv s' \<Longrightarrow> sm_inv (upd_obj NAP (\<lambda>b. b\<lparr>nextState := MAINTENANCE\<rparr>) s')" for s'
    by (rule sm_inv_upd_obj) (auto simp: obj_inv_def)
  moreover have "sm_inv s'" if "CalculateMaintTimeOut e NAP True s = (t, s')" for t s'
    using sm_inv_Calculate [OF inv, of e NAP True] that by simp
  ultimately show "sm_inv (OnStateBlocked e st s)"
    using inv by (auto simp: OnStateBlocked_def Let_def split: prod.split intro!: inv_intros)
qed

lemma sm_inv_BlockCurrentState [inv_intros]: "sm_inv s \<Longrightarrow> sm_inv (BlockCurrentState e s)"
  by (auto simp: BlockCurrentState_def Let_def intro!: inv_intros)

lemma phase_succ: "(p :: u32) \<le> PHASE_END \<Longrightarrow> p \<noteq> PHASE_END \<Longrightarrow> p + 1 \<le> PHASE_END"
  unfolding PHASE_END_def by (metis inc_le order_le_less)

lemma obj_inv_phase_succ:
  "obj_inv st b \<Longrightarrow> curPhase b \<noteq> PHASE_END \<Longrightarrow> obj_inv st (b\<lparr>curPhase := curPhase b + 1\<rparr>)"
  by (auto simp: obj_inv_def intro: phase_succ)

lemma sm_inv_phase_succ [inv_intros]:
  "sm_inv s \<Longrightarrow> curPhase (objs s st) \<noteq> PHASE_END \<Longrightarrow>
     sm_inv (upd_obj st (\<lambda>b. b\<lparr>curPhase := curPhase b + 1\<rparr>) s)"
  by (auto simp: sm_inv_def maint_inv_def objs_inv_def intro!: obj_inv_phase_succ)

lemma sm_inv_repeated [inv_intros]:
  "sm_inv s \<Longrightarrow> sm_inv (upd_obj st (\<lambda>b. b\<lparr>isRepeatedDetection := r\<rparr>) s)"
  by (rule sm_inv_upd_obj) (auto simp: obj_inv_def)

lemma sm_inv_dark_next:
  "sm_inv s \<Longrightarrow> nextState (objs s DARK) \<noteq> MAINTENANCE"
  by (auto simp: sm_inv_def objs_inv_def obj_inv_def dest!: spec [of _ DARK])

lemma sm_inv_State_EndEval [inv_intros]:
  assumes "sm_inv s"
  shows "sm_inv (State_EndEvalCurrentState e st r s)"
proof (cases st)
  case WORKING
  with assms show ?thesis
    by (auto simp: WorkingState_EndEvalCurrentState_def intro!: inv_intros)
next
  case DARK
  with assms show ?thesis
    by (auto simp: DarkState_EndEvalCurrentState_def dest: sm_inv_dark_next intro!: inv_intros)
next
  case NAP
  with assms show ?thesis
    by (auto simp: NapState_EndEvalCurrentState_def HandleEvalResToSleepState_def
        NapState_SetPhaseTransitTask_def Let_def intro!: inv_intros)
next
  case MAINTENANCE
  with assms show ?thesis by simp
next
  case SLEEP
  have "p < PHASE_END \<Longrightarrow> p \<noteq> PHASE_END" for p :: u32 by auto
  with assms SLEEP show ?thesis
    by (auto simp: SleepState_EndEvalCurrentState_def SetPhaseTransitOrRepeatedTask_def Let_def
        intro!: inv_intros)
qed

lemma sm_inv_EndEval [inv_intros]: "sm_inv s \<Longrightarrow> sm_inv (snd (EndEvalCurrentState e r s))"
  by (auto simp: EndEvalCurrentState_def Let_def intro!: inv_intros)

lemma StartSensor_loop_frame:
  "ctl (snd (StartSensor_loop e xs s)) = ctl s" "objs (snd (StartSensor_loop e xs s)) = objs s"
  by (induction e xs s rule: StartSensor_loop.induct) (auto simp: frame_simps Let_def)

lemma StartMonitoringInner_frame [frame_simps]:
  "ctl (snd (StartMonitoringInner e m s)) = ctl s"
  "objs (snd (StartMonitoringInner e m s)) = objs s"
proof -
  have "ctl s'' = ctl s'" "objs s'' = objs s'" if "StartSensor e m s' = (r, s'')" for r s' s''
    using StartSensor_loop_frame [of e "map fst (sensorUserMap (mons s' m))" s'] that
    by (simp_all add: StartSensor_def)
  note this [simp]
  show "ctl (snd (StartMonitoringInner e m s)) = ctl s"
    "objs (snd (StartMonitoringInner e m s)) = objs s"
    by (auto simp: StartMonitoringInner_def Let_def frame_simps split: prod.split)
qed

lemma sm_inv_Periodly [inv_intros]: "sm_inv s \<Longrightarrow> sm_inv (PeriodlyStartMotionDetection e m s)"
proof -
  assume "sm_inv s"
  then have "sm_inv (snd (StartMonitoringInner e m s))"
    by (subst sm_inv_cong [of _ s]) (simp_all add: frame_simps)
  then have "sm_inv s'" if "StartMonitoringInner e m s = (r, s')" for r s'
    using that by simp
  then show "sm_inv (PeriodlyStartMotionDetection e m s)"
    by (auto simp: PeriodlyStartMotionDetection_def StopMotionDetection_def Let_def
        split: prod.split intro!: inv_intros)
qed

lemma sm_inv_StartMonitoring [inv_intros]: "sm_inv s \<Longrightarrow> sm_inv (StartMonitoring e m s)"
  by (cases m) (auto simp: ChargeStateMonitor_StartMonitoring_def MotionSensorMonitor_StartMonitoring_def
      intro!: inv_intros)

lemma sm_inv_StartEval [inv_intros]:
  assumes "sm_inv s"
  shows "sm_inv (snd (StartEvalCurrentState e params s))"
proof (cases "cm_isEvaluation s")
  case True
  with assms have "sm_inv (s\<lparr>isEvalution := True\<rparr>)"
    by (simp add: sm_inv_def maint_inv_def)
  with True show ?thesis
    by (simp add: StartEvalCurrentState_def cm_StartEvalution_def)
next
  case False
  with assms have "sm_inv (s\<lparr>isEvalution := True, cm_isEvaluation := True, cm_curMonitor := m\<rparr>)" for m
    by (simp add: sm_inv_def maint_inv_def objs_inv_def)
  with False show ?thesis
    by (auto simp: StartEvalCurrentState_def cm_StartEvalution_def Let_def split: option.split
        intro!: inv_intros)
qed

lemma sm_inv_EnterStandby [inv_intros]: "sm_inv s \<Longrightarrow> sm_inv (snd (EnterStandby e next s))"
  by (auto simp: EnterStandby_def intro!: inv_intros)

lemma sm_inv_TransitToState [inv_intros]: "sm_inv s \<Longrightarrow> sm_inv (snd (TransitToState e next s))"
  unfolding TransitToState_def by (rule sm_inv_TransitToState_with) (auto intro!: inv_intros)

lemma sm_inv_TransitToPhase [inv_intros]: "sm_inv s \<Longrightarrow> sm_inv (TransitToPhase e st p q s)"
  by (auto simp: TransitToPhase_def intro!: inv_intros)

end
