(* ===== verification/State_Props.thy ===== *)
theory State_Props
  imports State_Invariants Step_System
begin

text \<open>
  The state machine as a transition system, and its properties. A step runs any closure that
  is queued, fires any timer, delivers any message or posts the verdict of a sensor callback,
  with arbitrary answers of the environment; the real handler runs the closures in the order
  of their due time, so its runs are among these.
\<close>

inductive sm_step :: "sm_env \<Rightarrow> sm_state \<Rightarrow> sm_state \<Rightarrow> bool" where
  step_task: "i < length (tasks s) \<Longrightarrow> tasks s ! i = (name, task, delay) \<Longrightarrow>
     sm_step e s (run_task e task (s\<lparr>tasks := take i (tasks s) @ drop (Suc i) (tasks s)\<rparr>))"
| step_timer: "sm_step e s (timer_callback owner s)"
| step_event: "sm_step e s (HandleEvent e msg s)"
| step_sensor: "sm_step e s (PostTask MOTION_DECTION_TASK (T_EndEval False) 0 s)"

inductive_cases sm_stepE: "sm_step e s s'"

text \<open>The fields of the managers before \<open>Init\<close>.\<close>

definition sm_fresh :: sm_state where
  "sm_fresh = \<lparr> objs = (\<lambda>_. base_obj WORKING), inited = False, curState = WORKING, preState = WORKING,
     isEvalution = False, isBlocked = False, screenOffTimeStamp = 0, scrOffHalfHourTimerId = 0,
     isScreenOn = False, scrOffHalfHourCtrl = False, isSleepState = False, stateRecordList = [],
     runningLockStatus = False, standbyRunningLock = False, cm_isEvaluation = False,
     cm_curMonitor = None, cm_constraintMap = [], cm_monitorList = [],
     mons = (\<lambda>_. mk_monitor 0 0 0 (mk_param 0 0 0 0)), tasks = [], effects = [] \<rparr>"

text \<open>The service initialises the state manager first, then the constraint manager.\<close>

definition sm_start :: "sm_env \<Rightarrow> bool \<times> sm_state" where
  "sm_start e = (let (ok, s) = StateManager_Init e sm_fresh in (ok, snd (ConstraintManager_Init e s)))"

definition sm_init :: "sm_state \<Rightarrow> bool" where
  "sm_init s \<longleftrightarrow> (\<exists>e. sm_start e = (True, s))"

section \<open>The invariant holds in every reachable state\<close>

lemma sm_inv_tasks [simp]: "sm_inv (s\<lparr>tasks := ts\<rparr>) = sm_inv s"
  by (simp add: sm_inv_def maint_inv_def objs_inv_def)

lemma sm_inv_checkScreenStatus [inv_intros]: "sm_inv s \<Longrightarrow> sm_inv (checkScreenStatus e s)"
  by (simp add: checkScreenStatus_def inv_intros)

lemma sm_inv_TransitToState':
  "TransitToState e st s = (r, s') \<Longrightarrow> sm_inv s \<Longrightarrow> sm_inv s'"
  using sm_inv_TransitToState [of s e st] by simp

lemma sm_inv_SleepState_BeginState [inv_intros]: "sm_inv s \<Longrightarrow> sm_inv (snd (SleepState_BeginState e s))"
  using sm_inv_BeginState [of s SLEEP e] by simp

lemma sm_inv_TransitNextState_task [inv_intros]: "sm_inv s \<Longrightarrow> sm_inv (TransitNextState_task e st s)"
  by (auto simp: TransitNextState_task_def Let_def split: prod.split
      intro!: inv_intros elim!: sm_inv_TransitToState')

lemma sm_inv_run_task [inv_intros]: "sm_inv s \<Longrightarrow> sm_inv (run_task e t s)"
  by (cases t) (auto simp: Let_def RepeatedDetection_task_def TryToEnterNextPhase_def
      sm_inv_StopMonitoringInner intro!: inv_intros)

lemma sm_inv_timer_callback [inv_intros]: "sm_inv s \<Longrightarrow> sm_inv (timer_callback owner s)"
  by (cases owner) (simp_all add: StartTransitNextState_def StartPeriodlyMotionDetection_def)

lemma sm_inv_TransitHoldSleepState [inv_intros]: "sm_inv s \<Longrightarrow> sm_inv (TransitHoldSleepState e s)"
  by (auto simp: TransitHoldSleepState_def Let_def intro!: inv_intros)

lemma sm_inv_HandleCommonEvent [inv_intros]: "sm_inv s \<Longrightarrow> sm_inv (HandleCommonEvent e msg s)"
proof -
  have 1: "sm_inv s \<Longrightarrow> sm_inv (HandleScrOffHalfHour e act s)" for act s
    by (simp add: HandleScrOffHalfHour_def)
  have 2: "sm_inv s \<Longrightarrow> sm_inv (HandleOpenCloseLid e act s)" for act s
    by (simp add: HandleOpenCloseLid_def inv_intros)
  have 3: "sm_inv s \<Longrightarrow> sm_inv (HandleScreenStatus act s)" for act s
    by (simp add: HandleScreenStatus_def)
  have 4: "sm_inv s \<Longrightarrow> sm_inv (HandleUserSleepState e m s)" for m s
    by (auto simp: HandleUserSleepState_def Let_def intro!: inv_intros split: option.split)
  show "sm_inv s \<Longrightarrow> sm_inv (HandleCommonEvent e msg s)"
    unfolding HandleCommonEvent_def Let_def by (auto intro!: inv_intros 1 2 3 4)
qed

lemma sm_inv_HandleEvent [inv_intros]: "sm_inv s \<Longrightarrow> sm_inv (HandleEvent e msg s)"
  by (simp add: HandleEvent_def inv_intros)

lemma sm_step_inv: "sm_inv s \<Longrightarrow> sm_step e s s' \<Longrightarrow> sm_inv s'"
  by (erule sm_stepE) (auto intro!: inv_intros)

lemma State_Init_frame:
  "ctl (snd (State_Init e st s)) = ctl s"
  "objs_inv s \<Longrightarrow> objs_inv (snd (State_Init e st s))"
  by (cases st; auto simp: BaseState_Init_def SleepState_Init_def SetTimedTask_def Let_def frame_simps
      obj_inv_def intro!: objs_inv_upd)+

lemma Init_states_frame:
  "ctl (snd (Init_states e sts s)) = ctl s \<and> (objs_inv s \<longrightarrow> objs_inv (snd (Init_states e sts s)))"
proof (induction e sts s rule: Init_states.induct)
  case (2 e st rest s)
  have "ctl (snd (State_Init e st s)) = ctl s" "objs_inv s \<Longrightarrow> objs_inv (snd (State_Init e st s))"
    by (rule State_Init_frame)+
  with 2 show ?case
    by (cases "State_Init e st s") auto
qed simp

lemma new_obj_inv: "obj_inv st (new_obj c st)"
  by (cases st) (auto simp: obj_inv_def base_obj_def DarkState_def NapState_def SleepState_def)

lemma StateManager_Init_inv:
  assumes "isEvalution s = cm_isEvaluation s" and "\<not> cm_isEvaluation s \<longrightarrow> cm_curMonitor s = None"
    and "length (stateRecordList s) \<le> MAX_RECORD_SIZE" and "StateManager_Init e s = (True, s')"
    and "constraints_inv (cm_constraintMap s)"
  shows "sm_inv s'"
proof -
  define s1 where "s1 = (InitRunningLock e s)\<lparr>objs := new_obj (cfg e),
     scrOffHalfHourTimerId := createTimer e Half_Hour_Timer\<rparr>"
  obtain ok s2 where s2: "Init_states e indexToState s1 = (ok, s2)"
    by fastforce
  have "objs_inv s1"
    by (simp add: s1_def objs_inv_def new_obj_inv)
  then have obj: "objs_inv s2" and "ctl s2 = ctl s1"
    using Init_states_frame [of e indexToState s1] by (simp_all add: s2)
  then have "isEvalution s2 = cm_isEvaluation s2" "\<not> cm_isEvaluation s2 \<longrightarrow> cm_curMonitor s2 = None"
      "length (stateRecordList s2) \<le> MAX_RECORD_SIZE" "constraints_inv (cm_constraintMap s2)"
    using assms(1,2,3,5) ctl_D [of s2 s1] by (simp_all add: s1_def InitRunningLock_def)
  then have "sm_inv (s2\<lparr>curState := WORKING, preState := WORKING, inited := True, isScreenOn := b\<rparr>)" for b
    using obj by (simp add: sm_inv_def maint_inv_def objs_inv_def)
  then have "sm_inv (snd (BeginState e WORKING
      (s2\<lparr>curState := WORKING, preState := WORKING, inited := True, isScreenOn := powerScreenOn e\<rparr>)))"
    by (intro sm_inv_BeginState) simp_all
  then show ?thesis
    using assms(4) unfolding StateManager_Init_def Let_def s1_def [symmetric]
    by (auto simp: s2 split: if_splits prod.splits)
qed

text \<open>The monitors carry the parameters they register under.\<close>

definition mon_ok :: "monitor \<Rightarrow> motion_mon \<Rightarrow> bool" where
  "mon_ok m b \<longleftrightarrow>
     (m = MotionMonitor \<longrightarrow> mon_params b = motion_param) \<and>
     (m = RepeatedMotionMonitor \<longrightarrow> mon_params b = repeated_param)"

definition cm_ok :: "sm_state \<Rightarrow> bool" where
  "cm_ok s \<longleftrightarrow> constraints_inv (cm_constraintMap s) \<and> (\<forall>m \<in> set (cm_monitorList s). mon_ok m (mons s m))"

lemma constraints_inv_emplace:
  "constraints_inv m \<Longrightarrow>
   (h, mon) \<in> {(GetHashValue charge_param, ChargeMonitor), (GetHashValue motion_param, MotionMonitor),
               (GetHashValue repeated_param, RepeatedMotionMonitor)} \<Longrightarrow>
   constraints_inv (emplace h mon m)"
  by (auto simp: constraints_inv_def map_of_emplace)

lemma upd_mon_fields [simp]:
  "cm_monitorList (upd_mon m f s) = cm_monitorList s"
  "mons (upd_mon m f s) = (mons s)(m := f (mons s m))"
  by (simp_all add: upd_mon_def)

text \<open>What the initialisation of the constraint manager leaves alone.\<close>

definition core where
  "core s = (inited s, curState s, preState s, isEvalution s, stateRecordList s, cm_isEvaluation s,
     cm_curMonitor s, objs s)"

lemma core_D:
  "core s = core t \<Longrightarrow>
     inited s = inited t \<and> curState s = curState t \<and> preState s = preState t \<and>
     isEvalution s = isEvalution t \<and> stateRecordList s = stateRecordList t \<and>
     cm_isEvaluation s = cm_isEvaluation t \<and> cm_curMonitor s = cm_curMonitor t \<and> objs s = objs t"
  by (simp add: core_def)

lemma core_upd_mon [simp]: "core (upd_mon m f s) = core s"
  by (simp add: core_def upd_mon_def)

lemma cm_constraintMap_upd_mon [simp]: "cm_constraintMap (upd_mon m f s) = cm_constraintMap s"
  by (simp add: upd_mon_def)

lemma Init_helpers:
  "InitSensorUserMap m a b s = (ok, s') \<Longrightarrow>
     core s' = core s \<and> cm_constraintMap s' = cm_constraintMap s \<and> cm_monitorList s' = cm_monitorList s \<and>
     (\<forall>m'. mon_params (mons s' m') = mon_params (mons s m'))"
  "core (AssignAcclerometerSensorCallBack m s) = core s"
  "cm_constraintMap (AssignAcclerometerSensorCallBack m s) = cm_constraintMap s"
  "cm_monitorList (AssignAcclerometerSensorCallBack m s) = cm_monitorList s"
  "mon_params (mons (AssignAcclerometerSensorCallBack m s) m') = mon_params (mons s m')"
  "core (AssignMotionSensorCallBack m s) = core s"
  "cm_constraintMap (AssignMotionSensorCallBack m s) = cm_constraintMap s"
  "cm_monitorList (AssignMotionSensorCallBack m s) = cm_monitorList s"
  "mon_params (mons (AssignMotionSensorCallBack m s) m') = mon_params (mons s m')"
  by (auto simp: InitSensorUserMap_def AssignAcclerometerSensorCallBack_def AssignMotionSensorCallBack_def
      Let_def split: if_splits)

lemma core_RegisterConstraintCallback [simp]: "core (RegisterConstraintCallback p m s) = core s"
  by (simp add: core_def RegisterConstraintCallback_def)

lemma Monitor_Init_frame:
  assumes ok: "cm_ok s" and m: "m \<in> set (cm_monitorList s)"
  shows "cm_ok (snd (Monitor_Init e m s)) \<and>
   cm_monitorList (snd (Monitor_Init e m s)) = cm_monitorList s \<and>
   core (snd (Monitor_Init e m s)) = core s"
proof (cases "m = ChargeMonitor")
  case True
  with ok show ?thesis
    by (simp add: ChargeStateMonitor_Init_def)
      (simp add: RegisterConstraintCallback_def cm_ok_def charge_param_def [symmetric] constraints_inv_emplace)
next
  case False
  obtain ok1 s1 where s1: "InitSensorUserMap m (allSensors_info e) (allSensors_count e) s = (ok1, s1)"
    by fastforce
  define s2 where "s2 = AssignMotionSensorCallBack m (AssignAcclerometerSensorCallBack m s1)"
  have i: "Monitor_Init e m s =
      (if allSensors_ret e \<noteq> 0 then (False, s) else if \<not> ok1 then (False, s1)
       else (True, RegisterConstraintCallback (mon_params (mons s2 m)) m s2))"
    using False s1 by (cases m) (auto simp: MotionSensorMonitor_Init_def s2_def Let_def)
  note f1 = Init_helpers(1) [OF s1]
  have f2: "core s2 = core s \<and> cm_constraintMap s2 = cm_constraintMap s \<and> cm_monitorList s2 = cm_monitorList s \<and>
      (\<forall>m'. mon_params (mons s2 m') = mon_params (mons s m'))"
    using f1 by (simp add: s2_def Init_helpers(2-9))
  have c: "cm_ok s1" "cm_ok s2"
    using ok f1 f2 by (simp_all add: cm_ok_def mon_ok_def)
  have p: "(GetHashValue (mon_params (mons s2 m)), m) \<in>
      {(GetHashValue charge_param, ChargeMonitor), (GetHashValue motion_param, MotionMonitor),
       (GetHashValue repeated_param, RepeatedMotionMonitor)}"
    using ok m False f2 by (cases m) (auto simp: cm_ok_def mon_ok_def)
  have "cm_ok (RegisterConstraintCallback (mon_params (mons s2 m)) m s2)"
    using c(2) constraints_inv_emplace [OF _ p] by (simp add: cm_ok_def RegisterConstraintCallback_def)
  moreover have "cm_monitorList (RegisterConstraintCallback (mon_params (mons s2 m)) m s2) = cm_monitorList s"
    using f2 by (simp add: RegisterConstraintCallback_def)
  ultimately show ?thesis
    using ok c(1) f1 f2 by (simp add: i)
qed

lemma Monitor_Init_fold:
  "cm_ok s \<Longrightarrow> set ms \<subseteq> set (cm_monitorList s) \<Longrightarrow>
   s' = fold (\<lambda>m s. snd (Monitor_Init e m s)) ms s \<Longrightarrow> cm_ok s' \<and> core s' = core s"
proof (induction ms arbitrary: s)
  case (Cons m ms)
  define s1 where "s1 = snd (Monitor_Init e m s)"
  have m: "m \<in> set (cm_monitorList s)" using Cons.prems(2) by simp
  note f = Monitor_Init_frame [OF Cons.prems(1) m, of e, folded s1_def]
  have "set ms \<subseteq> set (cm_monitorList s1)" "s' = fold (\<lambda>m s. snd (Monitor_Init e m s)) ms s1"
    using f Cons.prems(2,3) by (simp_all add: s1_def)
  with Cons.IH [of s1] f show ?case by simp
qed simp

lemma ConstraintManager_Init_inv:
  assumes "sm_inv s" "cm_monitorList s = []"
  shows "sm_inv (snd (ConstraintManager_Init e s))"
proof -
  define s1 where "s1 = s\<lparr>cm_monitorList := [ChargeMonitor]\<rparr>"
  define s2 where "s2 = (if GetStandbySwitch (cfg e) DETECT_MOTION_CONFIG
    then (upd_mon RepeatedMotionMonitor (\<lambda>_. mk_monitor PERIODLY_TASK_DECTION_TIMEOUT PERIODLY_TASK_REST_TIMEOUT
             PERIODLY_TASK_TOTAL_TIMEOUT repeated_param)
           (upd_mon MotionMonitor (\<lambda>_. mk_monitor MOTION_DETECTION_TIMEOUT REST_TIMEOUT TOTAL_TIMEOUT motion_param) s1))
         \<lparr>cm_monitorList := [ChargeMonitor, MotionMonitor, RepeatedMotionMonitor]\<rparr>
    else s1)"
  have i: "snd (ConstraintManager_Init e s) = fold (\<lambda>m s. snd (Monitor_Init e m s)) (cm_monitorList s2) s2"
    using assms(2) by (simp add: ConstraintManager_Init_def s2_def s1_def Let_def motion_param_def repeated_param_def)
  have core: "core s2 = core s" and map: "cm_constraintMap s2 = cm_constraintMap s"
    by (simp_all add: s2_def s1_def core_def upd_mon_def)
  then have "cm_ok s2"
    using assms(1) by (auto simp: cm_ok_def sm_inv_def s2_def s1_def mon_ok_def mk_monitor_def)
  from Monitor_Init_fold [OF this order.refl refl, of e] core
  have "cm_ok (snd (ConstraintManager_Init e s))" "core (snd (ConstraintManager_Init e s)) = core s"
    by (simp_all add: i)
  then show ?thesis
    using assms(1) core_D [of "snd (ConstraintManager_Init e s)" s]
    by (simp add: sm_inv_def cm_ok_def maint_inv_def objs_inv_def)
qed

lemma monitorList_frame [simp]:
  "cm_monitorList (InitRunningLock e s) = cm_monitorList s"
  "cm_monitorList (upd_obj st f s) = cm_monitorList s"
  "cm_monitorList (emit ef s) = cm_monitorList s"
  "cm_monitorList (PostTask n t d s) = cm_monitorList s"
  "cm_monitorList (SetTimedTask st n i s) = cm_monitorList s"
  "cm_monitorList (SendNotification st b s) = cm_monitorList s"
  by (simp_all add: InitRunningLock_def upd_obj_def emit_def PostTask_def SetTimedTask_def SendNotification_def Let_def)

lemma monitorList_Init_states: "cm_monitorList (snd (Init_states e sts s)) = cm_monitorList s"
proof (induction e sts s rule: Init_states.induct)
  case (2 e st rest s)
  have "cm_monitorList (snd (State_Init e st s)) = cm_monitorList s"
    by (cases st) (simp_all add: BaseState_Init_def SleepState_Init_def Let_def case_prod_unfold)
  with 2 show ?case by (cases "State_Init e st s") auto
qed simp

lemma StateManager_Init_fresh:
  assumes "StateManager_Init e sm_fresh = (True, s)"
  shows "sm_inv s \<and> cm_monitorList s = []"
proof
  show "sm_inv s"
    using assms by (rule StateManager_Init_inv [rotated 3]) (simp_all add: sm_fresh_def constraints_inv_def)
  have "cm_monitorList (snd (StateManager_Init e sm_fresh)) = cm_monitorList sm_fresh"
    using monitorList_Init_states [of e indexToState]
    by (simp add: StateManager_Init_def Let_def case_prod_unfold WorkingState_BeginState_def)
  then show "cm_monitorList s = []"
    using assms by (simp add: sm_fresh_def)
qed

lemma sm_init_inv: "sm_init s \<Longrightarrow> sm_inv s"
  unfolding sm_init_def sm_start_def
  using StateManager_Init_fresh ConstraintManager_Init_inv by (fastforce split: prod.splits)

interpretation sm: invariant_system sm_init sm_step sm_inv
  by unfold_locales (auto intro: sm_init_inv sm_step_inv)

section \<open>Leaving standby\<close>

lemma scrOff_frame [simp]:
  "scrOffHalfHourCtrl (emit ef s) = scrOffHalfHourCtrl s"
  "scrOffHalfHourCtrl (PostTask n t d s) = scrOffHalfHourCtrl s"
  "scrOffHalfHourCtrl (RemoveTask n s) = scrOffHalfHourCtrl s"
  "scrOffHalfHourCtrl (upd_obj st f s) = scrOffHalfHourCtrl s"
  "scrOffHalfHourCtrl (upd_mon m g s) = scrOffHalfHourCtrl s"
  "scrOffHalfHourCtrl (ReleaseStandbyRunningLock s) = scrOffHalfHourCtrl s"
  "scrOffHalfHourCtrl (SendNotification pre b s) = scrOffHalfHourCtrl s"
  "scrOffHalfHourCtrl (RecordStateTransition e s) = scrOffHalfHourCtrl s"
  "scrOffHalfHourCtrl (snd (StopTimedTask st n s)) = scrOffHalfHourCtrl s"
  "scrOffHalfHourCtrl (snd (EndState st s)) = scrOffHalfHourCtrl s"
proof -
  show *: "scrOffHalfHourCtrl (emit ef s) = scrOffHalfHourCtrl s"
  "scrOffHalfHourCtrl (PostTask n t d s) = scrOffHalfHourCtrl s"
  "scrOffHalfHourCtrl (RemoveTask n s) = scrOffHalfHourCtrl s"
  "scrOffHalfHourCtrl (upd_obj st f s) = scrOffHalfHourCtrl s"
  "scrOffHalfHourCtrl (upd_mon m g s) = scrOffHalfHourCtrl s"
  "scrOffHalfHourCtrl (ReleaseStandbyRunningLock s) = scrOffHalfHourCtrl s"
  "scrOffHalfHourCtrl (SendNotification pre b s) = scrOffHalfHourCtrl s"
  "scrOffHalfHourCtrl (RecordStateTransition e s) = scrOffHalfHourCtrl s"
  "scrOffHalfHourCtrl (snd (StopTimedTask st n s)) = scrOffHalfHourCtrl s"
  for ef n t d f m g pre b e st s
    by (simp_all add: emit_def PostTask_def RemoveTask_def upd_obj_def upd_mon_def
      ReleaseStandbyRunningLock_def SendNotification_def RecordStateTransition_def StopTimedTask_def Let_def
      split: option.split)
  show "scrOffHalfHourCtrl (snd (EndState st s)) = scrOffHalfHourCtrl s"
    by (cases st) (simp_all add: WorkingState_EndState_def DarkState_EndState_def NapState_EndState_def
      MaintenanceState_EndState_def SleepState_EndState_def Let_def *)
qed

lemma scrOff_off: "scrOffHalfHourCtrl s \<Longrightarrow> \<not> scrOffHalfHourCtrl (OnScreenOffHalfHour False False s)"
  by (simp add: OnScreenOffHalfHour_def OnScreenOffHalfHourInner_def emit_def)

lemma scrOff_working:
  "scrOffHalfHourCtrl (snd (TransitToStateInner e WORKING s)) = scrOffHalfHourCtrl s"
  by (simp add: TransitToStateInner_def WorkingState_BeginState_def Let_def)

lemma valid_WORKING [simp]: "CheckTransitionValid st WORKING"
  by (cases st) (simp_all add: check_transition_defs)

lemma fold_emit_scrOff:
  "scrOffHalfHourCtrl (fold (\<lambda>(sensor, _) s. emit (f sensor) (emit (g sensor) s)) xs s) =
     scrOffHalfHourCtrl s"
  by (induction xs arbitrary: s) (auto simp: split_beta)

lemma cm_StopEvalution_scrOff [simp]:
  "scrOffHalfHourCtrl (snd (cm_StopEvalution s)) = scrOffHalfHourCtrl s"
proof -
  have "scrOffHalfHourCtrl (StopMonitoring m s) = scrOffHalfHourCtrl s" for m s
    by (cases m) (simp_all add: StopMonitoringInner_def StopSensor_def fold_emit_scrOff)
  then show ?thesis
    by (simp add: cm_StopEvalution_def Let_def split: option.split)
qed

lemma TransitToWorking_cases:
  assumes "inited s"
  shows "TransitToWorking e s =
    (if curState s = WORKING then (ERR_OK, UnblockCurrentState s)
     else if curState s = MAINTENANCE then TransitWithMaint e WORKING s
     else ExitStandby e WORKING s)"
  using assms by (simp add: TransitToWorking_def TransitToState_with_def)

lemma TransitWithMaint_WORKING:
  "fst (TransitWithMaint e WORKING s) = ERR_OK"
  "curState (snd (TransitWithMaint e WORKING s)) = WORKING"
  "isScreenOn (snd (TransitWithMaint e WORKING s)) = isScreenOn s"
  "preState (snd (TransitWithMaint e WORKING s)) = curState s"
  "\<not> runningLockStatus (snd (TransitWithMaint e WORKING s))"
  "\<not> scrOffHalfHourCtrl (snd (TransitWithMaint e WORKING s))"
  "isBlocked (snd (TransitWithMaint e WORKING s)) = isBlocked s"
  "isEvalution (snd (TransitWithMaint e WORKING s)) = isEvalution s"
  by (simp_all add: TransitWithMaint_def scrOff_working scrOff_off)

lemma ExitStandby_WORKING:
  "fst (ExitStandby e WORKING s) = ERR_OK"
  "curState (snd (ExitStandby e WORKING s)) = WORKING"
  "isScreenOn (snd (ExitStandby e WORKING s)) = isScreenOn s"
  "preState (snd (ExitStandby e WORKING s)) = curState s"
  "\<not> runningLockStatus (snd (ExitStandby e WORKING s))"
  "\<not> scrOffHalfHourCtrl (snd (ExitStandby e WORKING s))"
  "\<not> isBlocked (snd (ExitStandby e WORKING s))"
  "\<not> isEvalution (snd (ExitStandby e WORKING s))"
  by (simp_all add: ExitStandby_def UnblockCurrentState_def scrOff_working scrOff_off Let_def)

lemma TransitToWorking_result:
  assumes "inited s"
  shows "fst (TransitToWorking e s) = ERR_OK"
    and "curState (snd (TransitToWorking e s)) = WORKING"
    and "isScreenOn (snd (TransitToWorking e s)) = isScreenOn s"
    and "curState s \<noteq> WORKING \<Longrightarrow> preState (snd (TransitToWorking e s)) = curState s"
    and "curState s \<noteq> WORKING \<Longrightarrow> \<not> runningLockStatus (snd (TransitToWorking e s))"
    and "curState s \<noteq> WORKING \<Longrightarrow> \<not> scrOffHalfHourCtrl (snd (TransitToWorking e s))"
    and "curState s \<noteq> MAINTENANCE \<Longrightarrow> \<not> isBlocked (snd (TransitToWorking e s))"
    and "curState s \<notin> {WORKING, MAINTENANCE} \<Longrightarrow> \<not> isEvalution (snd (TransitToWorking e s))"
    and "curState s = MAINTENANCE \<Longrightarrow> isBlocked (snd (TransitToWorking e s)) = isBlocked s"
  unfolding TransitToWorking_cases [OF assms]
  by (simp_all add: TransitWithMaint_WORKING ExitStandby_WORKING UnblockCurrentState_def)

text \<open>A wake-up event leaves only the transition to WORKING of the handler.\<close>

lemma HandleEvent_wake:
  fixes e :: sm_env
  assumes "inited s" and "eventId msg = COMMON_EVENT"
    and act: "action msg \<in> {COMMON_EVENT_SCREEN_ON, COMMON_EVENT_SCREEN_UNLOCKED,
        COMMON_EVENT_CHARGING, COMMON_EVENT_USB_DEVICE_ATTACHED, LID_OPEN}"
    and on: "action msg = COMMON_EVENT_SCREEN_ON \<or> isScreenOn s"
  defines "s0 \<equiv> HandleScreenStatus (action msg) (HandleScrOffHalfHour e (action msg) s)"
  shows "HandleEvent e msg s = snd (TransitToWorking e s0)"
    and "inited s0" and "curState s0 = curState s" and "isScreenOn s0" and "isBlocked s0 = isBlocked s"
proof -
  show s0: "inited s0" "curState s0 = curState s" "isScreenOn s0" "isBlocked s0 = isBlocked s"
    using assms(1) on act
    by (auto simp: s0_def HandleScreenStatus_def HandleScrOffHalfHour_def LID_OPEN_def)
  define s1 where "s1 = snd (TransitToWorking e s0)"
  have s1: "curState s1 = WORKING" "isScreenOn s1"
    using TransitToWorking_result(2,3) [OF s0(1), of e] s0(3) by (simp_all add: s1_def)
  have n: "action msg \<noteq> COMMON_EVENT_USER_SLEEP_STATE_CHANGED" "action msg \<noteq> COMMON_EVENT_ENTER_FORCE_SLEEP"
    using act by (auto simp: action_defs)
  show "HandleEvent e msg s = snd (TransitToWorking e s0)"
  proof (cases "action msg = LID_OPEN")
    case True
    have a: "HandleScrOffHalfHour e LID_OPEN s = s" "\<And>s. HandleScreenStatus LID_OPEN s = s"
      by (simp_all add: HandleScreenStatus_def HandleScrOffHalfHour_def LID_OPEN_def)
    then have "s0 = s"
      by (simp add: s0_def True)
    have l: "LID_OPEN \<noteq> COMMON_EVENT_SCREEN_ON" "LID_OPEN \<noteq> COMMON_EVENT_SCREEN_UNLOCKED"
      "LID_OPEN \<noteq> COMMON_EVENT_CHARGING" "LID_OPEN \<noteq> COMMON_EVENT_USB_DEVICE_ATTACHED"
      by (simp_all add: LID_OPEN_def)
    show ?thesis
      using n s1 assms(2) unfolding HandleEvent_def HandleCommonEvent_def True HandleOpenCloseLid_def
        TransitToState_WORKING \<open>s0 = s\<close> s1_def
      by (simp add: a l CheckEnterDarkState_def Let_def)
  next
    case False
    have "HandleOpenCloseLid e (action msg) s' = s'" for s'
      using False by (simp add: HandleOpenCloseLid_def)
    then show ?thesis
      using n s1 assms(2) act False unfolding HandleEvent_def HandleCommonEvent_def Let_def
        TransitToState_WORKING s1_def s0_def
      by (simp add: CheckEnterDarkState_def)
  qed
qed

text \<open>C6: SCREEN_ON, and with the screen on also SCREEN_UNLOCKED, CHARGING, USB_DEVICE_ATTACHED
  and LID_OPEN, always take the device to WORKING with the screen on; coming from standby
  the running lock and the half-hour control are released and, except from MAINTENANCE, the
  block and a running evaluation are cancelled.\<close>

theorem wake_up:
  assumes "inited s" and "eventId msg = COMMON_EVENT"
    and "action msg = COMMON_EVENT_SCREEN_ON \<or>
         isScreenOn s \<and> action msg \<in> {COMMON_EVENT_SCREEN_UNLOCKED, COMMON_EVENT_CHARGING,
                                       COMMON_EVENT_USB_DEVICE_ATTACHED, LID_OPEN}"
  shows "let s' = HandleEvent e msg s in
     curState s' = WORKING \<and> isScreenOn s' \<and>
     (curState s \<noteq> WORKING \<longrightarrow>
        preState s' = curState s \<and> \<not> runningLockStatus s' \<and> \<not> scrOffHalfHourCtrl s') \<and>
     (curState s \<noteq> MAINTENANCE \<longrightarrow> \<not> isBlocked s') \<and>
     (curState s \<notin> {WORKING, MAINTENANCE} \<longrightarrow> \<not> isEvalution s')"
proof -
  have act: "action msg \<in> {COMMON_EVENT_SCREEN_ON, COMMON_EVENT_SCREEN_UNLOCKED,
        COMMON_EVENT_CHARGING, COMMON_EVENT_USB_DEVICE_ATTACHED, LID_OPEN}"
    and on: "action msg = COMMON_EVENT_SCREEN_ON \<or> isScreenOn s"
    using assms(3) by auto
  note w = HandleEvent_wake [OF assms(1,2) act on, of e]
  show ?thesis
    unfolding w(1) Let_def using TransitToWorking_result [OF w(2), of e] w(3-5) by simp
qed

section \<open>Transitions\<close>

lemma TransitToState_error:
  "fst (TransitToState e st s) \<noteq> ERR_OK \<Longrightarrow> snd (TransitToState e st s) = s"
  by (auto simp: TransitToState_def TransitToState_with_def TransitWithMaint_def EnterStandby_def
      ExitStandby_def Let_def split: if_splits)

text \<open>C28: TransitToState reports a failed transition for exactly four pairs (WORKING and DARK
  to MAINTENANCE, MAINTENANCE to DARK, SLEEP to NAP), and any error leaves the machine
  unchanged.\<close>

theorem transit_rejected:
  assumes "inited s"
  shows "(fst (TransitToState e st s) = ERR_STANDBY_STATE_TRANSITION_FAILED \<longleftrightarrow>
      (curState s, st) \<in> {(WORKING, MAINTENANCE), (DARK, MAINTENANCE), (MAINTENANCE, DARK), (SLEEP, NAP)}) \<and>
    (fst (TransitToState e st s) \<noteq> ERR_OK \<longrightarrow> snd (TransitToState e st s) = s)"
proof -
  have v: "\<not> CheckTransitionValid (curState s) st \<longleftrightarrow>
     (curState s, st) \<in> {(WORKING, MAINTENANCE), (DARK, MAINTENANCE), (MAINTENANCE, DARK), (SLEEP, NAP)}"
    by (cases "curState s"; cases st) (simp_all add: check_transition_defs)
  have "fst (TransitToState e st s) = ERR_STANDBY_STATE_TRANSITION_FAILED \<longleftrightarrow>
      \<not> CheckTransitionValid (curState s) st"
    using assms by (simp add: TransitToState_def TransitToState_with_def TransitWithMaint_def
        EnterStandby_def ExitStandby_def Let_def)
  with v TransitToState_error [of e st s] show ?thesis by simp
qed

lemma BlockCurrentState_WORKING:
  "curState s = WORKING \<Longrightarrow> BlockCurrentState e s = s\<lparr>isBlocked := True\<rparr>"
  by (simp add: BlockCurrentState_def OnStateBlocked_def)

text \<open>C23: An attempt to enter DARK from WORKING asks the charge monitor at once: while the
  battery charges or is full the device stays in WORKING and is blocked, otherwise it enters
  DARK; no evaluation is left running.\<close>

theorem charging_keeps_working:
  assumes "inited s" "curState s = WORKING" "GetCurInnerPhase s = 0" "\<not> cm_isEvaluation s" "\<not> isBlocked s"
    and m: "map_of (cm_constraintMap s) (GetHashValue charge_param) = Some ChargeMonitor"
  shows "let (ret, s') = TransitToState e DARK s in
     ret = ERR_OK \<and> \<not> isEvalution s' \<and> \<not> cm_isEvaluation s' \<and>
     (if chargingStatus e \<in> {CHARGE_STATE_ENABLE, CHARGE_STATE_FULL}
      then curState s' = WORKING \<and> isBlocked s'
      else curState s' = DARK \<and> preState s' = WORKING \<and> \<not> isBlocked s')"
proof -
  have v: "CheckTransitionValid WORKING DARK" "WORKING < DARK"
    by (simp_all add: check_transition_defs less_StandbyState_def)
  define s1 where "s1 = s\<lparr>isEvalution := True, cm_isEvaluation := True, cm_curMonitor := Some ChargeMonitor\<rparr>"
  have "TransitToState e DARK s = (ERR_OK, ChargeStateMonitor_StartMonitoring e s1)"
    using assms v
    by (simp add: TransitToState_def TransitToState_with_def EnterStandby_def StartEvalCurrentState_def
        cm_StartEvalution_def charge_param_def s1_def)
  moreover have "cm_isEvaluation s1" "isEvalution s1" "curState s1 = WORKING" "\<not> isBlocked s1"
    using assms by (simp_all add: s1_def)
  ultimately show ?thesis
    by (auto simp: ChargeStateMonitor_StartMonitoring_def EndEvalCurrentState_def
        WorkingState_EndEvalCurrentState_def BlockCurrentState_WORKING Let_def)
qed

text \<open>C25: A block that is set while the device is in MAINTENANCE survives the wake-up: after
  SCREEN_ON the device is in WORKING but still blocked, so the next SCREEN_OFF cannot enter
  DARK.\<close>

theorem maintenance_keeps_block:
  assumes "inited s" "curState s = MAINTENANCE" "isBlocked s"
    and on: "eventId on = COMMON_EVENT" "action on = COMMON_EVENT_SCREEN_ON"
    and off: "eventId off = COMMON_EVENT" "action off = COMMON_EVENT_SCREEN_OFF"
  shows "let s1 = HandleEvent e on s; s2 = HandleEvent e' off s1 in
    curState s1 = WORKING \<and> isBlocked s1 \<and> curState s2 = WORKING \<and> isBlocked s2"
proof -
  have w: "action on \<in> {COMMON_EVENT_SCREEN_ON, COMMON_EVENT_SCREEN_UNLOCKED,
        COMMON_EVENT_CHARGING, COMMON_EVENT_USB_DEVICE_ATTACHED, LID_OPEN}"
       "action on = COMMON_EVENT_SCREEN_ON \<or> isScreenOn s"
    using on by simp_all
  note w = HandleEvent_wake [OF assms(1) on(1) w, of e]
  define s1 where "s1 = HandleEvent e on s"
  have s1: "curState s1 = WORKING" "isBlocked s1"
    using TransitToWorking_result(2,9) [OF w(2), of e] w assms by (simp_all add: s1_def w(1))
  define s2 where "s2 = HandleScreenStatus (action off) (HandleScrOffHalfHour e' (action off) s1)"
  have s2: "curState s2 = WORKING" "isBlocked s2" "\<not> isScreenOn s2"
    using s1 off by (auto simp: s2_def HandleScreenStatus_def HandleScrOffHalfHour_def)
  have "HandleEvent e' off s1 = snd (TransitToState e' DARK s2)"
    using off s2 unfolding HandleEvent_def HandleCommonEvent_def Let_def s2_def
    by (simp add: HandleOpenCloseLid_def CheckEnterDarkState_def action_defs)
  also have "\<dots> = s2"
    using s2 by (simp add: TransitToState_def TransitToState_with_def EnterStandby_def
        less_StandbyState_def check_transition_defs)
  finally show ?thesis
    using s1 s2 by (simp add: s1_def [symmetric] Let_def)
qed


definition hash_range :: "ConstraintEvalParam \<Rightarrow> bool" where
  "hash_range p \<longleftrightarrow> ev_curState p < 256 \<and> ev_curPhase p < 256 \<and> ev_nextState p < 256 \<and> ev_nextPhase p < 128"

lemma uint_shift:
  assumes "uint (x :: u32) < 2 ^ k" and "k + n \<le> 32"
  shows "uint (push_bit n x) = uint x * 2 ^ n"
proof -
  have "uint x * 2 ^ n < 2 ^ k * 2 ^ n"
    using assms(1) by simp
  also have "(2 :: int) ^ k * 2 ^ n \<le> 2 ^ 32"
    using assms(2) power_increasing [of "k + n" 32 "2 :: int"] by (simp flip: power_add)
  finally have "uint x * 2 ^ n < 2 ^ 32" .
  then show ?thesis
    by (subst unsigned_push_bit_eq) (simp add: push_bit_eq_mult take_bit_int_eq_self)
qed

lemma uint_GetHashValue:
  assumes "hash_range p"
  shows "uint (GetHashValue p) =
     uint (ev_curState p) * 2 ^ 24 + (uint (ev_curPhase p) * 2 ^ 16 + (uint (ev_nextState p) * 2 ^ 8 +
       (uint (ev_nextPhase p) * 2 + of_bool (ev_isRepeatedDetection p))))"
proof -
  have r: "uint (ev_curState p) < 256" "uint (ev_curPhase p) < 256" "uint (ev_nextState p) < 256"
    "uint (ev_nextPhase p) < 128"
    using assms by (simp_all add: hash_range_def word_less_def)
  have u: "uint (push_bit 24 (ev_curState p)) = uint (ev_curState p) * 2 ^ 24"
    "uint (push_bit 16 (ev_curPhase p)) = uint (ev_curPhase p) * 2 ^ 16"
    "uint (push_bit 8 (ev_nextState p)) = uint (ev_nextState p) * 2 ^ 8"
    "uint (push_bit 1 (ev_nextPhase p)) = uint (ev_nextPhase p) * 2 ^ 1"
    using r by (intro uint_shift [where k = 8] uint_shift [where k = 7]; simp)+
  show ?thesis
    using r u by (simp add: GetHashValue_def Let_def uint_word_ariths)
qed

lemma digit_unique:
  assumes "0 \<le> r" "r < b" "0 \<le> r'" "r' < b" and e: "a * b + r = a' * b + r'"
  shows "a = a' \<and> r = (r' :: int)"
proof -
  have "(a * b + r) div b = a" "(a' * b + r') div b = a'"
    using assms(1-4) by (simp_all add: div_pos_pos_trivial)
  with e show ?thesis by simp
qed

lemma hash_inj:
  assumes "hash_range p" "hash_range q"
  shows "GetHashValue p = GetHashValue q \<longleftrightarrow> p = q"
proof
  assume "GetHashValue p = GetHashValue q"
  then have e: "uint (GetHashValue p) = uint (GetHashValue q)" by simp
  have r: "uint (ev_curPhase x) < 256" "uint (ev_nextState x) < 256" "uint (ev_nextPhase x) < 128"
    if "hash_range x" for x
    using that by (simp_all add: hash_range_def word_less_def)
  note e = e [unfolded uint_GetHashValue [OF assms(1)] uint_GetHashValue [OF assms(2)]]
  note rp = r [OF assms(1)] and rq = r [OF assms(2)]
  note d1 = digit_unique [OF _ _ _ _ e]
  have 1: "uint (ev_curState p) = uint (ev_curState q)" and
    e1: "uint (ev_curPhase p) * 2 ^ 16 + (uint (ev_nextState p) * 2 ^ 8 +
       (uint (ev_nextPhase p) * 2 + of_bool (ev_isRepeatedDetection p))) =
     uint (ev_curPhase q) * 2 ^ 16 + (uint (ev_nextState q) * 2 ^ 8 +
       (uint (ev_nextPhase q) * 2 + of_bool (ev_isRepeatedDetection q)))"
    using d1 rp rq by auto
  note d2 = digit_unique [OF _ _ _ _ e1]
  have 2: "uint (ev_curPhase p) = uint (ev_curPhase q)" and
    e2: "uint (ev_nextState p) * 2 ^ 8 + (uint (ev_nextPhase p) * 2 + of_bool (ev_isRepeatedDetection p)) =
     uint (ev_nextState q) * 2 ^ 8 + (uint (ev_nextPhase q) * 2 + of_bool (ev_isRepeatedDetection q))"
    using d2 rp rq by auto
  note d3 = digit_unique [OF _ _ _ _ e2]
  have 3: "uint (ev_nextState p) = uint (ev_nextState q)" and
    e3: "uint (ev_nextPhase p) * 2 + of_bool (ev_isRepeatedDetection p) =
     uint (ev_nextPhase q) * 2 + of_bool (ev_isRepeatedDetection q)"
    using d3 rp rq by auto
  have 4: "uint (ev_nextPhase p) = uint (ev_nextPhase q)"
    "of_bool (ev_isRepeatedDetection p) = (of_bool (ev_isRepeatedDetection q) :: int)"
    using digit_unique [OF _ _ _ _ e3] by auto
  show "p = q"
    using 1 2 3 4 by (intro ConstraintEvalParam.equality) (auto intro: word_uint_eq_iff [THEN iffD2])
qed simp

lemma hash_param: "hash_range (mk_param (state_code a) p (state_code b) q)"
  if "p \<le> PHASE_END" "q \<le> PHASE_END" 
  using that by (cases a; cases b) (auto simp: hash_range_def mk_param_def state_code_def PHASE_END_def word_le_def word_less_def)

section \<open>Phases\<close>

lemma phase_lt: "p < PHASE_END \<Longrightarrow> p + 1 \<le> PHASE_END \<and> p \<noteq> PHASE_END"
  by (auto simp: inc_le)

lemma repeated_range: "hash_range (mk_param a b c d\<lparr>ev_isRepeatedDetection := r\<rparr>) = hash_range (mk_param a b c d)"
  by (simp add: hash_range_def mk_param_def)

lemma phase_unconstrained:
  assumes c: "constraints_inv m" and st: "st = NAP \<or> st = SLEEP" and p: "p < PHASE_END"
  shows "map_of m (GetHashValue (mk_param (state_code st) p (state_code st) (p + 1))) = None"
proof (rule ccontr)
  assume "\<not> ?thesis"
  then obtain h where h: "h \<in> {charge_param, motion_param, repeated_param}"
    and e: "GetHashValue (mk_param (state_code st) p (state_code st) (p + 1)) = GetHashValue h"
    using c by (fastforce simp: constraints_inv_def)
  have r: "hash_range h" "hash_range (mk_param (state_code st) p (state_code st) (p + 1))"
    using h p phase_lt [OF p]
    by (auto simp: charge_param_def motion_param_def repeated_param_def repeated_range intro!: hash_param)
  have "mk_param (state_code st) p (state_code st) (p + 1) = h"
    using hash_inj [OF r(2,1)] e by simp
  with h st show False
    by (auto simp: charge_param_def motion_param_def repeated_param_def mk_param_def state_code_def)
qed

lemma TransitToPhase_unconstrained:
  assumes "sm_inv s" "\<not> isEvalution s" and st: "st = NAP \<or> st = SLEEP" "curState s = st"
    and p: "p < PHASE_END"
  shows "TransitToPhase e st p (p + 1) s = State_EndEvalCurrentState e st True s"
proof -
  have f: "\<not> cm_isEvaluation s" "cm_curMonitor s = None"
    using assms(1,2) by (simp_all add: sm_inv_def)
  have m: "map_of (cm_constraintMap s) (GetHashValue (mk_param (state_code st) p (state_code st) (p + 1))) = None"
    using assms(1) by (intro phase_unconstrained st(1) p) (simp add: sm_inv_def)
  have "s\<lparr>cm_curMonitor := None, isEvalution := False, cm_isEvaluation := False\<rparr> = s"
    using f assms(2) by simp
  with m f st(2) show ?thesis
    by (simp add: TransitToPhase_def StartEvalCurrentState_def cm_StartEvalution_def EndEvalCurrentState_def
        cm_StopEvalution_def Let_def)
qed

definition phase_message :: "StandbyState \<Rightarrow> u32 \<Rightarrow> sm_effect" where
  "phase_message st p = E_Dispatch (OutMessage PHASE_TRANSIT
     [(CURRENT_STATE, WInt (state_code st)), (PREVIOUS_PHASE, WInt p), (CURRENT_PHASE, WInt (p + 1))])"

fun is_phase_message :: "sm_effect \<Rightarrow> bool" where
  "is_phase_message (E_Dispatch (OutMessage ev ps)) = (ev = PHASE_TRANSIT)"
| "is_phase_message _ = False"

definition phase_log :: "sm_state \<Rightarrow> sm_effect list" where
  "phase_log s = filter is_phase_message (effects s)"

lemma phase_log_frame [simp]:
  "phase_log (upd_obj st f s) = phase_log s"
  "phase_log (PostTask n t d s) = phase_log s"
  "phase_log (emit (E_StartTimer i at) s) = phase_log s"
  "phase_log (ReleaseStandbyRunningLock s) = phase_log s"
  "phase_log (AcquireStandbyRunningLock e s) = phase_log s"
  "phase_log (TransitToPhaseInner st p (p + 1) s) = phase_log s @ [phase_message st p]"
  by (simp_all add: phase_log_def upd_obj_def PostTask_def emit_def ReleaseStandbyRunningLock_def
      AcquireStandbyRunningLock_def TransitToPhaseInner_def phase_message_def Let_def)

lemma lock_frame [simp]:
  "runningLockStatus (upd_obj st f s) = runningLockStatus s"
  "runningLockStatus (PostTask n t d s) = runningLockStatus s"
  "runningLockStatus (emit ef s) = runningLockStatus s"
  "runningLockStatus (TransitToPhaseInner st p q s) = runningLockStatus s"
  by (simp_all add: upd_obj_def PostTask_def emit_def TransitToPhaseInner_def)

lemma tasks_PostTask: "tasks (PostTask n t d s) = tasks s @ [(n, t, d)]"
  by (simp add: PostTask_def)

lemma phase_step:
  fixes e :: sm_env
  assumes inv: "sm_inv s" "\<not> isEvalution s" and st: "st = NAP \<or> st = SLEEP" "curState s = st"
    and p: "curPhase (objs s st) = p" "p < PHASE_END"
  defines "s' \<equiv> TransitToPhase e st p (p + 1) s"
  shows "sm_inv s'" "\<not> isEvalution s'" "curState s' = st" "curPhase (objs s' st) = p + 1"
    "phase_log s' = phase_log s @ [phase_message st p]"
    "p + 1 = PHASE_END \<Longrightarrow> \<not> runningLockStatus s'"
    "p + 1 \<noteq> PHASE_END \<Longrightarrow> (TRANSIT_NEXT_PHASE_INSTANT_TASK, T_NextPhase st, 0) \<in> set (tasks s')"
proof -
  have s': "s' = State_EndEvalCurrentState e st True s"
    unfolding s'_def by (rule TransitToPhase_unconstrained [OF inv st p(2)])
  show "sm_inv s'"
    unfolding s' by (rule sm_inv_State_EndEval [OF inv(1)])
  have n: "p + 1 < PHASE_END \<longleftrightarrow> p + 1 \<noteq> PHASE_END"
    using phase_lt [OF p(2)] by auto
  define s1 where "s1 = TransitToPhaseInner st p (p + 1) s"
  have s1: "\<not> isEvalution s1" "curState s1 = st" "curPhase (objs s1 st) = p"
    "phase_log s1 = phase_log s @ [phase_message st p]"
    using inv(2) st(2) p(1) by (simp_all add: s1_def)
  define s2 where "s2 = upd_obj st (\<lambda>b. b\<lparr>curPhase := curPhase b + 1\<rparr>) s1"
  have s2: "\<not> isEvalution s2" "curState s2 = st" "curPhase (objs s2 st) = p + 1"
    "phase_log s2 = phase_log s @ [phase_message st p]"
    using s1 by (simp_all add: s2_def)
  define s3 where "s3 = ReleaseStandbyRunningLock s2"
  have s3: "\<not> isEvalution s3" "curState s3 = st" "curPhase (objs s3 st) = p + 1"
    "phase_log s3 = phase_log s @ [phase_message st p]" "\<not> runningLockStatus s3"
    using s2 by (simp_all add: s3_def)
  have "s' = (if p + 1 \<noteq> PHASE_END then PostTask TRANSIT_NEXT_PHASE_INSTANT_TASK (T_NextPhase st) 0 s2
      else if st = NAP \<or> repeatedDetectionTimerId (objs s3 SLEEP) = 0 then s3
      else emit (E_StartTimer (repeatedDetectionTimerId (objs s3 SLEEP))
             (GetWallTimeMs e + REPEATED_MOTION_DETECTION_INTERVAL)) s3)"
    using st(1) p phase_lt [OF p(2)] n unfolding s'
    by (elim disjE) (simp_all add: NapState_EndEvalCurrentState_def NapState_SetPhaseTransitTask_def
        SleepState_EndEvalCurrentState_def SetPhaseTransitOrRepeatedTask_def Let_def
        s1_def s2_def s3_def)
  then show "\<not> isEvalution s'" "curState s' = st" "curPhase (objs s' st) = p + 1"
    "phase_log s' = phase_log s @ [phase_message st p]"
    "p + 1 = PHASE_END \<Longrightarrow> \<not> runningLockStatus s'"
    "p + 1 \<noteq> PHASE_END \<Longrightarrow> (TRANSIT_NEXT_PHASE_INSTANT_TASK, T_NextPhase st, 0) \<in> set (tasks s')"
    using s2 s3 by (simp_all add: tasks_PostTask)
qed

text \<open>C7: After entering NAP or SLEEP the three queued phase closures take the state to its
  final phase whatever the environment answers: each announces its phase transition, the
  first two queue the next one, and the last releases the running lock.\<close>

theorem phases_complete:
  assumes inv: "sm_inv s" "\<not> isEvalution s" and st: "st = NAP \<or> st = SLEEP" "curState s = st"
    and p: "curPhase (objs s st) = PHASE_BEGIN"
  shows "let s1 = run_task e1 (T_FirstPhase st) s;
             s2 = run_task e2 (T_NextPhase st) s1;
             s3 = run_task e3 (T_NextPhase st) s2
         in curState s3 = st \<and> curPhase (objs s3 st) = PHASE_END \<and> IsInFinalPhase st s3 \<and>
            \<not> runningLockStatus s3 \<and> \<not> isEvalution s3 \<and>
            (TRANSIT_NEXT_PHASE_INSTANT_TASK, T_NextPhase st, 0) \<in> set (tasks s1) \<inter> set (tasks s2) \<and>
            phase_log s3 = phase_log s @ map (phase_message st) [0, 1, 2]"
proof -
  define s0 where "s0 = AcquireStandbyRunningLock e1 s"
  define s1 where "s1 = run_task e1 (T_FirstPhase st) s"
  define s2 where "s2 = run_task e2 (T_NextPhase st) s1"
  define s3 where "s3 = run_task e3 (T_NextPhase st) s2"
  have s0: "sm_inv s0" "\<not> isEvalution s0" "curState s0 = st" "curPhase (objs s0 st) = 0" "phase_log s0 = phase_log s"
    using inv st p by (simp_all add: s0_def PHASE_BEGIN_def)
  have s1': "s1 = TransitToPhase e1 st 0 (0 + 1) s0"
    using s0(4) by (simp add: s1_def s0_def Let_def)
  note 1 = phase_step [OF s0(1,2) st(1) s0(3,4), of e1, folded s1']
  have s2': "s2 = TransitToPhase e2 st 1 (1 + 1) s1"
    using 1(4) by (simp add: s2_def Let_def PHASE_END_def)
  have 1: "sm_inv s1" "\<not> isEvalution s1" "curState s1 = st" "curPhase (objs s1 st) = 1"
     "phase_log s1 = phase_log s @ [phase_message st 0]"
     "(TRANSIT_NEXT_PHASE_INSTANT_TASK, T_NextPhase st, 0) \<in> set (tasks s1)"
    using 1 s0(5) by (simp_all add: PHASE_END_def)
  note 2 = phase_step [OF 1(1,2) st(1) 1(3,4), of e2, folded s2']
  have s3': "s3 = TransitToPhase e3 st 2 (2 + 1) s2"
    using 2(4) by (simp add: s3_def Let_def PHASE_END_def)
  have 2: "sm_inv s2" "\<not> isEvalution s2" "curState s2 = st" "curPhase (objs s2 st) = 2"
     "phase_log s2 = phase_log s @ [phase_message st 0, phase_message st 1]"
     "(TRANSIT_NEXT_PHASE_INSTANT_TASK, T_NextPhase st, 0) \<in> set (tasks s2)"
    using 2 1(5) by (simp_all add: PHASE_END_def)
  note 3 = phase_step [OF 2(1,2) st(1) 2(3,4), of e3, folded s3']
  have "curState s3 = st" "curPhase (objs s3 st) = PHASE_END" "\<not> runningLockStatus s3" "\<not> isEvalution s3"
     "phase_log s3 = phase_log s @ map (phase_message st) [0, 1, 2]"
    using 3 2(5) by (simp_all add: PHASE_END_def)
  then show ?thesis
    using 1(6) 2(6) unfolding Let_def s1_def [symmetric] s2_def [symmetric] s3_def [symmetric]
    by (simp add: IsInFinalPhase_def)
qed

section \<open>Maintenance, failures and verdicts\<close>

lemma CalculateMaintTimeOut_index:
  assumes "maintInterval (objs s st) \<noteq> []"
  shows "maintInterval (objs (snd (CalculateMaintTimeOut e st b s)) st) = maintInterval (objs s st)"
    and "maintIntervalIndex (objs (snd (CalculateMaintTimeOut e st b s)) st) =
      (if b then maintIntervalIndex (objs s st)
       else min (maintIntervalIndex (objs s st) + 1) (int (length (maintInterval (objs s st))) - 1))"
  using assms by (simp_all add: CalculateMaintTimeOut_def Let_def split: prod.split)

lemma CalculateMaintTimeOut_day:
  assumes "maintInterval (objs s st) \<noteq> []"
    and "i = maintIntervalIndex (objs (snd (CalculateMaintTimeOut e st b s)) st)"
    and "GetCondition (te e) (sint (maintInterval (objs s st) ! nat i)) = DAY_STANDBY"
  shows "fst (CalculateMaintTimeOut e st b s) = sint (maintInterval (objs s st) ! nat i) * 1000"
  using assms(1,3) unfolding assms(2) CalculateMaintTimeOut_index(2) [OF assms(1)]
  by (simp add: CalculateMaintTimeOut_def Let_def DAY_STANDBY_def NIGHT_STANDBY_def MSEC_PER_SEC_def
      split: prod.split)


lemma BlockCurrentState_fields [simp]:
  "curState (BlockCurrentState e s) = curState s" "preState (BlockCurrentState e s) = preState s"
  "isEvalution (BlockCurrentState e s) = isEvalution s" "isBlocked (BlockCurrentState e s)"
proof -
  have "ctl (OnStateBlocked e st s) = ctl s" for st s
    by (auto simp: OnStateBlocked_def Let_def frame_simps dest: CalculateMaintTimeOut_ctl split: prod.split)
  note [simp] = this [THEN ctl_D]
  show "curState (BlockCurrentState e s) = curState s" "preState (BlockCurrentState e s) = preState s"
    "isEvalution (BlockCurrentState e s) = isEvalution s" "isBlocked (BlockCurrentState e s)"
    by (simp_all add: BlockCurrentState_def Let_def)
qed

text \<open>C27: When the transition timer fires in a blocked state that would go deeper, the closure
  stops a running evaluation, keeps the state, leaves it blocked and gives the running lock
  back.\<close>

theorem failed_task_blocks:
  assumes "isBlocked s" and "inited s" and "curState s < nextState (objs s st)"
    and "MAINTENANCE \<notin> {curState s, nextState (objs s st)}"
  shows "let s' = TransitNextState_task e st s in
     isBlocked s' \<and> \<not> runningLockStatus s' \<and> \<not> isEvalution s' \<and>
     curState s' = curState s \<and> preState s' = preState s"
proof -
  define s1 where "s1 = (let s = AcquireStandbyRunningLock e s in if isEvalution s then StopEvalution s else s)"
  have s1: "curState s1 = curState s" "preState s1 = preState s" "\<not> isEvalution s1" "objs s1 = objs s"
      "isBlocked s1" "inited s1"
    using assms(1,2) by (auto simp: s1_def Let_def StopEvalution_def)
  have "CheckTransitionValid (curState s1) (nextState (objs s st))"
    using assms s1 by (cases "curState s"; cases "nextState (objs s st)")
      (simp_all add: check_transition_defs less_StandbyState_def)
  then have "fst (TransitToState e (nextState (objs s1 st)) s1) = ERR_STANDBY_STATAE_BLOCKED"
    using assms s1 by (auto simp: TransitToState_def TransitToState_with_def EnterStandby_def)
  then have "TransitToState e (nextState (objs s1 st)) s1 = (ERR_STANDBY_STATAE_BLOCKED, s1)"
    using TransitToState_error [of e "nextState (objs s1 st)" s1] by (simp add: prod_eq_iff)
  then have "TransitNextState_task e st s = ReleaseStandbyRunningLock (BlockCurrentState e s1)"
    by (simp add: TransitNextState_task_def s1_def Let_def)
  with s1 show ?thesis by (simp add: Let_def)
qed

text \<open>The force-sleep event takes the machine to SLEEP from every state, unblocked and with
  the running lock released when it was elsewhere.\<close>

theorem force_sleep:
  assumes "eventId msg = COMMON_EVENT" and "action msg = COMMON_EVENT_ENTER_FORCE_SLEEP"
  shows "let s' = HandleEvent e msg s in
    curState s' = SLEEP \<and> (curState s \<noteq> SLEEP \<longrightarrow> preState s' = curState s \<and> \<not> isBlocked s' \<and> \<not> runningLockStatus s')"
proof -
  have l: "HandleScrOffHalfHour e COMMON_EVENT_ENTER_FORCE_SLEEP s = s"
    "HandleOpenCloseLid e COMMON_EVENT_ENTER_FORCE_SLEEP s = s"
    "HandleScreenStatus COMMON_EVENT_ENTER_FORCE_SLEEP s = s"
    by (simp_all add: HandleScrOffHalfHour_def HandleOpenCloseLid_def HandleScreenStatus_def LID_OPEN_def)
  have c: "curState (TransitHoldSleepState e s) = SLEEP"
    by (simp add: TransitHoldSleepState_def Let_def)
  have "HandleEvent e msg s = TransitHoldSleepState e s"
    using assms c by (simp add: HandleEvent_def HandleCommonEvent_def Let_def l COMMON_EVENT_USER_SLEEP_STATE_CHANGED_def)
  moreover have "runningLockStatus (snd (StopTimedTask st n s)) = runningLockStatus s" for st n s
    by (simp add: StopTimedTask_def split: option.split)
  ultimately show ?thesis
    using c by (simp add: TransitHoldSleepState_def Let_def UnblockCurrentState_def)
qed

text \<open>C24: In the final phase of NAP the verdict of an evaluation decides: motion takes the
  device to WORKING unblocked, rest takes it to SLEEP unless NAP is the last configured
  state; the evaluation and its monitor are ended either way.\<close>

theorem nap_final_verdict:
  assumes "sm_inv s" "isEvalution s" "curState s = NAP" "curPhase (objs s NAP) = PHASE_END"
  shows "let (ret, s') = EndEvalCurrentState e verdict s in
    ret = ERR_OK \<and> \<not> isEvalution s' \<and> cm_curMonitor s' = None \<and>
    curState s' = (if \<not> verdict then WORKING else if nextState (objs s NAP) \<noteq> NAP then SLEEP else NAP) \<and>
    (\<not> verdict \<longrightarrow> \<not> isBlocked s')"
proof -
  define s1 where "s1 = snd (cm_StopEvalution (s\<lparr>isEvalution := False\<rparr>))"
  have s1: "inited s1" "curState s1 = NAP" "objs s1 = objs s" "\<not> isEvalution s1" "cm_curMonitor s1 = None"
    using assms by (simp_all add: s1_def sm_inv_def)
  have e: "EndEvalCurrentState e verdict s = (ERR_OK, HandleEvalResToSleepState e verdict s1)"
    using assms s1 by (simp add: EndEvalCurrentState_def s1_def [symmetric] NapState_EndEvalCurrentState_def Let_def)
  have m: "cm_curMonitor (snd (ExitStandby e WORKING s)) = cm_curMonitor s" if "\<not> isEvalution s" for s
    using that by (simp add: ExitStandby_def UnblockCurrentState_def Let_def)
  show ?thesis
    unfolding e using s1 TransitToWorking_result(2,7,8) [OF s1(1), of e] 
    by (auto simp: HandleEvalResToSleepState_def TransitToWorking_cases [OF s1(1)] m)
qed

theorem end_without_start:
  "\<not> isEvalution s \<Longrightarrow> EndEvalCurrentState e verdict s = (ERR_STANDBY_STATE_TIMING_SEQ_ERROR, s)"
  by (simp add: EndEvalCurrentState_def)

lemma dump_D_alone: "StateManager_ShellDump e [''-D''] s result = None"
  by (simp add: StateManager_ShellDump_def arg_at_def Let_def)

section \<open>A concrete machine\<close>

definition demo_cfg :: config_state where
  "demo_cfg = config_init\<lparr>
     standbySwitchMap := [(NAP_SWITCH, True), (SLEEP_SWITCH, True), (DETECT_MOTION_CONFIG, True)],
     standbyParaMap := [(DARK_TIMEOUT, 60), (NAP_TIMEOUT, 600), (NAP_MAINTENANCE_TIMEOUT, 30),
       (SLEEP_MAINT_TIMEOUT, 30)],
     intervalListMap := [(NAP_MAINT_DURATION, [100, 200]), (SLEEP_MAINT_DURATOIN, [300, 600, 900])] \<rparr>"

definition demo_env :: sm_env where
  "demo_env = \<lparr> te = demo_time, cfg = demo_cfg, createTimer = (\<lambda>_. 7), startTimer = (\<lambda>_ _. True),
     createLock = True, powerScreenOn = True, chargingStatus = Charge_Other 0, allSensors_ret = 0,
     allSensors_info = Some [ACCELEROMETER], allSensors_count = 1, subscribeSensor = (\<lambda>_. 0),
     activateSensor = (\<lambda>_. 0) \<rparr>"

definition demo_start :: sm_state where
  "demo_start = sm_fresh\<lparr>inited := True, objs := new_obj demo_cfg, isScreenOn := True,
     cm_constraintMap := [(GetHashValue charge_param, ChargeMonitor),
       (GetHashValue motion_param, MotionMonitor), (GetHashValue repeated_param, RepeatedMotionMonitor)]\<rparr>"

definition demo_in :: "StandbyState \<Rightarrow> StandbyState \<Rightarrow> sm_state" where
  "demo_in pre st = demo_start\<lparr>preState := pre, curState := st\<rparr>"

definition demo_msg :: "event_action \<Rightarrow> StandbyMessage" where
  "demo_msg act = \<lparr> eventId = COMMON_EVENT, action = act, msg_want = None \<rparr>"

lemma demo_in_facts [simp]:
  "inited (demo_in pre st)" "curState (demo_in pre st) = st" "preState (demo_in pre st) = pre"
  "\<not> isEvalution (demo_in pre st)" "\<not> isBlocked (demo_in pre st)" "objs (demo_in pre st) = new_obj demo_cfg"
  "\<not> cm_isEvaluation (demo_in pre st)"
  by (simp_all add: demo_in_def demo_start_def sm_fresh_def)

lemma demo_in_inv: "st \<noteq> MAINTENANCE \<Longrightarrow> sm_inv (demo_in pre st)"
  by (auto simp: demo_in_def demo_start_def sm_fresh_def sm_inv_def maint_inv_def objs_inv_def new_obj_inv
      constraints_inv_def split: if_splits)

lemma demo_init_ok: "fst (sm_start demo_env)"
  by (simp add: sm_start_def case_prod_unfold StateManager_Init_def indexToState_def BaseState_Init_def SleepState_Init_def
      WorkingState_BeginState_def Let_def demo_env_def split: prod.split)

lemma demo_reachable: "reachable sm_init sm_step (snd (sm_start demo_env))"
  using demo_init_ok by (auto intro!: reachable_init simp: sm_init_def prod_eq_iff)

theorem wake_up_witness:
  "let s' = HandleEvent demo_env (demo_msg COMMON_EVENT_SCREEN_ON) (demo_in DARK NAP) in
     curState s' = WORKING \<and> preState s' = NAP \<and> \<not> isBlocked s' \<and> \<not> isEvalution s'"
  using wake_up [of "demo_in DARK NAP" "demo_msg COMMON_EVENT_SCREEN_ON" demo_env]
  by (simp add: demo_msg_def Let_def)

theorem transit_rejected_witness:
  "TransitToState demo_env MAINTENANCE (demo_in WORKING DARK) =
     (ERR_STANDBY_STATE_TRANSITION_FAILED, demo_in WORKING DARK)"
  using transit_rejected [of "demo_in WORKING DARK" demo_env MAINTENANCE]
  by (simp add: prod_eq_iff)

theorem charging_keeps_working_witness:
  "let (ret, s') = TransitToState (demo_env\<lparr>chargingStatus := CHARGE_STATE_FULL\<rparr>) DARK (demo_in WORKING WORKING)
   in ret = ERR_OK \<and> curState s' = WORKING \<and> isBlocked s'"
proof -
  have "GetCurInnerPhase (demo_in WORKING WORKING) = 0" "\<not> cm_isEvaluation (demo_in WORKING WORKING)"
    "map_of (cm_constraintMap (demo_in WORKING WORKING)) (GetHashValue charge_param) = Some ChargeMonitor"
    by (simp_all add: GetCurInnerPhase_def base_obj_def, simp add: demo_in_def demo_start_def)
  with charging_keeps_working [of "demo_in WORKING WORKING" "demo_env\<lparr>chargingStatus := CHARGE_STATE_FULL\<rparr>"]
  show ?thesis by (auto split: prod.splits)
qed

theorem maintenance_keeps_block_witness:
  "let s = (demo_in NAP MAINTENANCE)\<lparr>isBlocked := True\<rparr>;
       s1 = HandleEvent demo_env (demo_msg COMMON_EVENT_SCREEN_ON) s;
       s2 = HandleEvent demo_env (demo_msg COMMON_EVENT_SCREEN_OFF) s1
   in isBlocked s2 \<and> curState s2 = WORKING"
  using maintenance_keeps_block [of "(demo_in NAP MAINTENANCE)\<lparr>isBlocked := True\<rparr>"
    "demo_msg COMMON_EVENT_SCREEN_ON" "demo_msg COMMON_EVENT_SCREEN_OFF" demo_env demo_env]
  by (simp add: demo_msg_def Let_def)

theorem phases_complete_witness:
  "let s3 = run_task demo_env (T_NextPhase SLEEP) (run_task demo_env (T_NextPhase SLEEP)
              (run_task demo_env (T_FirstPhase SLEEP) (demo_in NAP SLEEP)))
   in curPhase (objs s3 SLEEP) = PHASE_END \<and> \<not> runningLockStatus s3"
proof -
  have "curPhase (objs (demo_in NAP SLEEP) SLEEP) = PHASE_BEGIN"
    by (simp add: SleepState_def base_obj_def PHASE_BEGIN_def)
  with phases_complete [of "demo_in NAP SLEEP" SLEEP demo_env demo_env demo_env] demo_in_inv [of SLEEP NAP]
  show ?thesis by (simp add: Let_def del: run_task.simps)
qed


theorem failed_task_blocks_witness:
  "let s = (demo_in WORKING DARK)\<lparr>isBlocked := True\<rparr>; s' = TransitNextState_task demo_env DARK s
   in isBlocked s' \<and> \<not> runningLockStatus s' \<and> curState s' = DARK"
proof -
  have "nextState (new_obj demo_cfg DARK) = NAP"
    by (simp add: DarkState_def base_obj_def demo_cfg_def GetStandbySwitch_def GetConfigWithName_def)
  then show ?thesis
    using failed_task_blocks [of "(demo_in WORKING DARK)\<lparr>isBlocked := True\<rparr>" DARK demo_env]
    by (simp add: Let_def less_StandbyState_def)
qed

theorem force_sleep_witness:
  "curState (HandleEvent demo_env (demo_msg COMMON_EVENT_ENTER_FORCE_SLEEP) demo_start) = SLEEP"
  using force_sleep [of "demo_msg COMMON_EVENT_ENTER_FORCE_SLEEP" demo_env demo_start]
  by (simp add: demo_msg_def Let_def)

theorem nap_final_verdict_witness:
  "let s = (upd_obj NAP (\<lambda>b. b\<lparr>curPhase := PHASE_END\<rparr>) (demo_in DARK NAP))
             \<lparr>isEvalution := True, cm_isEvaluation := True\<rparr>
   in curState (snd (EndEvalCurrentState demo_env False s)) = WORKING"
proof -
  define s where "s = (upd_obj NAP (\<lambda>b. b\<lparr>curPhase := PHASE_END\<rparr>) (demo_in DARK NAP))
             \<lparr>isEvalution := True, cm_isEvaluation := True\<rparr>"
  have "sm_inv (upd_obj NAP (\<lambda>b. b\<lparr>curPhase := PHASE_END\<rparr>) (demo_in DARK NAP))"
    by (rule sm_inv_upd_obj [OF demo_in_inv]) (simp_all add: obj_inv_def)
  then have "sm_inv s"
    by (simp add: s_def sm_inv_def maint_inv_def objs_inv_def)
  then show ?thesis
    using nap_final_verdict [of s demo_env False] by (simp add: s_def [symmetric]) (simp add: s_def split: prod.splits)
qed



end
