(* ===== verification/State_Messages.thy ===== *)
theory State_Messages
  imports State_Props
begin

text \<open>
  The messages the state machine dispatches: \<open>messages s\<close> are the dispatched messages of the
  log in order, \<open>new_messages s s'\<close> those a later state has added. A wake-up from standby adds
  the end of the half-hour control, when it was on, and one transition to WORKING; a phase
  transition adds its announcement.
\<close>

fun dispatched :: "sm_effect \<Rightarrow> out_message option" where
  "dispatched (E_Dispatch m) = Some m"
| "dispatched _ = None"

definition messages :: "sm_state \<Rightarrow> out_message list" where
  "messages s = List.map_filter dispatched (effects s)"

definition new_messages :: "sm_state \<Rightarrow> sm_state \<Rightarrow> out_message list" where
  "new_messages s s' = drop (length (messages s)) (messages s')"

lemma new_messages_append: "messages s' = messages s @ l \<Longrightarrow> new_messages s s' = l"
  by (simp add: new_messages_def)

lemma map_filter_snoc:
  "List.map_filter f (xs @ [x]) = List.map_filter f xs @ (case f x of None \<Rightarrow> [] | Some y \<Rightarrow> [y])"
  by (induction xs) (simp_all add: map_filter_simps split: option.split)

lemma messages_emit [simp]:
  "messages (emit ef s) = messages s @ (case dispatched ef of None \<Rightarrow> [] | Some m \<Rightarrow> [m])"
  by (simp add: messages_def emit_def map_filter_snoc)

lemma messages_cong: "effects s = effects s' \<Longrightarrow> messages s = messages s'"
  by (simp add: messages_def)

lemma messages_update [simp]:
  "messages (s\<lparr>tasks := x1\<rparr>) = messages s" "messages (s\<lparr>objs := x2\<rparr>) = messages s"
  "messages (s\<lparr>mons := x3\<rparr>) = messages s" "messages (s\<lparr>preState := x4\<rparr>) = messages s"
  "messages (s\<lparr>curState := x5\<rparr>) = messages s" "messages (s\<lparr>runningLockStatus := x6\<rparr>) = messages s"
  "messages (s\<lparr>standbyRunningLock := x7\<rparr>) = messages s" "messages (s\<lparr>isEvalution := x8\<rparr>) = messages s"
  "messages (s\<lparr>isBlocked := x9\<rparr>) = messages s" "messages (s\<lparr>stateRecordList := x10\<rparr>) = messages s"
  "messages (s\<lparr>cm_isEvaluation := x11\<rparr>) = messages s" "messages (s\<lparr>cm_curMonitor := x12\<rparr>) = messages s"
  "messages (s\<lparr>isScreenOn := x13\<rparr>) = messages s" "messages (s\<lparr>scrOffHalfHourCtrl := x14\<rparr>) = messages s"
  by (simp_all add: messages_def)

lemma messages_frame [simp]:
  "messages (upd_obj st f s) = messages s" "messages (PostTask n t d s) = messages s"
  "messages (RemoveTask n s) = messages s" "messages (upd_mon m g s) = messages s"
  "messages (RecordStateTransition e s) = messages s" "messages (UnblockCurrentState s) = messages s"
  "messages (ReleaseStandbyRunningLock s) = messages s"
  "messages (AcquireStandbyRunningLock e s) = messages s"
  "messages (snd (StopTimedTask st n s)) = messages s"
  by (simp_all add: upd_obj_def PostTask_def RemoveTask_def upd_mon_def RecordStateTransition_def
      UnblockCurrentState_def ReleaseStandbyRunningLock_def AcquireStandbyRunningLock_def
      StopTimedTask_def Let_def split: option.split)

lemma messages_EndState [simp]: "messages (snd (EndState st s)) = messages s"
  by (cases st) (simp_all add: WorkingState_EndState_def DarkState_EndState_def NapState_EndState_def
      MaintenanceState_EndState_def SleepState_EndState_def Let_def)

lemma messages_fold_sensors [simp]:
  "messages (fold (\<lambda>(sensor, _) s. emit (E_UnsubscribeSensor sensor) (emit (E_DeactivateSensor sensor) s)) xs s) = messages s"
  by (induction xs arbitrary: s) (simp_all add: split_def)

lemma messages_StopEvalution [simp]: "messages (snd (cm_StopEvalution s)) = messages s"
proof -
  have "messages (StopMonitoring m s) = messages s" for m s
    by (cases m) (simp_all add: StopMonitoringInner_def StopSensor_def)
  then show ?thesis
    by (simp add: cm_StopEvalution_def Let_def split: option.split)
qed

section \<open>Wake-up\<close>

definition state_out :: "StandbyState \<Rightarrow> StandbyState \<Rightarrow> out_message" where
  "state_out pre cur = OutMessage STATE_TRANSIT
     [(PREVIOUS_STATE, WInt (state_code pre)), (CURRENT_STATE, WInt (state_code cur))]"

lemma messages_TransitToWorkingInner:
  "messages (snd (TransitToStateInner e WORKING s)) = messages s @ [state_out (curState s) WORKING]"
  by (simp add: TransitToStateInner_def WorkingState_BeginState_def SendNotification_def Let_def
      state_out_def event_id_defs)

definition half_hour_out :: "sm_state \<Rightarrow> out_message list" where
  "half_hour_out s = (if scrOffHalfHourCtrl s
     then [OutMessage SCREEN_OFF_HALF_HOUR [(SCR_OFF_HALF_HOUR_STATUS, WBool False)]] else [])"

lemma messages_half_hour:
  "messages (if scrOffHalfHourCtrl s then OnScreenOffHalfHour False False s else s) = messages s @ half_hour_out s"
  by (simp add: OnScreenOffHalfHour_def OnScreenOffHalfHourInner_def half_hour_out_def)

lemma curState_half_hour:
  "curState (if scrOffHalfHourCtrl s then OnScreenOffHalfHour False False s else s) = curState s"
  by (simp add: OnScreenOffHalfHour_def OnScreenOffHalfHourInner_def)

lemma messages_TransitToWorking:
  assumes "inited s" "curState s \<noteq> WORKING"
  shows "messages (snd (TransitToWorking e s)) = messages s @ half_hour_out s @ [state_out (curState s) WORKING]"
proof (cases "curState s = MAINTENANCE")
  case True
  then show ?thesis
    using assms messages_half_hour [of s] curState_half_hour [of s]
    by (simp add: TransitToWorking_cases TransitWithMaint_def messages_TransitToWorkingInner)
next
  case False
  define t where "t = UnblockCurrentState (if isEvalution s then (snd (cm_StopEvalution s))\<lparr>isEvalution := False\<rparr> else s)"
  have t: "messages t = messages s" "curState t = curState s" "half_hour_out t = half_hour_out s"
    by (simp_all add: t_def half_hour_out_def UnblockCurrentState_def)
  have "snd (TransitToWorking e s) =
      snd (TransitToStateInner e WORKING (if scrOffHalfHourCtrl t then OnScreenOffHalfHour False False t else t))"
    using assms False by (simp add: TransitToWorking_cases ExitStandby_def Let_def t_def)
  then show ?thesis
    using messages_half_hour [of t] curState_half_hour [of t] t by (simp add: messages_TransitToWorkingInner)
qed

lemma messages_screen_on:
  assumes "inited s" "eventId m = COMMON_EVENT" "action m = COMMON_EVENT_SCREEN_ON" "curState s \<noteq> WORKING"
  shows "new_messages s (HandleEvent e m s) = half_hour_out s @ [state_out (curState s) WORKING]"
proof -
  note w = HandleEvent_wake [OF assms(1,2), of e]
  show ?thesis
    using assms(3,4) w messages_TransitToWorking [OF w(2), of e]
    by (intro new_messages_append) (simp add: HandleScreenStatus_def HandleScrOffHalfHour_def half_hour_out_def)
qed

section \<open>The phases of a state\<close>

definition phase_out :: "StandbyState \<Rightarrow> u32 \<Rightarrow> out_message" where
  "phase_out st p = OutMessage PHASE_TRANSIT
     [(CURRENT_STATE, WInt (state_code st)), (PREVIOUS_PHASE, WInt p), (CURRENT_PHASE, WInt (p + 1))]"

lemma messages_phase_step:
  assumes "sm_inv s" "\<not> isEvalution s" "st = NAP \<or> st = SLEEP" "curState s = st"
    and p: "curPhase (objs s st) = p" "p < PHASE_END"
  shows "messages (TransitToPhase e st p (p + 1) s) = messages s @ [phase_out st p]"
proof -
  have "messages (State_EndEvalCurrentState e st True s) = messages s @ [phase_out st p]"
    using assms(3,4) p phase_lt [OF p(2)]
    by (elim disjE) (simp_all add: NapState_EndEvalCurrentState_def NapState_SetPhaseTransitTask_def
        SleepState_EndEvalCurrentState_def SetPhaseTransitOrRepeatedTask_def Let_def
        TransitToPhaseInner_def phase_out_def event_id_defs)
  then show ?thesis
    unfolding TransitToPhase_unconstrained [OF assms(1-4) p(2)] .
qed

definition run_phases :: "sm_env \<Rightarrow> sm_env \<Rightarrow> sm_env \<Rightarrow> StandbyState \<Rightarrow> sm_state \<Rightarrow> sm_state" where
  "run_phases e1 e2 e3 st s = run_task e3 (T_NextPhase st) (run_task e2 (T_NextPhase st) (run_task e1 (T_FirstPhase st) s))"

lemma run_phases_messages:
  assumes inv: "sm_inv s" "\<not> isEvalution s" and st: "st = NAP \<or> st = SLEEP" "curState s = st"
    and p: "curPhase (objs s st) = PHASE_BEGIN"
  shows "new_messages s (run_phases e1 e2 e3 st s) = map (phase_out st) [0, 1, 2]"
proof -
  define s0 where "s0 = AcquireStandbyRunningLock e1 s"
  have s0: "sm_inv s0" "\<not> isEvalution s0" "curState s0 = st" "curPhase (objs s0 st) = 0" "messages s0 = messages s"
    using inv st p by (simp_all add: s0_def PHASE_BEGIN_def)
  have lt: "(0 :: u32) < PHASE_END" "(1 :: u32) < PHASE_END" "(2 :: u32) < PHASE_END"
    by (simp_all add: PHASE_END_def)
  define s1 where "s1 = TransitToPhase e1 st 0 (0 + 1) s0"
  note q1 = phase_step [OF s0(1,2) st(1) s0(3,4) lt(1), of e1, folded s1_def]
    messages_phase_step [OF s0(1,2) st(1) s0(3,4) lt(1), of e1, folded s1_def]
  define s2 where "s2 = TransitToPhase e2 st 1 (1 + 1) s1"
  have c1: "curPhase (objs s1 st) = 1" using q1(4) by simp
  note q2 = phase_step [OF q1(1,2) st(1) q1(3) c1 lt(2), of e2, folded s2_def]
    messages_phase_step [OF q1(1,2) st(1) q1(3) c1 lt(2), of e2, folded s2_def]
  define s3 where "s3 = TransitToPhase e3 st 2 (2 + 1) s2"
  have c2: "curPhase (objs s2 st) = 2" using q2(4) by simp
  note q3 = messages_phase_step [OF q2(1,2) st(1) q2(3) c2 lt(3), of e3, folded s3_def]
  have "run_task e1 (T_FirstPhase st) s = s1"
    using s0(4) by (simp add: s1_def s0_def Let_def)
  moreover have "run_task e2 (T_NextPhase st) s1 = s2"
    using c1 by (simp add: s2_def Let_def PHASE_END_def)
  moreover have "run_task e3 (T_NextPhase st) s2 = s3"
    using c2 by (simp add: s3_def Let_def PHASE_END_def)
  ultimately show ?thesis
    using q1(8) q2(8) q3 s0(5) by (intro new_messages_append) (simp add: run_phases_def)
qed

end
