(* ===== verification/Listener_Manager.thy ===== *)
theory Listener_Manager
  imports Strategy_Base
begin

text \<open>
  \<open>ListenerManagerAdapter\<close> (\<open>plugins/message_listener/src/listener_manager_adapter.cpp\<close>), the
  input and the background task listener it owns, and the device mode of
  \<open>device_standby_switch.cpp\<close>. The map keeps the first background task listener it is given, so
  the two listener objects are two constructors; \<open>subscriberId_\<close> is that of the newest input
  listener. Calls to other services are a log.
\<close>

datatype StandbyMode = UNKNOWN_MODE | TABLETMODE | PHONEMODE | WATCHMODE | TVMODE | IVIMODE

definition MODE_MAX_NUM :: i32 where "MODE_MAX_NUM = 5"

definition mode_of :: "nat \<Rightarrow> StandbyMode" where
  "mode_of n = [UNKNOWN_MODE, TABLETMODE, PHONEMODE, WATCHMODE, TVMODE, IVIMODE] ! n"

definition DEVICE_STANGDY_MODE :: string where "DEVICE_STANGDY_MODE = ''device_standby_mode''"

definition InitStandyMode :: "config_state \<Rightarrow> StandbyMode" where
  "InitStandyMode c =
     (let mode = GetStandbyParam c DEVICE_STANGDY_MODE
      in if 0 < sint mode \<and> sint mode \<le> sint MODE_MAX_NUM then mode_of (nat (sint mode)) else PHONEMODE)"

datatype listener = InputManagerListener | BackgroundTaskListener

datatype listener_call =
    LC_SubscribeSwitch
  | LC_UnsubscribeSwitch i32
  | LC_SubscribeBgTask
  | LC_UnsubscribeBgTask

record listener_state =
  messageListenerList :: "listener list"
  listenerPluginMap :: "(i32 \<times> listener) list"
  subscriberId :: i32
  ls_calls :: "listener_call list"

record listener_env =
  ls_mode :: StandbyMode
  subscribeSwitchEvent :: i32
  subscribeBgTaskOk :: bool
  unsubscribeBgTaskOk :: bool
  bgTaskServiceId :: i32

definition ls_call :: "listener_call \<Rightarrow> listener_state \<Rightarrow> listener_state" where
  "ls_call c s = s\<lparr>ls_calls := ls_calls s @ [c]\<rparr>"

primrec listener_StartListener :: "listener_env \<Rightarrow> listener \<Rightarrow> listener_state \<Rightarrow> err \<times> listener_state" where
  "listener_StartListener e InputManagerListener s =
     (ERR_OK, (ls_call LC_SubscribeSwitch s)\<lparr>subscriberId := subscribeSwitchEvent e\<rparr>)"
| "listener_StartListener e BackgroundTaskListener s =
     (if subscribeBgTaskOk e then ERR_OK else ERR_REGISTER_BACKGROUND_TASK_FAILED, ls_call LC_SubscribeBgTask s)"

primrec listener_StopListener :: "listener_env \<Rightarrow> listener \<Rightarrow> listener_state \<Rightarrow> err \<times> listener_state" where
  "listener_StopListener e InputManagerListener s =
     (if sint (subscriberId s) < 0 then (ERR_STANDBY_STOP_LISENER_FAILED, s)
      else (ERR_OK, (ls_call (LC_UnsubscribeSwitch (subscriberId s)) s)\<lparr>subscriberId := 0\<rparr>))"
| "listener_StopListener e BackgroundTaskListener s =
     (if unsubscribeBgTaskOk e then ERR_OK else ERR_UNREGISTER_BACKGROUND_TASK_FAILED, ls_call LC_UnsubscribeBgTask s)"

definition ListenerManager_Init :: "listener_env \<Rightarrow> listener_state \<Rightarrow> bool \<times> listener_state" where
  "ListenerManager_Init e s =
     (if ls_mode e \<noteq> PHONEMODE \<and> ls_mode e \<noteq> TABLETMODE \<and> ls_mode e \<noteq> UNKNOWN_MODE then (False, s)
      else (True, s\<lparr>subscriberId := 0, messageListenerList := messageListenerList s @ [InputManagerListener],
              listenerPluginMap := emplace (bgTaskServiceId e) BackgroundTaskListener (listenerPluginMap s)\<rparr>))"

definition ListenerManager_StartListener :: "listener_env \<Rightarrow> listener_state \<Rightarrow> err \<times> listener_state" where
  "ListenerManager_StartListener e s =
     (ERR_OK, fold (\<lambda>l s. snd (listener_StartListener e l s)) (messageListenerList s) s)"

definition ListenerManager_StopListener :: "listener_env \<Rightarrow> listener_state \<Rightarrow> err \<times> listener_state" where
  "ListenerManager_StopListener e s =
     (ERR_OK, fold (\<lambda>l s. snd (listener_StopListener e l s)) (messageListenerList s) s)"

definition ListenerManager_UnInit :: "listener_env \<Rightarrow> listener_state \<Rightarrow> bool \<times> listener_state" where
  "ListenerManager_UnInit e s = (True, (snd (ListenerManager_StopListener e s))\<lparr>messageListenerList := []\<rparr>)"

definition AddSystemServiceListener :: "listener_env \<Rightarrow> i32 \<Rightarrow> listener_state \<Rightarrow> listener_state" where
  "AddSystemServiceListener e systemAbilityId s =
     (case map_of (listenerPluginMap s) systemAbilityId of
        None \<Rightarrow> s
      | Some l \<Rightarrow>
          let (ret, s) = listener_StartListener e l s
          in if ret = ERR_OK then s\<lparr>messageListenerList := messageListenerList s @ [l]\<rparr> else s)"

definition RemoveSystemServiceListener :: "i32 \<Rightarrow> listener_state \<Rightarrow> listener_state" where
  "RemoveSystemServiceListener systemAbilityId s =
     (case map_of (listenerPluginMap s) systemAbilityId of
        None \<Rightarrow> s
      | Some l \<Rightarrow> s\<lparr>messageListenerList := filter (\<lambda>x. x \<noteq> l) (messageListenerList s)\<rparr>)"

definition UpdateListenerList :: "listener_env \<Rightarrow> want option \<Rightarrow> listener_state \<Rightarrow> listener_state" where
  "UpdateListenerList e w s =
     (case w of
        None \<Rightarrow> s
      | Some w \<Rightarrow>
          let isAdded = GetBoolParam w SA_STATUS False; systemAbilityId = GetIntParam w SA_ID (- 1)
          in if isAdded then AddSystemServiceListener e systemAbilityId s
             else RemoveSystemServiceListener systemAbilityId s)"

definition ListenerManager_HandleEvent :: "listener_env \<Rightarrow> StandbyMessage \<Rightarrow> listener_state \<Rightarrow> listener_state" where
  "ListenerManager_HandleEvent e message s =
     (if eventId message = SYS_ABILITY_STATUS_CHANGED then UpdateListenerList e (msg_want message) s else s)"

end
