(* ===== verification/Subscriber.thy ===== *)
theory Subscriber
  imports Time_Provider
begin

text \<open>
  \<open>StandbyStateSubscriber\<close> of \<open>services/notification/src/standby_state_subscriber.cpp\<close>: the
  subscribers of the standby state, what each of them is told, and the last level and action
  reported for a module on the current date, which a new subscriber is told at once.

  A subscriber is its remote object, which identifies it, its name and its module. The calls
  to subscribers, the published events and the death recipients are the log \<open>sub_calls\<close>.
\<close>

record subscriber =
  sb_remote :: "nat option"
  sb_name :: string
  sb_module :: string

datatype sub_call =
    CB_DeviceIdleMode subscriber bool bool
  | CB_AllowListChanged subscriber i32 string u32 bool
  | CB_PowerOverused subscriber string u32
  | CB_ActionChanged subscriber string u32
  | CE_DeviceIdleMode bool bool
  | CE_AllowListChanged i32 string i32 bool
  | RD_DeviceIdle bool bool
  | AddDeathRecipient nat
  | RemoveDeathRecipient nat

record subscriber_state =
  deathRecipient :: bool
  subscriberList :: "subscriber list"
  modulePowerMap :: "(string \<times> u32) list"
  moduleActionMap :: "(string \<times> u32) list"
  curDate :: i32
  sub_calls :: "sub_call list"

definition NORMAL :: u32 where "NORMAL = 0"

definition sub_call :: "sub_call \<Rightarrow> subscriber_state \<Rightarrow> subscriber_state" where
  "sub_call c s = s\<lparr>sub_calls := sub_calls s @ [c]\<rparr>"

definition FindSubcriberObject :: "nat \<Rightarrow> subscriber list \<Rightarrow> subscriber option" where
  "FindSubcriberObject proxy l = List.find (\<lambda>x. sb_remote x = Some proxy) l"

section \<open>Levels and actions of modules\<close>

definition NotifyPowerOnRegister :: "time_env \<Rightarrow> subscriber \<Rightarrow> subscriber_state \<Rightarrow> subscriber_state" where
  "NotifyPowerOnRegister e x s =
     (let level = (case map_of (modulePowerMap s) (sb_module x) of
                     Some l \<Rightarrow> if curDate s = GetCurrentDate e then l else NORMAL
                   | None \<Rightarrow> NORMAL)
      in sub_call (CB_PowerOverused x (sb_module x) level) s)"

definition NotifyLowpowerActionOnRegister :: "time_env \<Rightarrow> subscriber \<Rightarrow> subscriber_state \<Rightarrow> subscriber_state" where
  "NotifyLowpowerActionOnRegister e x s =
     (let act = (case map_of (moduleActionMap s) (sb_module x) of
                   Some a \<Rightarrow> if curDate s = GetCurrentDate e then a else 0
                 | None \<Rightarrow> 0)
      in sub_call (CB_ActionChanged x (sb_module x) act) s)"

text \<open>\<open>UpdateCallBackMap\<close> returns the date and the map it was given.\<close>

definition UpdateCallBackMap ::
  "time_env \<Rightarrow> string \<Rightarrow> u32 \<Rightarrow> i32 \<times> (string \<times> u32) list \<Rightarrow> i32 \<times> (string \<times> u32) list" where
  "UpdateCallBackMap e module val p =
     (case p of (date, callBackMap) \<Rightarrow>
        let today = GetCurrentDate e;
            (date, callBackMap) = (if date \<noteq> today then (today, []) else (date, callBackMap))
        in (date, AList.update module val callBackMap))"

definition callback_matching ::
  "(subscriber \<Rightarrow> sub_call) \<Rightarrow> string \<Rightarrow> subscriber_state \<Rightarrow> subscriber_state" where
  "callback_matching cb module s =
     fold (\<lambda>x s. if module = sb_module x then sub_call (cb x) s else s) (subscriberList s) s"

definition NotifyPowerOverusedByCallback ::
  "time_env \<Rightarrow> string \<Rightarrow> u32 \<Rightarrow> subscriber_state \<Rightarrow> subscriber_state" where
  "NotifyPowerOverusedByCallback e module level s =
     (let (date, m) = UpdateCallBackMap e module level (curDate s, modulePowerMap s);
          s = s\<lparr>curDate := date, modulePowerMap := m\<rparr>
      in callback_matching (\<lambda>x. CB_PowerOverused x module level) module s)"

definition NotifyLowpowerActionByCallback ::
  "time_env \<Rightarrow> string \<Rightarrow> u32 \<Rightarrow> subscriber_state \<Rightarrow> subscriber_state" where
  "NotifyLowpowerActionByCallback e module act s =
     (let (date, m) = UpdateCallBackMap e module act (curDate s, moduleActionMap s);
          s = s\<lparr>curDate := date, moduleActionMap := m\<rparr>
      in callback_matching (\<lambda>x. CB_ActionChanged x module act) module s)"

section \<open>Subscribing\<close>

text \<open>\<open>None\<close> is the null pointer.\<close>

definition AddSubscriber :: "time_env \<Rightarrow> subscriber option \<Rightarrow> subscriber_state \<Rightarrow> err \<times> subscriber_state" where
  "AddSubscriber e subscriber s =
     (case subscriber of
        None \<Rightarrow> (ERR_STANDBY_INVALID_PARAM, s)
      | Some x \<Rightarrow>
          (case sb_remote x of
             None \<Rightarrow> (ERR_STANDBY_INVALID_PARAM, s)
           | Some remote \<Rightarrow>
               if \<not> deathRecipient s then (ERR_STANDBY_INVALID_PARAM, s)
               else if FindSubcriberObject remote (subscriberList s) \<noteq> None then (ERR_STANDBY_OBJECT_EXISTS, s)
               else (ERR_OK, sub_call (AddDeathRecipient remote)
                      (NotifyLowpowerActionOnRegister e x
                        (NotifyPowerOnRegister e x (s\<lparr>subscriberList := subscriberList s @ [x]\<rparr>))))))"

definition erase_subscriber :: "nat \<Rightarrow> subscriber list \<Rightarrow> subscriber list" where
  "erase_subscriber proxy l =
     (case FindSubcriberObject proxy l of None \<Rightarrow> l | Some x \<Rightarrow> remove1 x l)"

definition RemoveSubscriber :: "subscriber option \<Rightarrow> subscriber_state \<Rightarrow> err \<times> subscriber_state" where
  "RemoveSubscriber subscriber s =
     (case subscriber of
        None \<Rightarrow> (ERR_STANDBY_INVALID_PARAM, s)
      | Some x \<Rightarrow>
          (case sb_remote x of
             None \<Rightarrow> (ERR_STANDBY_INVALID_PARAM, s)
           | Some remote \<Rightarrow>
               if \<not> deathRecipient s then (ERR_STANDBY_OBJECT_EXISTS, s)
               else if FindSubcriberObject remote (subscriberList s) = None then (ERR_STANDBY_OBJECT_EXISTS, s)
               else (ERR_OK, sub_call (RemoveDeathRecipient remote)
                      (s\<lparr>subscriberList := erase_subscriber remote (subscriberList s)\<rparr>))))"

definition HandleSubscriberDeath :: "nat option \<Rightarrow> subscriber_state \<Rightarrow> subscriber_state" where
  "HandleSubscriberDeath remote s =
     (case remote of
        None \<Rightarrow> s
      | Some proxy \<Rightarrow> s\<lparr>subscriberList := erase_subscriber proxy (subscriberList s)\<rparr>)"

section \<open>Reports\<close>

definition NotifyIdleModeByCallback :: "bool \<Rightarrow> bool \<Rightarrow> subscriber_state \<Rightarrow> subscriber_state" where
  "NotifyIdleModeByCallback napped sleeping s =
     fold (\<lambda>x. sub_call (CB_DeviceIdleMode x napped sleeping)) (subscriberList s) s"

definition NotifyIdleModeByCommonEvent :: "bool \<Rightarrow> bool \<Rightarrow> subscriber_state \<Rightarrow> subscriber_state" where
  "NotifyIdleModeByCommonEvent napped sleeping = sub_call (CE_DeviceIdleMode napped sleeping)"

definition ReportStandbyState :: "StandbyState \<Rightarrow> subscriber_state \<Rightarrow> subscriber_state" where
  "ReportStandbyState cur s =
     (let napped = (cur = NAP); sleeping = (cur = SLEEP)
      in sub_call (RD_DeviceIdle napped sleeping)
           (NotifyIdleModeByCommonEvent napped sleeping (NotifyIdleModeByCallback napped sleeping s)))"

definition NotifyAllowChangedByCallback ::
  "i32 \<Rightarrow> string \<Rightarrow> u32 \<Rightarrow> bool \<Rightarrow> subscriber_state \<Rightarrow> subscriber_state" where
  "NotifyAllowChangedByCallback uid name allowType added s =
     fold (\<lambda>x. sub_call (CB_AllowListChanged x uid name allowType added)) (subscriberList s) s"

definition NotifyAllowChangedByCommonEvent ::
  "i32 \<Rightarrow> string \<Rightarrow> u32 \<Rightarrow> bool \<Rightarrow> subscriber_state \<Rightarrow> subscriber_state" where
  "NotifyAllowChangedByCommonEvent uid name allowType added =
     sub_call (CE_AllowListChanged uid name allowType added)"

definition ReportAllowListChanged ::
  "i32 \<Rightarrow> string \<Rightarrow> u32 \<Rightarrow> bool \<Rightarrow> subscriber_state \<Rightarrow> subscriber_state" where
  "ReportAllowListChanged uid name allowType added s =
     NotifyAllowChangedByCommonEvent uid name allowType added
       (NotifyAllowChangedByCallback uid name allowType added s)"

text \<open>
  The dump: \<open>stream.clear()\<close> resets only the flags of the stream, so each line is printed once
  more with every subscriber that follows it.
\<close>

definition Subscriber_ShellDump :: "subscriber_state \<Rightarrow> string \<Rightarrow> string" where
  "Subscriber_ShellDump s result =
     (if subscriberList s = [] then result @ ''subscriber observer record is empty'' @ [char_of (10 :: nat)]
      else snd (fold (\<lambda>x (stream, result).
          let stream = stream @ char_of (9 :: nat) # ''observerName: '' @ sb_name x @ [char_of (10 :: nat)]
          in (stream, result @ stream)) (subscriberList s) ([], result)))"

section \<open>Facts\<close>

definition subs_inv :: "subscriber_state \<Rightarrow> bool" where
  "subs_inv s \<longleftrightarrow> distinct (map sb_remote (subscriberList s)) \<and> None \<notin> set (map sb_remote (subscriberList s)) \<and>
     distinct (map fst (modulePowerMap s)) \<and> distinct (map fst (moduleActionMap s))"

lemma fold_sub_call [simp]:
  "subscriberList (fold (\<lambda>x. sub_call (cb x)) l s) = subscriberList s"
  "modulePowerMap (fold (\<lambda>x. sub_call (cb x)) l s) = modulePowerMap s"
  "moduleActionMap (fold (\<lambda>x. sub_call (cb x)) l s) = moduleActionMap s"
  "sub_calls (fold (\<lambda>x. sub_call (cb x)) l s) = sub_calls s @ map cb l"
  by (induction l arbitrary: s) (simp_all add: sub_call_def)

lemma callback_matching_frame:
  "callback_matching cb module s = s\<lparr>sub_calls := sub_calls s @ map cb (filter (\<lambda>x. sb_module x = module) (subscriberList s))\<rparr>"
proof -
  have "fold (\<lambda>x s. if module = sb_module x then sub_call (cb x) s else s) l s =
      s\<lparr>sub_calls := sub_calls s @ map cb (filter (\<lambda>x. sb_module x = module) l)\<rparr>" for l
    by (induction l arbitrary: s) (auto simp: sub_call_def)
  then show ?thesis by (simp add: callback_matching_def)
qed

lemma FindSubcriberObject_None:
  "FindSubcriberObject r l = None \<longleftrightarrow> Some r \<notin> set (map sb_remote l)"
  by (auto simp: FindSubcriberObject_def find_None_iff image_iff)

lemma UpdateCallBackMap_distinct:
  "distinct (map fst m) \<Longrightarrow> distinct (map fst (snd (UpdateCallBackMap e module val (d, m))))"
  by (simp add: UpdateCallBackMap_def Let_def distinct_update)

lemma subs_inv_remove1:
  "distinct (map sb_remote l) \<Longrightarrow> distinct (map sb_remote (erase_subscriber r l)) \<and>
     set (map sb_remote (erase_subscriber r l)) \<subseteq> set (map sb_remote l)"
proof -
  have "distinct (map sb_remote (remove1 x xs)) \<and> set (map sb_remote (remove1 x xs)) \<subseteq> set (map sb_remote xs)"
    if "distinct (map sb_remote xs)" for x :: subscriber and xs
    using that by (induction xs) auto
  then show "distinct (map sb_remote l) \<Longrightarrow> ?thesis"
    by (auto simp: erase_subscriber_def split: option.split)
qed

text \<open>What registering tells the new subscriber, and what every operation keeps.\<close>

lemma AddSubscriber_calls:
  assumes "sb_remote x = Some r" "deathRecipient s" "Some r \<notin> set (map sb_remote (subscriberList s))"
  shows "fst (AddSubscriber e (Some x) s) = ERR_OK"
    and "sub_calls (snd (AddSubscriber e (Some x) s)) = sub_calls s @
      [CB_PowerOverused x (sb_module x) (case map_of (modulePowerMap s) (sb_module x) of
          Some l \<Rightarrow> if curDate s = GetCurrentDate e then l else NORMAL | None \<Rightarrow> NORMAL),
       CB_ActionChanged x (sb_module x) (case map_of (moduleActionMap s) (sb_module x) of
          Some a \<Rightarrow> if curDate s = GetCurrentDate e then a else 0 | None \<Rightarrow> 0),
       AddDeathRecipient r]"
    and "subscriberList (snd (AddSubscriber e (Some x) s)) = subscriberList s @ [x]"
  using assms FindSubcriberObject_None [of r "subscriberList s"]
  by (simp_all add: AddSubscriber_def NotifyLowpowerActionOnRegister_def NotifyPowerOnRegister_def sub_call_def Let_def
      split: option.split)

lemma subs_inv_ops:
  assumes "subs_inv s"
  shows "subs_inv (snd (AddSubscriber e x s))" "subs_inv (snd (RemoveSubscriber x s))"
    "subs_inv (HandleSubscriberDeath p s)" "subs_inv (NotifyPowerOverusedByCallback e m l s)"
    "subs_inv (NotifyLowpowerActionByCallback e m l s)" "subs_inv (ReportStandbyState st s)"
    "subs_inv (ReportAllowListChanged uid name t b s)"
proof -
  note d = assms [unfolded subs_inv_def]
  show "subs_inv (snd (AddSubscriber e x s))"
    using d by (auto simp: AddSubscriber_def subs_inv_def NotifyLowpowerActionOnRegister_def
        NotifyPowerOnRegister_def sub_call_def Let_def FindSubcriberObject_None image_iff split: option.split)
  show "subs_inv (snd (RemoveSubscriber x s))" "subs_inv (HandleSubscriberDeath p s)"
    using d subs_inv_remove1 [of "subscriberList s"]
    by (auto simp: RemoveSubscriber_def HandleSubscriberDeath_def subs_inv_def sub_call_def split: option.split)
  show "subs_inv (NotifyPowerOverusedByCallback e m l s)" "subs_inv (NotifyLowpowerActionByCallback e m l s)"
    using d UpdateCallBackMap_distinct [of "modulePowerMap s" e m l "curDate s"]
      UpdateCallBackMap_distinct [of "moduleActionMap s" e m l "curDate s"]
    by (auto simp: NotifyPowerOverusedByCallback_def NotifyLowpowerActionByCallback_def subs_inv_def
        callback_matching_frame Let_def split: prod.split)
  show "subs_inv (ReportStandbyState st s)" "subs_inv (ReportAllowListChanged uid name t b s)"
    using d by (simp_all add: ReportStandbyState_def ReportAllowListChanged_def NotifyIdleModeByCallback_def
        NotifyIdleModeByCommonEvent_def NotifyAllowChangedByCallback_def NotifyAllowChangedByCommonEvent_def
        subs_inv_def Let_def) (simp_all add: sub_call_def)
qed

section \<open>Properties\<close>

text \<open>A subscriber that registers on the day a level was reported is told that level.\<close>

lemma register_replays_level:
  assumes "GetCurrentDate e' = GetCurrentDate e" "deathRecipient s"
    and "sb_remote x = Some r" "Some r \<notin> set (map sb_remote (subscriberList s))" "sb_module x = module"
  shows "CB_PowerOverused x module level \<in>
    set (drop (length (sub_calls (NotifyPowerOverusedByCallback e module level s)))
      (sub_calls (snd (AddSubscriber e' (Some x) (NotifyPowerOverusedByCallback e module level s)))))"
proof -
  define t where "t = NotifyPowerOverusedByCallback e module level s"
  have t: "deathRecipient t" "subscriberList t = subscriberList s" "curDate t = GetCurrentDate e"
      "map_of (modulePowerMap t) module = Some level"
    using assms(2) by (auto simp: t_def NotifyPowerOverusedByCallback_def UpdateCallBackMap_def
        callback_matching_frame Let_def AList.update_conv')
  show ?thesis
    using AddSubscriber_calls(2) [OF assms(3) t(1), of e'] assms(1,4,5) t unfolding t_def [symmetric] by simp
qed

text \<open>C30: After a change of date a new subscriber is told the normal level of its module, but
  once an action of any module was reported on the new date it is told the level of the day
  before.\<close>

theorem stale_level_replayed:
  assumes "curDate s \<noteq> GetCurrentDate e" "map_of (modulePowerMap s) module = Some level"
    and "deathRecipient s" "sb_remote x = Some r" "Some r \<notin> set (map sb_remote (subscriberList s))" "sb_module x = module"
  shows "CB_PowerOverused x module NORMAL \<in> set (drop (length (sub_calls s)) (sub_calls (snd (AddSubscriber e (Some x) s)))) \<and>
    (let t = NotifyLowpowerActionByCallback e m act s in
      CB_PowerOverused x module level \<in> set (drop (length (sub_calls t)) (sub_calls (snd (AddSubscriber e (Some x) t)))))"
proof -
  have 1: "CB_PowerOverused x module NORMAL \<in> set (drop (length (sub_calls s)) (sub_calls (snd (AddSubscriber e (Some x) s))))"
    using AddSubscriber_calls(2) [OF assms(4,3,5), of e] assms(1,2,6) by simp
  define t where "t = NotifyLowpowerActionByCallback e m act s"
  have t: "deathRecipient t" "subscriberList t = subscriberList s" "curDate t = GetCurrentDate e"
      "modulePowerMap t = modulePowerMap s"
    using assms(3) by (auto simp: t_def NotifyLowpowerActionByCallback_def UpdateCallBackMap_def
        callback_matching_frame Let_def)
  show ?thesis
    using 1 AddSubscriber_calls(2) [OF assms(4) t(1), of e] assms(2,5,6) t unfolding t_def [symmetric] Let_def by simp
qed

section \<open>Witnesses\<close>

definition demo_sub :: subscriber where
  "demo_sub = \<lparr> sb_remote = Some 7, sb_name = ''NETWORK'', sb_module = ''audio'' \<rparr>"

definition demo_subs :: subscriber_state where
  "demo_subs = \<lparr> deathRecipient = True, subscriberList = [], modulePowerMap = [(''audio'', 3)], moduleActionMap = [],
     curDate = 30, sub_calls = [] \<rparr>"

text \<open>On the 31st, a level reported on the 30th.\<close>

theorem stale_level_replayed_witness:
  "let t = NotifyLowpowerActionByCallback (demo_time\<lparr>gm_mday := Some 31\<rparr>) ''video'' 1 demo_subs in
     CB_PowerOverused demo_sub ''audio'' 3 \<in>
       set (drop (length (sub_calls t)) (sub_calls (snd (AddSubscriber (demo_time\<lparr>gm_mday := Some 31\<rparr>) (Some demo_sub) t))))"
  using stale_level_replayed [of demo_subs "demo_time\<lparr>gm_mday := Some 31\<rparr>" "''audio''" 3 demo_sub 7]
  by (simp add: demo_subs_def demo_sub_def GetCurrentDate_def)

end
