(* ===== verification/Service.thy ===== *)
theory Service
  imports State_Messages Strategy_Manager Listener_Manager Subscriber
begin

text \<open>
  \<open>StandbyServiceImpl\<close> (\<open>services/core/src/standby_service_impl.cpp\<close>) as the owner of the four
  managers, and the part of \<open>StandbyService\<close> (\<open>standby_service.cpp\<close>) that follows the system
  abilities it depends on. One \<open>service\<close> holds the state of every manager.

  The event handler is the list \<open>handler\<close> of closures the service posts, in the order in which
  they run: those posted with the priority HIGH go before the others. \<open>delayed\<close> are the closures
  that wait for a second. The closures of the state machine and of the exemption list stay in
  the queues of these components. What a manager dispatches or reports while it works is what
  its log of calls has gained: messages are posted when the service is ready, as
  \<open>DispatchEvent\<close> does, reports go to the subscribers.
\<close>

section \<open>Data\<close>

datatype system_ability =
    COMMON_EVENT_SERVICE
  | TIME_SERVICE
  | ABILITY_MGR_SERVICE
  | BUNDLE_MGR_SERVICE
  | POWER_MANAGER_SERVICE
  | APP_MGR_SERVICE
  | MULTIMODAL_INPUT_SERVICE
  | OTHER_SERVICE i32

record out_event =
  oe_id :: u32
  oe_action :: event_action
  oe_params :: "want_params option"

definition no_action :: event_action where "no_action = Act ''''"

definition event_of :: "out_message \<Rightarrow> out_event" where
  "event_of m = (case m of OutMessage ev ps \<Rightarrow> \<lparr> oe_id = ev, oe_action = no_action, oe_params = Some ps \<rparr>)"

definition common_event :: "event_action \<Rightarrow> out_event" where
  "common_event act = \<lparr> oe_id = COMMON_EVENT, oe_action = act, oe_params = None \<rparr>"

definition message_in :: "out_event \<Rightarrow> StandbyMessage" where
  "message_in ev = \<lparr> eventId = oe_id ev, action = oe_action ev, msg_want = map_option want_of (oe_params ev) \<rparr>"

datatype handler_task =
    HT_Dispatch out_event
  | HT_InitReady
  | HT_UninitReady
  | HT_Event out_event
  | HT_DayNightSwitch
  | HT_ResetTimeObserver
  | HT_RemoveApp i32 string bool
  | HT_ProcessStatus i32 i32 string bool

datatype plugin_file = Plugin_Missing | Plugin_Without_Entry | Plugin_Fails | Plugin_Works

datatype service_call =
    SC_Dlopen string
  | SC_Dlclose bool
  | SC_AddWatchdogThread i32
  | SC_RemoveWatchdogThread
  | SC_ReportFileSizes
  | SC_StartTimer u64 i64
  | SC_StopTimer u64
  | SC_DestroyTimer u64
  | SC_SetDeviceIdlePolicy bool
  | SC_AddSystemAbilityListener i32
  | SC_ListenAbility system_ability
  | SC_Publish
  | SC_SubscribeCommonEvent
  | SC_UnsubscribeCommonEvent
  | SC_SubscribeAppState
  | SC_UnsubscribeAppState

record service =
  sm :: sm_state
  strat :: strat_state
  lst :: listener_state
  subs :: subscriber_state
  al :: svc_state
  dependsReady :: u32
  dayNightSwitchTimerId :: u64
  commonEventObserver :: bool
  appStateObserver :: bool
  debugMode :: bool
  deviceState :: "bool list"
  serviceRunning :: bool
  registerPlugin :: bool
  handler :: "handler_task list"
  delayed :: "handler_task list"
  sv_calls :: "service_call list"

record service_env =
  se_sm :: sm_env
  se_st :: st_env
  se_ls :: listener_env
  createDayNightTimer :: u64
  createCommonEventObserver :: bool
  subscribeCommonEvent :: bool
  subscribeAppState :: bool
  allowRecordFile :: "json option"
  runnerCreated :: bool
  handlerCreated :: bool
  configInit :: err
  pluginFile :: "string \<Rightarrow> plugin_file"
  publishOk :: bool
  permissionDeniedCode :: int
  softwareSleep :: bool
  callerProcess :: "string option"
  msdpUserStatusServiceId :: i32
  parseJson :: "string \<Rightarrow> json"

abbreviation se_sv :: "service_env \<Rightarrow> svc_env" where "se_sv e \<equiv> st_service_env (se_st e)"

abbreviation ready :: "service \<Rightarrow> bool" where "ready v \<equiv> isServiceReady (al v)"

definition sv_call :: "service_call \<Rightarrow> service \<Rightarrow> service" where
  "sv_call c v = v\<lparr>sv_calls := sv_calls v @ [c]\<rparr>"

definition post_handler :: "handler_task \<Rightarrow> service \<Rightarrow> service" where
  "post_handler t v = v\<lparr>handler := handler v @ [t]\<rparr>"

fun high_priority :: "handler_task \<Rightarrow> bool" where
  "high_priority HT_InitReady = True"
| "high_priority HT_UninitReady = True"
| "high_priority _ = False"

definition post_high :: "handler_task \<Rightarrow> service \<Rightarrow> service" where
  "post_high t v = v\<lparr>handler := takeWhile high_priority (handler v) @ t # dropWhile high_priority (handler v)\<rparr>"

section \<open>Dispatching\<close>

definition Service_DispatchEvent :: "out_event \<Rightarrow> service \<Rightarrow> service" where
  "Service_DispatchEvent message v = (if \<not> ready v then v else post_handler (HT_Dispatch message) v)"

definition dispatch_all :: "out_message list \<Rightarrow> service \<Rightarrow> service" where
  "dispatch_all ms v = fold (\<lambda>m. Service_DispatchEvent (event_of m)) ms v"

text \<open>The new state of a manager, with the messages and reports it sent on the way.\<close>

fun reported :: "sm_effect \<Rightarrow> StandbyState option" where
  "reported (E_ReportStandbyState st) = Some st"
| "reported _ = None"

definition new_reports :: "sm_state \<Rightarrow> sm_state \<Rightarrow> StandbyState list" where
  "new_reports s s' =
     drop (length (List.map_filter reported (effects s))) (List.map_filter reported (effects s'))"

definition absorb_sm :: "sm_state \<Rightarrow> service \<Rightarrow> service" where
  "absorb_sm s v =
     dispatch_all (new_messages (sm v) s)
       (v\<lparr>sm := s, subs := fold ReportStandbyState (new_reports (sm v) s) (subs v)\<rparr>)"

fun list_report :: "svc_effect \<Rightarrow> subscriber_state \<Rightarrow> subscriber_state" where
  "list_report (SE_ReportAllowListChanged uid name t added) s = ReportAllowListChanged uid name t added s"
| "list_report _ s = s"

definition absorb_al :: "svc_state \<Rightarrow> service \<Rightarrow> service" where
  "absorb_al a v =
     v\<lparr>al := a, subs := fold list_report (drop (length (svc_effects (al v))) (svc_effects a)) (subs v)\<rparr>"

fun net_dispatched :: "net_call \<Rightarrow> out_message option" where
  "net_dispatched (NC_Dispatch m) = Some m"
| "net_dispatched _ = None"

definition absorb_strat :: "strat_state \<Rightarrow> service \<Rightarrow> service" where
  "absorb_strat s v =
     dispatch_all (List.map_filter net_dispatched (drop (length (net_calls (ss_net (strat v)))) (net_calls (ss_net s))))
       (v\<lparr>strat := s\<rparr>)"

definition strategy_env :: "service_env \<Rightarrow> service \<Rightarrow> st_env" where
  "strategy_env e v = (se_st e)\<lparr>st_service := al v\<rparr>"

text \<open>The closure that \<open>DispatchEvent\<close> posts: listeners, state manager, strategies.\<close>

definition run_dispatch :: "service_env \<Rightarrow> out_event \<Rightarrow> service \<Rightarrow> service" where
  "run_dispatch e ev v =
     (let m = message_in ev;
          v = v\<lparr>lst := ListenerManager_HandleEvent (se_ls e) m (lst v)\<rparr>;
          v = absorb_sm (HandleEvent (se_sm e) m (sm v)) v
      in absorb_strat (StrategyManager_HandleEvent (strategy_env e v) m (strat v)) v)"

section \<open>The day and night timer\<close>

definition StartDayNightSwitchTimer :: "service_env \<Rightarrow> u64 \<Rightarrow> service \<Rightarrow> bool \<times> service" where
  "StartDayNightSwitchTimer e timeId v =
     (let (ok, timeDiff) = TimeDiffToDayNightSwitch (te (se_sm e)) 0 in
      if \<not> ok then (False, v)
      else let at = wallTimeMs (te (se_sm e)) + (timeDiff + randomDelay (te (se_sm e)) 0 (15 * 60 * 1000))
           in (startTimer (se_sm e) timeId at, sv_call (SC_StartTimer timeId at) v))"

definition RegisterDayNightSwitchTimer :: "service_env \<Rightarrow> service \<Rightarrow> bool \<times> service" where
  "RegisterDayNightSwitchTimer e v =
     (let v = v\<lparr>dayNightSwitchTimerId := createDayNightTimer e\<rparr>
      in if dayNightSwitchTimerId v = 0 then (False, v)
         else StartDayNightSwitchTimer e (dayNightSwitchTimerId v) v)"

definition RegisterTimeObserver :: "service_env \<Rightarrow> service \<Rightarrow> err \<times> service" where
  "RegisterTimeObserver e v =
     (let v = v\<lparr>delayed := delayed v @
                  [HT_Event (common_event (Act ''COMMON_EVENT_TIMER_SA_ABILITY''))]\<rparr> in
      if dayNightSwitchTimerId v > 0 then (ERR_STANDBY_OBSERVER_ALREADY_EXIST, v)
      else let (ok, v) = RegisterDayNightSwitchTimer e v
           in if \<not> ok then (ERR_STANDBY_OBSERVER_INIT_FAILED, v) else (ERR_OK, v))"

definition UnregisterTimeObserver :: "service \<Rightarrow> err \<times> service" where
  "UnregisterTimeObserver v =
     (ERR_OK, (sv_call (SC_DestroyTimer (dayNightSwitchTimerId v))
         (sv_call (SC_StopTimer (dayNightSwitchTimerId v)) v))\<lparr>dayNightSwitchTimerId := 0\<rparr>)"

definition ResetTimeObserver :: "service_env \<Rightarrow> service \<Rightarrow> err \<times> service" where
  "ResetTimeObserver e v =
     (let (r1, v) = UnregisterTimeObserver v in
      if r1 \<noteq> ERR_OK then (ERR_STANDBY_OBSERVER_RESET_FAILED, v)
      else let (r2, v) = RegisterTimeObserver e v
           in if r2 \<noteq> ERR_OK then (ERR_STANDBY_OBSERVER_RESET_FAILED, v) else (ERR_OK, v))"

definition DayNightSwitch_task :: "service_env \<Rightarrow> service \<Rightarrow> service" where
  "DayNightSwitch_task e v =
     (let v = (if ready v \<and> curState (sm v) = SLEEP
               then Service_DispatchEvent \<lparr> oe_id = RES_CTRL_CONDITION_CHANGED, oe_action = no_action,
                      oe_params = Some [(RES_CTRL_CONDITION, WInt (GetCondition (te (se_sm e)) 0))] \<rparr> v
               else v);
          (ok, v) = StartDayNightSwitchTimer e (dayNightSwitchTimerId v) v
      in if ok then v else snd (ResetTimeObserver e v))"

definition DayNightSwitchCallback :: "service \<Rightarrow> service" where
  "DayNightSwitchCallback v = post_handler HT_DayNightSwitch v"

section \<open>Becoming ready\<close>

definition InitReadyState_task :: "service_env \<Rightarrow> service \<Rightarrow> service" where
  "InitReadyState_task e v =
     (if ready v then v
      else
        let (ok, s) = StateManager_Init (se_sm e) (sm v); v = absorb_sm s v in
        if \<not> ok then v
        else let (ok, t) = StrategyManager_Init (strategy_env e v) (strat v); v = absorb_strat t v in
        if \<not> ok then v
        else let (ok, s) = ConstraintManager_Init (se_sm e) (sm v); v = absorb_sm s v in
        if \<not> ok then v
        else let (ok, l) = ListenerManager_Init (se_ls e) (lst v); v = v\<lparr>lst := l\<rparr> in
        if \<not> ok then v
        else let (ret, l) = ListenerManager_StartListener (se_ls e) (lst v); v = v\<lparr>lst := l\<rparr> in
        if ret \<noteq> ERR_OK then v
        else
          let v = snd (RegisterTimeObserver e v);
              v = absorb_al (snd (ParsePersistentData (se_sv e) (allowRecordFile e) (al v))) v;
              v = v\<lparr>al := (al v)\<lparr>isServiceReady := True\<rparr>\<rparr>
          in sv_call (SC_AddSystemAbilityListener (msdpUserStatusServiceId e))
               (sv_call (SC_AddSystemAbilityListener (workScheduleServiceId (se_st e)))
                 (sv_call (SC_AddSystemAbilityListener (backgroundTaskManagerServiceId (se_st e))) v)))"

definition UninitReadyState_task :: "service_env \<Rightarrow> service \<Rightarrow> service" where
  "UninitReadyState_task e v =
     (if \<not> ready v then v
      else
        let v = v\<lparr>lst := snd (ListenerManager_UnInit (se_ls e) (lst v))\<rparr>;
            v = absorb_sm (snd (ConstraintManager_UnInit (sm v))) v;
            v = absorb_strat (snd (StrategyManager_UnInit (strategy_env e v) (strat v))) v;
            v = absorb_sm (snd (StateManager_UnInit (se_sm e) (sm v))) v
        in v\<lparr>al := (al v)\<lparr>isServiceReady := False\<rparr>\<rparr>)"

definition InitReadyState :: "service \<Rightarrow> service" where
  "InitReadyState v = post_high HT_InitReady v"

definition UninitReadyState :: "service \<Rightarrow> service" where
  "UninitReadyState v = post_high HT_UninitReady v"

section \<open>Observers and system abilities\<close>

definition RegisterCommEventObserver :: "service_env \<Rightarrow> service \<Rightarrow> err \<times> service" where
  "RegisterCommEventObserver e v =
     (if commonEventObserver v then (ERR_STANDBY_OBSERVER_ALREADY_EXIST, v)
      else
        let v = v\<lparr>commonEventObserver := createCommonEventObserver e\<rparr> in
        if \<not> commonEventObserver v then (ERR_STANDBY_OBSERVER_INIT_FAILED, v)
        else (if subscribeCommonEvent e then ERR_OK else ERR_STANDBY_OBSERVER_INIT_FAILED,
              sv_call SC_SubscribeCommonEvent v))"

definition UnregisterCommEventObserver :: "service \<Rightarrow> err \<times> service" where
  "UnregisterCommEventObserver v =
     (ERR_OK, if commonEventObserver v
              then (sv_call SC_UnsubscribeCommonEvent v)\<lparr>commonEventObserver := False\<rparr> else v)"

definition RegisterAppStateObserver :: "service_env \<Rightarrow> service \<Rightarrow> err \<times> service" where
  "RegisterAppStateObserver e v =
     (if appStateObserver v then (ERR_STANDBY_OBSERVER_ALREADY_EXIST, v)
      else (if subscribeAppState e then ERR_OK else ERR_STANDBY_OBSERVER_INIT_FAILED,
            sv_call SC_SubscribeAppState (v\<lparr>appStateObserver := True\<rparr>)))"

definition UnregisterAppStateObserver :: "service \<Rightarrow> err \<times> service" where
  "UnregisterAppStateObserver v =
     (ERR_OK, if appStateObserver v then (sv_call SC_UnsubscribeAppState v)\<lparr>appStateObserver := False\<rparr> else v)"

definition UpdateSaDependValue :: "bool \<Rightarrow> u32 \<Rightarrow> service \<Rightarrow> service" where
  "UpdateSaDependValue isAdd saId v =
     v\<lparr>dependsReady := (if isAdd then dependsReady v OR saId else dependsReady v AND NOT saId)\<rparr>"

definition GetSaDependValue :: "service \<Rightarrow> u32" where
  "GetSaDependValue v = dependsReady v"

definition ALL_DEPENDS_READY :: u32 where "ALL_DEPENDS_READY = 127"

text \<open>The bit of a required ability: \<open>COMMON_EVENT_READY\<close> to \<open>MULTIMODAL_INPUT_SERVICE_READY\<close>.\<close>

primrec ready_bit :: "system_ability \<Rightarrow> u32 option" where
  "ready_bit COMMON_EVENT_SERVICE = Some 1"
| "ready_bit TIME_SERVICE = Some 2"
| "ready_bit ABILITY_MGR_SERVICE = Some 4"
| "ready_bit BUNDLE_MGR_SERVICE = Some 8"
| "ready_bit POWER_MANAGER_SERVICE = Some 16"
| "ready_bit APP_MGR_SERVICE = Some 32"
| "ready_bit MULTIMODAL_INPUT_SERVICE = Some 64"
| "ready_bit (OTHER_SERVICE i) = None"

definition NotifySystemAbilityStatusChanged :: "bool \<Rightarrow> i32 \<Rightarrow> service \<Rightarrow> err \<times> service" where
  "NotifySystemAbilityStatusChanged isAdded systemAbilityId v =
     (ERR_OK, Service_DispatchEvent \<lparr> oe_id = SYS_ABILITY_STATUS_CHANGED, oe_action = no_action,
        oe_params = Some [(SA_STATUS, WBool isAdded), (SA_ID, WInt systemAbilityId)] \<rparr> v)"

primrec ability_added :: "service_env \<Rightarrow> system_ability \<Rightarrow> service \<Rightarrow> service" where
  "ability_added e COMMON_EVENT_SERVICE v = snd (RegisterCommEventObserver e v)"
| "ability_added e TIME_SERVICE v = snd (RegisterTimeObserver e v)"
| "ability_added e ABILITY_MGR_SERVICE v = v"
| "ability_added e BUNDLE_MGR_SERVICE v = v"
| "ability_added e POWER_MANAGER_SERVICE v = v"
| "ability_added e APP_MGR_SERVICE v = snd (RegisterAppStateObserver e v)"
| "ability_added e MULTIMODAL_INPUT_SERVICE v = v"
| "ability_added e (OTHER_SERVICE i) v = snd (NotifySystemAbilityStatusChanged True i v)"

primrec ability_removed :: "system_ability \<Rightarrow> service \<Rightarrow> service" where
  "ability_removed COMMON_EVENT_SERVICE v = snd (UnregisterCommEventObserver v)"
| "ability_removed TIME_SERVICE v = snd (UnregisterTimeObserver v)"
| "ability_removed ABILITY_MGR_SERVICE v = v"
| "ability_removed BUNDLE_MGR_SERVICE v = v"
| "ability_removed POWER_MANAGER_SERVICE v = v"
| "ability_removed APP_MGR_SERVICE v = snd (UnregisterAppStateObserver v)"
| "ability_removed MULTIMODAL_INPUT_SERVICE v = v"
| "ability_removed (OTHER_SERVICE i) v = snd (NotifySystemAbilityStatusChanged False i v)"

definition set_depend :: "bool \<Rightarrow> system_ability \<Rightarrow> service \<Rightarrow> service" where
  "set_depend isAdd a v = (case ready_bit a of None \<Rightarrow> v | Some b \<Rightarrow> UpdateSaDependValue isAdd b v)"

definition OnAddSystemAbility :: "service_env \<Rightarrow> system_ability \<Rightarrow> service \<Rightarrow> service" where
  "OnAddSystemAbility e a v =
     (let v = ability_added e a (set_depend True a v)
      in if GetSaDependValue v = ALL_DEPENDS_READY then InitReadyState v else v)"

definition OnRemoveSystemAbility :: "system_ability \<Rightarrow> service \<Rightarrow> service" where
  "OnRemoveSystemAbility a v =
     (let v = ability_removed a (set_depend False a v)
      in if GetSaDependValue v \<noteq> ALL_DEPENDS_READY then UninitReadyState v else v)"

definition required_abilities :: "system_ability list" where
  "required_abilities = [COMMON_EVENT_SERVICE, TIME_SERVICE, ABILITY_MGR_SERVICE, BUNDLE_MGR_SERVICE,
     POWER_MANAGER_SERVICE, APP_MGR_SERVICE, MULTIMODAL_INPUT_SERVICE]"

section \<open>Starting and stopping\<close>

text \<open>\<open>registerPlugin\<close> tells whether the handle of the plugin is not null; \<open>SC_Dlclose\<close> records
  whether it closes a null handle.\<close>

definition RegisterPlugin :: "service_env \<Rightarrow> string \<Rightarrow> service \<Rightarrow> err \<times> service" where
  "RegisterPlugin e plugin v =
     (let v = (sv_call (SC_Dlopen plugin) v)\<lparr>registerPlugin := pluginFile e plugin \<noteq> Plugin_Missing\<rparr>
      in case pluginFile e plugin of
           Plugin_Missing \<Rightarrow> (ERR_STANDBY_PLUGIN_NOT_EXIST, sv_call (SC_Dlclose True) v)
         | Plugin_Without_Entry \<Rightarrow> (ERR_STANDBY_PLUGIN_NOT_EXIST, sv_call (SC_Dlclose False) v)
         | Plugin_Fails \<Rightarrow> (ERR_STANDBY_PLUGIN_NOT_AVAILABLE, sv_call (SC_Dlclose False) v)
         | Plugin_Works \<Rightarrow> (ERR_OK, v))"

definition DEFAULT_PLUGIN_NAME :: string where "DEFAULT_PLUGIN_NAME = ''libstandby_plugin.z.so''"
definition TAG_PROCESS_ABNORMAL_TIME :: string where "TAG_PROCESS_ABNORMAL_TIME = ''process_abnormal_time''"
definition PROCESS_ABNORMAL_TIME :: i32 where "PROCESS_ABNORMAL_TIME = 20000"

definition AddWatchDog :: "service_env \<Rightarrow> service \<Rightarrow> service" where
  "AddWatchDog e v =
     (let t = GetStandbyParam (cfg (se_sm e)) TAG_PROCESS_ABNORMAL_TIME
      in sv_call (SC_AddWatchdogThread (if sint t \<le> 0 then PROCESS_ABNORMAL_TIME else t)) v)"

definition Service_Init :: "service_env \<Rightarrow> service \<Rightarrow> bool \<times> service" where
  "Service_Init e v =
     (if \<not> runnerCreated e \<or> \<not> handlerCreated e \<or> configInit e \<noteq> ERR_OK then (False, v)
      else
        let (r1, v) = RegisterPlugin e (pluginName (cfg (se_sm e))) v;
            (r2, v) = (if r1 \<noteq> ERR_OK then RegisterPlugin e DEFAULT_PLUGIN_NAME v else (ERR_OK, v))
        in if r2 \<noteq> ERR_OK then (False, v) else (True, sv_call SC_ReportFileSizes (AddWatchDog e v)))"

definition Service_UnInit :: "service \<Rightarrow> service" where
  "Service_UnInit v =
     sv_call SC_RemoveWatchdogThread
       (if \<not> registerPlugin v then (sv_call (SC_Dlclose True) v)\<lparr>registerPlugin := False\<rparr> else v)"

definition OnStop :: "service \<Rightarrow> service" where
  "OnStop v = (Service_UnInit v)\<lparr>serviceRunning := False\<rparr>"

definition OnStart :: "service_env \<Rightarrow> service \<Rightarrow> service" where
  "OnStart e v =
     (if \<not> softwareSleep e \<or> serviceRunning v then v
      else
        let (ok, v) = Service_Init e v in
        if \<not> ok then v
        else let v = fold (\<lambda>a. sv_call (SC_ListenAbility a)) required_abilities v; v = sv_call SC_Publish v
             in if \<not> publishOk e then v else v\<lparr>serviceRunning := True\<rparr>)"

section \<open>Running the handler\<close>

definition RemoveApp_task :: "service_env \<Rightarrow> i32 \<Rightarrow> string \<Rightarrow> bool \<Rightarrow> service \<Rightarrow> service" where
  "RemoveApp_task e uid bundleName resetAll v =
     absorb_al (snd (RemoveAppAllowRecord (se_sv e) uid bundleName resetAll (al v))) v"

definition run_handler_task :: "service_env \<Rightarrow> handler_task \<Rightarrow> service \<Rightarrow> service" where
  "run_handler_task e t v =
     (case t of
        HT_Dispatch ev \<Rightarrow> run_dispatch e ev v
      | HT_InitReady \<Rightarrow> InitReadyState_task e v
      | HT_UninitReady \<Rightarrow> UninitReadyState_task e v
      | HT_Event ev \<Rightarrow> Service_DispatchEvent ev v
      | HT_DayNightSwitch \<Rightarrow> DayNightSwitch_task e v
      | HT_ResetTimeObserver \<Rightarrow> snd (ResetTimeObserver e v)
      | HT_RemoveApp uid bundleName resetAll \<Rightarrow> RemoveApp_task e uid bundleName resetAll v
      | HT_ProcessStatus uid pid bundleName isCreated \<Rightarrow>
          absorb_al (OnProcessStatusChanged (se_sv e) uid pid bundleName isCreated (al v)) v)"

text \<open>A closure of the exemption list; one that dispatches a message runs like any other.\<close>

definition run_list_task :: "service_env \<Rightarrow> svc_task \<Rightarrow> service \<Rightarrow> service" where
  "run_list_task e t v =
     (case t of
        ST_Dispatch m \<Rightarrow> run_dispatch e (event_of m) v
      | _ \<Rightarrow> absorb_al (run_svc_task (se_sv e) t (al v)) v)"

definition run_state_task :: "service_env \<Rightarrow> sm_task \<Rightarrow> service \<Rightarrow> service" where
  "run_state_task e t v = absorb_sm (run_task (se_sm e) t (sm v)) v"

primrec run_handler :: "service_env \<Rightarrow> nat \<Rightarrow> service \<Rightarrow> service" where
  "run_handler e 0 v = v"
| "run_handler e (Suc n) v =
     (case handler v of [] \<Rightarrow> v | t # ts \<Rightarrow> run_handler e n (run_handler_task e t (v\<lparr>handler := ts\<rparr>)))"

end
