(* ===== verification/Service_Events.thy ===== *)
theory Service_Events
  imports Service
begin

text \<open>
  What reaches the service from outside: the events of the resource schedule service
  (\<open>HandleCommonEvent\<close> and its handlers), the reports and observers of the application manager
  (\<open>app_state_observer.cpp\<close>), the lid and background task listeners, the calls of other
  processes (\<open>StandbyService\<close>), and the device state cache.

  The payload of an event is JSON text. A handler that reads a member it did not check for
  throws an exception of the JSON library, which nothing catches: such a handler returns an
  option, and \<open>None\<close> is that exception.
\<close>

section \<open>Text to numbers\<close>

text \<open>\<open>atoi\<close> cuts the value of \<open>strtol\<close> to 32 bits.\<close>

definition c_atoi :: "string \<Rightarrow> i32" where
  "c_atoi s = word_of_int (c_strtol s)"

section \<open>Device state cache\<close>

definition DEVICE_STATE_NUM :: int where "DEVICE_STATE_NUM = 3"

definition deviceState_init :: "bool list" where "deviceState_init = [False, False, False]"

definition SetDeviceState :: "i32 \<Rightarrow> bool \<Rightarrow> bool list \<Rightarrow> bool \<times> bool list" where
  "SetDeviceState type enabled l =
     (if sint type < 0 \<or> sint type \<ge> DEVICE_STATE_NUM then (False, l)
      else if l ! nat (sint type) = enabled then (False, l)
      else (True, l[nat (sint type) := enabled]))"

definition GetDeviceState :: "i32 \<Rightarrow> bool list \<Rightarrow> bool" where
  "GetDeviceState type l =
     (if sint type < 0 \<or> sint type \<ge> DEVICE_STATE_NUM then False else l ! nat (sint type))"

definition TELEPHONE_STATE_CHANGE :: i32 where "TELEPHONE_STATE_CHANGE = 1"
definition WIFI_P2P_CHANGE :: i32 where "WIFI_P2P_CHANGE = 2"

definition set_device :: "i32 \<Rightarrow> bool \<Rightarrow> service \<Rightarrow> service" where
  "set_device type enabled v = v\<lparr>deviceState := snd (SetDeviceState type enabled (deviceState v))\<rparr>"

section \<open>Handlers of the resource schedule events\<close>

text \<open>The message types only the events of this theory use.\<close>

definition DEVICE_STATE_CHANGED :: u32 where "DEVICE_STATE_CHANGED = 10"
definition NAT_DETECT_INTERVAL_CHANGED :: u32 where "NAT_DETECT_INTERVAL_CHANGED = 14"
definition FG_APPLICATION_CHANGED :: u32 where "FG_APPLICATION_CHANGED = 15"
definition SCREEN_CLICK_RECOGNIZE :: u32 where "SCREEN_CLICK_RECOGNIZE = 16"
definition MMI_INPUT_POWER_KEY_DOWN :: u32 where "MMI_INPUT_POWER_KEY_DOWN = 17"
definition NAT_MSG_RECV :: u32 where "NAT_MSG_RECV = 18"
definition PAGE_SHOW :: u32 where "PAGE_SHOW = 19"
definition PAGE_HIDE :: u32 where "PAGE_HIDE = 20"
definition GATT_APP_REGISTER :: u32 where "GATT_APP_REGISTER = 21"
definition GATT_CONNECT_STATE :: u32 where "GATT_CONNECT_STATE = 22"
definition BROKER_GATT_CONNECT :: u32 where "BROKER_GATT_CONNECT = 23"
definition THERMAL_SCENARIO_REPORT :: u32 where "THERMAL_SCENARIO_REPORT = 24"
definition PUSH_PROXY_STATE_CHANGED :: u32 where "PUSH_PROXY_STATE_CHANGED = 25"
definition WIFI_CONNECT_STATE_CHANGE :: u32 where "WIFI_CONNECT_STATE_CHANGE = 26"
definition HEART_BEAT_VALUE_CHANGE :: u32 where "HEART_BEAT_VALUE_CHANGE = 27"
definition AUDIO_RENDERER_CHANGE :: u32 where "AUDIO_RENDERER_CHANGE = 28"
definition AUDIO_CAPTURER_CHANGE :: u32 where "AUDIO_CAPTURER_CHANGE = 29"

definition BG_TASK_RESOURCE_STATUS :: string where "BG_TASK_RESOURCE_STATUS = ''applyed''"

definition send :: "u32 \<Rightarrow> want_params \<Rightarrow> service \<Rightarrow> service" where
  "send ev ps = Service_DispatchEvent (event_of (OutMessage ev ps))"

definition send_common :: "event_action \<Rightarrow> service \<Rightarrow> service" where
  "send_common act = Service_DispatchEvent (common_event act)"

text \<open>The event constants of the resource schedule service.\<close>

datatype res_type =
    RES_TYPE_SCREEN_STATUS
  | RES_TYPE_CHARGING_DISCHARGING
  | RES_TYPE_USB_DEVICE
  | RES_TYPE_CALL_STATE_CHANGED
  | RES_TYPE_WIFI_P2P_STATE_CHANGED
  | RES_TYPE_CLICK_RECOGNIZE
  | RES_TYPE_MMI_INPUT_POWER_KEY
  | RES_TYPE_BT_SERVICE_EVENT
  | RES_TYPE_REPORT_BOKER_GATT_CONNECT
  | RES_TYPE_POWER_MODE_CHANGED
  | RES_TYPE_EFFICIENCY_RESOURCES_STATE_CHANGED
  | RES_TYPE_BOOT_COMPLETED
  | RES_TYPE_THERMAL_SCENARIO_REPORT
  | RES_TYPE_WIFI_CONNECT_STATE_CHANGE
  | RES_TYPE_INNER_AUDIO_STATE
  | RES_TYPE_AUDIO_CAPTURE_STATUS_CHANGED
  | RES_TYPE_APP_INSTALL_UNINSTALL
  | RES_TYPE_TIME_OR_ZONE_CHANGED
  | RES_TYPE_OTHER u32

record res_consts =
  gattAppRegister :: i64
  gattConnectState :: i64
  efficiencyApply :: "i64 list"
  appRemoved :: "i64 list"
  bootCompleted :: event_action

text \<open>\<open>payload.contains(key) && payload.at(key).is_string()\<close>, with the string.\<close>

definition str_member :: "json \<Rightarrow> string \<Rightarrow> string option" where
  "str_member j key = (case member_at j key of Some (JString s) \<Rightarrow> Some s | _ \<Rightarrow> None)"

definition HandleScreenStateChanged :: "i64 \<Rightarrow> service \<Rightarrow> service" where
  "HandleScreenStateChanged val v =
     (if val = 1 then sv_call (SC_SetDeviceIdlePolicy False) (send_common COMMON_EVENT_SCREEN_ON v)
      else send_common COMMON_EVENT_SCREEN_OFF v)"

definition HandleChargeStateChanged :: "i64 \<Rightarrow> service \<Rightarrow> service" where
  "HandleChargeStateChanged val =
     send_common (if val = 0 then COMMON_EVENT_CHARGING else COMMON_EVENT_DISCHARGING)"

definition usb_event :: "i64 \<Rightarrow> service \<Rightarrow> service" where
  "usb_event val =
     send_common (if val \<noteq> 0 then COMMON_EVENT_USB_DEVICE_DETACHED else COMMON_EVENT_USB_DEVICE_ATTACHED)"

definition HandleScreenClickRecognize :: "i64 \<Rightarrow> service \<Rightarrow> service" where
  "HandleScreenClickRecognize val = send SCREEN_CLICK_RECOGNIZE [(''clickType'', WInt (narrow32 val))]"

definition HandleMmiInputPowerKeyDown :: "i64 \<Rightarrow> service \<Rightarrow> service" where
  "HandleMmiInputPowerKeyDown val = send MMI_INPUT_POWER_KEY_DOWN [(''keyCode'', WLong val)]"

definition HandlePowerModeChanged :: "i64 \<Rightarrow> service \<Rightarrow> service" where
  "HandlePowerModeChanged val =
     Service_DispatchEvent \<lparr> oe_id = COMMON_EVENT, oe_action = COMMON_EVENT_POWER_SAVE_MODE_CHANGED,
       oe_params = Some [(''current_power_mode'', WInt (narrow32 val))] \<rparr>"

definition HandleThermalScenarioReport :: "i64 \<Rightarrow> string \<Rightarrow> service \<Rightarrow> service" where
  "HandleThermalScenarioReport val sceneInfo =
     send THERMAL_SCENARIO_REPORT [(''scenario'', WLong val), (''sceneInfo'', WString sceneInfo)]"

definition HandleWifiConnStateChanged :: "i64 \<Rightarrow> service \<Rightarrow> service" where
  "HandleWifiConnStateChanged val = send WIFI_CONNECT_STATE_CHANGE [(''wifiConnState'', WInt (narrow32 val))]"

definition HandleBootCompleted :: "res_consts \<Rightarrow> service \<Rightarrow> service" where
  "HandleBootCompleted r = send_common (bootCompleted r)"

text \<open>The states of a call and of a P2P connection that count as inactive.\<close>

definition call_inactive :: "i32 \<Rightarrow> bool" where
  "call_inactive state \<longleftrightarrow> sint state = - 1 \<or> sint state = 6 \<or> sint state = 8"

definition p2p_inactive :: "i32 \<Rightarrow> bool" where
  "p2p_inactive state \<longleftrightarrow> state = 1 \<or> state = 0 \<or> state = 5"

definition HandleCallStateChanged :: "service_env \<Rightarrow> string \<Rightarrow> service \<Rightarrow> service option" where
  "HandleCallStateChanged e sceneInfo v =
     (let payload = parseJson e sceneInfo in
      if payload = JDiscarded then Some v
      else case member_at payload ''state'' of
             None \<Rightarrow> None
           | Some j \<Rightarrow>
               let state = (case j of JString s \<Rightarrow> c_atoi s | JInt i \<Rightarrow> word_of_int i | _ \<Rightarrow> - 1)
               in Some (set_device TELEPHONE_STATE_CHANGE (\<not> call_inactive state) v))"

definition HandleP2PStateChanged :: "i32 \<Rightarrow> service \<Rightarrow> service" where
  "HandleP2PStateChanged state = set_device WIFI_P2P_CHANGE (\<not> p2p_inactive state)"

definition HandleBTServiceEvent :: "service_env \<Rightarrow> res_consts \<Rightarrow> i64 \<Rightarrow> string \<Rightarrow> service \<Rightarrow> service" where
  "HandleBTServiceEvent e r val sceneInfo v =
     (let payload = parseJson e sceneInfo in
      if payload = JDiscarded then v
      else if val = gattAppRegister r then
        (case (str_member payload ''ACTION'', str_member payload ''UID'', str_member payload ''SIDE'',
               str_member payload ''APPID'') of
           (Some act, Some uid, Some side, Some appid) \<Rightarrow>
             send GATT_APP_REGISTER [(''ACTION'', WString act), (''UID'', WInt (c_atoi uid)),
               (''SIDE'', WString side), (''APPID'', WInt (c_atoi appid))] v
         | _ \<Rightarrow> v)
      else if val = gattConnectState r then
        (case (str_member payload ''STATE'', str_member payload ''ROLE'', str_member payload ''CONNECTIF'') of
           (Some state, Some side, Some appid) \<Rightarrow>
             send GATT_CONNECT_STATE [(''STATE'', WInt (c_atoi state)), (''SIDE'', WString side),
               (''APPID'', WInt (c_atoi appid))] v
         | _ \<Rightarrow> v)
      else v)"

definition HandleBrokerGattConnect :: "service_env \<Rightarrow> i64 \<Rightarrow> string \<Rightarrow> service \<Rightarrow> service" where
  "HandleBrokerGattConnect e val sceneInfo v =
     (let payload = parseJson e sceneInfo in
      if payload = JDiscarded then v
      else if val \<noteq> 0 then
        (case (str_member payload ''clientIf'', str_member payload ''pkg'') of
           (Some clientIf, Some pkg) \<Rightarrow>
             send BROKER_GATT_CONNECT [(''clientIf'', WInt (c_atoi clientIf)), (''pkg'', WString pkg),
               (''connect'', WBool True)] v
         | _ \<Rightarrow> v)
      else
        (case str_member payload ''clientIf'' of
           Some clientIf \<Rightarrow>
             send BROKER_GATT_CONNECT [(''clientIf'', WInt (c_atoi clientIf)), (''connect'', WBool False)] v
         | None \<Rightarrow> v))"

definition HandleResourcesStateChanged :: "service_env \<Rightarrow> res_consts \<Rightarrow> i64 \<Rightarrow> string \<Rightarrow> service \<Rightarrow> service" where
  "HandleResourcesStateChanged e r val sceneInfo v =
     (let isApply = val \<in> set (efficiencyApply r); payload = parseJson e sceneInfo in
      if payload = JDiscarded then v
      else case (str_member payload ''bundleName'', member_at payload ''resourceNumber'') of
             (Some bundleName, Some (JInt n)) \<Rightarrow>
               if n < 0 then v
               else send BG_EFFICIENCY_RESOURCE_APPLY [(BG_TASK_BUNDLE_NAME, WString bundleName),
                 (BG_TASK_RESOURCE_STATUS, WBool isApply), (BG_TASK_TYPE, WInt (word_of_int n))] v
           | _ \<Rightarrow> v)"

definition HandleAudioRendererChanged :: "service_env \<Rightarrow> i64 \<Rightarrow> string \<Rightarrow> service \<Rightarrow> service" where
  "HandleAudioRendererChanged e val sceneInfo v =
     (case str_member (parseJson e sceneInfo) ''uid'' of
        None \<Rightarrow> v
      | Some uid \<Rightarrow> send AUDIO_RENDERER_CHANGE [(''rendererState'', WInt (narrow32 val)), (''uid'', WString uid)] v)"

definition HandleAudioCapturerChanged :: "service_env \<Rightarrow> i64 \<Rightarrow> string \<Rightarrow> service \<Rightarrow> service" where
  "HandleAudioCapturerChanged e val sceneInfo v =
     (case str_member (parseJson e sceneInfo) ''uid'' of
        None \<Rightarrow> v
      | Some uid \<Rightarrow> send AUDIO_CAPTURER_CHANGE [(''capturerState'', WInt (narrow32 val)), (''uid'', WString uid)] v)"

definition AppEventHandler :: "service_env \<Rightarrow> res_consts \<Rightarrow> res_type \<Rightarrow> i64 \<Rightarrow> string \<Rightarrow> service \<Rightarrow> service" where
  "AppEventHandler e r resType val sceneInfo v =
     (if resType = RES_TYPE_APP_INSTALL_UNINSTALL \<and> val \<in> set (appRemoved r) then
        let payload = parseJson e sceneInfo in
        if payload = JDiscarded then v
        else case (str_member payload ''bundleName'', member_at payload ''uid'') of
               (Some bundleName, Some j) \<Rightarrow>
                 let uid = (case j of JString s \<Rightarrow> c_atoi s | JInt i \<Rightarrow> word_of_int i | _ \<Rightarrow> - 1)
                 in post_handler (HT_RemoveApp uid bundleName True) v
             | _ \<Rightarrow> v
      else if resType = RES_TYPE_TIME_OR_ZONE_CHANGED then post_handler HT_ResetTimeObserver v
      else v)"

definition SubHandleCommonEvent ::
  "service_env \<Rightarrow> res_consts \<Rightarrow> res_type \<Rightarrow> i64 \<Rightarrow> string \<Rightarrow> service \<Rightarrow> service" where
  "SubHandleCommonEvent e r resType val sceneInfo v =
     (case resType of
        RES_TYPE_BOOT_COMPLETED \<Rightarrow> HandleBootCompleted r v
      | RES_TYPE_THERMAL_SCENARIO_REPORT \<Rightarrow> HandleThermalScenarioReport val sceneInfo v
      | RES_TYPE_WIFI_CONNECT_STATE_CHANGE \<Rightarrow> HandleWifiConnStateChanged val v
      | RES_TYPE_INNER_AUDIO_STATE \<Rightarrow> HandleAudioRendererChanged e val sceneInfo v
      | RES_TYPE_AUDIO_CAPTURE_STATUS_CHANGED \<Rightarrow> HandleAudioCapturerChanged e val sceneInfo v
      | _ \<Rightarrow> AppEventHandler e r resType val sceneInfo v)"

definition Service_HandleCommonEvent ::
  "service_env \<Rightarrow> res_consts \<Rightarrow> res_type \<Rightarrow> i64 \<Rightarrow> string \<Rightarrow> service \<Rightarrow> (err \<times> service) option" where
  "Service_HandleCommonEvent e r resType val sceneInfo v =
     map_option (Pair ERR_OK)
       (case resType of
          RES_TYPE_SCREEN_STATUS \<Rightarrow> Some (HandleScreenStateChanged val v)
        | RES_TYPE_CHARGING_DISCHARGING \<Rightarrow> Some (HandleChargeStateChanged val v)
        | RES_TYPE_USB_DEVICE \<Rightarrow> Some (usb_event val v)
        | RES_TYPE_CALL_STATE_CHANGED \<Rightarrow> HandleCallStateChanged e sceneInfo v
        | RES_TYPE_WIFI_P2P_STATE_CHANGED \<Rightarrow> Some (HandleP2PStateChanged (narrow32 val) v)
        | RES_TYPE_CLICK_RECOGNIZE \<Rightarrow> Some (HandleScreenClickRecognize val v)
        | RES_TYPE_MMI_INPUT_POWER_KEY \<Rightarrow> Some (HandleMmiInputPowerKeyDown val v)
        | RES_TYPE_BT_SERVICE_EVENT \<Rightarrow> Some (HandleBTServiceEvent e r val sceneInfo v)
        | RES_TYPE_REPORT_BOKER_GATT_CONNECT \<Rightarrow> Some (HandleBrokerGattConnect e val sceneInfo v)
        | RES_TYPE_POWER_MODE_CHANGED \<Rightarrow> Some (HandlePowerModeChanged val v)
        | RES_TYPE_EFFICIENCY_RESOURCES_STATE_CHANGED \<Rightarrow> Some (HandleResourcesStateChanged e r val sceneInfo v)
        | _ \<Rightarrow> Some (SubHandleCommonEvent e r resType val sceneInfo v))"

end
