(* ===== verification/Service_Calls.thy ===== *)
theory Service_Calls
  imports Service_Events
begin

text \<open>
  The observers of the application manager (\<open>app_state_observer.cpp\<close>), the callbacks of the lid
  switch and of the background task manager, and the calls other processes make on
  \<open>StandbyService\<close> (\<open>standby_service.cpp\<close>) with their checks, down to the managers.
\<close>

section \<open>Observers\<close>

definition CheckAlivedApp :: "service_env \<Rightarrow> string \<Rightarrow> bool" where
  "CheckAlivedApp e bundleName = (case appRunning (se_st e) bundleName of None \<Rightarrow> True | Some isRunning \<Rightarrow> isRunning)"

definition OnProcessDied :: "service_env \<Rightarrow> i32 \<Rightarrow> i32 \<Rightarrow> string \<Rightarrow> service \<Rightarrow> service" where
  "OnProcessDied e uid pid bundleName v =
     post_handler (HT_ProcessStatus uid pid bundleName False)
       (if \<not> CheckAlivedApp e bundleName then post_handler (HT_RemoveApp uid bundleName False) v else v)"

definition OnProcessCreated :: "i32 \<Rightarrow> i32 \<Rightarrow> string \<Rightarrow> service \<Rightarrow> service" where
  "OnProcessCreated uid pid bundleName = post_handler (HT_ProcessStatus uid pid bundleName True)"

datatype app_state = APP_STATE_FOREGROUND | APP_STATE_TERMINATED | APP_STATE_END | APP_STATE_OTHER i32

definition OnApplicationStateChanged :: "i32 \<Rightarrow> string \<Rightarrow> app_state \<Rightarrow> service \<Rightarrow> service" where
  "OnApplicationStateChanged uid bundleName state v =
     (if \<not> (sint uid > 0 \<and> length bundleName > 0) then v
      else if state = APP_STATE_TERMINATED \<or> state = APP_STATE_END
      then post_handler (HT_RemoveApp uid bundleName False) v else v)"

definition OnForegroundApplicationChanged ::
  "i32 \<Rightarrow> i32 \<Rightarrow> string \<Rightarrow> app_state \<Rightarrow> bool \<Rightarrow> service \<Rightarrow> service" where
  "OnForegroundApplicationChanged uid pid bundleName state isFocused v =
     (if \<not> (sint uid > 0 \<and> length bundleName > 0) then v
      else if state = APP_STATE_FOREGROUND \<and> isFocused
      then post_handler (HT_Event (event_of (OutMessage FG_APPLICATION_CHANGED
             [(''cur_foreground_app_pid'', WInt pid), (''cur_foreground_app_name'', WString bundleName)]))) v
      else v)"

record page_data =
  pg_bundleName :: string
  pg_moduleName :: string
  pg_abilityName :: string
  pg_pageName :: string
  pg_targetBundleName :: string
  pg_targetModuleName :: string

definition page_params :: "page_data \<Rightarrow> want_params" where
  "page_params p = [(''bundleName'', WString (pg_bundleName p)), (''moduleName'', WString (pg_moduleName p)),
     (''abilityName'', WString (pg_abilityName p)), (''pageName'', WString (pg_pageName p)),
     (''targetBundleName'', WString (pg_targetBundleName p)), (''targetModuleName'', WString (pg_targetModuleName p))]"

definition OnPageShow :: "page_data \<Rightarrow> service \<Rightarrow> service" where
  "OnPageShow p = post_handler (HT_Event (event_of (OutMessage PAGE_SHOW (page_params p))))"

definition OnPageHide :: "page_data \<Rightarrow> service \<Rightarrow> service" where
  "OnPageHide p = post_handler (HT_Event (event_of (OutMessage PAGE_HIDE (page_params p))))"

text \<open>The lid switch: the argument tells whether the value is the framework's \<open>SWITCH_OFF\<close>.\<close>

definition OnCallbackEvent :: "bool \<Rightarrow> service \<Rightarrow> service" where
  "OnCallbackEvent switchOff = send_common (if switchOff then LID_CLOSE else LID_OPEN)"

definition OnTaskStatusChanged ::
  "string \<Rightarrow> bool \<Rightarrow> i32 \<Rightarrow> string \<Rightarrow> i32 \<Rightarrow> service \<Rightarrow> service" where
  "OnTaskStatusChanged type started uid bundleName typeId =
     send BG_TASK_STATUS_CHANGE [(BG_TASK_TYPE, WString type), (BG_TASK_STATUS, WBool started),
       (BG_TASK_UID, WInt uid), (BG_TASK_BUNDLE_NAME, WString bundleName), (BG_TASK_TYPE_ID, WInt typeId)]"

text \<open>The background task manager's callbacks; \<open>typeId\<close> has the default 0 for a transient task.\<close>

definition OnAppTransientTaskStart :: "i32 \<Rightarrow> string \<Rightarrow> service \<Rightarrow> service" where
  "OnAppTransientTaskStart uid packageName = OnTaskStatusChanged TRANSIENT_TASK True uid packageName 0"
definition OnAppTransientTaskEnd :: "i32 \<Rightarrow> string \<Rightarrow> service \<Rightarrow> service" where
  "OnAppTransientTaskEnd uid packageName = OnTaskStatusChanged TRANSIENT_TASK False uid packageName 0"
definition OnContinuousTaskStart :: "i32 \<Rightarrow> i32 \<Rightarrow> service \<Rightarrow> service" where
  "OnContinuousTaskStart creatorUid typeId = OnTaskStatusChanged CONTINUOUS_TASK True creatorUid '''' typeId"
definition OnContinuousTaskStop :: "i32 \<Rightarrow> i32 \<Rightarrow> service \<Rightarrow> service" where
  "OnContinuousTaskStop creatorUid typeId = OnTaskStatusChanged CONTINUOUS_TASK False creatorUid '''' typeId"

section \<open>Calls of other processes\<close>

definition svc_env_of :: "service_env \<Rightarrow> service \<Rightarrow> svc_env" where
  "svc_env_of e v = (se_sv e)\<lparr>sv_curState := curState (sm v)\<rparr>"

definition on_list :: "(svc_env \<Rightarrow> svc_state \<Rightarrow> err \<times> svc_state) \<Rightarrow> service_env \<Rightarrow> service \<Rightarrow> err \<times> service" where
  "on_list f e v = (let (ret, a) = f (svc_env_of e v) (al v) in (ret, absorb_al a v))"

definition Impl_ReportWorkSchedulerStatus :: "service_env \<Rightarrow> bool \<Rightarrow> i32 \<Rightarrow> string \<Rightarrow> service \<Rightarrow> err \<times> service" where
  "Impl_ReportWorkSchedulerStatus e started uid bundleName v =
     (let checkRet = CheckCallerPermission (se_sv e) REASON_APP_API in
      if checkRet \<noteq> ERR_OK then (checkRet, v)
      else if \<not> ready v then (ERR_STANDBY_SYS_NOT_READY, v)
      else (ERR_OK, send BG_TASK_STATUS_CHANGE [(BG_TASK_TYPE, WString WORK_SCHEDULER_TASK),
             (BG_TASK_STATUS, WBool started), (BG_TASK_UID, WInt uid)] v))"

definition HandlePowerOverused :: "service_env \<Rightarrow> string \<Rightarrow> u32 \<Rightarrow> service \<Rightarrow> service" where
  "HandlePowerOverused e module level v =
     v\<lparr>subs := NotifyPowerOverusedByCallback (te (se_sm e)) module level (subs v)\<rparr>"

definition HandleActionChanged :: "service_env \<Rightarrow> string \<Rightarrow> u32 \<Rightarrow> service \<Rightarrow> service" where
  "HandleActionChanged e module act v =
     v\<lparr>subs := NotifyLowpowerActionByCallback (te (se_sm e)) module act (subs v)\<rparr>"

definition Impl_ReportPowerOverused :: "service_env \<Rightarrow> string \<Rightarrow> u32 \<Rightarrow> service \<Rightarrow> err \<times> service" where
  "Impl_ReportPowerOverused e module level v =
     (let checkRet = CheckCallerPermission (se_sv e) REASON_APP_API in
      if checkRet \<noteq> ERR_OK then (checkRet, v) else (ERR_OK, HandlePowerOverused e module level v))"

definition Impl_ReportSceneInfo :: "service_env \<Rightarrow> u32 \<Rightarrow> i64 \<Rightarrow> string \<Rightarrow> service \<Rightarrow> err \<times> service" where
  "Impl_ReportSceneInfo e resType val sceneInfo v =
     (let checkRet = CheckCallerPermission (se_sv e) REASON_NATIVE_API in
      if checkRet \<noteq> ERR_OK then (checkRet, v)
      else if \<not> ready v then (ERR_STANDBY_SYS_NOT_READY, v)
      else (ERR_OK, send resType [(''value'', WInt (narrow32 val)), (''sceneInfo'', WString sceneInfo)] v))"

definition Impl_ReportDeviceStateChanged :: "service_env \<Rightarrow> i32 \<Rightarrow> bool \<Rightarrow> service \<Rightarrow> err \<times> service" where
  "Impl_ReportDeviceStateChanged e type enabled v =
     (if \<not> ready v then (ERR_STANDBY_SYS_NOT_READY, v)
      else
        let checkRet = CheckCallerPermission (se_sv e) REASON_APP_API in
        if checkRet \<noteq> ERR_OK then (checkRet, v)
        else
          let v = set_device type enabled v in
          (ERR_OK, if \<not> enabled then v else send DEVICE_STATE_CHANGED [(''DIS_COMP_STATE'', WBool enabled)] v))"

definition Impl_HeartBeatValueChanged :: "string \<Rightarrow> i32 \<Rightarrow> service \<Rightarrow> err \<times> service" where
  "Impl_HeartBeatValueChanged tag timesTamp v =
     (if \<not> ready v then (ERR_STANDBY_SYS_NOT_READY, v)
      else (ERR_OK, send HEART_BEAT_VALUE_CHANGE [(''tag'', WString tag), (''timesTamp'', WInt timesTamp)] v))"

definition Impl_SubscribeStandbyCallback :: "service_env \<Rightarrow> subscriber option \<Rightarrow> service \<Rightarrow> err \<times> service" where
  "Impl_SubscribeStandbyCallback e subscriber v =
     (case subscriber of
        None \<Rightarrow> (ERR_STANDBY_INVALID_PARAM, v)
      | Some x \<Rightarrow>
          let checkRet = CheckCallerPermission (se_sv e) REASON_APP_API in
          if checkRet \<noteq> ERR_OK then (checkRet, v)
          else if sb_name x \<notin> set (GetStrategyConfigList (cfg (se_sm e))) then (ERR_STANDBY_STRATEGY_NOT_DEPLOY, v)
          else let (ret, s) = AddSubscriber (te (se_sm e)) subscriber (subs v) in (ret, v\<lparr>subs := s\<rparr>))"

definition Impl_UnsubscribeStandbyCallback :: "service_env \<Rightarrow> subscriber option \<Rightarrow> service \<Rightarrow> err \<times> service" where
  "Impl_UnsubscribeStandbyCallback e subscriber v =
     (case subscriber of
        None \<Rightarrow> (ERR_STANDBY_INVALID_PARAM, v)
      | Some x \<Rightarrow>
          let checkRet = CheckCallerPermission (se_sv e) REASON_APP_API in
          if checkRet \<noteq> ERR_OK then (checkRet, v)
          else let (ret, s) = RemoveSubscriber subscriber (subs v) in (ret, v\<lparr>subs := s\<rparr>))"

text \<open>The public interface: every call needs the service to run; some name the calling process.\<close>

definition when_running :: "(service \<Rightarrow> err \<times> service) \<Rightarrow> service \<Rightarrow> err \<times> service" where
  "when_running f v = (if \<not> serviceRunning v then (ERR_STANDBY_SYS_NOT_READY, v) else f v)"

definition RSS_PROCESS_NAME :: string where "RSS_PROCESS_NAME = ''resource_schedule_service''"
definition PUSH_PROCESS_NAME :: string where "PUSH_PROCESS_NAME = ''push_manager_service''"

text \<open>\<open>ERR_PERMISSION_DENIED\<close> is a code of the system's common library.\<close>

abbreviation ERR_PERMISSION_DENIED :: "service_env \<Rightarrow> err" where
  "ERR_PERMISSION_DENIED e \<equiv> Ext_Err (permissionDeniedCode e)"

text \<open>\<open>callerProcess\<close> is the name of a native caller, \<open>None\<close> for any other token.\<close>

definition CheckProcessNamePermission :: "service_env \<Rightarrow> string \<Rightarrow> bool" where
  "CheckProcessNamePermission e processName \<longleftrightarrow> callerProcess e = Some processName"

definition StandbyService_SubscribeStandbyCallback ::
  "service_env \<Rightarrow> subscriber option \<Rightarrow> string \<Rightarrow> string \<Rightarrow> service \<Rightarrow> err \<times> service" where
  "StandbyService_SubscribeStandbyCallback e subscriber subscriberName moduleName v =
     (if subscriber = None then (ERR_STANDBY_INVALID_PARAM, v)
      else when_running (Impl_SubscribeStandbyCallback e
             (map_option (\<lambda>x. x\<lparr>sb_name := subscriberName, sb_module := moduleName\<rparr>) subscriber)) v)"

definition StandbyService_UnsubscribeStandbyCallback :: "service_env \<Rightarrow> subscriber option \<Rightarrow> service \<Rightarrow> err \<times> service" where
  "StandbyService_UnsubscribeStandbyCallback e subscriber v =
     (if subscriber = None then (ERR_STANDBY_INVALID_PARAM, v)
      else when_running (Impl_UnsubscribeStandbyCallback e subscriber) v)"

definition StandbyService_ApplyAllowResource :: "service_env \<Rightarrow> ResourceRequest \<Rightarrow> service \<Rightarrow> err \<times> service" where
  "StandbyService_ApplyAllowResource e rq = when_running (on_list (\<lambda>e. ApplyAllowResource e rq) e)"

definition StandbyService_UnapplyAllowResource :: "service_env \<Rightarrow> ResourceRequest \<Rightarrow> service \<Rightarrow> err \<times> service" where
  "StandbyService_UnapplyAllowResource e rq = when_running (on_list (\<lambda>e. UnapplyAllowResource e rq) e)"

definition StandbyService_GetAllowList ::
  "service_env \<Rightarrow> u32 \<Rightarrow> u32 \<Rightarrow> service \<Rightarrow> err \<times> AllowInfo list \<times> service" where
  "StandbyService_GetAllowList e allowType reasonCode v =
     (if \<not> serviceRunning v then (ERR_STANDBY_SYS_NOT_READY, [], v)
      else let (ret, infos, a) = GetAllowList (svc_env_of e v) allowType reasonCode (al v)
           in (ret, infos, absorb_al a v))"

definition StandbyService_IsDeviceInStandby :: "service_env \<Rightarrow> service \<Rightarrow> err \<times> bool option" where
  "StandbyService_IsDeviceInStandby e v =
     (if \<not> serviceRunning v then (ERR_STANDBY_SYS_NOT_READY, None) else IsDeviceInStandby (svc_env_of e v) (al v))"

definition StandbyService_GetRestrictList :: "service_env \<Rightarrow> u32 \<Rightarrow> u32 \<Rightarrow> service \<Rightarrow> err \<times> AllowInfo list" where
  "StandbyService_GetRestrictList e restrictType reasonCode v =
     (if \<not> serviceRunning v then (ERR_STANDBY_SYS_NOT_READY, [])
      else GetRestrictList (svc_env_of e v) restrictType reasonCode (al v))"

definition StandbyService_IsStrategyEnabled :: "service_env \<Rightarrow> string \<Rightarrow> service \<Rightarrow> err \<times> bool option" where
  "StandbyService_IsStrategyEnabled e strategyName v =
     (if \<not> serviceRunning v then (ERR_STANDBY_SYS_NOT_READY, None)
      else IsStrategyEnabled (svc_env_of e v) strategyName (al v))"

definition StandbyService_ReportWorkSchedulerStatus ::
  "service_env \<Rightarrow> bool \<Rightarrow> i32 \<Rightarrow> string \<Rightarrow> service \<Rightarrow> err \<times> service" where
  "StandbyService_ReportWorkSchedulerStatus e started uid bundleName =
     when_running (Impl_ReportWorkSchedulerStatus e started uid bundleName)"

definition StandbyService_ReportPowerOverused :: "service_env \<Rightarrow> string \<Rightarrow> u32 \<Rightarrow> service \<Rightarrow> err \<times> service" where
  "StandbyService_ReportPowerOverused e module level = when_running (Impl_ReportPowerOverused e module level)"

definition StandbyService_ReportDeviceStateChanged :: "service_env \<Rightarrow> i32 \<Rightarrow> bool \<Rightarrow> service \<Rightarrow> err \<times> service" where
  "StandbyService_ReportDeviceStateChanged e type enabled = when_running (Impl_ReportDeviceStateChanged e type enabled)"

definition StandbyService_ReportSceneInfo :: "service_env \<Rightarrow> u32 \<Rightarrow> i64 \<Rightarrow> string \<Rightarrow> service \<Rightarrow> err \<times> service" where
  "StandbyService_ReportSceneInfo e resType val sceneInfo = when_running (Impl_ReportSceneInfo e resType val sceneInfo)"

definition StandbyService_HeartBeatValueChanged :: "service_env \<Rightarrow> string \<Rightarrow> i32 \<Rightarrow> service \<Rightarrow> err \<times> service" where
  "StandbyService_HeartBeatValueChanged e tag timesTamp =
     when_running (\<lambda>v. if \<not> CheckProcessNamePermission e PUSH_PROCESS_NAME then (ERR_PERMISSION_DENIED e, v)
                       else Impl_HeartBeatValueChanged tag timesTamp v)"

definition PushProxyStateChanged :: "service_env \<Rightarrow> u32 \<Rightarrow> bool \<Rightarrow> service \<Rightarrow> err \<times> service" where
  "PushProxyStateChanged e type enable =
     when_running (\<lambda>v. if \<not> CheckProcessNamePermission e PUSH_PROCESS_NAME then (ERR_PERMISSION_DENIED e, v)
                       else (ERR_OK, send PUSH_PROXY_STATE_CHANGED [(''type'', WInt type), (''enable'', WBool enable)] v))"

definition SetNatInterval :: "service_env \<Rightarrow> u32 \<Rightarrow> bool \<Rightarrow> u32 \<Rightarrow> service \<Rightarrow> err \<times> service" where
  "SetNatInterval e type enable interval v =
     (if \<not> CheckProcessNamePermission e PUSH_PROCESS_NAME then (ERR_PERMISSION_DENIED e, v)
      else (ERR_OK, send NAT_DETECT_INTERVAL_CHANGED
             [(''type'', WInt type), (''enable'', WBool enable), (''interval'', WInt interval)] v))"

definition DelayHeartBeat :: "service_env \<Rightarrow> i64 \<Rightarrow> service \<Rightarrow> err \<times> service" where
  "DelayHeartBeat e timestamp v =
     (if \<not> CheckProcessNamePermission e PUSH_PROCESS_NAME then (ERR_PERMISSION_DENIED e, v)
      else (ERR_OK, send NAT_MSG_RECV [(''timestamp'', WInt (narrow32 timestamp))] v))"

definition StandbyService_HandleEvent ::
  "service_env \<Rightarrow> res_consts \<Rightarrow> res_type \<Rightarrow> i64 \<Rightarrow> string \<Rightarrow> service \<Rightarrow> (err \<times> service) option" where
  "StandbyService_HandleEvent e r resType val sceneInfo v =
     (if \<not> CheckProcessNamePermission e RSS_PROCESS_NAME then Some (ERR_PERMISSION_DENIED e, v)
      else map_option (\<lambda>(_, v). (ERR_OK, v)) (Service_HandleCommonEvent e r resType val sceneInfo v))"

end
