(* ===== verification/Service_Ready.thy ===== *)
theory Service_Ready
  imports Service_Calls
begin

text \<open>
  When the service becomes ready: the mask of the abilities that are there after any sequence
  of additions and removals, and the closures that initialise and release the managers,
  posted exactly when all of them are there and when one is missing.
\<close>

datatype ability_event = Ability_Added system_ability | Ability_Removed system_ability

definition ability_event :: "service_env \<Rightarrow> ability_event \<Rightarrow> service \<Rightarrow> service" where
  "ability_event e ev = (case ev of Ability_Added a \<Rightarrow> OnAddSystemAbility e a | Ability_Removed a \<Rightarrow> OnRemoveSystemAbility a)"

definition present :: "ability_event list \<Rightarrow> system_ability set" where
  "present l = fold (\<lambda>ev S. case ev of Ability_Added a \<Rightarrow> insert a S | Ability_Removed a \<Rightarrow> S - {a}) l {}"

lemma present_snoc:
  "present (l @ [Ability_Added a]) = insert a (present l)" "present (l @ [Ability_Removed a]) = present l - {a}"
  by (simp_all add: present_def)

definition depend_mask :: "system_ability set \<Rightarrow> u32" where
  "depend_mask S =
     (if COMMON_EVENT_SERVICE \<in> S then 1 else 0) OR (if TIME_SERVICE \<in> S then 2 else 0) OR
     (if ABILITY_MGR_SERVICE \<in> S then 4 else 0) OR (if BUNDLE_MGR_SERVICE \<in> S then 8 else 0) OR
     (if POWER_MANAGER_SERVICE \<in> S then 16 else 0) OR (if APP_MGR_SERVICE \<in> S then 32 else 0) OR
     (if MULTIMODAL_INPUT_SERVICE \<in> S then 64 else 0)"

lemma depend_mask_insert: "ready_bit a = Some b \<Longrightarrow> depend_mask S OR b = depend_mask (insert a S)"
  by (cases a; simp add: depend_mask_def; simp add: ac_simps; cases "a \<in> S"; simp add: ac_simps)

lemma depend_mask_remove: "ready_bit a = Some b \<Longrightarrow> depend_mask S AND NOT b = depend_mask (S - {a})"
  by (cases a; simp add: depend_mask_def bit.conj_disj_distrib2)

lemma depend_mask_other:
  "depend_mask (insert (OTHER_SERVICE i) S) = depend_mask S" "depend_mask (S - {OTHER_SERVICE i}) = depend_mask S"
  by (simp_all add: depend_mask_def)

lemma depend_mask_all: "depend_mask S = ALL_DEPENDS_READY \<longleftrightarrow> set required_abilities \<subseteq> S"
proof
  assume "set required_abilities \<subseteq> S"
  then show "depend_mask S = ALL_DEPENDS_READY"
    by (simp add: depend_mask_def required_abilities_def ALL_DEPENDS_READY_def)
next
  assume all: "depend_mask S = ALL_DEPENDS_READY"
  have "a \<in> S" if "ready_bit a = Some b" for a b
  proof (rule ccontr)
    assume "a \<notin> S"
    then have "depend_mask S AND NOT b = depend_mask S"
      using depend_mask_remove [OF that, of S] by simp
    then have "ALL_DEPENDS_READY AND NOT b = ALL_DEPENDS_READY" using all by simp
    with that show False by (cases a) (simp_all add: ALL_DEPENDS_READY_def)
  qed
  then show "set required_abilities \<subseteq> S" by (auto simp: required_abilities_def)
qed

lemma dependsReady_frame [simp]:
  "dependsReady (sv_call c v) = dependsReady v" "dependsReady (post_handler t v) = dependsReady v"
  "dependsReady (post_high t v) = dependsReady v" "dependsReady (Service_DispatchEvent ev v) = dependsReady v"
  "dependsReady (snd (StartDayNightSwitchTimer e i v)) = dependsReady v"
  by (simp_all add: sv_call_def post_handler_def post_high_def Service_DispatchEvent_def StartDayNightSwitchTimer_def
      Let_def split: prod.split)

lemma handler_frame [simp]:
  "handler (sv_call c v) = handler v" "handler (snd (StartDayNightSwitchTimer e i v)) = handler v"
  by (simp_all add: sv_call_def StartDayNightSwitchTimer_def Let_def split: prod.split)

lemma RegisterTimeObserver_frame [simp]:
  "dependsReady (snd (RegisterTimeObserver e v)) = dependsReady v"
  "handler (snd (RegisterTimeObserver e v)) = handler v"
  by (simp_all add: RegisterTimeObserver_def RegisterDayNightSwitchTimer_def Let_def prod.case_eq_if)

lemma ability_frame [simp]:
  "dependsReady (ability_added e a v) = dependsReady v" "dependsReady (ability_removed a v) = dependsReady v"
  by (cases a; simp add: RegisterCommEventObserver_def RegisterAppStateObserver_def UnregisterCommEventObserver_def
      UnregisterAppStateObserver_def UnregisterTimeObserver_def NotifySystemAbilityStatusChanged_def Let_def)+

lemma ability_handler:
  "HT_InitReady \<in> set (handler (ability_added e a v)) \<longleftrightarrow> HT_InitReady \<in> set (handler v)"
  "HT_UninitReady \<in> set (handler (ability_removed a v)) \<longleftrightarrow> HT_UninitReady \<in> set (handler v)"
  by (cases a; simp add: RegisterCommEventObserver_def RegisterAppStateObserver_def UnregisterCommEventObserver_def
      UnregisterAppStateObserver_def UnregisterTimeObserver_def NotifySystemAbilityStatusChanged_def Let_def
      Service_DispatchEvent_def post_handler_def)+

lemma set_depend_mask:
  assumes "dependsReady v = depend_mask S"
  shows "dependsReady (set_depend True a v) = depend_mask (insert a S)"
    and "dependsReady (set_depend False a v) = depend_mask (S - {a})"
    and "handler (set_depend b a v) = handler v"
  using assms depend_mask_insert [where a = a and S = S] depend_mask_remove [where a = a and S = S]
    depend_mask_other [where S = S]
  by (cases a; simp add: set_depend_def UpdateSaDependValue_def)+

lemma dependsReady_event:
  assumes "dependsReady v = depend_mask S"
  shows "dependsReady (OnAddSystemAbility e a v) = depend_mask (insert a S)"
    and "dependsReady (OnRemoveSystemAbility a v) = depend_mask (S - {a})"
  using set_depend_mask [OF assms]
  by (simp_all add: OnAddSystemAbility_def OnRemoveSystemAbility_def InitReadyState_def UninitReadyState_def Let_def)

lemma dependsReady_events:
  "dependsReady v = 0 \<Longrightarrow> dependsReady (fold (ability_event e) l v) = depend_mask (present l)"
proof (induction l rule: rev_induct)
  case Nil
  then show ?case by (simp add: present_def depend_mask_def)
next
  case (snoc ev l)
  then show ?case
    using dependsReady_event [OF snoc.IH [OF snoc.prems]]
    by (cases ev) (simp_all add: ability_event_def present_snoc)
qed

lemma set_post_high: "set (handler (post_high t v)) = insert t (set (handler v))"
  by (auto simp: post_high_def dest: set_takeWhileD set_dropWhileD)
    (metis Un_iff set_append takeWhile_dropWhile_id)

section \<open>Properties\<close>

text \<open>C16: After any sequence of added and removed system abilities the dependency mask is
  complete exactly when all seven required ones are present, and then the next addition
  posts the initialisation of the managers; a removal that leaves one missing posts their
  release.\<close>

theorem ready_with_all_abilities:
  assumes "dependsReady v = 0"
  shows "let w = fold (ability_event e) l v in
    (GetSaDependValue w = ALL_DEPENDS_READY \<longleftrightarrow> set required_abilities \<subseteq> present l) \<and>
    (HT_InitReady \<in> set (handler (OnAddSystemAbility e a w)) \<longleftrightarrow>
       HT_InitReady \<in> set (handler w) \<or> set required_abilities \<subseteq> insert a (present l)) \<and>
    (HT_UninitReady \<in> set (handler (OnRemoveSystemAbility a w)) \<longleftrightarrow>
       HT_UninitReady \<in> set (handler w) \<or> \<not> set required_abilities \<subseteq> present l - {a})"
proof -
  define w where "w = fold (ability_event e) l v"
  have w: "dependsReady w = depend_mask (present l)"
    unfolding w_def by (rule dependsReady_events [OF assms(1)])
  note m = set_depend_mask [OF w]
  show ?thesis
    using w m unfolding w_def [symmetric] by (simp add: GetSaDependValue_def depend_mask_all OnAddSystemAbility_def OnRemoveSystemAbility_def Let_def
        InitReadyState_def UninitReadyState_def set_post_high ability_handler)
qed

end
