(* ===== verification/Service_Steps.thy ===== *)
theory Service_Steps
  imports Strategy_Manager_Props Service_Ready
begin

text \<open>
  The service as a whole: from the closure that initialises the managers on, every call of
  another process, every event and observer, every closure on the handler of the service, of the
  state machine and of the exemption list, and every timer is one step of \<open>service_step\<close>. The
  invariants of the components hold in every state these steps reach together
  (\<open>service_inv\<close>). The release of the managers when a required ability goes away ends such a
  run, and the shell dump, which sets states directly, is not a step of it.
\<close>

section \<open>Frames\<close>

text \<open>Posting and logging leave the components alone.\<close>

definition parts where
  "parts v = (sm v, strat v, al v, subs v)"

lemma parts_D: "parts v = parts w \<Longrightarrow> sm v = sm w \<and> strat v = strat w \<and> al v = al w \<and> subs v = subs w"
  by (simp add: parts_def)

named_theorems parts_simps \<open>operations that only post closures, log calls or set flags\<close>

lemma parts_update [parts_simps, simp]:
  "parts (v\<lparr>handler := h\<rparr>) = parts v" "parts (v\<lparr>delayed := h\<rparr>) = parts v" "parts (v\<lparr>lst := l\<rparr>) = parts v"
  "parts (v\<lparr>dependsReady := d\<rparr>) = parts v" "parts (v\<lparr>dayNightSwitchTimerId := i\<rparr>) = parts v"
  "parts (v\<lparr>commonEventObserver := b\<rparr>) = parts v" "parts (v\<lparr>appStateObserver := b\<rparr>) = parts v"
  "parts (v\<lparr>serviceRunning := b\<rparr>) = parts v" "parts (v\<lparr>registerPlugin := b\<rparr>) = parts v"
  "parts (v\<lparr>deviceState := x\<rparr>) = parts v"
  by (simp_all add: parts_def)

lemma parts_post [parts_simps, simp]:
  "parts (sv_call c v) = parts v" "parts (post_handler t v) = parts v" "parts (post_high t v) = parts v"
  "parts (Service_DispatchEvent ev v) = parts v" "parts (send i ps v) = parts v"
  "parts (send_common act v) = parts v" "parts (set_device i b v) = parts v"
  by (simp_all add: parts_def sv_call_def post_handler_def post_high_def Service_DispatchEvent_def send_def
      send_common_def set_device_def)

lemma parts_dispatch_all [parts_simps, simp]: "parts (dispatch_all ms v) = parts v"
  by (induction ms arbitrary: v) (simp_all add: dispatch_all_def)

lemma parts_fold: "(\<And>x v. parts (f x v) = parts v) \<Longrightarrow> parts (fold f xs v) = parts v"
  by (induction xs arbitrary: v) simp_all

lemma parts_timers [parts_simps, simp]:
  "parts (snd (StartDayNightSwitchTimer e i v)) = parts v"
  "parts (snd (RegisterTimeObserver e v)) = parts v"
  "parts (snd (UnregisterTimeObserver v)) = parts v"
  "parts (snd (ResetTimeObserver e v)) = parts v"
  "parts (DayNightSwitch_task e v) = parts v"
proof -
  show start: "parts (snd (StartDayNightSwitchTimer e i v)) = parts v" for i v
    by (simp add: StartDayNightSwitchTimer_def Let_def split: prod.split)
  show reg: "parts (snd (RegisterTimeObserver e v)) = parts v" for v
    by (simp add: RegisterTimeObserver_def RegisterDayNightSwitchTimer_def Let_def case_prod_unfold start)
  show un: "parts (snd (UnregisterTimeObserver v)) = parts v" for v
    by (simp add: UnregisterTimeObserver_def)
  show reset: "parts (snd (ResetTimeObserver e v)) = parts v" for v
    by (simp add: ResetTimeObserver_def Let_def case_prod_unfold reg un)
  show "parts (DayNightSwitch_task e v) = parts v"
    by (simp add: DayNightSwitch_task_def Let_def case_prod_unfold start reset)
qed

lemma parts_ability [parts_simps, simp]: "parts (ability_event e ev v) = parts v"
proof -
  have dep: "parts (set_depend b a v) = parts v" for b a v
    by (simp add: set_depend_def UpdateSaDependValue_def split: option.split)
  have add: "parts (ability_added e a v) = parts v" for a v
    by (cases a) (simp_all add: RegisterCommEventObserver_def RegisterAppStateObserver_def
        NotifySystemAbilityStatusChanged_def Let_def)
  have rem: "parts (ability_removed a v) = parts v" for a v
    by (cases a) (simp_all add: UnregisterCommEventObserver_def UnregisterAppStateObserver_def
        NotifySystemAbilityStatusChanged_def)
  show ?thesis
    by (cases ev) (simp_all add: ability_event_def OnAddSystemAbility_def OnRemoveSystemAbility_def
        InitReadyState_def UninitReadyState_def Let_def dep add rem)
qed

section \<open>Calls that post\<close>

text \<open>The calls, events and observers that only post closures, set flags and log.\<close>

inductive posting_call :: "service_env \<Rightarrow> service \<Rightarrow> service \<Rightarrow> bool" for e v where
  pc_event: "StandbyService_HandleEvent e r resType val sceneInfo v = Some (ret, v') \<Longrightarrow> posting_call e v v'"
| pc_ability: "posting_call e v (ability_event e ev v)"
| pc_day_night: "posting_call e v (DayNightSwitchCallback v)"
| pc_work: "posting_call e v (snd (StandbyService_ReportWorkSchedulerStatus e started uid bundleName v))"
| pc_device: "posting_call e v (snd (StandbyService_ReportDeviceStateChanged e type enabled v))"
| pc_scene: "posting_call e v (snd (StandbyService_ReportSceneInfo e sceneType val sceneInfo v))"
| pc_heart_beat: "posting_call e v (snd (StandbyService_HeartBeatValueChanged e tag timesTamp v))"
| pc_push: "posting_call e v (snd (PushProxyStateChanged e type' enable v))"
| pc_nat: "posting_call e v (snd (SetNatInterval e type' enable interval v))"
| pc_delay: "posting_call e v (snd (DelayHeartBeat e timestamp v))"
| pc_died: "posting_call e v (OnProcessDied e uid pid bundleName v)"
| pc_created: "posting_call e v (OnProcessCreated uid pid bundleName v)"
| pc_app: "posting_call e v (OnApplicationStateChanged uid bundleName state v)"
| pc_foreground: "posting_call e v (OnForegroundApplicationChanged uid pid bundleName state isFocused v)"
| pc_page_show: "posting_call e v (OnPageShow page v)"
| pc_page_hide: "posting_call e v (OnPageHide page v)"
| pc_lid: "posting_call e v (OnCallbackEvent switchOff v)"
| pc_task: "posting_call e v (OnTaskStatusChanged kind started uid bundleName typeId v)"
| pc_start: "posting_call e v (OnStart e v)"
| pc_stop: "posting_call e v (OnStop v)"
| pc_delayed: "i < length (delayed v) \<Longrightarrow>
    posting_call e v (post_handler (delayed v ! i) (v\<lparr>delayed := take i (delayed v) @ drop (Suc i) (delayed v)\<rparr>))"

lemma parts_events:
  assumes "StandbyService_HandleEvent e r resType val sceneInfo v = Some (ret, v')"
  shows "parts v' = parts v"
proof -
  have call: "parts w = parts v" if "HandleCallStateChanged e sceneInfo v = Some w" for w
    using that by (auto simp: HandleCallStateChanged_def Let_def split: if_splits option.splits)
  have bt: "parts (HandleBTServiceEvent e r val sceneInfo v) = parts v"
    by (simp add: HandleBTServiceEvent_def Let_def split: option.split)
  have broker: "parts (HandleBrokerGattConnect e val sceneInfo v) = parts v"
    by (simp add: HandleBrokerGattConnect_def Let_def split: option.split)
  have res: "parts (HandleResourcesStateChanged e r val sceneInfo v) = parts v"
    by (simp add: HandleResourcesStateChanged_def Let_def split: option.split json.split)
  have app: "parts (AppEventHandler e r rt val sceneInfo v) = parts v" for rt
    by (simp add: AppEventHandler_def Let_def split: option.split)
  have sub: "parts (SubHandleCommonEvent e r resType val sceneInfo v) = parts v"
    by (cases resType) (simp_all add: SubHandleCommonEvent_def app HandleBootCompleted_def
        HandleThermalScenarioReport_def HandleWifiConnStateChanged_def HandleAudioRendererChanged_def
        HandleAudioCapturerChanged_def split: option.split)
  have "parts w = parts v" if "Service_HandleCommonEvent e r resType val sceneInfo v = Some (x, w)" for x w
    using that call sub bt broker res
    by (cases resType) (auto simp: Service_HandleCommonEvent_def HandleScreenStateChanged_def
        HandleChargeStateChanged_def usb_event_def HandleP2PStateChanged_def HandleScreenClickRecognize_def
        HandleMmiInputPowerKeyDown_def HandlePowerModeChanged_def)
  with assms show ?thesis
    by (auto simp: StandbyService_HandleEvent_def split: if_splits)
qed

lemma parts_plugin: "parts (snd (RegisterPlugin e p v)) = parts v"
  by (simp add: RegisterPlugin_def Let_def split: plugin_file.split)

lemma parts_OnStart: "parts (OnStart e v) = parts v"
proof -
  have init: "parts (snd (Service_Init e v)) = parts v"
    by (simp add: Service_Init_def AddWatchDog_def Let_def case_prod_unfold parts_plugin)
  have "parts (fold (\<lambda>a. sv_call (SC_ListenAbility a)) l w) = parts w" for l w
    by (rule parts_fold) simp
  with init show ?thesis
    by (simp add: OnStart_def Let_def case_prod_unfold)
qed

lemma posting_call_parts: "posting_call e v v' \<Longrightarrow> parts v' = parts v"
proof (induction rule: posting_call.induct)
  case (pc_event r resType val sceneInfo ret v')
  then show ?case by (rule parts_events)
next
  case (pc_start)
  show ?case by (rule parts_OnStart)
qed (simp_all add: DayNightSwitchCallback_def OnProcessDied_def OnProcessCreated_def OnApplicationStateChanged_def
    OnForegroundApplicationChanged_def OnPageShow_def OnPageHide_def OnCallbackEvent_def OnTaskStatusChanged_def
    OnStop_def Service_UnInit_def StandbyService_ReportWorkSchedulerStatus_def StandbyService_ReportDeviceStateChanged_def
    StandbyService_ReportSceneInfo_def StandbyService_HeartBeatValueChanged_def PushProxyStateChanged_def SetNatInterval_def
    DelayHeartBeat_def when_running_def Impl_ReportWorkSchedulerStatus_def Impl_ReportDeviceStateChanged_def
    Impl_ReportSceneInfo_def Impl_HeartBeatValueChanged_def Let_def)

section \<open>The exemption list keeps the service ready\<close>

lemma ready_UpdateRecord: "isServiceReady (snd (UpdateRecord e rq (r, s))) = isServiceReady s"
proof -
  have one: "isServiceReady (snd (UpdateRecord_type e rq i (r, s))) = isServiceReady s" for i r s
    by (simp add: UpdateRecord_type_def Let_def)
  have "isServiceReady (snd (fold (UpdateRecord_type e rq) l (r, s))) = isServiceReady s" for l r s
  proof (induction l arbitrary: r s)
    case (Cons i l)
    then show ?case by (cases "UpdateRecord_type e rq i (r, s)") (use one [of i r s] in simp)
  qed simp
  then show ?thesis by (simp add: UpdateRecord_def)
qed

lemma ready_apply: "isServiceReady (ApplyAllowResInner e rq pid s) = isServiceReady s"
  using ready_UpdateRecord [of e rq _ s]
  by (simp add: ApplyAllowResInner_def DumpPersistantData_def NotifyAllowListChanged_def DispatchEvent_def Let_def
      case_prod_unfold split: option.split)

lemma ready_unapply: "isServiceReady (UnapplyAllowResInner e uid name a ra s) = isServiceReady s"
  by (simp add: UnapplyAllowResInner_def DumpPersistantData_def NotifyAllowListChanged_def DispatchEvent_def Let_def
      case_prod_unfold split: option.split)

lemma ready_list_ops:
  "isServiceReady (snd (ApplyAllowResource e rq s)) = isServiceReady s"
  "isServiceReady (snd (UnapplyAllowResource e rq s)) = isServiceReady s"
  "isServiceReady (snd (RemoveAppAllowRecord e uid name b s)) = isServiceReady s"
  "isServiceReady (OnProcessStatusChanged e uid pid name b s) = isServiceReady s"
  "isServiceReady (run_svc_task e task s) = isServiceReady s"
  by (auto simp: ApplyAllowResource_def UnapplyAllowResource_def RemoveAppAllowRecord_def OnProcessStatusChanged_def
      DispatchEvent_def run_svc_task_def Let_def ready_apply ready_unapply split: svc_task.split option.split)

lemma ready_get: "al_inv s \<Longrightarrow> isServiceReady (snd (snd (GetAllowList e t c s))) = isServiceReady s"
  using GetAllowList_quiet [of s e t c] by (simp add: quiet_def)

section \<open>Steps\<close>

text \<open>
  A message is handled by the strategies under the assumptions of their own step relations,
  taken in the state of the service in which it is handled. The first component of the state
  is the day and night condition the network strategy last worked under.
\<close>

definition told :: "service_env \<Rightarrow> StandbyMessage \<Rightarrow> u32 \<Rightarrow> service \<Rightarrow> u32 \<Rightarrow> bool" where
  "told e m c v c' \<longleftrightarrow>
     net_step (strategy_env e v, m) (c, ss_net (strat v))
       (c', NetworkStrategy_HandleEvent (strategy_env e v) m (ss_net (strat v))) \<and>
     rl_step (strategy_env e v, m) (ss_rl (strat v)) (RunningLockStrategy_HandleEvent (strategy_env e v) m (ss_rl (strat v)))"

definition without :: "nat \<Rightarrow> 'a list \<Rightarrow> 'a list" where
  "without i xs = take i xs @ drop (Suc i) xs"

lemma in_without: "x \<in> set xs \<Longrightarrow> i < length xs \<Longrightarrow> xs ! i \<noteq> x \<Longrightarrow> x \<in> set (without i xs)"
  by (metis id_take_nth_drop in_set_conv_decomp list.set_intros(1) without_def Un_iff set_append set_ConsD)

definition due_task :: "nat \<Rightarrow> service \<Rightarrow> service" where
  "due_task i v = v\<lparr>al := (al v)\<lparr>svc_tasks := without i (svc_tasks (al v))\<rparr>\<rparr>"

definition due_state_task :: "nat \<Rightarrow> service \<Rightarrow> service" where
  "due_state_task i v = v\<lparr>sm := (sm v)\<lparr>tasks := without i (tasks (sm v))\<rparr>\<rparr>"

inductive service_step :: "service_env \<Rightarrow> u32 \<times> service \<Rightarrow> u32 \<times> service \<Rightarrow> bool" for e where
  sv_post: "posting_call e v v' \<Longrightarrow> service_step e (c, v) (c, v')"
| sv_apply: "service_step e (c, v) (c, snd (StandbyService_ApplyAllowResource e rq v))"
| sv_unapply: "service_step e (c, v) (c, snd (StandbyService_UnapplyAllowResource e rq v))"
| sv_get: "service_step e (c, v) (c, snd (snd (StandbyService_GetAllowList e allowType reasonCode v)))"
| sv_subscribe: "service_step e (c, v) (c, snd (StandbyService_SubscribeStandbyCallback e x name module v))"
| sv_unsubscribe: "service_step e (c, v) (c, snd (StandbyService_UnsubscribeStandbyCallback e x v))"
| sv_death: "service_step e (c, v) (c, v\<lparr>subs := HandleSubscriberDeath r (subs v)\<rparr>)"
| sv_power: "service_step e (c, v) (c, snd (StandbyService_ReportPowerOverused e module level v))"
| sv_action: "service_step e (c, v) (c, HandleActionChanged e module act v)"
| sv_timer: "service_step e (c, v) (c, absorb_sm (timer_callback owner (sm v)) v)"
| sv_sensor: "service_step e (c, v) (c, v\<lparr>sm := PostTask MOTION_DECTION_TASK (T_EndEval False) 0 (sm v)\<rparr>)"
| sv_state_task: "i < length (tasks (sm v)) \<Longrightarrow> tasks (sm v) ! i = (name, task, delay) \<Longrightarrow>
    service_step e (c, v) (c, run_state_task e task (due_state_task i v))"
| sv_list_task: "i < length (svc_tasks (al v)) \<Longrightarrow> svc_tasks (al v) ! i = (task, due) \<Longrightarrow> due \<le> sv_bootTime (se_sv e) \<Longrightarrow>
    \<forall>m. task \<noteq> ST_Dispatch m \<Longrightarrow> service_step e (c, v) (c, run_list_task e task (due_task i v))"
| sv_list_dispatch: "i < length (svc_tasks (al v)) \<Longrightarrow> svc_tasks (al v) ! i = (ST_Dispatch m, due) \<Longrightarrow>
    told e (message_in (event_of m)) c (due_task i v) c' \<Longrightarrow>
    service_step e (c, v) (c', run_list_task e (ST_Dispatch m) (due_task i v))"
| sv_closure: "handler v = t # ts \<Longrightarrow> t \<noteq> HT_UninitReady \<Longrightarrow> \<forall>ev. t \<noteq> HT_Dispatch ev \<Longrightarrow>
    service_step e (c, v) (c, run_handler_task e t (v\<lparr>handler := ts\<rparr>))"
| sv_dispatch: "handler v = HT_Dispatch ev # ts \<Longrightarrow> told e (message_in ev) c v c' \<Longrightarrow>
    service_step e (c, v) (c', run_handler_task e (HT_Dispatch ev) (v\<lparr>handler := ts\<rparr>))"

inductive_cases service_stepE: "service_step e cv cv'"

section \<open>The invariant\<close>

fun service_inv :: "u32 \<times> service \<Rightarrow> bool" where
  "service_inv (c, v) \<longleftrightarrow>
     ready v \<and> sm_inv (sm v) \<and> al_inv (al v) \<and> covered (al v) \<and> subs_inv (subs v) \<and>
     both_created (strat v) \<and> net_inv c (ss_net (strat v)) \<and> rl_sound (ss_rl (strat v))"

lemma service_inv_parts: "parts v' = parts v \<Longrightarrow> service_inv (c, v') = service_inv (c, v)"
  using parts_D [of v' v] by simp

lemma absorb_sm_result:
  "sm (absorb_sm s v) = s" "strat (absorb_sm s v) = strat v" "al (absorb_sm s v) = al v"
  "subs (absorb_sm s v) = fold ReportStandbyState (new_reports (sm v) s) (subs v)"
  using parts_dispatch_all [of "new_messages (sm v) s"
      "v\<lparr>sm := s, subs := fold ReportStandbyState (new_reports (sm v) s) (subs v)\<rparr>"]
  by (simp_all add: absorb_sm_def parts_def)

lemma absorb_strat_result:
  "sm (absorb_strat s v) = sm v" "strat (absorb_strat s v) = s" "al (absorb_strat s v) = al v" "subs (absorb_strat s v) = subs v"
  using parts_dispatch_all [of "List.map_filter net_dispatched
      (drop (length (net_calls (ss_net (strat v)))) (net_calls (ss_net s)))" "v\<lparr>strat := s\<rparr>"]
  by (simp_all add: absorb_strat_def parts_def)

lemma subs_inv_reports: "subs_inv s \<Longrightarrow> subs_inv (fold ReportStandbyState sts s)"
  by (induction sts arbitrary: s) (simp_all add: subs_inv_ops)

lemma subs_inv_list_reports: "subs_inv s \<Longrightarrow> subs_inv (fold list_report es s)"
proof (induction es arbitrary: s)
  case (Cons ev es)
  then show ?case by (cases ev) (simp_all add: subs_inv_ops)
qed simp

lemma absorb_sm_inv: "service_inv (c, v) \<Longrightarrow> sm_inv s \<Longrightarrow> service_inv (c, absorb_sm s v)"
  by (simp add: absorb_sm_result subs_inv_reports)

lemma absorb_al_inv:
  assumes "service_inv (c, v)" "al_step e (al v) a" "isServiceReady a = isServiceReady (al v)"
  shows "service_inv (c, absorb_al a v)"
  using assms al_step_inv [OF _ assms(2)] al_step_covered [OF _ _ assms(2)]
  by (simp add: absorb_al_def subs_inv_list_reports)

lemma run_dispatch_inv:
  assumes "service_inv (c, v)" "told e (message_in ev) c v c'"
  shows "service_inv (c', run_dispatch e ev v)"
proof -
  let ?m = "message_in ev"
  define w where "w = absorb_sm (HandleEvent (se_sm e) ?m (sm v)) (v\<lparr>lst := ListenerManager_HandleEvent (se_ls e) ?m (lst v)\<rparr>)"
  have w: "service_inv (c, w)"
    unfolding w_def
    by (rule absorb_sm_inv) (use assms(1) sm_step_inv [OF _ step_event] in \<open>auto simp del: split_paired_All\<close>)
  have same: "strat w = strat v" "al w = al v" by (simp_all add: w_def absorb_sm_result)
  then have env: "strategy_env e w = strategy_env e v" by (simp add: strategy_env_def)
  have run: "run_dispatch e ev v = absorb_strat (StrategyManager_HandleEvent (strategy_env e w) ?m (strat w)) w"
    by (simp add: run_dispatch_def w_def Let_def)
  have both: "both_created (strat v)" using w same by simp
  have "net_inv c' (NetworkStrategy_HandleEvent (strategy_env e v) ?m (ss_net (strat v)))"
    using assms net_step_inv by (fastforce simp: told_def)
  moreover have "rl_sound (RunningLockStrategy_HandleEvent (strategy_env e v) ?m (ss_rl (strat v)))"
    using assms rl_sound_step by (fastforce simp: told_def)
  ultimately show ?thesis
    using w both unfolding run env same by (simp add: absorb_strat_result StrategyManager_HandleEvent_both)
qed

lemma when_running_list:
  "snd (when_running (on_list f e) v) = v \<or> snd (when_running (on_list f e) v) = absorb_al (snd (f (svc_env_of e v) (al v))) v"
  by (simp add: when_running_def on_list_def Let_def case_prod_unfold)

lemma covered_without:
  assumes "covered s" "i < length (svc_tasks s)" "svc_tasks s ! i = (ST_Dispatch m, due)"
  shows "covered (s\<lparr>svc_tasks := without i (svc_tasks s)\<rparr>)"
  using assms(1)
  by (rule covered_mono) (use assms(2,3) in \<open>simp_all add: grants_def times_at_def in_without\<close>)

lemma due_task_dispatch_inv:
  assumes "service_inv (c, v)" "i < length (svc_tasks (al v))" "svc_tasks (al v) ! i = (ST_Dispatch m, due)"
  shows "service_inv (c, due_task i v)"
proof -
  have "al_inv ((al v)\<lparr>svc_tasks := without i (svc_tasks (al v))\<rparr>) = al_inv (al v)" by (rule al_inv_cong) simp
  then show ?thesis
    using assms(1) covered_without [OF _ assms(2,3)] by (simp add: due_task_def)
qed

lemma sub_calls_inv:
  assumes "subs_inv (subs v)"
  shows "subs_inv (subs (snd (StandbyService_SubscribeStandbyCallback e x name module v)))"
    and "subs_inv (subs (snd (StandbyService_UnsubscribeStandbyCallback e x v)))"
    and "subs_inv (subs (snd (StandbyService_ReportPowerOverused e module level v)))"
  using assms
  by (simp_all add: StandbyService_SubscribeStandbyCallback_def StandbyService_UnsubscribeStandbyCallback_def
      StandbyService_ReportPowerOverused_def when_running_def Impl_SubscribeStandbyCallback_def
      Impl_UnsubscribeStandbyCallback_def Impl_ReportPowerOverused_def HandlePowerOverused_def Let_def case_prod_unfold
      subs_inv_ops split: option.split)

lemma sub_calls_frame:
  fixes v :: service
  shows "\<exists>s. snd (StandbyService_SubscribeStandbyCallback e x name module v) = v\<lparr>subs := s\<rparr>"
    and "\<exists>s. snd (StandbyService_UnsubscribeStandbyCallback e x v) = v\<lparr>subs := s\<rparr>"
    and "\<exists>s. snd (StandbyService_ReportPowerOverused e module level v) = v\<lparr>subs := s\<rparr>"
proof -
  have same: "\<exists>s. v = v\<lparr>subs := s\<rparr>" by (rule exI [of _ "subs v"]) simp
  show "\<exists>s. snd (StandbyService_SubscribeStandbyCallback e x name module v) = v\<lparr>subs := s\<rparr>"
    "\<exists>s. snd (StandbyService_UnsubscribeStandbyCallback e x v) = v\<lparr>subs := s\<rparr>"
    "\<exists>s. snd (StandbyService_ReportPowerOverused e module level v) = v\<lparr>subs := s\<rparr>"
    using same
    by (auto simp: StandbyService_SubscribeStandbyCallback_def StandbyService_UnsubscribeStandbyCallback_def
        StandbyService_ReportPowerOverused_def when_running_def Impl_SubscribeStandbyCallback_def
        Impl_UnsubscribeStandbyCallback_def Impl_ReportPowerOverused_def HandlePowerOverused_def Let_def case_prod_unfold
        split: option.split)
qed

lemma subs_update_inv: "service_inv (c, v) \<Longrightarrow> subs_inv s \<Longrightarrow> service_inv (c, v\<lparr>subs := s\<rparr>)"
  by simp

lemma subs_call_inv:
  assumes "service_inv (c, v)" "\<exists>s. w = v\<lparr>subs := s\<rparr>" "subs_inv (subs w)"
  shows "service_inv (c, w)"
  using assms by auto

text \<open>Every closure of the handler but the release of the managers.\<close>

lemma run_closure_inv:
  assumes "service_inv (c, v)" "t \<noteq> HT_UninitReady" "\<forall>ev. t \<noteq> HT_Dispatch ev"
  shows "service_inv (c, run_handler_task e t v)"
proof (cases t)
  case HT_InitReady
  with assms(1) show ?thesis by (simp add: run_handler_task_def InitReadyState_task_def)
next
  case (HT_Event ev)
  then show ?thesis
    using assms(1) service_inv_parts [OF parts_post(4)] by (simp add: run_handler_task_def del: service_inv.simps)
next
  case HT_DayNightSwitch
  then show ?thesis
    using assms(1) service_inv_parts [OF parts_timers(5)] by (simp add: run_handler_task_def del: service_inv.simps)
next
  case HT_ResetTimeObserver
  then show ?thesis
    using assms(1) service_inv_parts [OF parts_timers(4)] by (simp add: run_handler_task_def del: service_inv.simps)
next
  case (HT_RemoveApp uid name b)
  then show ?thesis
    using absorb_al_inv [OF assms(1) al_remove_app] ready_list_ops(3)
    by (simp add: run_handler_task_def RemoveApp_task_def del: service_inv.simps)
next
  case (HT_ProcessStatus uid pid name b)
  then show ?thesis
    using absorb_al_inv [OF assms(1) al_process] ready_list_ops(4)
    by (simp add: run_handler_task_def del: service_inv.simps)
qed (use assms in auto)

lemma service_step_inv:
  assumes "service_inv (c, v)" "service_step e (c, v) (c', v')"
  shows "service_inv (c', v')"
  using assms(2)
proof cases
  case (sv_post)
  then show ?thesis using assms(1) service_inv_parts [OF posting_call_parts] by blast
next
  case (sv_apply rq)
  then show ?thesis
    using when_running_list [of "\<lambda>e. ApplyAllowResource e rq" e v] absorb_al_inv [OF assms(1) al_apply] ready_list_ops(1) assms(1)
    unfolding StandbyService_ApplyAllowResource_def by metis
next
  case (sv_unapply rq)
  then show ?thesis
    using when_running_list [of "\<lambda>e. UnapplyAllowResource e rq" e v] absorb_al_inv [OF assms(1) al_unapply] ready_list_ops(2) assms(1)
    unfolding StandbyService_UnapplyAllowResource_def by metis
next
  case (sv_get t r)
  then have "v' = v \<or> v' = absorb_al (snd (snd (GetAllowList (svc_env_of e v) t r (al v)))) v"
    by (simp add: StandbyService_GetAllowList_def Let_def case_prod_unfold)
  moreover have "al_inv (al v)" using assms(1) by simp
  ultimately show ?thesis using absorb_al_inv [OF assms(1) al_get] ready_get assms(1) sv_get(1) by metis
next
  case (sv_subscribe x name module)
  then show ?thesis
    using subs_call_inv [OF assms(1) sub_calls_frame(1)] sub_calls_inv(1) assms(1) by (metis service_inv.simps)
next
  case (sv_unsubscribe x)
  then show ?thesis
    using subs_call_inv [OF assms(1) sub_calls_frame(2)] sub_calls_inv(2) assms(1) by (metis service_inv.simps)
next
  case (sv_power module level)
  then show ?thesis
    using subs_call_inv [OF assms(1) sub_calls_frame(3)] sub_calls_inv(3) assms(1) by (metis service_inv.simps)
next
  case (sv_death r)
  then show ?thesis using assms(1) by (simp add: subs_inv_ops)
next
  case (sv_action module act)
  then show ?thesis using assms(1) by (simp add: HandleActionChanged_def subs_inv_ops)
next
  case (sv_timer owner)
  then show ?thesis
    using absorb_sm_inv [OF assms(1)] sm_step_inv [OF _ step_timer] assms(1) by (metis service_inv.simps)
next
  case (sv_sensor)
  then show ?thesis using assms(1) sm_step_inv [OF _ step_sensor, of "sm v"] by simp
next
  case (sv_state_task i name task delay)
  let ?s = "(sm v)\<lparr>tasks := without i (tasks (sm v))\<rparr>"
  have "service_inv (c, due_state_task i v)" using assms(1) by (simp add: due_state_task_def)
  moreover have "sm_inv (run_task (se_sm e) task ?s)"
    using sm_step_inv [OF _ step_task [OF sv_state_task(3,4)]] assms(1) by (simp add: without_def)
  ultimately show ?thesis
    unfolding sv_state_task run_state_task_def by (intro absorb_sm_inv) (simp_all add: due_state_task_def)
next
  case (sv_list_task i task due)
  have "v' = absorb_al (run_svc_task (se_sv e) task (al (due_task i v))) v"
    using sv_list_task(2,6) by (cases task) (simp_all add: run_list_task_def absorb_al_def due_task_def)
  then show ?thesis
    using absorb_al_inv [OF assms(1) al_task [OF sv_list_task(3-5)]] sv_list_task(1)
    by (simp add: due_task_def without_def ready_list_ops(5) del: service_inv.simps)
next
  case (sv_list_dispatch i m due)
  then show ?thesis
    using run_dispatch_inv [OF due_task_dispatch_inv [OF assms(1)]]
    by (simp add: run_list_task_def del: service_inv.simps)
next
  case (sv_closure t ts)
  have "service_inv (c, v\<lparr>handler := ts\<rparr>)" using assms(1) by simp
  from run_closure_inv [OF this] sv_closure show ?thesis by simp
next
  case (sv_dispatch ev ts)
  have "service_inv (c, v\<lparr>handler := ts\<rparr>)" using assms(1) by simp
  moreover have "told e (message_in ev) c (v\<lparr>handler := ts\<rparr>) c'"
    using sv_dispatch by (simp add: told_def strategy_env_def)
  ultimately show ?thesis
    using run_dispatch_inv sv_dispatch by (simp add: run_handler_task_def del: service_inv.simps)
qed

section \<open>The start\<close>

definition strat_fresh :: strat_state where
  "strat_fresh = \<lparr> createdList = [], ss_net = net_start, ss_rl = rl_start \<rparr>"

text \<open>
  The first initialisation of the managers that succeeds, with both strategies configured and a
  net manager that answers; the exemptions loaded from the file are well formed and have their
  removal pending (there are none when there is no file).
\<close>

definition service_start :: "u32 \<times> service \<Rightarrow> bool" where
  "service_start cv \<longleftrightarrow> (\<exists>e v0. snd cv = InitReadyState_task e v0 \<and> \<not> ready v0 \<and> ready (snd cv) \<and>
     sm v0 = sm_fresh \<and> strat v0 = strat_fresh \<and> subs_inv (subs v0) \<and>
     filter (\<lambda>n. n \<in> set strategyMap) (GetStrategyConfigList (st_cfg (se_st e)))
       \<in> {[''NETWORK'', ''RUNNING_LOCK''], [''RUNNING_LOCK'', ''NETWORK'']} \<and>
     net_answers (se_st e) net_start \<and> al_inv (al (snd cv)) \<and> covered (al (snd cv)))"

lemma RegisterPolicy_known: "RegisterPolicy e l s = RegisterPolicy e (filter (\<lambda>n. n \<in> set strategyMap) l) s"
  unfolding RegisterPolicy_def by (induction l arbitrary: s) simp_all

lemma RegisterPolicy_both:
  assumes "filter (\<lambda>n. n \<in> set strategyMap) l \<in> {[''NETWORK'', ''RUNNING_LOCK''], [''RUNNING_LOCK'', ''NETWORK'']}"
    and "createdList s = []"
  shows "both_created (RegisterPolicy e l s)"
    and "ss_net (RegisterPolicy e l s) = snd (NetworkStrategy_OnCreated e (ss_net s))"
    and "ss_rl (RegisterPolicy e l s) = snd (RL_OnCreated (ss_rl s))"
proof -
  define k where "k = filter (\<lambda>n. n \<in> set strategyMap) l"
  have "RegisterPolicy e l s = RegisterPolicy e k s"
    unfolding k_def by (rule RegisterPolicy_known)
  moreover have "k \<in> {[''NETWORK'', ''RUNNING_LOCK''], [''RUNNING_LOCK'', ''NETWORK'']}" using assms(1) by (simp add: k_def)
  ultimately show "both_created (RegisterPolicy e l s)"
    "ss_net (RegisterPolicy e l s) = snd (NetworkStrategy_OnCreated e (ss_net s))"
    "ss_rl (RegisterPolicy e l s) = snd (RL_OnCreated (ss_rl s))"
    using assms(2)
    by (auto simp: RegisterPolicy_def strategyMap_def strategy_OnCreated_def NetworkStrategy_OnCreated_def RL_OnCreated_def)
qed

lemma StrategyManager_Init_fresh:
  assumes "filter (\<lambda>n. n \<in> set strategyMap) (GetStrategyConfigList (st_cfg e))
      \<in> {[''NETWORK'', ''RUNNING_LOCK''], [''RUNNING_LOCK'', ''NETWORK'']}"
    and "net_answers e net_start"
  shows "fst (StrategyManager_Init e strat_fresh)" "both_created (snd (StrategyManager_Init e strat_fresh))"
    "net_inv c (ss_net (snd (StrategyManager_Init e strat_fresh)))" "rl_sound (ss_rl (snd (StrategyManager_Init e strat_fresh)))"
proof -
  have "GetStrategyConfigList (st_cfg e) \<noteq> []" using assms(1) by auto
  then have "StrategyManager_Init e strat_fresh = (True, RegisterPolicy e (GetStrategyConfigList (st_cfg e)) strat_fresh)"
    by (simp add: StrategyManager_Init_def)
  then show "fst (StrategyManager_Init e strat_fresh)" "both_created (snd (StrategyManager_Init e strat_fresh))"
    "net_inv c (ss_net (snd (StrategyManager_Init e strat_fresh)))" "rl_sound (ss_rl (snd (StrategyManager_Init e strat_fresh)))"
    using RegisterPolicy_both [OF assms(1), of strat_fresh e] net_inv_created [OF assms(2)] rl_sound_created
    by (simp_all add: strat_fresh_def)
qed

text \<open>What a successful initialisation makes of the managers.\<close>

lemma InitReadyState_parts:
  assumes "\<not> ready v0" "ready (InitReadyState_task e v0)"
  defines "w \<equiv> InitReadyState_task e v0"
  shows "\<exists>s. StateManager_Init (se_sm e) (sm v0) = (True, s) \<and> sm w = snd (ConstraintManager_Init (se_sm e) s)"
    and "strat w = snd (StrategyManager_Init (strategy_env e v0) (strat v0))"
    and "subs_inv (subs v0) \<Longrightarrow> subs_inv (subs w)"
proof -
  obtain s1 ok1 where s1: "StateManager_Init (se_sm e) (sm v0) = (ok1, s1)" by fastforce
  define v1 where "v1 = absorb_sm s1 v0"
  obtain t ok2 where t: "StrategyManager_Init (strategy_env e v1) (strat v1) = (ok2, t)" by fastforce
  define v2 where "v2 = absorb_strat t v1"
  obtain s3 ok3 where s3: "ConstraintManager_Init (se_sm e) (sm v2) = (ok3, s3)" by fastforce
  define v3 where "v3 = absorb_sm s3 v2"
  obtain l4 ok4 where l4: "ListenerManager_Init (se_ls e) (lst v3) = (ok4, l4)" by fastforce
  define v4 where "v4 = v3\<lparr>lst := l4\<rparr>"
  obtain ret l5 where l5: "ListenerManager_StartListener (se_ls e) (lst v4) = (ret, l5)" by fastforce
  define v6 where "v6 = snd (RegisterTimeObserver e (v4\<lparr>lst := l5\<rparr>))"
  define v7 where "v7 = absorb_al (snd (ParsePersistentData (se_sv e) (allowRecordFile e) (al v6))) v6"
  define calls where "calls = (\<lambda>v. sv_call (SC_AddSystemAbilityListener (msdpUserStatusServiceId e))
               (sv_call (SC_AddSystemAbilityListener (workScheduleServiceId (se_st e)))
                 (sv_call (SC_AddSystemAbilityListener (backgroundTaskManagerServiceId (se_st e))) v)))"
  have run: "w = (if \<not> ok1 then v1 else if \<not> ok2 then v2 else if \<not> ok3 then v3 else if \<not> ok4 then v4
      else if ret \<noteq> ERR_OK then v4\<lparr>lst := l5\<rparr> else calls (v7\<lparr>al := (al v7)\<lparr>isServiceReady := True\<rparr>\<rparr>))"
    using assms(1) unfolding w_def
    by (simp add: InitReadyState_task_def s1 v1_def [symmetric] t v2_def [symmetric] s3 v3_def [symmetric] l4
        v4_def [symmetric] l5 v6_def [symmetric] v7_def [symmetric] calls_def Let_def)
  note r = absorb_sm_result [of s1 v0, folded v1_def] absorb_strat_result [of t v1, folded v2_def]
    absorb_sm_result [of s3 v2, folded v3_def]
  have v4: "sm v4 = s3" "strat v4 = t" "al v4 = al v0" "subs v4 = subs v3" using r by (simp_all add: v4_def)
  have unready: "\<not> ready v1" "\<not> ready v2" "\<not> ready v3" "\<not> ready v4" using assms(1) r v4 by simp_all
  have ok: "ok1 \<and> ok2 \<and> ok3 \<and> ok4 \<and> ret = ERR_OK"
    using assms(2) unready run unfolding w_def [symmetric] by (auto split: if_splits)
  then have "w = calls (v7\<lparr>al := (al v7)\<lparr>isServiceReady := True\<rparr>\<rparr>)" using run by simp
  moreover have "parts v6 = parts v4" by (simp add: v6_def)
  ultimately have w: "sm w = s3" "strat w = t" "subs w = subs v7"
    using v4 parts_D [of v6 v4] by (simp_all add: calls_def sv_call_def v7_def absorb_al_def)
  have env: "strategy_env e v1 = strategy_env e v0" using r by (simp add: strategy_env_def)
  show "\<exists>s. StateManager_Init (se_sm e) (sm v0) = (True, s) \<and> sm w = snd (ConstraintManager_Init (se_sm e) s)"
    using s1 s3 ok r w by (intro exI [of _ s1]) simp
  show "strat w = snd (StrategyManager_Init (strategy_env e v0) (strat v0))"
    using t r w env by simp
  assume "subs_inv (subs v0)"
  then have "subs_inv (subs v6)"
    using r v4 parts_D [of v6 v4] \<open>parts v6 = parts v4\<close> by (simp add: subs_inv_reports)
  then show "subs_inv (subs w)" by (simp add: w v7_def absorb_al_def subs_inv_list_reports)
qed

lemma service_start_inv: "service_start (c, v) \<Longrightarrow> service_inv (c, v)"
proof -
  assume "service_start (c, v)"
  then obtain e v0 where v: "v = InitReadyState_task e v0" "\<not> ready v0" "ready v" "sm v0 = sm_fresh" "strat v0 = strat_fresh"
      "subs_inv (subs v0)" "net_answers (se_st e) net_start" "al_inv (al v)" "covered (al v)"
    and l: "filter (\<lambda>n. n \<in> set strategyMap) (GetStrategyConfigList (st_cfg (se_st e)))
       \<in> {[''NETWORK'', ''RUNNING_LOCK''], [''RUNNING_LOCK'', ''NETWORK'']}"
    unfolding service_start_def by auto
  note p = InitReadyState_parts [OF v(2) v(3) [unfolded v(1)], folded v(1)]
  obtain s where "StateManager_Init (se_sm e) sm_fresh = (True, s)" "sm v = snd (ConstraintManager_Init (se_sm e) s)"
    using p(1) v(4) by auto
  then have "sm_inv (sm v)" using StateManager_Init_fresh ConstraintManager_Init_inv by metis
  moreover have "net_answers (strategy_env e v0) net_start" "st_cfg (strategy_env e v0) = st_cfg (se_st e)"
    using v(7) by (simp_all add: net_answers_def strategy_env_def)
  then have "both_created (strat v)" "net_inv c (ss_net (strat v))" "rl_sound (ss_rl (strat v))"
    using StrategyManager_Init_fresh [of "strategy_env e v0"] l p(2) v(5) by simp_all
  ultimately show ?thesis using v p(3) by simp
qed

interpretation sv: invariant_system service_start service_step service_inv
proof unfold_locales
  fix cv assume "service_start cv"
  then show "service_inv cv" by (cases cv) (simp add: service_start_inv del: service_inv.simps)
next
  fix cv l cv' assume "service_inv cv" "service_step l cv cv'"
  then show "service_inv cv'" by (cases cv; cases cv') (simp add: service_step_inv del: service_inv.simps)
qed

abbreviation service_reachable :: "u32 \<times> service \<Rightarrow> bool" where
  "service_reachable \<equiv> reachable service_start service_step"

text \<open>When the initialisation succeeds, and what it leaves of the list when there is no file.\<close>

lemma strategy_env_absorb_sm [simp]: "strategy_env e (absorb_sm s v) = strategy_env e v"
  by (simp add: strategy_env_def absorb_sm_result)

lemma InitReadyState_succeeds:
  assumes "\<not> ready v0" "fst (StateManager_Init (se_sm e) (sm v0))"
    and "fst (StrategyManager_Init (strategy_env e v0) (strat v0))"
    and "ls_mode (se_ls e) \<in> {PHONEMODE, TABLETMODE, UNKNOWN_MODE}" "allowRecordFile e = None"
  shows "al (InitReadyState_task e v0) = (al v0)\<lparr>isServiceReady := True\<rparr>"
proof -
  have reg: "al (snd (RegisterTimeObserver e v)) = al v" for v
    using parts_D [OF parts_timers(2)] by blast
  have none: "snd (ParsePersistentData (se_sv e) None a) = a" for a
    by (simp add: ParsePersistentData_def Let_def)
  have constr: "fst (ConstraintManager_Init f s)" for f s
    by (simp add: ConstraintManager_Init_def Let_def)
  have listen: "fst (ListenerManager_Init (se_ls e) l)" "fst (ListenerManager_StartListener (se_ls e) l) = ERR_OK" for l
    using assms(4) by (auto simp: ListenerManager_Init_def ListenerManager_StartListener_def)
  show ?thesis
    using assms(1-3,5)
    by (simp add: InitReadyState_task_def Let_def case_prod_unfold absorb_sm_result absorb_strat_result
        constr listen reg none sv_call_def absorb_al_def)
qed

end
