(* ===== verification/Dump.thy ===== *)
theory Dump
  imports Service_Calls
begin

text \<open>
  The shell dump of the service: \<open>StandbyService::Dump\<close>, \<open>ShellDump\<close>, \<open>ShellDumpInner\<close> and the
  handlers of its commands in \<open>services/core/src/standby_service_impl.cpp\<close>, with the texts of the
  strategies (\<open>plugins/strategy/src\<close>) and of the configuration manager.

  A command may change the configuration as well as the service, so the state is a pair; the
  configuration inside the environment is the one in force when the command arrives. The code
  reads the arguments with \<open>operator []\<close>: reading past their end is undefined, and \<open>None\<close> here.
\<close>

section \<open>Text\<close>

definition tab :: string where "tab = [char_of (9 :: nat)]"

definition to_string_u8 :: "u8 \<Rightarrow> string" where
  "to_string_u8 x = to_string_int (uint x)"

definition true_false :: "bool \<Rightarrow> string" where
  "true_false b = (if b then ''true'' else ''false'')"

definition BaseNetworkStrategy_ShellDump :: "net_state \<Rightarrow> string \<Rightarrow> string" where
  "BaseNetworkStrategy_ShellDump s result =
     result @ ''Network Strategy:'' @ newline @ ''isFirewallEnabled: '' @ to_string_bool (isFirewallEnabled s) @
       '' isIdleMaintence: '' @ to_string_bool (net_isIdleMaintence s) @ newline @ ''limited app info: '' @ newline @
     concat (map (\<lambda>(key, v). ''uid: '' @ to_string_i32 key @ '' name: '' @ nl_name v @ '' uid: '' @
         to_string_i32 key @ '' exemption flag: '' @ to_string_u8 (nl_flag v) @ newline) (netLimitedAppInfo s))"

text \<open>Both strategies print on \<open>-D --strategy\<close>, and read the second argument after \<open>-D\<close> only.\<close>

definition wants_strategy_detail :: "string list \<Rightarrow> bool option" where
  "wants_strategy_detail args =
     (case arg_at args 0 of
        None \<Rightarrow> None
      | Some first \<Rightarrow>
          if first \<noteq> ''-D'' then Some False
          else map_option (\<lambda>second. second = ''--strategy'') (arg_at args 1))"

definition NetworkStrategy_ShellDump :: "string list \<Rightarrow> net_state \<Rightarrow> string \<Rightarrow> string option" where
  "NetworkStrategy_ShellDump args s result =
     map_option (\<lambda>detail.
         if detail then
           BaseNetworkStrategy_ShellDump s (result @ ''=================DeviceIdle======================='' @ newline)
         else result)
       (wants_strategy_detail args)"

definition RL_DumpShowDetailInfo :: "rl_state \<Rightarrow> string \<Rightarrow> string" where
  "RL_DumpShowDetailInfo s result =
     result @ ''=================RunningLock======================'' @ newline @
     ''Running Lock Strategy:'' @ newline @ ''isProxied: '' @ to_string_bool (isProxied s) @
       '' isIdleMaintence: '' @ to_string_bool (rl_isIdleMaintence s) @ newline @ ''proxied app info: '' @ newline @
     concat (map (\<lambda>(key, v). ''key: '' @ key @ '' name: '' @ pp_name v @ '' uid: '' @ to_string_i32 (pp_uid v) @
         '' pid_size: '' @ to_string_int (int (length (pp_pids v))) @ '' exemption flag: '' @ to_string_u8 (pp_flag v) @ newline @
         (if pp_pids v = [] then []
          else ''pids list: '' @ concat (map (\<lambda>pid. '' '' @ to_string_i32 pid) (pp_pids v)) @ newline)) (proxiedAppInfo s))"

definition RunningLockStrategy_ShellDump :: "string list \<Rightarrow> rl_state \<Rightarrow> string \<Rightarrow> string option" where
  "RunningLockStrategy_ShellDump args s result =
     map_option (\<lambda>detail. if detail then RL_DumpShowDetailInfo s result else result) (wants_strategy_detail args)"

definition StrategyManager_ShellDump :: "string list \<Rightarrow> strat_state \<Rightarrow> string \<Rightarrow> string option" where
  "StrategyManager_ShellDump args s result =
     fold (\<lambda>name r. Option.bind r (\<lambda>result.
         if name = ''NETWORK'' then NetworkStrategy_ShellDump args (ss_net s) result
         else RunningLockStrategy_ShellDump args (ss_rl s) result))
       (createdList s) (Some result)"

section \<open>Configuration\<close>

definition DumpResCtrlConfig :: "string \<Rightarrow> ('a \<Rightarrow> string) \<Rightarrow> 'a list \<Rightarrow> string" where
  "DumpResCtrlConfig name text configArray =
     (if configArray = [] then [] else tab @ name @ '':'' @ newline @ concat (map text configArray))"

definition Config_DumpStandbyConfigInfo :: "config_state \<Rightarrow> string \<Rightarrow> string" where
  "Config_DumpStandbyConfigInfo c result =
     (let flag = (\<lambda>(name, val). name @ '': '' @ true_false val @ newline);
          condition = (\<lambda>condition. tab @ tab @ to_string_i32 condition @ '' '');
          proc = (\<lambda>proc. tab @ tab @ proc @ newline);
          limited = (\<lambda>t. tab @ tab @ ltd_name t @ '' '' @ to_string_i32 (maxDurationLim t) @ newline)
      in result @
         concat (map flag (standbySwitchMap c)) @
         concat (map (\<lambda>(name, val). name @ '': '' @ to_string_i32 val @ newline) (standbyParaMap c)) @
         concat (map flag (strategySwitchMap c)) @
         concat (map flag (strategyListMap c)) @ newline @
         concat (map (\<lambda>(resCtrlKey, resConfigVec). concat (map (\<lambda>resConfig.
             resCtrlKey @ '': '' @ newline @
             tab @ ''isAllow: '' @ to_string_bool (cfg_isAllow resConfig) @ newline @
             DumpResCtrlConfig ''conditions'' condition (conditions resConfig) @ newline @
             DumpResCtrlConfig ''processes'' proc (processes resConfig) @
             DumpResCtrlConfig ''apps'' proc (apps resConfig) @
             DumpResCtrlConfig ''timeLtdProcesses'' limited (timeLtdProcesses resConfig) @
             DumpResCtrlConfig ''timeLtdApps'' limited (timeLtdApps resConfig)) resConfigVec)) (defaultResourceConfigMap c)))"

section \<open>The commands of the service\<close>

definition DumpUsage :: "string \<Rightarrow> string" where
  "DumpUsage result = result @ concat (map (\<lambda>line. line @ newline)
    [''usage: dev standby service dump [<options>]'',
     ''options list:'',
     ''    -h                                                 help menu'',
     ''    -D                                                 show detail information'',
     ''        --config                                            show all info, including config'',
     ''        --reset_state                                       reset parameter, validate debug parameter'',
     ''        --strategy                                          dump strategy info'',
     ''    -E                                                 enter the specified state:'',
     ''        {name of state} {whether skip evalution}       enter the specified state, respectively named'',
     ''                                                            woking, dark, nap, maintenance, sleep'',
     ''    -A                                                 modify the allow list:'',
     ''        --apply {uid} {name} {type} {duration} {reasoncode} apply the type of the uid to allow list'',
     ''        --unapply {uid} {name} {type}                  delete the type of the uid from allow list'',
     ''        --get {type} {isApp}                                get allow list info'',
     ''    -S                                                 simulate some action:'',
     ''        {--motion}                                          activate the motion sensor when enter idle'',
     ''        {--repeat}                                          be in motion mode, only used in idle state'',
     ''        {--blocked}                                         block current state'',
     ''        {--poweroff}                                        power off strategy'',
     ''        {--powersave}                                       enable power save firwwall'',
     ''        {--halfhour}                                        screen off for half hour'',
     ''    -T  {switch name} {on or off}                      turn on or turn off some switches, switch can be debug,'',
     ''                                                            nap_switch, sleep_switch, detect_motion, other'',
     ''                                                            switch only be used after open debug switch'',
     ''    -C  {parameter name} {parameter value}             change config parameter, only can be used when debug'',
     ''    -P                                                 sending network limiting and restoring network broadcasts'',
     ''        {--allowlist} {parameter value}                send allowlist changes event'',
     ''        {--ctrinetwork}                                send network limiting broadcasts'',
     ''        {--restorectrlnetwork}                         send restore network broadcasts''])"

definition DumpAllowListInfo :: "service_env \<Rightarrow> service \<Rightarrow> string \<Rightarrow> string" where
  "DumpAllowListInfo e v result =
     (if allowInfoMap (al v) = [] then result @ ''allow resources record is empty'' @ newline
      else result @ concat (map (\<lambda>(index, key, r).
        ''No.'' @ digits_nat index @ newline @
        tab @ ''uid: '' @ key @ newline @
        tab @ ''allow record: '' @ newline @
        tab @ tab @ ''name: '' @ ar_name r @ newline @
        tab @ tab @ ''pid: '' @ to_string_i32 (ar_pid r) @ newline @
        tab @ tab @ ''allow type: '' @ to_string_u32 (ar_allowType r) @ newline @
        tab @ tab @ ''reason code: '' @ to_string_u32 (ar_reasonCode r) @ newline @
        concat (map (\<lambda>t.
          tab @ tab @ tab @ ''allow type: '' @ AllowTypeName ! unat (allowTypeIndex t) @ newline @
          tab @ tab @ tab @ ''remainTime: '' @ to_string_int (endTime t - monotonicTimeMs (te (se_sm e))) @ newline @
          tab @ tab @ tab @ ''reason: '' @ at_reason t @ newline) (allowTimeList r)) @ newline)
        (zip [1..<length (allowInfoMap (al v)) + 1] (allowInfoMap (al v)))))"

definition Service_DumpStandbyConfigInfo :: "config_state \<Rightarrow> service \<Rightarrow> string \<Rightarrow> string" where
  "Service_DumpStandbyConfigInfo c v result =
     Config_DumpStandbyConfigInfo c (result @ ''debugMode: '' @ true_false (debugMode v) @ newline)"

definition Service_DumpShowDetailInfo ::
  "service_env \<Rightarrow> string list \<Rightarrow> config_state \<Rightarrow> service \<Rightarrow> string \<Rightarrow> string" where
  "Service_DumpShowDetailInfo e args c v result =
     (let result = DumpAllowListInfo e v result in
      if length args < 2 then result
      else if args ! 1 = ''--config'' then Service_DumpStandbyConfigInfo c v result
      else result)"

definition OnPluginShellDump ::
  "service_env \<Rightarrow> string list \<Rightarrow> service \<Rightarrow> string \<Rightarrow> (service \<times> string) option" where
  "OnPluginShellDump e args v result =
     (case StateManager_ShellDump (se_sm e) args (sm v) result of
        None \<Rightarrow> None
      | Some (s, result) \<Rightarrow>
          let v = absorb_sm s v
          in map_option (\<lambda>result. (v, result)) (StrategyManager_ShellDump args (strat v) result))"

definition Service_DumpEnterSpecifiedState ::
  "service_env \<Rightarrow> string list \<Rightarrow> service \<Rightarrow> string \<Rightarrow> (service \<times> string) option" where
  "Service_DumpEnterSpecifiedState e args v result =
     (if length args < 3 then Some (v, result @ ''not enough parameter for changing sleep mode'' @ newline)
      else map_option (\<lambda>(s, result). (absorb_sm s v, result))
             (StateManager_ShellDump (se_sm e) args (sm v) result))"

definition dump_request :: "string list \<Rightarrow> i32 \<Rightarrow> ResourceRequest" where
  "dump_request args duration =
     \<lparr> rq_allowType = c_atoi (args ! 4), rq_uid = c_atoi (args ! 2), rq_name = args ! 3, rq_duration = duration,
       rq_reason = ''dump'', rq_reasonCode = c_atoi (args ! 6) \<rparr>"

definition allow_text :: "AllowInfo \<Rightarrow> string" where
  "allow_text i = ''allowType: '' @ to_string_u32 (ai_allowType i) @ newline @ ''name: '' @ ai_name i @ newline @
     ''duration: '' @ to_string_i32 (ai_duration i) @ newline"

definition restrict_text :: "AllowInfo \<Rightarrow> string" where
  "restrict_text i = ''restrictType: '' @ to_string_u32 (ai_allowType i) @ newline @ ''name: '' @ ai_name i @ newline"

text \<open>With \<open>--get\<close> the flag whether the list is for applications goes in place of the reason code.\<close>

definition DumpModifyAllowList :: "service_env \<Rightarrow> string list \<Rightarrow> service \<Rightarrow> string \<Rightarrow> service \<times> string" where
  "DumpModifyAllowList e args v result =
     (if length args < 4 \<or> (args ! 1 \<noteq> ''--get'' \<and> length args < 7)
      then (v, result @ ''not enough parameter for changing allow list'' @ newline)
      else if args ! 1 = ''--apply'' then
        (snd (on_list (\<lambda>e. ApplyAllowResource e (dump_request args (c_atoi (args ! 5)))) e v),
         result @ ''add one object to allow list'' @ newline)
      else if args ! 1 = ''--unapply'' then
        (snd (on_list (\<lambda>e. UnapplyAllowResource e (dump_request args 0)) e v),
         result @ ''remove one object to allow list'' @ newline)
      else if args ! 1 = ''--get'' then
        let allowType = c_atoi (args ! 2);
            isApp = (if c_atoi (args ! 3) = 0 then 1 else 0);
            (infos, a) = GetAllowListInner (svc_env_of e v) allowType isApp ([], al v)
        in (absorb_al a v,
            result @ concat (map allow_text infos) @
            concat (map restrict_text (GetRestrictListInner (svc_env_of e v) allowType isApp [])))
      else (v, result))"

definition DumpTurnOnOffSwitch ::
  "string list \<Rightarrow> config_state \<times> service \<Rightarrow> string \<Rightarrow> (config_state \<times> service) \<times> string" where
  "DumpTurnOnOffSwitch args = (\<lambda>(c, v) result.
     (if length args \<noteq> 3 then ((c, v), result @ ''not correct parameter number for turn on or turn off switch'' @ newline)
      else if args ! 2 \<noteq> ''on'' \<and> args ! 2 \<noteq> ''off''
      then ((c, v), result @ ''not correct parameter for turn on or turn off switch'' @ newline)
      else
        let switchStatus = (args ! 2 = ''on'') in
        if args ! 1 = ''debug'' then
          ((DumpSetDebugMode switchStatus c, v\<lparr>debugMode := switchStatus\<rparr>),
           result @ ''debugMode: '' @ true_false switchStatus @ newline)
        else if \<not> debugMode v then
          ((c, v), result @ ''other switch can be changed only in debug mode'' @ newline)
        else let (c, result) = DumpSetSwitch (args ! 1) switchStatus (c, result) in ((c, v), result)))"

definition DumpChangeConfigParam ::
  "string list \<Rightarrow> config_state \<times> service \<Rightarrow> string \<Rightarrow> (config_state \<times> service) \<times> string" where
  "DumpChangeConfigParam args = (\<lambda>(c, v) result.
     (if length args \<noteq> 3 then ((c, v), result @ ''not correct parameter number for change state timeout'' @ newline)
      else if \<not> debugMode v then
        ((c, v), result @ ''current is not in debug mode, can not change timeout'' @ newline)
      else let (c, result) = DumpSetParameter (args ! 1) (c_atoi (args ! 2)) (c, result) in ((c, v), result)))"

definition DumpPushStrategyChange :: "string list \<Rightarrow> service \<Rightarrow> string \<Rightarrow> (service \<times> string) option" where
  "DumpPushStrategyChange args v result =
     (case arg_at args 1 of
        None \<Rightarrow> None
      | Some second \<Rightarrow>
          if second = ''--allowlist'' \<and> length args < 6 then None
          else
            let v = (if second = ''--allowlist'' then
                       v\<lparr>subs := NotifyAllowChangedByCommonEvent (c_atoi (args ! 2)) (args ! 3) (c_atoi (args ! 4))
                                   (args ! 5 = ''true'') (subs v)\<rparr>
                     else v)
            in map_option (\<lambda>result. (v, result)) (StrategyManager_ShellDump args (strat v) result))"

definition DumpOnPowerOverused :: "service_env \<Rightarrow> string list \<Rightarrow> service \<Rightarrow> service" where
  "DumpOnPowerOverused e args v =
     (if length args \<noteq> 3 then v else HandlePowerOverused e (args ! 1) (c_atoi (args ! 2)) v)"

definition DumpOnActionChanged :: "service_env \<Rightarrow> string list \<Rightarrow> service \<Rightarrow> service" where
  "DumpOnActionChanged e args v =
     (if length args \<noteq> 3 then v else HandleActionChanged e (args ! 1) (c_atoi (args ! 2)) v)"

definition ShellDumpInner ::
  "service_env \<Rightarrow> string list \<Rightarrow> config_state \<times> service \<Rightarrow> string \<Rightarrow> ((config_state \<times> service) \<times> string) option" where
  "ShellDumpInner e args = (\<lambda>(c, v) result.
     (let on_service = map_option (\<lambda>(v, result). ((c, v), result)) in
      if args = [] \<or> args ! 0 = ''-h'' then Some ((c, v), DumpUsage result)
      else if args ! 0 = ''-D'' then
        on_service (OnPluginShellDump e args v (Service_DumpShowDetailInfo e args c v result))
      else if args ! 0 = ''-E'' then on_service (Service_DumpEnterSpecifiedState e args v result)
      else if args ! 0 = ''-A'' then on_service (Some (DumpModifyAllowList e args v result))
      else if args ! 0 = ''-S'' then on_service (OnPluginShellDump e args v result)
      else if args ! 0 = ''-O'' then Some ((c, v), Subscriber_ShellDump (subs v) result)
      else if args ! 0 = ''-T'' then Some (DumpTurnOnOffSwitch args (c, v) result)
      else if args ! 0 = ''-C'' then Some (DumpChangeConfigParam args (c, v) result)
      else if args ! 0 = ''-P'' then on_service (DumpPushStrategyChange args v result)
      else if args ! 0 = ''--poweroverused'' then Some ((c, DumpOnPowerOverused e args v), result)
      else if args ! 0 = ''--actionchanged'' then Some ((c, DumpOnActionChanged e args v), result)
      else Some ((c, v), result @ ''Error params.'' @ newline)))"

text \<open>The closure of \<open>ShellDump\<close> is posted synchronously: it has run when the call returns.\<close>

definition Service_ShellDump ::
  "service_env \<Rightarrow> string list \<Rightarrow> config_state \<times> service \<Rightarrow> string \<Rightarrow> ((config_state \<times> service) \<times> string) option" where
  "Service_ShellDump e args s result =
     (if \<not> ready (snd s) then Some (s, result @ ''standby service manager is not ready'')
      else ShellDumpInner e args s result)"

text \<open>\<open>StandbyService::Dump\<close>: an engineering build, the dump permission of the caller and whether
  the text could be written are answers of the platform.\<close>

definition StandbyService_Dump ::
  "service_env \<Rightarrow> bool \<Rightarrow> bool \<Rightarrow> (string \<Rightarrow> bool) \<Rightarrow> string list \<Rightarrow> config_state \<times> service \<Rightarrow>
   (err \<times> (config_state \<times> service)) option" where
  "StandbyService_Dump e engMode dumpPermission save args s =
     (if \<not> engMode \<or> \<not> dumpPermission then Some (ERR_PERMISSION_DENIED e, s)
      else map_option (\<lambda>(s, result). (if save result then ERR_OK else ERR_STANDBY_DUMP_SAVE_DENIED, s))
             (Service_ShellDump e args s ''''))"

section \<open>What a command may do\<close>

lemma arg_at_less: "i < length args \<Longrightarrow> arg_at args i = Some (args ! i)"
  by (simp add: arg_at_def)

lemma State_ShellDump_total:
  "State_ShellDump args s result = None \<longleftrightarrow>
     curState s = SLEEP \<and> (args = [] \<or> args = [''-S''])"
  by (cases args; cases "tl args") (auto simp: State_ShellDump_def SleepState_ShellDump_def arg_at_def split: if_splits)

lemma StateManager_ShellDump_None:
  assumes "args \<noteq> []" "args ! 0 = ''-E'' \<Longrightarrow> 3 \<le> length args"
  shows "StateManager_ShellDump e args s result = None \<longleftrightarrow> args = [''-D''] \<or> args = [''-S'']"
proof -
  have first: "arg_at args 0 = Some (args ! 0)"
    using assms(1) by (simp add: arg_at_def)
  have one: "args = [x] \<longleftrightarrow> arg_at args 1 = None \<and> args ! 0 = x" for x
    using assms(1) by (cases args) (auto simp: arg_at_def)
  have total: "\<exists>u. \<forall>s r. State_ShellDump args s r = Some (u s r)" if "args \<noteq> [''-S'']"
  proof -
    have "State_ShellDump args s r \<noteq> None" for s r
      using assms(1) that by (simp only: State_ShellDump_total) blast
    then have "\<forall>s. \<forall>r. \<exists>u. State_ShellDump args s r = Some u" by blast
    then show ?thesis by metis
  qed
  consider "args ! 0 = ''-D''" | "args ! 0 = ''-E''" | "args ! 0 = ''-S''" | "args ! 0 \<notin> {''-D'', ''-E'', ''-S''}"
    by blast
  then show ?thesis
  proof cases
    case 1
    then obtain u where "\<forall>s r. State_ShellDump args s r = Some (u s r)"
      using total one [of "''-S''"] by auto
    with 1 show ?thesis
      by (cases "arg_at args 1") (simp_all add: first one StateManager_ShellDump_def Let_def split: prod.split)
  next
    case 2
    then have "arg_at args 2 = Some (args ! 2)" "arg_at args 1 = Some (args ! 1)"
      using assms(2) by (simp_all add: arg_at_def)
    moreover obtain u where "\<forall>s r. State_ShellDump args s r = Some (u s r)"
      using total one [of "''-S''"] 2 by auto
    ultimately show ?thesis
      using 2 by (simp add: first one StateManager_ShellDump_def DumpEnterSpecifiedState_def Let_def split: option.split)
  next
    case 3
    show ?thesis
    proof (cases "arg_at args 1")
      case None
      with 3 show ?thesis by (simp add: first one StateManager_ShellDump_def DumpActivateMotion_def)
    next
      case (Some a)
      then obtain u where "\<forall>s r. State_ShellDump args s r = Some (u s r)"
        using total one [of "''-S''"] by auto
      with 3 Some show ?thesis
        by (simp add: first one StateManager_ShellDump_def DumpActivateMotion_def)
    qed
  next
    case 4
    then have "args \<noteq> [''-D'']" "args \<noteq> [''-S'']"
      by auto
    moreover obtain u where "\<forall>s r. State_ShellDump args s r = Some (u s r)"
      using total one [of "''-S''"] 4 by auto
    ultimately show ?thesis
      using 4 by (simp add: first StateManager_ShellDump_def)
  qed
qed

lemma wants_strategy_detail_None: "wants_strategy_detail args = None \<longleftrightarrow> args = [] \<or> args = [''-D'']"
  by (cases args; cases "tl args") (auto simp: wants_strategy_detail_def arg_at_def)

lemma StrategyManager_ShellDump_Some:
  assumes "args \<noteq> []" "args \<noteq> [''-D'']"
  obtains t where "\<And>s result. StrategyManager_ShellDump args s result = Some (t s result)"
proof -
  obtain d where d: "wants_strategy_detail args = Some d"
    using assms wants_strategy_detail_None [of args] by auto
  have "fold (\<lambda>name r. Option.bind r (\<lambda>result.
         if name = ''NETWORK'' then NetworkStrategy_ShellDump args (ss_net s) result
         else RunningLockStrategy_ShellDump args (ss_rl s) result)) names (Some result) \<noteq> None" for names s result
    by (induction names arbitrary: result) (simp_all add: NetworkStrategy_ShellDump_def RunningLockStrategy_ShellDump_def d)
  then have "\<exists>t. StrategyManager_ShellDump args s result = Some t" for s result
    by (simp add: StrategyManager_ShellDump_def)
  then show ?thesis using that by metis
qed

lemma OnPluginShellDump_None:
  assumes "args \<noteq> []" "args ! 0 \<noteq> ''-E''"
  shows "OnPluginShellDump e args v result = None \<longleftrightarrow> args = [''-D''] \<or> args = [''-S'']"
proof -
  show ?thesis
  proof (cases "args = [''-D'']")
    case True
    then show ?thesis
      using StateManager_ShellDump_None [of args "se_sm e" "sm v" result] by (simp add: OnPluginShellDump_def)
  next
    case False
    obtain t where "\<And>s r. StrategyManager_ShellDump args s r = Some (t s r)"
      using StrategyManager_ShellDump_Some [OF assms(1) False] by metis
    with False show ?thesis
      using StateManager_ShellDump_None [of args "se_sm e" "sm v" result] assms
      by (auto simp: OnPluginShellDump_def Let_def split: option.split)
  qed
qed

lemma absorb_sm_same [simp]: "absorb_sm (sm v) v = v"
  by (simp add: absorb_sm_def new_messages_def new_reports_def dispatch_all_def)

lemma StateManager_ShellDump_D:
  assumes "args ! 0 = ''-D''" "args ! 1 \<noteq> ''--reset_state''" "StateManager_ShellDump e args s result = Some (s', result')"
  shows "s' = s"
  using assms by (auto simp: StateManager_ShellDump_def State_ShellDump_def SleepState_ShellDump_def arg_at_def Let_def
      split: if_splits)

lemma OnPluginShellDump_D:
  assumes "args ! 0 = ''-D''" "args ! 1 \<noteq> ''--reset_state''" "OnPluginShellDump e args v result = Some (v', result')"
  shows "v' = v"
  using assms StateManager_ShellDump_D [OF assms(1,2)] by (fastforce simp: OnPluginShellDump_def Let_def split: option.splits)

lemma Service_DumpEnterSpecifiedState_Some:
  assumes "args \<noteq> []" "args ! 0 = ''-E''"
  shows "Service_DumpEnterSpecifiedState e args v r = None \<longleftrightarrow> False"
  using StateManager_ShellDump_None [OF assms(1), of "se_sm e" "sm v" r] assms(2)
  by (auto simp: Service_DumpEnterSpecifiedState_def not_less)

lemma DumpPushStrategyChange_None:
  assumes "args \<noteq> []" "args ! 0 = ''-P''"
  shows "DumpPushStrategyChange args v r = None \<longleftrightarrow> length args = 1 \<or> (args ! 1 = ''--allowlist'' \<and> length args < 6)"
proof -
  have "args \<noteq> [''-D'']"
    using assms(2) by auto
  then obtain t where "\<And>s r. StrategyManager_ShellDump args s r = Some (t s r)"
    using StrategyManager_ShellDump_Some [OF assms(1)] by metis
  moreover have "length args = 1 \<longleftrightarrow> arg_at args 1 = None"
    using assms(1) by (cases args) (auto simp: arg_at_def)
  moreover have "arg_at args 1 = Some x \<Longrightarrow> args ! 1 = x" for x
    by (auto simp: arg_at_def split: if_splits)
  ultimately show ?thesis
    by (cases "arg_at args 1") (simp_all add: DumpPushStrategyChange_def Let_def)
qed

lemma ShellDumpInner_None:
  assumes "args \<noteq> []"
  shows "ShellDumpInner e args (c, v) result = None \<longleftrightarrow>
      args = [''-D''] \<or> args = [''-S''] \<or>
      (args ! 0 = ''-P'' \<and> (length args = 1 \<or> (args ! 1 = ''--allowlist'' \<and> length args < 6)))"
proof -
  have one: "args = [x] \<Longrightarrow> args ! 0 = x" for x :: string by simp
  have plugin: "OnPluginShellDump e args v r = None \<longleftrightarrow> args = [''-D''] \<or> args = [''-S'']" if "args ! 0 \<noteq> ''-E''" for r
    using OnPluginShellDump_None [OF assms that] .
  consider "args ! 0 = ''-D''" | "args ! 0 = ''-S''" | "args ! 0 = ''-E''" | "args ! 0 = ''-P''"
    | "args ! 0 \<notin> {''-D'', ''-S'', ''-E'', ''-P''}"
    by blast
  then show ?thesis
  proof cases
    case 3
    then show ?thesis
      using assms one Service_DumpEnterSpecifiedState_Some [OF assms 3, of e v result] by (auto simp: ShellDumpInner_def Let_def)
  next
    case 4
    then show ?thesis
      using assms DumpPushStrategyChange_None [OF assms 4] one by (auto simp: ShellDumpInner_def Let_def)
  next
    case 5
    then have "ShellDumpInner e args (c, v) result \<noteq> None"
      using assms by (simp add: ShellDumpInner_def Let_def del: not_None_eq)
    with 5 show ?thesis by auto
  qed (use assms plugin in \<open>simp_all add: ShellDumpInner_def Let_def\<close>)
qed

section \<open>Properties\<close>

text \<open>The dump reads past the end of its arguments exactly for -D, -S and -P alone and for
  -P --allowlist with fewer than four values, once the service is ready.\<close>

theorem dump_reads_past_arguments:
  "Service_ShellDump e args s result = None \<longleftrightarrow>
     ready (snd s) \<and>
     (args = [''-D''] \<or> args = [''-S''] \<or> args = [''-P''] \<or>
      (\<exists>rest. args = ''-P'' # ''--allowlist'' # rest \<and> length rest < 4))"
proof (cases "args = []")
  case True
  then show ?thesis by (cases s) (simp add: Service_ShellDump_def ShellDumpInner_def)
next
  case False
  have "args ! 0 = ''-P'' \<and> (length args = 1 \<or> (args ! 1 = ''--allowlist'' \<and> length args < 6)) \<longleftrightarrow>
      args = [''-P''] \<or> (\<exists>rest. args = ''-P'' # ''--allowlist'' # rest \<and> length rest < 4)"
    using False by (cases args; cases "tl args") auto
  then show ?thesis
    by (cases s) (simp add: Service_ShellDump_def ShellDumpInner_None [OF False])
qed

text \<open>The commands -h, -O and -D without --reset_state change neither the service nor the
  configuration, and outside debug mode no command but -T debug changes the configuration.\<close>

theorem dump_reading_commands:
  assumes "Service_ShellDump e args (c, v) result = Some ((c', v'), result')"
  shows "(args = [] \<or> args ! 0 \<in> {''-h'', ''-O''} \<or> (args ! 0 = ''-D'' \<and> args ! 1 \<noteq> ''--reset_state'') \<longrightarrow>
      c' = c \<and> v' = v) \<and>
    (\<not> debugMode v \<and> \<not> (\<exists>w. args = [''-T'', ''debug'', w]) \<longrightarrow> c' = c)"
proof -
  note ran = assms [unfolded Service_ShellDump_def ShellDumpInner_def Let_def]
  have "c' = c \<and> v' = v"
    if "args = [] \<or> args ! 0 \<in> {''-h'', ''-O''}"
    using ran that by (auto split: if_splits)
  moreover have "c' = c \<and> v' = v" if "args ! 0 = ''-D''" "args ! 1 \<noteq> ''--reset_state''"
    using ran that OnPluginShellDump_D [OF that] by (fastforce split: if_splits)
  moreover have "c' = c" if "\<not> debugMode v" "\<not> (\<exists>w. args = [''-T'', ''debug'', w])"
  proof -
    have T: "fst (fst (DumpTurnOnOffSwitch args (c, v) result)) = c" if "args ! 0 = ''-T''"
      using \<open>\<not> debugMode v\<close> \<open>\<not> (\<exists>w. _ w)\<close> that
      by (auto simp: DumpTurnOnOffSwitch_def numeral_3_eq_3 length_Suc_conv Let_def)
    have C: "fst (fst (DumpChangeConfigParam args (c, v) result)) = c"
      using \<open>\<not> debugMode v\<close> by (simp add: DumpChangeConfigParam_def)
    show ?thesis
    proof (cases "args \<noteq> [] \<and> args ! 0 \<in> {''-T'', ''-C''}")
      case True
      then show ?thesis using ran T C by (auto split: if_splits)
    next
      case False
      then show ?thesis using ran by (auto split: if_splits prod.splits)
    qed
  qed
  ultimately show ?thesis by blast
qed

end
