(* ===== verification/Standby_System.thy ===== *)
theory Standby_System
  imports Service_Steps Dump
begin

text \<open>
  The managers working together through the handler of the service: which messages leave a
  manager unchanged, how the handler drains, and the two promises of the whole service, that
  the screen lifts every restriction and that the deep phase of SLEEP puts all of them on.
\<close>

section \<open>Draining the handler\<close>

lemma run_handler_empty [simp]: "handler v = [] \<Longrightarrow> run_handler e n v = v"
  by (cases n) simp_all

lemma run_handler_add: "run_handler e (m + n) v = run_handler e n (run_handler e m v)"
  by (induction m arbitrary: v) (simp_all split: list.split)

lemma run_handler_enough:
  "handler (run_handler e k v) = [] \<Longrightarrow> k \<le> n \<Longrightarrow> run_handler e n v = run_handler e k v"
  using run_handler_add [of e k "n - k" v] by simp

definition ignored :: "handler_task \<Rightarrow> bool" where
  "ignored t \<longleftrightarrow> (\<exists>ev. t = HT_Dispatch ev \<and> oe_id ev \<in> {DEVICE_NET_IDLE_POLICY_TRANSIT, SCREEN_OFF_HALF_HOUR})"

lemma absorb_strat_same [simp]: "s = strat v \<Longrightarrow> absorb_strat s v = v"
  by (simp add: absorb_strat_def dispatch_all_def map_filter_simps)

lemma run_ignored: "ignored t \<Longrightarrow> run_handler_task e t v = v"
proof -
  assume "ignored t"
  then obtain ev where t: "t = HT_Dispatch ev" and
      id: "oe_id ev \<in> {DEVICE_NET_IDLE_POLICY_TRANSIT, SCREEN_OFF_HALF_HOUR}"
    by (auto simp: ignored_def)
  let ?m = "message_in ev"
  have m: "eventId ?m = oe_id ev" by (simp add: message_in_def)
  have "ListenerManager_HandleEvent l ?m x = x" "HandleEvent c ?m s = s" for l x c s
    using id m by (auto simp: ListenerManager_HandleEvent_def HandleEvent_def event_id_defs)
  moreover have "StrategyManager_HandleEvent c ?m s = s" for c s
    using id m by (intro both_contract.passes) (auto simp: unheeded_def)
  ultimately show ?thesis by (simp add: run_handler_task_def t run_dispatch_def)
qed

lemma drain_ignored:
  assumes "handler v = ts @ rest" "\<forall>t \<in> set ts. ignored t"
  shows "run_handler e (length ts) v = v\<lparr>handler := rest\<rparr>"
  using assms
proof (induction ts arbitrary: v)
  case (Cons t ts)
  then show ?case using Cons.IH [of "v\<lparr>handler := ts @ rest\<rparr>"] by (simp add: run_ignored)
qed simp

lemma dispatch_all_ready:
  "ready v \<Longrightarrow> dispatch_all ms v = v\<lparr>handler := handler v @ map (\<lambda>m. HT_Dispatch (event_of m)) ms\<rparr>"
  by (induction ms arbitrary: v) (simp_all add: dispatch_all_def Service_DispatchEvent_def post_handler_def)

lemma run_dispatch_transit:
  assumes "ev \<in> {STATE_TRANSIT, PHASE_TRANSIT}"
  shows "run_dispatch e (event_of (OutMessage ev ps)) v =
    absorb_strat (StrategyManager_HandleEvent (strategy_env e v) (message_in (event_of (OutMessage ev ps))) (strat v)) v"
  using assms by (auto simp: run_dispatch_def Let_def message_in_def event_of_def ListenerManager_HandleEvent_def
      HandleEvent_def event_id_defs)

section \<open>What the network strategy dispatches\<close>

text \<open>Its only message tells about the firewall, at most one per handled message here.\<close>

definition adds_idle :: "nat \<Rightarrow> net_state \<Rightarrow> net_state \<Rightarrow> bool" where
  "adds_idle n s t \<longleftrightarrow> (\<exists>cs. net_calls t = net_calls s @ cs \<and> length (List.map_filter net_dispatched cs) \<le> n \<and>
     (\<forall>m \<in> set (List.map_filter net_dispatched cs). \<exists>ps. m = OutMessage DEVICE_NET_IDLE_POLICY_TRANSIT ps))"

lemma map_filter_append: "List.map_filter f (xs @ ys) = List.map_filter f xs @ List.map_filter f ys"
  by (induction xs) (simp_all add: map_filter_simps split: option.split)

lemma adds_idle_same: "net_calls t = net_calls s \<Longrightarrow> adds_idle n s t"
  by (simp add: adds_idle_def map_filter_simps)

lemma adds_idle_trans: "adds_idle m s t \<Longrightarrow> adds_idle n t u \<Longrightarrow> adds_idle (m + n) s u"
  unfolding adds_idle_def by (fastforce simp: map_filter_append)

lemma adds_idle_call: "net_dispatched c = None \<Longrightarrow> adds_idle n s t \<Longrightarrow> adds_idle n s (net_call c t)"
  unfolding adds_idle_def net_call_def by (force simp: map_filter_append map_filter_simps)

lemma adds_idle_update [simp]:
  "adds_idle n s (t\<lparr>isFirewallEnabled := b\<rparr>) = adds_idle n s t"
  "adds_idle n s (t\<lparr>net_isIdleMaintence := b\<rparr>) = adds_idle n s t"
  "adds_idle n s (t\<lparr>netLimitedAppInfo := m\<rparr>) = adds_idle n s t"
  by (simp_all add: adds_idle_def)

lemma adds_idle_policy: "adds_idle 0 s t \<Longrightarrow> adds_idle 1 s (snd (HandleDeviceIdlePolicy e b t))"
proof -
  assume t: "adds_idle 0 s t"
  have "adds_idle 1 t (snd (HandleDeviceIdlePolicy e b t))"
    by (force simp: adds_idle_def HandleDeviceIdlePolicy_def Let_def net_call_def map_filter_simps)
  with adds_idle_trans [OF t this] show ?thesis by simp
qed

lemma adds_idle_allowed: "adds_idle n s t \<Longrightarrow> adds_idle n s (SetNetAllowApps e b t)"
  by (simp add: SetNetAllowApps_def SetFirewallAllowedList_def adds_idle_call)

lemma adds_idle_status: "adds_idle 0 s t \<Longrightarrow> adds_idle 1 s (snd (SetFirewallStatus e b t))"
  using adds_idle_allowed [of 0 s t e True] adds_idle_policy [of s t e False]
    adds_idle_policy [of s "SetNetAllowApps e True t" e True]
  by (auto simp: SetFirewallStatus_def Let_def prod.case_eq_if intro: adds_idle_allowed)

lemma adds_idle_reset: "adds_idle 1 s (ResetFirewallAllowList e s)"
  using adds_idle_policy [of s s e False]
  by (auto simp: ResetFirewallAllowList_def Let_def prod.case_eq_if adds_idle_same adds_idle_call split: option.split)

lemma adds_idle_start: "adds_idle 1 s (StartNetLimit e w s)"
proof -
  define t where "t = snd (InitNetLimitedAppInfo e (s\<lparr>netLimitedAppInfo := []\<rparr>))"
  have t: "adds_idle 0 s t"
    using collects_Init [of "s\<lparr>netLimitedAppInfo := []\<rparr>" e] by (intro adds_idle_same) (simp add: collects_def t_def)
  have "adds_idle 1 s (snd (SetFirewallStatus e True t))" "adds_idle 1 s t"
    using adds_idle_status [OF t] t by (auto simp: adds_idle_def)
  then have "adds_idle 1 s (snd (EnableNetworkFirewall e s))"
    by (auto simp: EnableNetworkFirewall_def EnableNetworkFirewallInner_def Let_def prod.case_eq_if t_def
        adds_idle_same)
  then show ?thesis by (auto simp: StartNetLimit_def Let_def adds_idle_same split: option.split)
qed

lemma adds_idle_stop: "adds_idle 1 s (StopNetLimit e w s)"
proof -
  have "adds_idle 1 s (snd (SetFirewallStatus e False s))"
      "adds_idle 1 s (snd (SetFirewallStatus e True (s\<lparr>net_isIdleMaintence := False\<rparr>)))"
    by (rule adds_idle_status, rule adds_idle_same, simp)+
  then show ?thesis
    using adds_idle_reset [of s e]
    by (auto simp: StopNetLimit_def DisableNetworkFirewall_def DisableNetworkFirewallInner_def Let_def adds_idle_same
        split: option.split)
qed

lemma adds_idle_handle:
  assumes "eventId m \<in> {STATE_TRANSIT, PHASE_TRANSIT}"
  shows "adds_idle 1 s (NetworkStrategy_HandleEvent e m s)"
  using assms adds_idle_start [of s e] adds_idle_stop [of s e]
  by (auto simp: NetworkStrategy_HandleEvent_def event_id_defs)

text \<open>A transition, delivered to both strategies and followed by what they dispatch.\<close>

lemma run_transit:
  fixes ps :: want_params
  assumes "handler v = HT_Dispatch (event_of (OutMessage ev ps)) # rest" "\<forall>t \<in> set rest. ignored t"
    and "ev \<in> {STATE_TRANSIT, PHASE_TRANSIT}" "ready v" "both_created (strat v)" "length rest + 2 \<le> n"
  defines "m \<equiv> message_in (event_of (OutMessage ev ps))"
  shows "run_handler e n v =
    v\<lparr>handler := [], strat := StrategyManager_HandleEvent (strategy_env e v) m (strat v)\<rparr>"
proof -
  let ?st = "StrategyManager_HandleEvent (strategy_env e v) m (strat v)"
  let ?v = "v\<lparr>handler := rest\<rparr>"
  have st: "?st = (strat v)\<lparr>ss_net := NetworkStrategy_HandleEvent (strategy_env e v) m (ss_net (strat v)),
      ss_rl := RunningLockStrategy_HandleEvent (strategy_env e v) m (ss_rl (strat v))\<rparr>"
    by (rule StrategyManager_HandleEvent_both [OF assms(5)])
  have "eventId m \<in> {STATE_TRANSIT, PHASE_TRANSIT}"
    using assms(3) by (simp add: m_def message_in_def event_of_def)
  from adds_idle_handle [OF this, of "ss_net (strat v)" "strategy_env e v"]
  obtain cs where cs: "net_calls (ss_net ?st) = net_calls (ss_net (strat v)) @ cs"
      "length (List.map_filter net_dispatched cs) \<le> 1"
      "\<forall>m \<in> set (List.map_filter net_dispatched cs). \<exists>ps. m = OutMessage DEVICE_NET_IDLE_POLICY_TRANSIT ps"
    by (auto simp: adds_idle_def st)
  define ts where "ts = rest @ map (\<lambda>m. HT_Dispatch (event_of m)) (List.map_filter net_dispatched cs)"
  have ts: "\<forall>t \<in> set ts. ignored t" "length ts + 1 \<le> n"
    using assms(2,6) cs(2,3) by (auto simp: ts_def ignored_def event_of_def)
  have "strategy_env e ?v = strategy_env e v" by (simp add: strategy_env_def)
  then have "run_dispatch e (event_of (OutMessage ev ps)) ?v = v\<lparr>handler := ts, strat := ?st\<rparr>"
    using run_dispatch_transit [OF assms(3), of e ps ?v] cs(1) assms(4)
    by (simp add: absorb_strat_def dispatch_all_ready ts_def m_def)
  then have "run_handler e (Suc (length ts)) v = v\<lparr>handler := [], strat := ?st\<rparr>"
    using drain_ignored [of "v\<lparr>handler := ts, strat := ?st\<rparr>" ts "[]" e] ts(1) assms(1)
    by (simp add: run_handler_task_def)
  then show ?thesis
    using run_handler_enough [of e "Suc (length ts)" v n] ts(2) by simp
qed

lemma both_created_handle: "both_created s \<Longrightarrow> createdList (StrategyManager_HandleEvent e m s) = createdList s"
  by (simp add: StrategyManager_HandleEvent_both)

section \<open>The screen comes on\<close>

lemma want_state_out:
  "\<exists>w. msg_want (message_in (event_of (state_out pre cur))) = Some w \<and>
     GetIntParam w PREVIOUS_STATE 0 = state_code pre \<and> GetIntParam w CURRENT_STATE 0 = state_code cur"
  by (simp add: state_out_def message_in_def event_of_def want_of_def want_key_defs)

lemma net_answers_strategy_env: "net_answers (strategy_env e v) s = net_answers (se_st e) s"
  by (simp add: net_answers_def strategy_env_def)

lemma leaves_sleep_out:
  assumes "st \<in> {SLEEP, MAINTENANCE}"
  shows "leaves_sleep (message_in (event_of (state_out st WORKING)))"
proof -
  have "eventId (message_in (event_of (state_out st WORKING))) = STATE_TRANSIT"
    by (simp add: message_in_def event_of_def state_out_def)
  moreover obtain w where "msg_want (message_in (event_of (state_out st WORKING))) = Some w"
      "GetIntParam w PREVIOUS_STATE 0 = state_code st" "GetIntParam w CURRENT_STATE 0 = state_code WORKING"
    using want_state_out by blast
  ultimately show ?thesis
    using assms by (auto simp: leaves_sleep_def want_holds_def restricted_code_def state_code_def)
qed

lemma run_screen_on:
  fixes e :: service_env
  assumes "ready v" "inited (sm v)" "curState (sm v) \<noteq> WORKING"
  defines "s' \<equiv> HandleEvent (se_sm e) (message_in (common_event COMMON_EVENT_SCREEN_ON)) (sm v)"
  shows "\<exists>x. run_dispatch e (common_event COMMON_EVENT_SCREEN_ON) v = v\<lparr>sm := s', subs := x,
     handler := handler v @ map (\<lambda>m. HT_Dispatch (event_of m)) (half_hour_out (sm v) @ [state_out (curState (sm v)) WORKING])\<rparr>"
    and "curState s' = WORKING"
proof -
  let ?m = "message_in (common_event COMMON_EVENT_SCREEN_ON)"
  have m: "eventId ?m = COMMON_EVENT" "action ?m = COMMON_EVENT_SCREEN_ON"
    by (simp_all add: message_in_def common_event_def)
  have new: "new_messages (sm v) s' = half_hour_out (sm v) @ [state_out (curState (sm v)) WORKING]"
    unfolding s'_def by (rule messages_screen_on [OF assms(2) m assms(3)])
  have l: "ListenerManager_HandleEvent c ?m x = x" for c x
    using m by (simp add: ListenerManager_HandleEvent_def event_id_defs)
  have st: "StrategyManager_HandleEvent c ?m x = x" for c x
    using m by (intro both_contract.passes) (simp add: unheeded_def)
  show "\<exists>x. run_dispatch e (common_event COMMON_EVENT_SCREEN_ON) v = v\<lparr>sm := s', subs := x,
     handler := handler v @ map (\<lambda>m. HT_Dispatch (event_of m)) (half_hour_out (sm v) @ [state_out (curState (sm v)) WORKING])\<rparr>"
    using assms(1) by (auto simp: run_dispatch_def Let_def l st s'_def [symmetric] absorb_sm_def new dispatch_all_ready)
  have act: "action ?m \<in> {COMMON_EVENT_SCREEN_ON, COMMON_EVENT_SCREEN_UNLOCKED,
        COMMON_EVENT_CHARGING, COMMON_EVENT_USB_DEVICE_ATTACHED, LID_OPEN}" using m by simp
  note w = HandleEvent_wake [OF assms(2) m(1) act, of "se_sm e"]
  show "curState s' = WORKING"
    using w(1,2) m TransitToWorking_result(2) unfolding s'_def by simp
qed

lemma screen_on_lifts:
  assumes "ready v" "handler v = []" "inited (sm v)" "curState (sm v) \<in> {SLEEP, MAINTENANCE}"
    and "both_created (strat v)" "net_answers (se_st e) (ss_net (strat v))" "rl_sound (ss_rl (strat v))" "4 \<le> n"
  shows "let v' = run_handler e n (HandleScreenStateChanged 1 v) in
    handler v' = [] \<and> curState (sm v') = WORKING \<and>
    power_locked (ss_rl (strat v')) = {} \<and> net_view (ss_net (strat v')) = (False, {})"
proof -
  let ?on = "common_event COMMON_EVENT_SCREEN_ON"
  define v1 where "v1 = HandleScreenStateChanged 1 v"
  define v2 where "v2 = v1\<lparr>handler := []\<rparr>"
  have v1: "handler v1 = [HT_Dispatch ?on]" "ready v2" "sm v2 = sm v" "strat v2 = strat v"
    using assms(1,2) by (simp_all add: v1_def v2_def HandleScreenStateChanged_def send_common_def
        Service_DispatchEvent_def post_handler_def sv_call_def)
  define msgs where "msgs = map (\<lambda>m. HT_Dispatch (event_of m)) (half_hour_out (sm v) @ [state_out (curState (sm v)) WORKING])"
  have nw: "curState (sm v2) \<noteq> WORKING" using assms(4) v1(3) by auto
  from run_screen_on [OF v1(2) _ nw, of e] assms(3) v1(3)
  obtain x s' where s': "run_dispatch e ?on v2 = v2\<lparr>sm := s', subs := x, handler := msgs\<rparr>" "curState s' = WORKING"
    by (auto simp: msgs_def v2_def)
  define v3 where "v3 = v2\<lparr>sm := s', subs := x, handler := msgs\<rparr>"
  have r1: "run_handler e 1 v1 = v3"
    using v1(1) s'(1) by (simp add: run_handler_task_def v2_def v3_def)
  define k where "k = length (half_hour_out (sm v))"
  define t where "t = HT_Dispatch (event_of (state_out (curState (sm v)) WORKING))"
  have k: "k \<le> 1" "\<forall>t \<in> set (map (\<lambda>m. HT_Dispatch (event_of m)) (half_hour_out (sm v))). ignored t"
    by (auto simp: k_def half_hour_out_def ignored_def event_of_def)
  define v4 where "v4 = v3\<lparr>handler := [t]\<rparr>"
  have r2: "run_handler e k v3 = v4"
    using drain_ignored [OF _ k(2), of v3 "[t]" e] by (simp add: v3_def v4_def msgs_def k_def t_def)
  let ?m = "message_in (event_of (state_out (curState (sm v)) WORKING))"
  let ?st = "StrategyManager_HandleEvent (strategy_env e v4) ?m (strat v)"
  have v4: "ready v4" "strat v4 = strat v" "curState (sm v4) = WORKING"
    using v1(2,4) s'(2) by (simp_all add: v4_def v3_def)
  have r3: "run_handler e 2 v4 = v4\<lparr>handler := [], strat := ?st\<rparr>"
    using run_transit [of v4 STATE_TRANSIT _ "[]" 2 e] v4(1,2) assms(5)
    by (simp add: v4_def t_def state_out_def)
  have "run_handler e (1 + k + 2) v1 = run_handler e 2 v4"
    unfolding run_handler_add r1 r2 ..
  then have run: "run_handler e n v1 = v4\<lparr>handler := [], strat := ?st\<rparr>"
    using run_handler_enough [of e "1 + k + 2" v1 n] r3 k(1) assms(8) by simp
  have "both_answering (strategy_env e v4) (strat v)"
    using assms(5-7) by (simp add: both_answering_def net_answers_strategy_env)
  then have "restriction_view ?st = ((False, {}), {})"
    by (rule both_contract.lifts) (rule leaves_sleep_out [OF assms(4)])
  then show ?thesis
    using run v4(3) unfolding v1_def [symmetric] by (simp add: restriction_view_def)
qed

section \<open>The deep phase of SLEEP\<close>

text \<open>A closure of the state machine, then the handler until it is empty.\<close>

definition run_closure :: "service_env \<Rightarrow> sm_task \<Rightarrow> service \<Rightarrow> service" where
  "run_closure e t v = run_handler e 2 (run_state_task e t v)"

lemma phase_run:
  fixes e :: service_env and v :: service and s0 :: sm_state
  assumes "ready v" "handler v = []" "both_created (strat v)" "messages s0 = messages (sm v)"
    and "sm_inv s0" "\<not> isEvalution s0" "curState s0 = SLEEP"
    and p: "curPhase (objs s0 SLEEP) = p" "p < PHASE_END"
    and t: "run_task (se_sm e) t (sm v) = TransitToPhase (se_sm e) SLEEP p (p + 1) s0"
  defines "w \<equiv> run_closure e t v"
  shows "ready w" "handler w = []" "both_created (strat w)" "sm w = TransitToPhase (se_sm e) SLEEP p (p + 1) s0"
    "strat w = StrategyManager_HandleEvent (strategy_env e v) (message_in (event_of (phase_out SLEEP p))) (strat v)"
proof -
  let ?s = "TransitToPhase (se_sm e) SLEEP p (p + 1) s0"
  let ?st = "StrategyManager_HandleEvent (strategy_env e v) (message_in (event_of (phase_out SLEEP p))) (strat v)"
  have "messages ?s = messages s0 @ [phase_out SLEEP p]"
    by (rule messages_phase_step [OF assms(5,6) _ assms(7) p]) simp
  then have "new_messages (sm v) ?s = [phase_out SLEEP p]"
    by (intro new_messages_append) (simp add: assms(4))
  then obtain x where u: "run_state_task e t v =
      v\<lparr>sm := ?s, subs := x, handler := [HT_Dispatch (event_of (phase_out SLEEP p))]\<rparr>"
    using assms(1,2) by (auto simp: run_state_task_def t absorb_sm_def dispatch_all_ready)
  define u where "u = v\<lparr>sm := ?s, subs := x, handler := [HT_Dispatch (event_of (phase_out SLEEP p))]\<rparr>"
  have e: "strategy_env e u = strategy_env e v" by (simp add: strategy_env_def u_def)
  have "run_handler e 2 u = u\<lparr>handler := [],
      strat := StrategyManager_HandleEvent (strategy_env e u) (message_in (event_of (phase_out SLEEP p))) (strat u)\<rparr>"
    unfolding phase_out_def
    by (rule run_transit [where rest = "[]"]) (use assms(1,3) in \<open>simp_all add: u_def phase_out_def\<close>)
  then show "ready w" "handler w = []" "both_created (strat w)" "sm w = ?s" "strat w = ?st"
    using assms(1,3) both_created_handle [OF assms(3)]
    unfolding w_def run_closure_def u u_def [symmetric] e by (simp_all add: u_def)
qed

lemma want_phase_out:
  "\<exists>w. msg_want (message_in (event_of (phase_out st p))) = Some w \<and>
     GetIntParam w CURRENT_STATE 0 = state_code st \<and> GetIntParam w CURRENT_PHASE 0 = p + 1"
  by (simp add: phase_out_def message_in_def event_of_def want_of_def want_key_defs)

lemma id_phase_out: "eventId (message_in (event_of (phase_out st p))) = PHASE_TRANSIT"
  by (simp add: phase_out_def message_in_def event_of_def)

text \<open>Only the first of the three phase transitions is the deep one.\<close>

lemma deep_phase_out: "enters_deep (message_in (event_of (phase_out SLEEP 0)))"
  using want_phase_out [of SLEEP 0] by (auto simp: enters_deep_def want_holds_def id_phase_out APP_RES_DEEP_def)

lemma later_phase_out: "p \<noteq> 0 \<Longrightarrow> unheeded (message_in (event_of (phase_out st p)))"
  using want_phase_out [of st p] by (auto simp: unheeded_def want_holds_def id_phase_out APP_RES_DEEP_def)

lemma answers_strategy_env: "answers (strategy_env e v) = answers (se_st e)"
  by (simp add: answers_def strategy_env_def)

lemma sleep_restricts:
  assumes "ready v" "handler v = []" "both_created (strat v)"
    and "sm_inv (sm v)" "\<not> isEvalution (sm v)" "curState (sm v) = SLEEP" "curPhase (objs (sm v) SLEEP) = PHASE_BEGIN"
    and "net_inv c (ss_net (strat v))" "\<not> isFirewallEnabled (ss_net (strat v))" "net_answers (se_st e) (ss_net (strat v))"
    and "rl_sound (ss_rl (strat v))" "\<not> isProxied (ss_rl (strat v))"
    and "answers (se_st e) = Some a" "distinct (map pi_pid (ans_procs a))"
  shows "let v' = run_closure e (T_NextPhase SLEEP) (run_closure e (T_NextPhase SLEEP) (run_closure e (T_FirstPhase SLEEP) v)) in
    handler v' = [] \<and> curPhase (objs (sm v') SLEEP) = PHASE_END \<and>
    power_locked (ss_rl (strat v')) = to_proxy (strategy_env e v) a \<and>
    net_view (ss_net (strat v')) = (True, to_trust (strategy_env e v) (nightExemptionTaskType (ss_net (strat v))) a)"
proof -
  let ?e = "se_sm e"
  have lt: "(0 :: u32) < PHASE_END" "(1 :: u32) < PHASE_END" "(2 :: u32) < PHASE_END" and sl: "SLEEP = NAP \<or> SLEEP = SLEEP"
    by (simp_all add: PHASE_END_def)
  define s0 where "s0 = AcquireStandbyRunningLock ?e (sm v)"
  have s0: "messages s0 = messages (sm v)" "sm_inv s0" "\<not> isEvalution s0" "curState s0 = SLEEP" "curPhase (objs s0 SLEEP) = 0"
    using assms(4-7) by (simp_all add: s0_def PHASE_BEGIN_def)
  have t1: "run_task ?e (T_FirstPhase SLEEP) (sm v) = TransitToPhase ?e SLEEP 0 (0 + 1) s0"
    using s0(5) by (simp add: s0_def Let_def)
  define v1 where "v1 = run_closure e (T_FirstPhase SLEEP) v"
  note w1 = phase_run [OF assms(1-3) s0 lt(1) t1, folded v1_def]
  note p1 = phase_step [OF s0(2,3) sl s0(4,5) lt(1), of ?e, folded w1(4)]
  have c1: "curPhase (objs (sm v1) SLEEP) = 1" using p1(4) by simp
  have t2: "run_task ?e (T_NextPhase SLEEP) (sm v1) = TransitToPhase ?e SLEEP 1 (1 + 1) (sm v1)"
    using c1 by (simp add: Let_def PHASE_END_def)
  define v2 where "v2 = run_closure e (T_NextPhase SLEEP) v1"
  note w2 = phase_run [OF w1(1-3) refl p1(1-3) c1 lt(2) t2, folded v2_def]
  note p2 = phase_step [OF p1(1,2) sl p1(3) c1 lt(2), of ?e, folded w2(4)]
  have c2: "curPhase (objs (sm v2) SLEEP) = 2" using p2(4) by simp
  have t3: "run_task ?e (T_NextPhase SLEEP) (sm v2) = TransitToPhase ?e SLEEP 2 (2 + 1) (sm v2)"
    using c2 by (simp add: Let_def PHASE_END_def)
  define v3 where "v3 = run_closure e (T_NextPhase SLEEP) v2"
  note w3 = phase_run [OF w2(1-3) refl p2(1-3) c2 lt(3) t3, folded v3_def]
  note p3 = phase_step [OF p2(1,2) sl p2(3) c2 lt(3), of ?e, folded w3(4)]
  have strat: "strat v3 = deliver_all StrategyManager_HandleEvent
      ([] @ (strategy_env e v, message_in (event_of (phase_out SLEEP 0))) #
        [(strategy_env e v1, message_in (event_of (phase_out SLEEP 1))),
         (strategy_env e v2, message_in (event_of (phase_out SLEEP 2)))]) (strat v)"
    using w1(5) w2(5) w3(5) by simp
  have "restriction_view (strat v3) = both_restriction (strategy_env e v) (strat v) a"
    unfolding strat
  proof (rule both_contract.night)
    show "both_answering (strategy_env e v) (strat v)"
      using assms(3,10,11) by (simp add: both_answering_def net_answers_strategy_env)
    show "both_fresh (strat v)" using assms(8,9,12) by (auto simp: both_fresh_def)
  qed (use assms(13,14) deep_phase_out later_phase_out in \<open>simp_all add: answers_strategy_env\<close>)
  moreover have "curPhase (objs (sm v3) SLEEP) = PHASE_END" using p3(4) by (simp add: PHASE_END_def)
  ultimately show ?thesis
    using w3(2) unfolding v1_def [symmetric] v2_def [symmetric] v3_def [symmetric]
    by (simp add: restriction_view_def both_restriction_def)
qed

section \<open>Properties\<close>

text \<open>C2: In every state that satisfies the invariant of the service, when the screen comes on
  during SLEEP or MAINTENANCE and nothing is queued, the handler of the service drains in at
  most four tasks and then the device works, no running lock is proxied and the network is
  open with no uid trusted any more.\<close>

theorem screen_on_lifts_everything:
  assumes "service_inv (c, v)" "handler v = []" "curState (sm v) \<in> {SLEEP, MAINTENANCE}"
    and "net_answers (se_st e) (ss_net (strat v))" "4 \<le> n"
  shows "let v' = run_handler e n (HandleScreenStateChanged 1 v) in
    handler v' = [] \<and> curState (sm v') = WORKING \<and>
    power_locked (ss_rl (strat v')) = {} \<and> net_view (ss_net (strat v')) = (False, {})"
  by (rule screen_on_lifts) (use assms in \<open>simp_all add: sm_inv_def\<close>)

text \<open>C1: From every state that satisfies the invariant of the service, at the beginning of
  SLEEP and with nothing restricted yet, the three phase closures, each followed by the
  messages it dispatches, end in the final phase with exactly the locks of the applications
  without exemption proxied and the network closed to all but exactly the uids allowed to
  use it.\<close>

theorem sleep_restricts_everything:
  assumes "service_inv (c, v)" "handler v = []" "\<not> isEvalution (sm v)"
    and "curState (sm v) = SLEEP" "curPhase (objs (sm v) SLEEP) = PHASE_BEGIN"
    and "\<not> isFirewallEnabled (ss_net (strat v))" "\<not> isProxied (ss_rl (strat v))"
    and "net_answers (se_st e) (ss_net (strat v))" "answers (se_st e) = Some a" "distinct (map pi_pid (ans_procs a))"
  shows "let v' = run_closure e (T_NextPhase SLEEP) (run_closure e (T_NextPhase SLEEP) (run_closure e (T_FirstPhase SLEEP) v)) in
    handler v' = [] \<and> curPhase (objs (sm v') SLEEP) = PHASE_END \<and>
    power_locked (ss_rl (strat v')) = to_proxy (strategy_env e v) a \<and>
    net_view (ss_net (strat v')) = (True, to_trust (strategy_env e v) (nightExemptionTaskType (ss_net (strat v))) a)"
  by (rule sleep_restricts [where c = c]) (use assms in simp_all)


section \<open>Witnesses\<close>

definition demo_se :: "st_env \<Rightarrow> service_env" where
  "demo_se st = \<lparr> se_sm = demo_env, se_st = st,
     se_ls = \<lparr> ls_mode = PHONEMODE, subscribeSwitchEvent = 1, subscribeBgTaskOk = True, unsubscribeBgTaskOk = True,
       bgTaskServiceId = 1903 \<rparr>,
     createDayNightTimer = 9, createCommonEventObserver = True, subscribeCommonEvent = True, subscribeAppState = True,
     allowRecordFile = None, runnerCreated = True, handlerCreated = True, configInit = ERR_OK,
     pluginFile = (\<lambda>_. Plugin_Works), publishOk = True, permissionDeniedCode = 13, softwareSleep = True, callerProcess = None,
     msdpUserStatusServiceId = 1, parseJson = (\<lambda>_. JDiscarded) \<rparr>"

definition demo_service :: "sm_state \<Rightarrow> net_state \<Rightarrow> rl_state \<Rightarrow> service" where
  "demo_service s n r = \<lparr> sm = s, strat = \<lparr> createdList = [''NETWORK'', ''RUNNING_LOCK''], ss_net = n, ss_rl = r \<rparr>,
     lst = \<lparr> messageListenerList = [], listenerPluginMap = [], subscriberId = 0, ls_calls = [] \<rparr>,
     subs = \<lparr> deathRecipient = True, subscriberList = [], modulePowerMap = [], moduleActionMap = [], curDate = 1, sub_calls = [] \<rparr>,
     al = demo_al0, dependsReady = 127, dayNightSwitchTimerId = 9, commonEventObserver = True, appStateObserver = True,
     debugMode = False, deviceState = deviceState_init, serviceRunning = True, registerPlugin = True,
     handler = [], delayed = [], sv_calls = [] \<rparr>"

lemma demo_service_al: "al (demo_service s n r) = demo_al0"
  and demo_service_subs: "subscriberList (subs (demo_service s n r)) = []"
    "modulePowerMap (subs (demo_service s n r)) = []" "moduleActionMap (subs (demo_service s n r)) = []"
  by (simp_all add: demo_service_def)

lemma demo_service_simps [simp]:
  "sm (demo_service s n r) = s" "ss_net (strat (demo_service s n r)) = n" "ss_rl (strat (demo_service s n r)) = r"
  "ready (demo_service s n r)" "handler (demo_service s n r) = []" "createdList (strat (demo_service s n r)) = [''NETWORK'', ''RUNNING_LOCK'']"
  "al (demo_service s n r) = demo_al0" "se_st (demo_se st) = st" "isServiceReady demo_al0"
  by (simp_all add: demo_service_def demo_al0_def demo_se_def)

lemma demo_service_inv:
  assumes "st \<noteq> MAINTENANCE" "net_inv c n" "rl_sound r"
  shows "service_inv (c, demo_service (demo_in pre st) n r)"
  using assms demo_in_inv
  by (simp add: demo_service_al demo_al0_def al_inv_def covered_def grants_def times_at_def demo_service_subs subs_inv_def)

theorem screen_on_lifts_everything_witness:
  "let v' = run_handler (demo_se demo_st_on) 4 (HandleScreenStateChanged 1 (demo_service (demo_in NAP SLEEP) demo_net demo_rl)) in
    handler v' = [] \<and> curState (sm v') = WORKING \<and>
    power_locked (ss_rl (strat v')) = {} \<and> net_view (ss_net (strat v')) = (False, {})"
proof -
  have "service_inv (now_condition demo_st, demo_service (demo_in NAP SLEEP) demo_net demo_rl)"
    by (rule demo_service_inv)
      (simp_all add: net_reachable_inv [OF demo_net_reachable] rl_reachable_sound [OF demo_rl_reachable])
  then show ?thesis
    by (rule screen_on_lifts_everything) (simp_all add: demo_net_answers)
qed

theorem sleep_restricts_everything_witness:
  "let e = demo_se demo_st; v = demo_service (demo_in NAP SLEEP) net_start rl_start;
       v' = run_closure e (T_NextPhase SLEEP) (run_closure e (T_NextPhase SLEEP) (run_closure e (T_FirstPhase SLEEP) v)) in
    power_locked (ss_rl (strat v')) = {(11, 1001)} \<and> net_view (ss_net (strat v')) = (True, {1002})"
proof -
  let ?v = "demo_service (demo_in NAP SLEEP) net_start rl_start"
  have phase: "curPhase (objs (sm ?v) SLEEP) = PHASE_BEGIN"
    by (simp add: SleepState_def base_obj_def PHASE_BEGIN_def)
  have env: "strategy_env (demo_se demo_st) ?v = demo_st"
    by (simp add: strategy_env_def demo_st_def)
  have start: "\<not> isFirewallEnabled net_start" "nightExemptionTaskType net_start = 0" "\<not> isProxied rl_start"
    by (simp_all add: net_start_def rl_start_def)
  have "service_inv (0, ?v)"
    by (rule demo_service_inv) (simp_all add: net_reachable_inv [OF net_start_reachable] rl_reachable_sound [OF rl_start_reachable])
  then show ?thesis
    using sleep_restricts_everything [of 0 ?v "demo_se demo_st" demo_answers] phase net_start_answers demo_answers
      demo_to_proxy demo_to_trust
    by (simp add: env Let_def start del: service_inv.simps)
qed

text \<open>The managers come up with both strategies configured.\<close>

definition demo_boot :: service where
  "demo_boot = (demo_service sm_fresh net_start rl_start)\<lparr>al := demo_al0\<lparr>isServiceReady := False\<rparr>, strat := strat_fresh\<rparr>"

definition demo_boot_env :: service_env where
  "demo_boot_env = demo_se (demo_st\<lparr>st_cfg := config_init\<lparr>strategyList := [''NETWORK'', ''RUNNING_LOCK'']\<rparr>\<rparr>)"

lemma demo_boot_reachable: "service_reachable (0, InitReadyState_task demo_boot_env demo_boot)"
proof (rule reachable_init)
  let ?e = demo_boot_env
  let ?k = "st_cfg (se_st ?e)"
  have k: "filter (\<lambda>n. n \<in> set strategyMap) (GetStrategyConfigList ?k) = [''NETWORK'', ''RUNNING_LOCK'']"
    by (simp add: demo_boot_env_def GetStrategyConfigList_def strategyMap_def)
  have sm: "fst (StateManager_Init (se_sm ?e) sm_fresh)"
    using demo_init_ok by (simp add: sm_start_def case_prod_unfold Let_def demo_boot_env_def demo_se_def)
  have n: "net_answers (se_st ?e) net_start"
    using net_start_answers by (simp add: net_answers_def demo_boot_env_def)
  have env: "st_cfg (strategy_env ?e v) = ?k" "net_answers (strategy_env ?e v) net_start" for v
    using n by (simp_all add: strategy_env_def net_answers_def)
  have st: "fst (StrategyManager_Init (strategy_env ?e demo_boot) strat_fresh)"
    by (rule StrategyManager_Init_fresh) (simp_all add: env k)
  have b: "\<not> ready demo_boot" "sm demo_boot = sm_fresh" "strat demo_boot = strat_fresh" "subs_inv (subs demo_boot)"
    by (simp_all add: demo_boot_def demo_service_def subs_inv_def)
  have al: "al (InitReadyState_task ?e demo_boot) = (al demo_boot)\<lparr>isServiceReady := True\<rparr>"
    by (rule InitReadyState_succeeds) (simp_all add: b sm st, simp_all add: demo_boot_env_def demo_se_def)
  then have "al_inv (al (InitReadyState_task ?e demo_boot))" "covered (al (InitReadyState_task ?e demo_boot))"
    by (simp_all add: demo_boot_def demo_al0_def al_inv_def covered_def grants_def times_at_def)
  with b k n al show "service_start (0, InitReadyState_task ?e demo_boot)"
    unfolding service_start_def by (intro exI [of _ ?e] exI [of _ demo_boot]) simp
qed


text \<open>The abilities come up one after the other, the input service last.\<close>

theorem ready_with_all_abilities_witness:
  "let v = (demo_service (demo_in WORKING WORKING) net_start rl_start)\<lparr>dependsReady := 0\<rparr>;
       w = fold (ability_event (demo_se demo_st)) (map Ability_Added (butlast required_abilities)) v
   in GetSaDependValue w \<noteq> ALL_DEPENDS_READY \<and>
      HT_InitReady \<in> set (handler (OnAddSystemAbility (demo_se demo_st) MULTIMODAL_INPUT_SERVICE w))"
  using ready_with_all_abilities [of "(demo_service (demo_in WORKING WORKING) net_start rl_start)\<lparr>dependsReady := 0\<rparr>"
      "demo_se demo_st" "map Ability_Added (butlast required_abilities)" MULTIMODAL_INPUT_SERVICE]
  by (auto simp: Let_def required_abilities_def present_def)

text \<open>The details of the strategies, printed while nothing is restricted.\<close>

theorem dump_reading_commands_witness:
  "\<exists>r. Service_ShellDump (demo_se demo_st) [''-D'', ''--strategy'']
     (config_init, demo_service (demo_in WORKING WORKING) net_start rl_start) '''' =
       Some ((config_init, demo_service (demo_in WORKING WORKING) net_start rl_start), r)"
proof -
  let ?v = "demo_service (demo_in WORKING WORKING) net_start rl_start"
  obtain c v r where ran: "Service_ShellDump (demo_se demo_st) [''-D'', ''--strategy''] (config_init, ?v) '''' = Some ((c, v), r)"
    using OnPluginShellDump_None [of "[''-D'', ''--strategy'']" "demo_se demo_st" ?v]
    by (fastforce simp: Service_ShellDump_def ShellDumpInner_def Let_def)
  show ?thesis
    using dump_reading_commands [OF ran] ran by simp
qed

end
