(* ===== verification/Config_Parse.thy ===== *)
theory Config_Parse
  imports Config_Manager
begin

text \<open>
  The parsers of \<open>utils/policy/src/standby_config_manager.cpp\<close> that fill the tables of the
  configuration manager, the choice of the configuration files and of the cloud configuration by
  version, and \<open>Init\<close>, which composes them.

  \<open>config_env\<close> holds what the operating system and the configuration library answer: its two entry
  points when it is present, the JSON parser and the files. A parser yields its result and the
  new tables; \<open>None\<close> stands for the exception of the JSON library that a conversion of an element
  of the wrong type raises and nothing catches. The members of two structures the code leaves
  without a value are the parameters \<open>indet_i32\<close> and \<open>indet_bool\<close>.
\<close>

section \<open>Data\<close>

record config_env =
  dlopen_ext :: bool
  sym_multi :: "ext_multi option"
  sym_single :: "ext_single option"
  json_parse :: "string \<Rightarrow> json"
  read_file :: "string \<Rightarrow> string option"
  cfg_dirs :: "string option list"
  real_path :: "string \<Rightarrow> string option"
  access_ok :: "string \<Rightarrow> bool"
  indet_i32 :: i32
  indet_bool :: bool

type_synonym parsed = "bool \<times> config_state"

definition PATH_MAX :: nat where "PATH_MAX = 4096"

definition GetRealPath :: "config_env \<Rightarrow> string \<Rightarrow> string option" where
  "GetRealPath e partialPath = (if PATH_MAX < length partialPath then None else real_path e partialPath)"

definition GetFileContent :: "config_env \<Rightarrow> string \<Rightarrow> string option" where
  "GetFileContent e filePath =
     (case GetRealPath e filePath of None \<Rightarrow> None | Some fullPath \<Rightarrow> read_file e fullPath)"

definition STANDBY_CONFIG_INDEX :: i32 where "STANDBY_CONFIG_INDEX = 5"
definition STRATEGY_CONFIG_INDEX :: i32 where "STRATEGY_CONFIG_INDEX = 6"
definition CLOUD_CONFIG_INDEX :: i32 where "CLOUD_CONFIG_INDEX = 7"
definition DEFAULT_CONFIG_ROOT_DIR :: string where "DEFAULT_CONFIG_ROOT_DIR = ''/system''"
definition STANDBY_CONFIG_PATH :: string where
  "STANDBY_CONFIG_PATH = ''/etc/standby_service/device_standby_config.json''"
definition STRATEGY_CONFIG_PATH :: string where
  "STRATEGY_CONFIG_PATH = ''/etc/standby_service/standby_strategy_config.json''"

text \<open>A loop over members that goes on after a bad one and reports whether all were good.\<close>

definition each_item :: "(string \<Rightarrow> json \<Rightarrow> 's \<Rightarrow> bool \<times> 's) \<Rightarrow> json \<Rightarrow> 's \<Rightarrow> bool \<times> 's" where
  "each_item f j s = fold (\<lambda>(key, val) (ret, s). let (ok, s) = f key val s in (ret \<and> ok, s)) (items j) (True, s)"

definition each_item_throw ::
  "(string \<Rightarrow> json \<Rightarrow> 's \<Rightarrow> (bool \<times> 's) option) \<Rightarrow> json \<Rightarrow> 's \<Rightarrow> (bool \<times> 's) option" where
  "each_item_throw f j s =
     fold (\<lambda>(key, val) r. case r of None \<Rightarrow> None | Some (ret, s) \<Rightarrow>
             map_option (\<lambda>(ok, s). (ret \<and> ok, s)) (f key val s)) (items j) (Some (True, s))"

fun all_some :: "'a option list \<Rightarrow> 'a list option" where
  "all_some [] = Some []"
| "all_some (x # xs) = (case x of None \<Rightarrow> None | Some a \<Rightarrow> map_option ((#) a) (all_some xs))"

section \<open>The device configuration\<close>

definition ParseStandbyConfig_item :: "string \<Rightarrow> json \<Rightarrow> config_state \<Rightarrow> parsed" where
  "ParseStandbyConfig_item key val c =
     (if \<not> is_primitive val then (False, c)
      else case val of
        JBool b \<Rightarrow> (True, c\<lparr>standbySwitchMap := AList.update key b (standbySwitchMap c)\<rparr>)
      | JInt i \<Rightarrow>
          if sint (word_of_int i :: i32) < 0 then (False, c)
          else (True, c\<lparr>standbyParaMap := AList.update key (word_of_int i) (standbyParaMap c)\<rparr>)
      | _ \<Rightarrow> (True, c))"

definition ParseStandbyConfig :: "json \<Rightarrow> config_state \<Rightarrow> parsed" where
  "ParseStandbyConfig = each_item ParseStandbyConfig_item"

definition ParsePkgTypeList :: "json \<Rightarrow> config_state \<Rightarrow> parsed option" where
  "ParsePkgTypeList = each_item_throw (\<lambda>key val c.
     case val of
       JArray xs \<Rightarrow>
         map_option (\<lambda>pkgTypeList. (True, c\<lparr>pkgTypeMap := emplace key pkgTypeList (pkgTypeMap c)\<rparr>))
           (all_some (map to_str xs))
     | _ \<Rightarrow> Some (False, c))"

definition ParseIntervalList :: "json \<Rightarrow> config_state \<Rightarrow> parsed option" where
  "ParseIntervalList = each_item_throw (\<lambda>key val c.
     case val of
       JArray xs \<Rightarrow>
         map_option (\<lambda>intervalList. (True, c\<lparr>intervalListMap := emplace key intervalList (intervalListMap c)\<rparr>))
           (all_some (map to_int32 xs))
     | _ \<Rightarrow> Some (False, c))"

definition ParseBatteryList :: "json \<Rightarrow> config_state \<Rightarrow> parsed option" where
  "ParseBatteryList = each_item_throw (\<lambda>key val c.
     case val of
       JArray xs \<Rightarrow>
         map_option (\<lambda>batteryList. (True, c\<lparr>ladderBatteryListMap := emplace key batteryList (ladderBatteryListMap c)\<rparr>))
           (all_some (map to_int32 xs))
     | _ \<Rightarrow> Some (False, c))"

definition ParseStrategyListConfig :: "json \<Rightarrow> config_state \<Rightarrow> parsed" where
  "ParseStrategyListConfig = each_item (\<lambda>key val c.
     case val of
       JBool b \<Rightarrow> (True, c\<lparr>strategyListMap := AList.update key b (strategyListMap c)\<rparr>)
     | _ \<Rightarrow> (False, c))"

definition UpdateStrategyList :: "config_state \<Rightarrow> config_state" where
  "UpdateStrategyList c = c\<lparr>strategyList := map fst (filter snd (strategyListMap c))\<rparr>"

text \<open>This loop ends at the first member that is not a boolean.\<close>

fun half_hour_items :: "(string \<times> json) list \<Rightarrow> config_state \<Rightarrow> parsed" where
  "half_hour_items [] c = (True, c)"
| "half_hour_items ((key, JBool b) # xs) c =
     half_hour_items xs (c\<lparr>halfhourSwitchMap := AList.update key b (halfhourSwitchMap c)\<rparr>)"
| "half_hour_items ((key, val) # xs) c = (False, c)"

definition ParseHalfHourSwitchConfig :: "json \<Rightarrow> config_state \<Rightarrow> parsed" where
  "ParseHalfHourSwitchConfig j = half_hour_items (items j)"

definition ParseStandbyListParaConfig :: "json \<Rightarrow> config_state \<Rightarrow> parsed" where
  "ParseStandbyListParaConfig = each_item (\<lambda>key val c.
     case val of
       JArray xs \<Rightarrow>
         (True, c\<lparr>standbyListParaMap := AList.update key (List.map_filter to_str xs) (standbyListParaMap c)\<rparr>)
     | _ \<Rightarrow> (False, c))"

definition ParseMxStandbyListConfig :: "json \<Rightarrow> config_state \<Rightarrow> parsed" where
  "ParseMxStandbyListConfig j c =
     (if \<not> is_object j then (False, c)
      else (True, fold (\<lambda>(key, val) c. c\<lparr>mxStandbyConfigMap := AList.update key val (mxStandbyConfigMap c)\<rparr>) (items j) c))"

text \<open>An optional section: absent it is good, present its parser decides.\<close>

definition config_section ::
  "json \<Rightarrow> string \<Rightarrow> (json \<Rightarrow> config_state \<Rightarrow> parsed option) \<Rightarrow> config_state \<Rightarrow> parsed option" where
  "config_section root tag parser c =
     (case GetObjFromJsonValue root tag of None \<Rightarrow> Some (True, c) | Some val \<Rightarrow> parser val c)"

definition then_section :: "(config_state \<Rightarrow> parsed option) \<Rightarrow> (config_state \<Rightarrow> parsed option) \<Rightarrow> config_state \<Rightarrow> parsed option" where
  "then_section f g c =
     (case f c of None \<Rightarrow> None | Some (ok, c) \<Rightarrow> if ok then g c else Some (False, c))"

abbreviation no_throw :: "(json \<Rightarrow> config_state \<Rightarrow> parsed) \<Rightarrow> json \<Rightarrow> config_state \<Rightarrow> parsed option" where
  "no_throw parser \<equiv> \<lambda>j c. Some (parser j c)"

definition CanParsePkgTypeList :: "json \<Rightarrow> config_state \<Rightarrow> parsed option" where
  "CanParsePkgTypeList root = config_section root ''pkg_type'' ParsePkgTypeList"

definition CanParseMxStandbyList :: "json \<Rightarrow> config_state \<Rightarrow> parsed option" where
  "CanParseMxStandbyList root =
     then_section (config_section root ''ladder_battery_threshold_list'' ParseBatteryList)
              (config_section root ''mx_standby_list'' (no_throw ParseMxStandbyListConfig))"

definition ParseDeviceStanbyConfig :: "json \<Rightarrow> config_state \<Rightarrow> parsed option" where
  "ParseDeviceStanbyConfig root c =
     (let c = (case GetStringFromJsonValue root ''plugin_name'' of None \<Rightarrow> c | Some n \<Rightarrow> c\<lparr>pluginName := n\<rparr>)
      in then_section (config_section root ''standby'' (no_throw ParseStandbyConfig))
        (then_section (config_section root ''detect_list'' (no_throw ParseStandbyConfig))
        (then_section (config_section root ''maintenance_list'' ParseIntervalList)
        (then_section (CanParsePkgTypeList root)
        (then_section (config_section root ''strategy_list'' (no_throw ParseStrategyListConfig))
        (then_section (config_section root ''halfhour_switch_setting'' (no_throw ParseHalfHourSwitchConfig))
        (then_section (config_section root ''standby_list_para_config'' (no_throw ParseStandbyListParaConfig))
                  (CanParseMxStandbyList root))))))) c)"

section \<open>The strategy configuration\<close>

definition conditionMap :: "(string \<times> u32) list" where
  "conditionMap = [(''day_standby'', DAY_STANDBY), (''night_standby'', NIGHT_STANDBY)]"

definition ParseCondition :: "string \<Rightarrow> u32" where
  "ParseCondition conditionStr =
     fold (\<lambda>conditionSubstr conditionValue.
         case map_of conditionMap conditionSubstr of None \<Rightarrow> conditionValue | Some v \<Rightarrow> conditionValue OR v)
       (getline_split (CHR ''&'') conditionStr) 0"

definition limited_item :: "json \<Rightarrow> TimeLtdProcess option" where
  "limited_item singleLtdItem =
     (case (GetStringFromJsonValue singleLtdItem ''name'', GetInt32FromJsonValue singleLtdItem ''duration'') of
        (Some name, Some duration) \<Rightarrow> Some \<lparr> ltd_name = name, maxDurationLim = duration \<rparr>
      | _ \<Rightarrow> None)"

definition ParseTimeLimitedConfig :: "json \<Rightarrow> string \<Rightarrow> TimeLtdProcess list \<Rightarrow> TimeLtdProcess list" where
  "ParseTimeLimitedConfig singleConfigItem key timeLimitedConfig =
     (case GetArrayFromJsonValue singleConfigItem key of
        None \<Rightarrow> timeLimitedConfig
      | Some timeLimitedItems \<Rightarrow> timeLimitedConfig @ List.map_filter limited_item timeLimitedItems)"

text \<open>\<open>None\<close> is the result \<open>false\<close>; the entry is then thrown away.\<close>

definition ParseCommonResCtrlConfig :: "json \<Rightarrow> DefaultResourceConfig option" where
  "ParseCommonResCtrlConfig singleConfigItem =
     (if member_at singleConfigItem ''action'' = None \<or> member_at singleConfigItem ''condition'' = None then None
      else case GetStringFromJsonValue singleConfigItem ''action'' of
        None \<Rightarrow> None
      | Some resCtrlAction \<Rightarrow>
          (case GetStrArrFromJsonValue singleConfigItem ''condition'' [] of (ok, conditionItemArray) \<Rightarrow>
             if \<not> ok then None
             else Some \<lparr> cfg_isAllow = (resCtrlAction = ''allow''),
               conditions = filter (\<lambda>v. v > 0) (map ParseCondition conditionItemArray),
               processes = snd (GetStrArrFromJsonValue singleConfigItem ''processes'' []),
               apps = snd (GetStrArrFromJsonValue singleConfigItem ''apps'' []),
               timeLtdProcesses = ParseTimeLimitedConfig singleConfigItem ''processes_limit'' [],
               timeLtdApps = ParseTimeLimitedConfig singleConfigItem ''apps_limit'' [] \<rparr>))"

definition ParseDefaultResCtrlConfig :: "string \<Rightarrow> json \<Rightarrow> config_state \<Rightarrow> parsed" where
  "ParseDefaultResCtrlConfig resCtrlKey resConfigArray c =
     (case resConfigArray of
        JArray xs \<Rightarrow>
          (case all_some (map ParseCommonResCtrlConfig xs) of
             None \<Rightarrow> (False, c)
           | Some cfgs \<Rightarrow> (True, c\<lparr>defaultResourceConfigMap := AList.update resCtrlKey cfgs (defaultResourceConfigMap c)\<rparr>))
      | _ \<Rightarrow> (False, c))"

definition clock_item :: "config_env \<Rightarrow> json \<Rightarrow> TimerClockApp option" where
  "clock_item e j =
     (case GetStringFromJsonValue j ''name'' of
        None \<Rightarrow> None
      | Some n \<Rightarrow>
          (case GetBoolFromJsonValue j ''timer_clock'' of
             Some b \<Rightarrow> Some \<lparr> clock_name = n, timerPeriod = indet_i32 e, isTimerClock = b \<rparr>
           | None \<Rightarrow>
               (case GetInt32FromJsonValue j ''timer_period'' of
                  Some p \<Rightarrow> Some \<lparr> clock_name = n, timerPeriod = p, isTimerClock = indet_bool e \<rparr>
                | None \<Rightarrow> None)))"

fun timer_items :: "config_env \<Rightarrow> json list \<Rightarrow> TimerResourceConfig list \<Rightarrow> bool \<times> TimerResourceConfig list" where
  "timer_items e [] l = (True, l)"
| "timer_items e (j # js) l =
     (case member_at j ''time_clock_apps'' of
        Some (JArray xs) \<Rightarrow>
          (case all_some (map (clock_item e) xs) of
             None \<Rightarrow> (False, l)
           | Some clocks \<Rightarrow>
               timer_items e js (l @ [\<lparr> timer_isAllow = indet_bool e, timer_conditions = [], timerClockApps = clocks \<rparr>]))
      | _ \<Rightarrow> timer_items e js (l @ [\<lparr> timer_isAllow = indet_bool e, timer_conditions = [], timerClockApps = [] \<rparr>]))"

definition ParseTimerResCtrlConfig :: "config_env \<Rightarrow> json \<Rightarrow> config_state \<Rightarrow> parsed" where
  "ParseTimerResCtrlConfig e resConfigArray c =
     (case resConfigArray of
        JArray xs \<Rightarrow> (let (ok, l) = timer_items e xs [] in (ok, c\<lparr>timerResConfigList := l\<rparr>))
      | _ \<Rightarrow> (False, c))"

definition ParseResCtrlConfig_item :: "config_env \<Rightarrow> string \<Rightarrow> json \<Rightarrow> config_state \<Rightarrow> parsed" where
  "ParseResCtrlConfig_item e key val c =
     (let c = c\<lparr>standbyStrategyConfigMap := AList.update key val (standbyStrategyConfigMap c)\<rparr> in
      if \<not> is_array val then (False, c)
      else let (ok, c) = ParseDefaultResCtrlConfig key val c in
        if \<not> ok then (False, c)
        else if key = ''TIMER'' then ParseTimerResCtrlConfig e val c
        else (True, c))"

definition ParseResCtrlConfig :: "config_env \<Rightarrow> json \<Rightarrow> config_state \<Rightarrow> parsed" where
  "ParseResCtrlConfig e = each_item (ParseResCtrlConfig_item e)"

section \<open>Versions\<close>

definition VERSION_LEN :: nat where "VERSION_LEN = 4"

fun compare_segments :: "string list \<Rightarrow> string list \<Rightarrow> int" where
  "compare_segments (a # as) (b # bs) =
     (if \<not> is_digit (hd a) \<or> \<not> is_digit (hd b) then - 1
      else if b \<noteq> a then (if c_strtol b < c_strtol a then 1 else 0)
      else compare_segments as bs)"
| "compare_segments _ _ = 1"

definition CompareVersion :: "string \<Rightarrow> string \<Rightarrow> int" where
  "CompareVersion configVerA configVerB =
     (if configVerA \<noteq> [] \<and> configVerB = [] then 1
      else if configVerA = [] \<and> configVerB \<noteq> [] then 0
      else if configVerA = [] \<and> configVerB = [] then - 1
      else
        let segA = SplitVersion configVerA (CHR ''.'');
            segB = SplitVersion configVerB (CHR ''.'')
        in if length segA \<noteq> VERSION_LEN then - 1
           else if length segB \<noteq> VERSION_LEN then - 1
           else compare_segments segA segB)"

definition content_version :: "config_env \<Rightarrow> string \<Rightarrow> string option" where
  "content_version e content =
     (case LoadJsonValueFromContent (json_parse e) JNull content of (ok, root) \<Rightarrow>
        if \<not> ok then None else GetStringFromJsonValue root ''version'')"

text \<open>The result and the version left in the output argument; the comparison counts as true
  unless it is 0.\<close>

definition GetParamVersion :: "config_env \<Rightarrow> i32 \<Rightarrow> string \<Rightarrow> config_state \<Rightarrow> bool \<times> string" where
  "GetParamVersion e fileIndex version c =
     (case getExtConfigFunc c of
        None \<Rightarrow> (True, version)
      | Some f \<Rightarrow>
          if fileIndex \<noteq> STANDBY_CONFIG_INDEX \<and> fileIndex \<noteq> STRATEGY_CONFIG_INDEX then (False, version)
          else case f fileIndex of (returnCode, configContentList) \<Rightarrow>
            if returnCode \<noteq> 0 then (False, version)
            else (True, fold (\<lambda>content version.
                case content_version e content of
                  None \<Rightarrow> version
                | Some tempVersion \<Rightarrow> if CompareVersion tempVersion version \<noteq> 0 then tempVersion else version)
              configContentList version))"

definition GetCloudVersion :: "config_env \<Rightarrow> i32 \<Rightarrow> string \<Rightarrow> config_state \<Rightarrow> bool \<times> string" where
  "GetCloudVersion e fileIndex version c =
     (case getSingleExtConfigFunc c of
        None \<Rightarrow> (True, version)
      | Some f \<Rightarrow>
          if fileIndex \<noteq> CLOUD_CONFIG_INDEX then (False, version)
          else case f fileIndex of (returnCode, configCloud) \<Rightarrow>
            if returnCode \<noteq> 0 then (False, version)
            else
              let root = snd (LoadJsonValueFromContent (json_parse e) JNull configCloud)
              in (True, case GetStringFromJsonValue root ''version'' of None \<Rightarrow> version | Some v \<Rightarrow> v))"

definition NeedsToReadCloudConfig :: "config_env \<Rightarrow> config_state \<Rightarrow> bool" where
  "NeedsToReadCloudConfig e c =
     (let deviceConfigVer = snd (GetParamVersion e STANDBY_CONFIG_INDEX '''' c);
          strategyConfigVer = snd (GetParamVersion e STRATEGY_CONFIG_INDEX '''' c);
          cloudConfigVer = snd (GetCloudVersion e CLOUD_CONFIG_INDEX '''' c);
          result = CompareVersion deviceConfigVer strategyConfigVer
      in if result < 0 then False
         else CompareVersion cloudConfigVer (if result > 0 then deviceConfigVer else strategyConfigVer) > 0)"

section \<open>Files\<close>

definition GetConfigFileList :: "config_env \<Rightarrow> string \<Rightarrow> string list" where
  "GetConfigFileList e relativeConfigPath =
     (let rootDirList = List.map_filter id (cfg_dirs e);
          rootDirList = (if DEFAULT_CONFIG_ROOT_DIR \<in> set rootDirList then rootDirList
                         else DEFAULT_CONFIG_ROOT_DIR # rootDirList)
      in List.map_filter (\<lambda>configDir.
           case GetRealPath e (configDir @ relativeConfigPath) of
             None \<Rightarrow> None
           | Some baseRealPath \<Rightarrow> if access_ok e baseRealPath then Some baseRealPath else None) rootDirList)"

text \<open>The roots to parse: the contents the library yields, or the files when it is absent or fails.\<close>

definition config_roots :: "config_env \<Rightarrow> i32 \<Rightarrow> string \<Rightarrow> config_state \<Rightarrow> json list" where
  "config_roots e index path c =
     (let from_files = map (LoadJsonValueFromFile (json_parse e) (GetFileContent e) JNull) (GetConfigFileList e path);
          loaded = (case getExtConfigFunc c of
             None \<Rightarrow> from_files
           | Some f \<Rightarrow>
               (case f index of (returnCode, contents) \<Rightarrow>
                  if returnCode = 0 then map (LoadJsonValueFromContent (json_parse e) JNull) contents
                  else from_files))
      in map snd (filter fst loaded))"

definition GetAndParseStandbyConfig :: "config_env \<Rightarrow> config_state \<Rightarrow> config_state option" where
  "GetAndParseStandbyConfig e c =
     map_option UpdateStrategyList
       (fold (\<lambda>root r. case r of None \<Rightarrow> None | Some c \<Rightarrow> map_option snd (ParseDeviceStanbyConfig root c))
         (config_roots e STANDBY_CONFIG_INDEX STANDBY_CONFIG_PATH c) (Some c))"

definition GetAndParseStrategyConfig :: "config_env \<Rightarrow> config_state \<Rightarrow> config_state" where
  "GetAndParseStrategyConfig e c =
     fold (\<lambda>root c. snd (ParseResCtrlConfig e root c))
       (config_roots e STRATEGY_CONFIG_INDEX STRATEGY_CONFIG_PATH c) c"

definition cloud_section :: "json \<Rightarrow> string \<Rightarrow> (json \<Rightarrow> config_state \<Rightarrow> parsed) \<Rightarrow> config_state \<Rightarrow> config_state" where
  "cloud_section root tag parser c =
     (case GetObjFromJsonValue root tag of None \<Rightarrow> c | Some val \<Rightarrow> snd (parser val c))"

definition ParseCloudConfig :: "config_env \<Rightarrow> json \<Rightarrow> config_state \<Rightarrow> config_state" where
  "ParseCloudConfig e root c =
     (let c = cloud_section root ''setting_list'' ParseStandbyConfig c;
          c = cloud_section root ''strategy_list'' ParseStrategyListConfig c;
          c = cloud_section root ''standby_list_para_config'' ParseStandbyListParaConfig c;
          c = cloud_section root ''mx_standby_list'' ParseMxStandbyListConfig c
      in snd (ParseResCtrlConfig e root c))"

definition GetCloudConfig :: "config_env \<Rightarrow> config_state \<Rightarrow> config_state" where
  "GetCloudConfig e c =
     (case getSingleExtConfigFunc c of
        None \<Rightarrow> c
      | Some f \<Rightarrow>
          (case f CLOUD_CONFIG_INDEX of (returnCode, configCloud) \<Rightarrow>
             UpdateStrategyList
               (if returnCode = 0
                then ParseCloudConfig e (snd (LoadJsonValueFromContent (json_parse e) JNull configCloud)) c
                else c)))"

definition LoadGetExtConfigFunc :: "config_env \<Rightarrow> config_state \<Rightarrow> config_state" where
  "LoadGetExtConfigFunc e c =
     (if \<not> dlopen_ext e then c
      else c\<lparr>getExtConfigFunc := sym_multi e, getSingleExtConfigFunc := sym_single e\<rparr>)"

definition Config_Init :: "config_env \<Rightarrow> config_state \<Rightarrow> (err \<times> config_state) option" where
  "Config_Init e c =
     map_option (\<lambda>c.
         let c = GetAndParseStrategyConfig e c
         in (ERR_OK, if NeedsToReadCloudConfig e c then GetCloudConfig e c else c))
       (GetAndParseStandbyConfig e (LoadGetExtConfigFunc e c))"

section \<open>Well-formed tables\<close>

text \<open>The loops over members keep whatever their bodies keep.\<close>

lemma each_item_keeps:
  assumes "\<And>k v s. P s \<Longrightarrow> P (snd (f k v s))" "P s"
  shows "P (snd (each_item f j s))"
proof -
  have "P (snd (fold (\<lambda>(key, val) (ret, s). let (ok, s) = f key val s in (ret \<and> ok, s)) xs (r, s)))"
    if "P s" for xs r s
    using that
  proof (induction xs arbitrary: r s)
    case (Cons x xs)
    show ?case
      using Cons.IH assms(1) [OF Cons.prems, of "fst x" "snd x"]
      by (cases x; cases "f (fst x) (snd x) s") simp
  qed simp
  then show ?thesis
    using assms(2) unfolding each_item_def by blast
qed

lemma each_item_throw_keeps:
  assumes "\<And>k v s ok s'. P s \<Longrightarrow> f k v s = Some (ok, s') \<Longrightarrow> P s'" "P s"
    and "each_item_throw f j s = Some (ok, s')"
  shows "P s'"
proof -
  define step where "step = (\<lambda>(key, val) r. case r of None \<Rightarrow> None | Some (ret, s) \<Rightarrow>
             map_option (\<lambda>(ok, s). (ret \<and> ok :: bool, s)) (f key val s))"
  have none: "fold step xs None = None" for xs
    by (induction xs) (auto simp: step_def)
  have "P s'" if "P s" "fold step xs (Some (r, s)) = Some (ok, s')" for xs r s
    using that
  proof (induction xs arbitrary: r s)
    case (Cons x xs)
    show ?case
    proof (cases "f (fst x) (snd x) s")
      case None
      then show ?thesis
        using Cons.prems(2) none by (cases x) (simp add: step_def)
    next
      case (Some y)
      then have "fold step xs (Some (r \<and> fst y, snd y)) = Some (ok, s')"
        using Cons.prems(2) by (cases x; cases y) (simp add: step_def)
      then show ?thesis
        using Cons.IH assms(1) [OF Cons.prems(1), of "fst x" "snd x" "fst y" "snd y"] Some by simp
    qed
  qed simp
  then show ?thesis
    using assms(2,3) unfolding each_item_throw_def step_def [symmetric] by blast
qed

definition wf_conditions :: "DefaultResourceConfig \<Rightarrow> bool" where
  "wf_conditions cfg \<longleftrightarrow> set (conditions cfg) \<subseteq> {DAY_STANDBY, NIGHT_STANDBY, DAY_STANDBY OR NIGHT_STANDBY}"

text \<open>What every parser keeps.\<close>

definition all_values :: "('v \<Rightarrow> bool) \<Rightarrow> ('k \<times> 'v) list \<Rightarrow> bool" where
  "all_values P m \<longleftrightarrow> (\<forall>x \<in> set m. P (snd x))"

lemma all_values_update [simp]: "all_values P m \<Longrightarrow> P v \<Longrightarrow> all_values P (AList.update k v m)"
  by (induction m) (auto simp: all_values_def)

definition tables_wf :: "config_state \<Rightarrow> bool" where
  "tables_wf c \<longleftrightarrow>
     distinct (map fst (standbySwitchMap c)) \<and> distinct (map fst (standbyParaMap c)) \<and>
     distinct (map fst (strategyListMap c)) \<and> distinct (map fst (halfhourSwitchMap c)) \<and>
     distinct (map fst (defaultResourceConfigMap c)) \<and> distinct (map fst (intervalListMap c)) \<and>
     all_values (\<lambda>v. 0 \<le> sint v) (standbyParaMap c) \<and>
     all_values (\<lambda>cfgs. list_all wf_conditions cfgs) (defaultResourceConfigMap c)"

lemma tables_wf_update [simp]:
  assumes "tables_wf c"
  shows "tables_wf (c\<lparr>standbySwitchMap := AList.update k b (standbySwitchMap c)\<rparr>)"
    "0 \<le> sint i \<Longrightarrow> tables_wf (c\<lparr>standbyParaMap := AList.update k i (standbyParaMap c)\<rparr>)"
    "tables_wf (c\<lparr>strategyListMap := AList.update k b (strategyListMap c)\<rparr>)"
    "tables_wf (c\<lparr>halfhourSwitchMap := AList.update k b (halfhourSwitchMap c)\<rparr>)"
    "list_all wf_conditions cfgs \<Longrightarrow>
       tables_wf (c\<lparr>defaultResourceConfigMap := AList.update k cfgs (defaultResourceConfigMap c)\<rparr>)"
    "tables_wf (c\<lparr>intervalListMap := emplace k ls (intervalListMap c)\<rparr>)"
    "tables_wf (c\<lparr>ladderBatteryListMap := m1\<rparr>)" "tables_wf (c\<lparr>pkgTypeMap := m2\<rparr>)"
    "tables_wf (c\<lparr>mxStandbyConfigMap := m3\<rparr>)" "tables_wf (c\<lparr>standbyListParaMap := m4\<rparr>)"
    "tables_wf (c\<lparr>timerResConfigList := m5\<rparr>)" "tables_wf (c\<lparr>standbyStrategyConfigMap := m3\<rparr>)"
    "tables_wf (c\<lparr>pluginName := n\<rparr>)" "tables_wf (c\<lparr>strategyList := l\<rparr>)"
    "tables_wf (c\<lparr>getExtConfigFunc := f, getSingleExtConfigFunc := g\<rparr>)"
  using assms by (simp_all add: tables_wf_def distinct_update_key distinct_emplace)

lemma ParseStandbyConfig_wf: "tables_wf c \<Longrightarrow> tables_wf (snd (ParseStandbyConfig j c))"
  unfolding ParseStandbyConfig_def
  by (rule each_item_keeps) (simp_all add: ParseStandbyConfig_item_def not_less split: json.split)

lemma ParseStrategyListConfig_wf: "tables_wf c \<Longrightarrow> tables_wf (snd (ParseStrategyListConfig j c))"
  unfolding ParseStrategyListConfig_def
  by (rule each_item_keeps) (simp_all split: json.split)

lemma ParseStandbyListParaConfig_wf: "tables_wf c \<Longrightarrow> tables_wf (snd (ParseStandbyListParaConfig j c))"
  unfolding ParseStandbyListParaConfig_def
  by (rule each_item_keeps) (simp_all split: json.split)

lemma ParseHalfHourSwitchConfig_wf: "tables_wf c \<Longrightarrow> tables_wf (snd (ParseHalfHourSwitchConfig j c))"
proof -
  have "tables_wf (snd (half_hour_items xs c))" if "tables_wf c" for xs
    using that by (induction xs c rule: half_hour_items.induct) simp_all
  then show "tables_wf c \<Longrightarrow> ?thesis"
    by (simp add: ParseHalfHourSwitchConfig_def)
qed

lemma ParseMxStandbyListConfig_wf: "tables_wf c \<Longrightarrow> tables_wf (snd (ParseMxStandbyListConfig j c))"
proof -
  have "tables_wf (fold (\<lambda>(key, val) c. c\<lparr>mxStandbyConfigMap := AList.update key val (mxStandbyConfigMap c)\<rparr>) xs c)"
    if "tables_wf c" for xs
    using that by (induction xs arbitrary: c) (simp_all add: case_prod_beta)
  then show "tables_wf c \<Longrightarrow> ?thesis"
    by (simp add: ParseMxStandbyListConfig_def)
qed

lemma ParseIntervalList_wf: "tables_wf c \<Longrightarrow> ParseIntervalList j c = Some (ok, c') \<Longrightarrow> tables_wf c'"
  unfolding ParseIntervalList_def
  by (rule each_item_throw_keeps [where P = tables_wf]) (auto split: json.splits)

lemma ParsePkgTypeList_wf: "tables_wf c \<Longrightarrow> ParsePkgTypeList j c = Some (ok, c') \<Longrightarrow> tables_wf c'"
  unfolding ParsePkgTypeList_def
  by (rule each_item_throw_keeps [where P = tables_wf]) (auto split: json.splits)

lemma ParseBatteryList_wf: "tables_wf c \<Longrightarrow> ParseBatteryList j c = Some (ok, c') \<Longrightarrow> tables_wf c'"
  unfolding ParseBatteryList_def
  by (rule each_item_throw_keeps [where P = tables_wf]) (auto split: json.splits)

lemma ParseCondition_range:
  "ParseCondition s \<in> {0, DAY_STANDBY, NIGHT_STANDBY, DAY_STANDBY OR NIGHT_STANDBY}"
proof -
  have "fold (\<lambda>conditionSubstr conditionValue.
         case map_of conditionMap conditionSubstr of None \<Rightarrow> conditionValue | Some v \<Rightarrow> conditionValue OR v) xs a
       \<in> {0, DAY_STANDBY, NIGHT_STANDBY, DAY_STANDBY OR NIGHT_STANDBY}"
    if "a \<in> {0, DAY_STANDBY, NIGHT_STANDBY, DAY_STANDBY OR NIGHT_STANDBY}" for xs a
    using that
  proof (induction xs arbitrary: a)
    case (Cons x xs)
    have "(case map_of conditionMap x of None \<Rightarrow> a | Some v \<Rightarrow> a OR v)
        \<in> {0, DAY_STANDBY, NIGHT_STANDBY, DAY_STANDBY OR NIGHT_STANDBY}"
      using Cons.prems by (auto simp: conditionMap_def DAY_STANDBY_def NIGHT_STANDBY_def)
    then show ?case using Cons.IH by simp
  qed simp
  then show ?thesis by (simp add: ParseCondition_def)
qed

lemma ParseCommon_wf: "ParseCommonResCtrlConfig j = Some cfg \<Longrightarrow> wf_conditions cfg"
  using ParseCondition_range
  by (fastforce simp: ParseCommonResCtrlConfig_def wf_conditions_def word_gt_0 split: if_splits option.splits prod.splits)

lemma all_some_mem: "all_some (map f xs) = Some ys \<Longrightarrow> y \<in> set ys \<Longrightarrow> \<exists>x. f x = Some y"
  by (induction xs arbitrary: ys) (auto split: option.splits)

lemma ParseDefaultResCtrlConfig_wf: "tables_wf c \<Longrightarrow> tables_wf (snd (ParseDefaultResCtrlConfig k j c))"
proof (cases "\<exists>xs cfgs. j = JArray xs \<and> all_some (map ParseCommonResCtrlConfig xs) = Some cfgs")
  case True
  then obtain xs cfgs where j: "j = JArray xs" "all_some (map ParseCommonResCtrlConfig xs) = Some cfgs"
    by blast
  assume wf: "tables_wf c"
  have "list_all wf_conditions cfgs"
    using all_some_mem [OF j(2)] ParseCommon_wf by (auto simp: list_all_iff)
  then show ?thesis
    using wf by (simp add: ParseDefaultResCtrlConfig_def j)
qed (auto simp: ParseDefaultResCtrlConfig_def split: json.split option.split)

lemma ParseTimer_wf: "tables_wf c \<Longrightarrow> tables_wf (snd (ParseTimerResCtrlConfig e j c))"
  by (simp add: ParseTimerResCtrlConfig_def split: json.split prod.split)

lemma ParseResCtrlConfig_wf: "tables_wf c \<Longrightarrow> tables_wf (snd (ParseResCtrlConfig e j c))"
  unfolding ParseResCtrlConfig_def
proof (rule each_item_keeps)
  fix k v c assume "tables_wf c"
  then have "tables_wf (c\<lparr>standbyStrategyConfigMap := AList.update k v (standbyStrategyConfigMap c)\<rparr>)" (is "tables_wf ?c")
    by simp
  then have "tables_wf (snd (ParseDefaultResCtrlConfig k v ?c))" "tables_wf ?c"
    by (simp_all add: ParseDefaultResCtrlConfig_wf)
  then show "tables_wf (snd (ParseResCtrlConfig_item e k v c))"
    by (auto simp: ParseResCtrlConfig_item_def Let_def ParseTimer_wf split: prod.split)
qed

definition parser_keeps :: "(config_state \<Rightarrow> parsed option) \<Rightarrow> bool" where
  "parser_keeps f \<longleftrightarrow> (\<forall>c ok c'. tables_wf c \<longrightarrow> f c = Some (ok, c') \<longrightarrow> tables_wf c')"

lemma parser_keepsI: "(\<And>c ok c'. tables_wf c \<Longrightarrow> f c = Some (ok, c') \<Longrightarrow> tables_wf c') \<Longrightarrow> parser_keeps f"
  by (simp add: parser_keeps_def)

lemma parser_keepsD: "parser_keeps f \<Longrightarrow> tables_wf c \<Longrightarrow> f c = Some (ok, c') \<Longrightarrow> tables_wf c'"
  unfolding parser_keeps_def by blast

lemma then_section_keeps:
  assumes "parser_keeps f" "parser_keeps g"
  shows "parser_keeps (then_section f g)"
proof (rule parser_keepsI)
  fix c ok c' assume "tables_wf c" and r: "then_section f g c = Some (ok, c')"
  then obtain good d where d: "f c = Some (good, d)"
    by (cases "f c") (auto simp: then_section_def)
  then have "tables_wf d"
    using parser_keepsD [OF assms(1) \<open>tables_wf c\<close>] by simp
  then show "tables_wf c'"
    using r d parser_keepsD [OF assms(2)] by (cases good) (auto simp: then_section_def)
qed

lemma section_keeps:
  "(\<And>val. parser_keeps (parser val)) \<Longrightarrow> parser_keeps (config_section root tag parser)"
  by (rule parser_keepsI) (auto simp: config_section_def dest: parser_keepsD split: option.splits)

lemma section_keeps_no_throw:
  "(\<And>val c. tables_wf c \<Longrightarrow> tables_wf (snd (parser val c))) \<Longrightarrow> parser_keeps (config_section root tag (no_throw parser))"
  by (rule section_keeps) (metis parser_keepsI option.inject snd_conv)

lemma ParseDeviceStanbyConfig_wf:
  assumes "tables_wf c" "ParseDeviceStanbyConfig root c = Some (ok, c')"
  shows "tables_wf c'"
proof -
  have "parser_keeps (CanParsePkgTypeList root)"
    unfolding CanParsePkgTypeList_def by (intro section_keeps parser_keepsI) (rule ParsePkgTypeList_wf)
  moreover have "parser_keeps (CanParseMxStandbyList root)"
    unfolding CanParseMxStandbyList_def
    by (intro then_section_keeps section_keeps_no_throw ParseMxStandbyListConfig_wf section_keeps parser_keepsI)
      (rule ParseBatteryList_wf)
  moreover have "parser_keeps (config_section root ''maintenance_list'' ParseIntervalList)"
    by (intro section_keeps parser_keepsI) (rule ParseIntervalList_wf)
  ultimately have "parser_keeps (then_section (config_section root ''standby'' (no_throw ParseStandbyConfig))
        (then_section (config_section root ''detect_list'' (no_throw ParseStandbyConfig))
        (then_section (config_section root ''maintenance_list'' ParseIntervalList)
        (then_section (CanParsePkgTypeList root)
        (then_section (config_section root ''strategy_list'' (no_throw ParseStrategyListConfig))
        (then_section (config_section root ''halfhour_switch_setting'' (no_throw ParseHalfHourSwitchConfig))
        (then_section (config_section root ''standby_list_para_config'' (no_throw ParseStandbyListParaConfig))
                  (CanParseMxStandbyList root))))))))"
    by (intro then_section_keeps section_keeps_no_throw ParseStandbyConfig_wf ParseStrategyListConfig_wf
        ParseHalfHourSwitchConfig_wf ParseStandbyListParaConfig_wf)
  moreover have "tables_wf (case GetStringFromJsonValue root ''plugin_name'' of None \<Rightarrow> c | Some n \<Rightarrow> c\<lparr>pluginName := n\<rparr>)"
    using assms(1) by (simp split: option.split)
  ultimately show ?thesis
    using assms(2) unfolding ParseDeviceStanbyConfig_def Let_def by (rule parser_keepsD)
qed

definition strategies_listed :: "config_state \<Rightarrow> bool" where
  "strategies_listed c \<longleftrightarrow> strategyList c = map fst (filter snd (strategyListMap c))"

lemma ParseResCtrlConfig_strategies:
  "strategies_listed c \<Longrightarrow> strategies_listed (snd (ParseResCtrlConfig e j c))"
  unfolding ParseResCtrlConfig_def
  by (rule each_item_keeps)
    (auto simp: ParseResCtrlConfig_item_def ParseDefaultResCtrlConfig_def ParseTimerResCtrlConfig_def strategies_listed_def
      Let_def split: json.split option.split prod.split)

lemma GetAndParseStandbyConfig_wf:
  assumes "tables_wf c" "GetAndParseStandbyConfig e c = Some c'"
  shows "tables_wf c' \<and> strategies_listed c'"
proof -
  define step where "step = (\<lambda>root r. case r of None \<Rightarrow> None | Some c \<Rightarrow> map_option snd (ParseDeviceStanbyConfig root c))"
  have none: "fold step xs None = None" for xs
    by (induction xs) (simp_all add: step_def)
  have "tables_wf c'" if "tables_wf c" "fold step xs (Some c) = Some c'" for xs c c'
    using that
  proof (induction xs arbitrary: c)
    case (Cons x xs)
    then obtain ok d where d: "ParseDeviceStanbyConfig x c = Some (ok, d)" "fold step xs (Some d) = Some c'"
      using none by (cases "ParseDeviceStanbyConfig x c") (auto simp: step_def)
    show ?case
      by (rule Cons.IH [OF ParseDeviceStanbyConfig_wf [OF Cons.prems(1) d(1)] d(2)])
  qed simp
  then show ?thesis
    using assms unfolding GetAndParseStandbyConfig_def step_def [symmetric]
    by (auto simp: UpdateStrategyList_def strategies_listed_def)
qed

lemma GetAndParseStrategyConfig_wf:
  "tables_wf c \<and> strategies_listed c \<Longrightarrow>
     tables_wf (GetAndParseStrategyConfig e c) \<and> strategies_listed (GetAndParseStrategyConfig e c)"
proof -
  have "tables_wf (fold (\<lambda>root c. snd (ParseResCtrlConfig e root c)) xs c) \<and>
      strategies_listed (fold (\<lambda>root c. snd (ParseResCtrlConfig e root c)) xs c)"
    if "tables_wf c \<and> strategies_listed c" for xs
    using that by (induction xs arbitrary: c) (simp_all add: ParseResCtrlConfig_wf ParseResCtrlConfig_strategies)
  then show "tables_wf c \<and> strategies_listed c \<Longrightarrow> ?thesis"
    by (simp add: GetAndParseStrategyConfig_def)
qed

lemma GetCloudConfig_wf:
  assumes "tables_wf c \<and> strategies_listed c"
  shows "tables_wf (GetCloudConfig e c) \<and> strategies_listed (GetCloudConfig e c)"
proof -
  have "tables_wf (cloud_section root tag parser c)"
    if "tables_wf c" "\<And>val c. tables_wf c \<Longrightarrow> tables_wf (snd (parser val c))" for root tag parser c
    using that by (simp add: cloud_section_def split: option.split)
  then have "tables_wf (ParseCloudConfig e root c)" for root
    unfolding ParseCloudConfig_def Let_def
    using assms by (simp add: ParseResCtrlConfig_wf ParseStandbyConfig_wf ParseStrategyListConfig_wf
        ParseStandbyListParaConfig_wf ParseMxStandbyListConfig_wf)
  then show ?thesis
    using assms by (auto simp: GetCloudConfig_def UpdateStrategyList_def strategies_listed_def split: option.split prod.split)
qed

section \<open>Versions of four numbers\<close>

definition version_text :: "nat list \<Rightarrow> string" where
  "version_text v = concat (map (\<lambda>n. digits_nat n @ ''.'') (butlast v)) @ digits_nat (last v)"

definition good_version :: "nat list \<Rightarrow> bool" where
  "good_version v \<longleftrightarrow> length v = 4 \<and> (\<forall>n \<in> set v. n < 2 ^ 63)"

lemma dot_not_digit: "CHR ''.'' \<notin> set (digits_nat n)"
  using digits_nat_chars [of "CHR ''.''" n] by auto

lemma SplitVersion_text:
  assumes "v \<noteq> []"
  shows "SplitVersion (version_text v) (CHR ''.'') = map digits_nat v"
  using assms
proof (induction v)
  case (Cons n ns)
  show ?case
  proof (cases ns)
    case Nil
    then show ?thesis
      using getline_split_no_delim [OF dot_not_digit digits_nat_nonempty] by (simp add: SplitVersion_def version_text_def)
  next
    case (Cons m ms)
    then have "version_text (n # ns) = digits_nat n @ CHR ''.'' # version_text ns"
      by (simp add: version_text_def)
    then show ?thesis
      using Cons.IH Cons by (simp add: SplitVersion_def getline_split_append [OF dot_not_digit])
  qed
qed simp

lemma version_text_nonempty: "version_text v \<noteq> []"
  by (simp add: version_text_def)

lemma compare_segments_digits:
  assumes "length as = length bs" "\<forall>n \<in> set as. n < 2 ^ 63" "\<forall>n \<in> set bs. n < 2 ^ 63"
  shows "compare_segments (map digits_nat as) (map digits_nat bs) = (if bs \<le> as then 1 else 0)"
  using assms
proof (induction as bs rule: list_induct2)
  case (Cons a as b bs)
  have "is_digit (hd (digits_nat n))" for n
    using is_digit_digits_nat [OF hd_in_set [OF digits_nat_nonempty]] .
  then show ?case
    using Cons by (simp add: c_strtol_digits_nat not_less)
qed simp

lemma CompareVersion_text:
  assumes "good_version as" "good_version bs"
  shows "CompareVersion (version_text as) (version_text bs) = (if bs \<le> as then 1 else 0)"
proof -
  have "as \<noteq> []" "bs \<noteq> []"
    using assms by (auto simp: good_version_def)
  then show ?thesis
    using assms by (simp add: CompareVersion_def version_text_nonempty good_version_def VERSION_LEN_def Let_def
        SplitVersion_text compare_segments_digits)
qed

lemma GetParamVersion_text:
  assumes "getExtConfigFunc c = Some f" "f i = (0, contents)" "i = STANDBY_CONFIG_INDEX \<or> i = STRATEGY_CONFIG_INDEX"
    and "map (content_version e) contents = map (Some o version_text) (v # vs)" "list_all good_version (v # vs)"
  shows "GetParamVersion e i '''' c = (True, version_text (fold max vs v))"
proof -
  define step where "step = (\<lambda>content version.
                case content_version e content of
                  None \<Rightarrow> version
                | Some tempVersion \<Rightarrow> if CompareVersion tempVersion version \<noteq> 0 then tempVersion else version)"
  have "fold step xs (version_text w) = version_text (fold max ws w)"
    if "map (content_version e) xs = map (Some o version_text) ws" "list_all good_version ws" "good_version w" for xs ws w
    using that
  proof (induction ws arbitrary: xs w)
    case (Cons u us)
    then obtain x xs' where x: "xs = x # xs'" "content_version e x = Some (version_text u)"
        "map (content_version e) xs' = map (Some o version_text) us"
      by (cases xs) auto
    have "step x (version_text w) = version_text (max w u)"
      using CompareVersion_text [of u w] Cons.prems x by (auto simp: step_def max_def)
    moreover have "good_version (max w u)"
      using Cons.prems by (simp add: max_def)
    ultimately show ?case
      using Cons.IH [OF x(3)] Cons.prems x(1) by (simp add: max.commute)
  qed simp
  moreover have start: "step x '''' = version_text v" if "content_version e x = Some (version_text v)" for x
    using that by (simp add: step_def CompareVersion_def version_text_nonempty)
  moreover obtain x xs where x: "contents = x # xs" "content_version e x = Some (version_text v)"
      "map (content_version e) xs = map (Some o version_text) vs"
    using assms(4) by (cases contents) auto
  ultimately have "fold step contents '''' = version_text (fold max vs v)"
    using assms(5) by simp
  then show ?thesis
    using assms by (auto simp: GetParamVersion_def step_def)
qed

lemma fold_max_le: "fold max vs v \<le> (c :: nat list) \<longleftrightarrow> (\<forall>w \<in> set (v # vs). w \<le> c)"
  by (induction vs arbitrary: v) auto

lemma fold_max_good: "list_all good_version (v # vs) \<Longrightarrow> good_version (fold max vs v)"
  by (induction vs arbitrary: v) (auto simp: max_def)

section \<open>Conditions\<close>

lemma ParseCondition_bits:
  "ParseCondition s = (if ''day_standby'' \<in> set (getline_split (CHR ''&'') s) then DAY_STANDBY else 0) OR
     (if ''night_standby'' \<in> set (getline_split (CHR ''&'') s) then NIGHT_STANDBY else 0)"
proof -
  define step where "step = (\<lambda>conditionSubstr conditionValue.
         case map_of conditionMap conditionSubstr of None \<Rightarrow> conditionValue | Some v \<Rightarrow> conditionValue OR v)"
  have step: "step ''day_standby'' a = a OR DAY_STANDBY" "step ''night_standby'' a = a OR NIGHT_STANDBY"
    "x \<noteq> ''day_standby'' \<Longrightarrow> x \<noteq> ''night_standby'' \<Longrightarrow> step x a = a" for a x
    by (simp_all add: step_def conditionMap_def)
  have "fold step xs a = a OR (if ''day_standby'' \<in> set xs then DAY_STANDBY else 0) OR
     (if ''night_standby'' \<in> set xs then NIGHT_STANDBY else 0)" for xs a
  proof (induction xs arbitrary: a)
    case (Cons x xs)
    consider "x = ''day_standby''" | "x = ''night_standby''" | "x \<noteq> ''day_standby''" "x \<noteq> ''night_standby''"
      by blast
    then show ?case
      by cases (simp_all add: Cons step or.assoc or.left_commute or.commute)
  qed simp
  then show ?thesis by (simp add: ParseCondition_def step_def)
qed

lemma condition_contained:
  fixes cond :: u32
  shows "0 < (if d then DAY_STANDBY else 0) OR (if n then NIGHT_STANDBY else 0) \<and>
     (cond AND ((if d then DAY_STANDBY else 0) OR (if n then NIGHT_STANDBY else 0)) =
        (if d then DAY_STANDBY else 0) OR (if n then NIGHT_STANDBY else 0)) \<longleftrightarrow>
     (d \<or> n) \<and> (d \<longrightarrow> cond AND DAY_STANDBY = DAY_STANDBY) \<and> (n \<longrightarrow> cond AND NIGHT_STANDBY = NIGHT_STANDBY)"
proof -
  have contained: "a AND (x OR y) = x OR y \<longleftrightarrow> a AND x = x \<and> a AND y = y" for a x y :: u32
    by (auto simp: bit_eq_iff bit_simps)
  have "(0 :: u32) < DAY_STANDBY OR NIGHT_STANDBY"
    by (simp add: DAY_STANDBY_def NIGHT_STANDBY_def)
  then show ?thesis
    by (cases d; cases n) (simp_all add: contained, simp_all add: DAY_STANDBY_def NIGHT_STANDBY_def)
qed

section \<open>Properties\<close>

text \<open>C21: Whatever the files, the configuration library and the cloud yield, when the
  initialisation of the configuration returns the tables are well formed: distinct names, no
  negative parameter, only conditions made of day and night, and the list of strategies is
  exactly those switched on.\<close>

theorem config_init_wf:
  assumes "Config_Init e config_init = Some (r, c)"
  shows "r = ERR_OK \<and> tables_wf c \<and> strategyList c = map fst (filter snd (strategyListMap c))"
proof -
  define c1 where "c1 = LoadGetExtConfigFunc e config_init"
  have "tables_wf c1"
    by (simp add: c1_def LoadGetExtConfigFunc_def) (simp add: config_init_def tables_wf_def all_values_def)
  moreover obtain c2 where "GetAndParseStandbyConfig e c1 = Some c2"
    using assms by (auto simp: Config_Init_def c1_def)
  ultimately have "tables_wf (GetAndParseStrategyConfig e c2) \<and> strategies_listed (GetAndParseStrategyConfig e c2)"
    using GetAndParseStandbyConfig_wf GetAndParseStrategyConfig_wf by blast
  then show ?thesis
    using assms GetCloudConfig_wf \<open>GetAndParseStandbyConfig e c1 = Some c2\<close>
    by (auto simp: Config_Init_def c1_def [symmetric] strategies_listed_def Let_def split: if_splits)
qed

text \<open>C20: With four-part versions everywhere, the cloud configuration is read exactly when its
  version is not smaller, as a list of four numbers in lexicographic order, than that of any
  device or strategy configuration.\<close>

theorem cloud_config_when_newest:
  assumes "getExtConfigFunc c = Some f" "f STANDBY_CONFIG_INDEX = (0, ds)" "f STRATEGY_CONFIG_INDEX = (0, ss)"
    and "getSingleExtConfigFunc c = Some g" "g CLOUD_CONFIG_INDEX = (0, cloud)"
    and "map (content_version e) ds = map (Some o version_text) (d # dv)"
    and "map (content_version e) ss = map (Some o version_text) (s # sv)"
    and "content_version e cloud = Some (version_text cv)"
    and "list_all good_version (cv # d # s # dv @ sv)"
  shows "NeedsToReadCloudConfig e c \<longleftrightarrow> (\<forall>v \<in> set (d # s # dv @ sv). v \<le> cv)"
proof -
  define D where "D = fold max dv d"
  define S where "S = fold max sv s"
  have D: "GetParamVersion e STANDBY_CONFIG_INDEX '''' c = (True, version_text D)"
    unfolding D_def by (rule GetParamVersion_text [OF assms(1,2)]) (use assms(6,9) in simp_all)
  have S: "GetParamVersion e STRATEGY_CONFIG_INDEX '''' c = (True, version_text S)"
    unfolding S_def by (rule GetParamVersion_text [OF assms(1,3)]) (use assms(7,9) in simp_all)
  have C: "GetCloudVersion e CLOUD_CONFIG_INDEX '''' c = (True, version_text cv)"
    using assms(4,5,8) by (auto simp: GetCloudVersion_def content_version_def split: prod.splits if_splits)
  have good: "good_version D" "good_version S" "good_version cv"
    unfolding D_def S_def using assms(9) fold_max_good [of d dv] fold_max_good [of s sv] by simp_all
  have "NeedsToReadCloudConfig e c \<longleftrightarrow> D \<le> cv \<and> S \<le> cv"
    using CompareVersion_text [OF good(1,2)] CompareVersion_text [OF good(3,1)] CompareVersion_text [OF good(3,2)]
    by (auto simp: NeedsToReadCloudConfig_def D S C Let_def)
  then show ?thesis
    unfolding D_def S_def fold_max_le by auto
qed

text \<open>An entry parsed from the strategy configuration applies under a condition exactly
  when some string of its condition array names day or night and the condition holds
  everything that string names, where the names in a string are separated by an ampersand
  and unknown ones are ignored.\<close>

theorem parsed_entry_eligible:
  assumes "ParseCommonResCtrlConfig j = Some cfg" "GetStrArrFromJsonValue j ''condition'' [] = (True, conds)"
  shows "isEligible cond cfg \<longleftrightarrow>
    (\<exists>line \<in> set conds. let names = set (getline_split (CHR ''&'') line) in
       (''day_standby'' \<in> names \<or> ''night_standby'' \<in> names) \<and>
       (''day_standby'' \<in> names \<longrightarrow> cond AND DAY_STANDBY = DAY_STANDBY) \<and>
       (''night_standby'' \<in> names \<longrightarrow> cond AND NIGHT_STANDBY = NIGHT_STANDBY))"
proof -
  have "conditions cfg = filter (\<lambda>v. v > 0) (map ParseCondition conds)"
    using assms by (auto simp: ParseCommonResCtrlConfig_def split: if_splits option.splits)
  then have "isEligible cond cfg \<longleftrightarrow>
      (\<exists>line \<in> set conds. 0 < ParseCondition line \<and> cond AND ParseCondition line = ParseCondition line)"
    by (auto simp: isEligible_def)
  then show ?thesis
    unfolding ParseCondition_bits condition_contained Let_def .
qed

section \<open>Witnesses\<close>

text \<open>A configuration library with one content per file; the contents stand for these trees.\<close>

definition demo_entry :: json where
  "demo_entry = JObject [(''action'', JString ''allow''), (''apps'', JArray [JString ''mail'']),
     (''condition'', JArray [JString ''day_standby&night_standby'', JString ''screenoff''])]"

definition demo_device :: json where
  "demo_device = JObject [(''standby'', JObject [(''nap_switch'', JBool True), (''nap_timeout'', JInt 60)]),
     (''strategy_list'', JObject [(''NETWORK'', JBool True), (''RUNNING_LOCK'', JBool False)]),
     (''version'', JString ''1.0.0.0'')]"

definition demo_strategy :: json where
  "demo_strategy = JObject [(''NETWORK'', JArray [demo_entry]), (''version'', JString ''1.0.2.0'')]"

definition demo_cloud :: json where
  "demo_cloud = JObject [(''strategy_list'', JObject [(''RUNNING_LOCK'', JBool True)]), (''version'', JString ''1.0.10.0'')]"

definition demo_multi :: ext_multi where
  "demo_multi i = (if i = STANDBY_CONFIG_INDEX then (0, [''d'']) else if i = STRATEGY_CONFIG_INDEX then (0, [''s'']) else (1, []))"

definition demo_single :: ext_single where
  "demo_single i = (if i = CLOUD_CONFIG_INDEX then (0, ''c'') else (1, ''''))"

definition demo_config_env :: config_env where
  "demo_config_env = \<lparr> dlopen_ext = True, sym_multi = Some demo_multi, sym_single = Some demo_single,
     json_parse = (\<lambda>s. if s = ''d'' then demo_device else if s = ''s'' then demo_strategy
                       else if s = ''c'' then demo_cloud else JDiscarded),
     read_file = (\<lambda>_. None), cfg_dirs = [], real_path = Some, access_ok = (\<lambda>_. False), indet_i32 = 0, indet_bool = False \<rparr>"

lemma demo_version_texts:
  "''1.0.0.0'' = version_text [1, 0, 0, 0]" "''1.0.2.0'' = version_text [1, 0, 2, 0]"
  "''1.0.10.0'' = version_text [1, 0, 10, 0]"
  by code_simp+

lemma demo_versions:
  "content_version demo_config_env ''d'' = Some (version_text [1, 0, 0, 0])"
  "content_version demo_config_env ''s'' = Some (version_text [1, 0, 2, 0])"
  "content_version demo_config_env ''c'' = Some (version_text [1, 0, 10, 0])"
  unfolding demo_version_texts [symmetric]
  by (simp_all add: content_version_def demo_config_env_def demo_device_def demo_strategy_def demo_cloud_def
      LoadJsonValueFromContent_def GetStringFromJsonValue_def no_member_def)

text \<open>The third number of the cloud version, 10, is greater than 2 although its text is smaller.\<close>

theorem cloud_config_when_newest_witness:
  "NeedsToReadCloudConfig demo_config_env (LoadGetExtConfigFunc demo_config_env config_init)"
proof -
  have "getExtConfigFunc (LoadGetExtConfigFunc demo_config_env config_init) = Some demo_multi"
    "getSingleExtConfigFunc (LoadGetExtConfigFunc demo_config_env config_init) = Some demo_single"
    by (simp_all add: LoadGetExtConfigFunc_def demo_config_env_def)
  then show ?thesis
    using cloud_config_when_newest [of "LoadGetExtConfigFunc demo_config_env config_init" demo_multi "[''d'']" "[''s'']"
        demo_single "''c''" demo_config_env "[1, 0, 0, 0]" "[]" "[1, 0, 2, 0]" "[]" "[1, 0, 10, 0]"] demo_versions
    by (simp add: demo_multi_def demo_single_def STANDBY_CONFIG_INDEX_def STRATEGY_CONFIG_INDEX_def CLOUD_CONFIG_INDEX_def
        good_version_def)
qed

theorem parsed_entry_eligible_witness:
  "\<exists>cfg. ParseCommonResCtrlConfig demo_entry = Some cfg \<and> isEligible 3 cfg \<and> \<not> isEligible NIGHT_STANDBY cfg"
proof -
  obtain cfg where cfg: "ParseCommonResCtrlConfig demo_entry = Some cfg"
    by (simp add: demo_entry_def ParseCommonResCtrlConfig_def GetStringFromJsonValue_def GetStrArrFromJsonValue_def
        GetArrayFromJsonValue_def no_member_def)
  have conds: "GetStrArrFromJsonValue demo_entry ''condition'' [] = (True, [''day_standby&night_standby'', ''screenoff''])"
    by (simp add: demo_entry_def GetStrArrFromJsonValue_def GetArrayFromJsonValue_def no_member_def)
  show ?thesis
    using cfg parsed_entry_eligible [OF cfg conds, of 3] parsed_entry_eligible [OF cfg conds, of NIGHT_STANDBY]
    by (simp add: DAY_STANDBY_def NIGHT_STANDBY_def Let_def)
qed

theorem config_init_wf_witness:
  "\<exists>c. Config_Init demo_config_env config_init = Some (ERR_OK, c) \<and> tables_wf c \<and>
     strategyList c = map fst (filter snd (strategyListMap c))"
proof -
  have "config_roots demo_config_env STANDBY_CONFIG_INDEX STANDBY_CONFIG_PATH
      (LoadGetExtConfigFunc demo_config_env config_init) = [demo_device]"
    by (simp add: config_roots_def LoadGetExtConfigFunc_def demo_config_env_def demo_multi_def LoadJsonValueFromContent_def
        demo_device_def)
  moreover have "ParseDeviceStanbyConfig demo_device c \<noteq> None" for c
    by (simp add: ParseDeviceStanbyConfig_def demo_device_def Let_def then_section_def config_section_def GetObjFromJsonValue_def
        GetStringFromJsonValue_def no_member_def CanParsePkgTypeList_def CanParseMxStandbyList_def del: not_None_eq
        split: prod.split)
  ultimately obtain r c where c: "Config_Init demo_config_env config_init = Some (r, c)"
    by (fastforce simp: Config_Init_def GetAndParseStandbyConfig_def Let_def)
  show ?thesis
    using config_init_wf [OF c] c by simp
qed

end
