(* ===== verification/Backup.thy ===== *)
theory Backup
  imports Json
begin

text \<open>
  Backup and restore of \<open>StandbyServiceImpl\<close> (\<open>services/core/src/standby_service_impl.cpp\<close>) for
  the clone of a device: modules subscribe a pair of functions, \<open>OnBackup\<close> writes what each
  backup function yields behind a header into one file, \<open>OnRestore\<close> walks over such a file and
  hands each module its part.

  The functions of a module are handles (\<open>nat\<close>): what a backup function yields is the
  environment's \<open>on_backup\<close>, a call of a restore function is logged with its bytes. The file, the
  parcels and the text of a JSON value are answers of the environment as well. A byte is a
  \<open>char\<close>; the machine is little-endian, as all targets of the build are. The walk over the file is
  a \<open>partial_function\<close>: that it ends, on every file, is a theorem.
\<close>

section \<open>The layout of the file\<close>

fun le_bytes :: "nat \<Rightarrow> nat \<Rightarrow> char list" where
  "le_bytes 0 n = []"
| "le_bytes (Suc k) n = char_of n # le_bytes k (n div 256)"

fun of_le_bytes :: "char list \<Rightarrow> nat" where
  "of_le_bytes [] = 0"
| "of_le_bytes (c # cs) = of_char c + 256 * of_le_bytes cs"

lemma length_le_bytes [simp]: "length (le_bytes k n) = k"
  by (induction k arbitrary: n) auto

lemma of_le_bytes_le_bytes: "of_le_bytes (le_bytes k n) = n mod 256 ^ k"
proof (induction k arbitrary: n)
  case (Suc k)
  have "n mod 256 ^ Suc k = n mod 256 + 256 * (n div 256 mod 256 ^ k)"
    by (simp add: mod_mult2_eq)
  then show ?case
    using Suc [of "n div 256"] by simp
qed simp

record CloneFileHead =
  moduleName :: "char list"
  fileOffset :: u32
  fileSize :: u32

definition MODULE_NAME_SIZE :: nat where "MODULE_NAME_SIZE = 32"

definition HEAD_SIZE :: nat where "HEAD_SIZE = 40"

text \<open>\<open>strncpy_s\<close> of a C string into a zeroed array of 32 bytes, which fails when the terminator does not fit.\<close>

definition copy_name :: "string \<Rightarrow> char list option" where
  "copy_name name =
     (let s = c_str name in
      if MODULE_NAME_SIZE \<le> length s then None
      else Some (s @ replicate (MODULE_NAME_SIZE - length s) NUL))"

definition head_bytes :: "CloneFileHead \<Rightarrow> char list" where
  "head_bytes h = moduleName h @ le_bytes 4 (unat (fileOffset h)) @ le_bytes 4 (unat (fileSize h))"

definition read_head :: "char list \<Rightarrow> nat \<Rightarrow> CloneFileHead" where
  "read_head buff offset =
     \<lparr> moduleName = take 32 (drop offset buff),
       fileOffset = of_nat (of_le_bytes (take 4 (drop (offset + 32) buff))),
       fileSize = of_nat (of_le_bytes (take 4 (drop (offset + 36) buff))) \<rparr>"

section \<open>State and environment\<close>

text \<open>Both maps are \<open>std::map\<close>s, sorted by the name of the module.\<close>

record backup_state =
  onBackupFuncMap :: "(string \<times> nat) list"
  onRestoreFuncMap :: "(string \<times> nat) list"

record backup_env =
  on_backup :: "nat \<Rightarrow> err \<times> char list"
  save_file :: "char list \<Rightarrow> bool"
  open_file :: bool
  write_fd :: "char list option \<Rightarrow> bool"
  write_string :: "string \<Rightarrow> bool"
  parcel_fd :: "char list option"
  read_whole :: bool
  json_dump :: "json \<Rightarrow> string"
  invalid_operation :: int

datatype backup_call =
    BC_SaveBuffer "char list"
  | BC_WriteFd "char list option"
  | BC_WriteString string
  | BC_RemoveFile
  | BC_Restore nat "char list"

definition EXTENSION_ERROR_CODE :: int where "EXTENSION_ERROR_CODE = 13500099"

definition ERR_INVALID_OPERATION :: "backup_env \<Rightarrow> err" where
  "ERR_INVALID_OPERATION e = Ext_Err (invalid_operation e)"

definition BuildBackupReplyCode :: "backup_env \<Rightarrow> int \<Rightarrow> string" where
  "BuildBackupReplyCode e replyCode =
     json_dump e (JObject [(''resultInfo'', JArray [JObject
       [(''errorCode'', JString (to_string_int replyCode)), (''errorInfo'', JString ''''),
        (''type'', JString ''ErrorInfo'')]])])"

section \<open>Subscription\<close>

definition SubscribeBackupRestoreCallback ::
  "backup_env \<Rightarrow> string \<Rightarrow> nat \<Rightarrow> nat \<Rightarrow> backup_state \<Rightarrow> err \<times> backup_state" where
  "SubscribeBackupRestoreCallback e name onBackupFunc onRestoreFunc b =
     (if map_of (onBackupFuncMap b) name \<noteq> None then (ERR_INVALID_OPERATION e, b)
      else (ERR_OK, b\<lparr> onBackupFuncMap := std_insert fst (name, onBackupFunc) (onBackupFuncMap b),
                       onRestoreFuncMap := std_insert fst (name, onRestoreFunc) (onRestoreFuncMap b) \<rparr>))"

definition UnsubscribeBackupRestoreCallback :: "string \<Rightarrow> backup_state \<Rightarrow> err \<times> backup_state" where
  "UnsubscribeBackupRestoreCallback name b =
     (ERR_OK, b\<lparr> onBackupFuncMap := AList.delete name (onBackupFuncMap b),
                 onRestoreFuncMap := AList.delete name (onRestoreFuncMap b) \<rparr>)"

section \<open>Backup\<close>

definition backup_module :: "backup_env \<Rightarrow> string \<times> nat \<Rightarrow> char list \<Rightarrow> char list" where
  "backup_module e m buff =
     (case on_backup e (snd m) of (err, moduleBuff) \<Rightarrow>
        case copy_name (fst m) of
          None \<Rightarrow> buff
        | Some name \<Rightarrow>
            if err \<noteq> ERR_OK then buff
            else buff @ head_bytes \<lparr> moduleName = name, fileOffset = of_nat (length buff),
                                     fileSize = of_nat (length moduleBuff) \<rparr> @ moduleBuff)"

definition backup_buffer :: "backup_env \<Rightarrow> backup_state \<Rightarrow> char list" where
  "backup_buffer e b = fold (backup_module e) (onBackupFuncMap b) []"

definition OnBackup :: "backup_env \<Rightarrow> backup_state \<Rightarrow> err \<times> backup_call list" where
  "OnBackup e b =
     (let buff = backup_buffer e b;
          save = (if buff \<noteq> [] then [BC_SaveBuffer buff] else []);
          saved = buff \<noteq> [] \<and> save_file e buff;
          fd = (if saved \<and> open_file e then Some buff else None);
          replyCode = BuildBackupReplyCode e (if saved then 0 else EXTENSION_ERROR_CODE)
      in if \<not> write_fd e fd then (ERR_INVALID_OPERATION e, save @ [BC_WriteFd fd, BC_RemoveFile])
         else (if write_string e replyCode then ERR_OK else ERR_INVALID_OPERATION e,
               save @ [BC_WriteFd fd, BC_WriteString replyCode, BC_RemoveFile]))"

section \<open>Restore\<close>

partial_function (option) restore_loop ::
  "(string \<times> nat) list \<Rightarrow> nat \<Rightarrow> char list \<Rightarrow> nat \<Rightarrow> backup_call list option" where
  "restore_loop funcs fileLength buff offset =
     (if offset + HEAD_SIZE < fileLength then
        let buff' = buff[offset + MODULE_NAME_SIZE - 1 := NUL];
            head = read_head buff' offset;
            size = unat (fileSize head)
        in if fileLength < offset + (HEAD_SIZE + size) then Some []
           else Option.bind (restore_loop funcs fileLength buff' (offset + (HEAD_SIZE + size)))
                  (\<lambda>calls. Some ((case map_of funcs (c_str (moduleName head)) of
                        None \<Rightarrow> []
                      | Some f \<Rightarrow> [BC_Restore f (take size (drop (offset + HEAD_SIZE) buff'))]) @ calls))
      else Some [])"

definition OnRestore :: "backup_env \<Rightarrow> backup_state \<Rightarrow> (err \<times> backup_call list) option" where
  "OnRestore e b =
     (case parcel_fd e of
        None \<Rightarrow> Some (ERR_INVALID_OPERATION e, [])
      | Some buff \<Rightarrow>
          let ok = read_whole e \<and> length buff \<noteq> 0;
              replyCode = BuildBackupReplyCode e (if ok then 0 else EXTENSION_ERROR_CODE)
          in Option.bind (if ok then restore_loop (onRestoreFuncMap b) (length buff) buff 0 else Some [])
               (\<lambda>calls. Some (if write_string e replyCode then ERR_OK else ERR_INVALID_OPERATION e,
                  calls @ [BC_WriteString replyCode])))"

text \<open>\<open>StandbyService::OnExtension\<close>.\<close>

definition OnExtension :: "backup_env \<Rightarrow> string \<Rightarrow> backup_state \<Rightarrow> (err \<times> backup_call list) option" where
  "OnExtension e extension b =
     (if extension = ''backup'' then Some (OnBackup e b)
      else if extension = ''restore'' then OnRestore e b
      else Some (ERR_OK, []))"

section \<open>The maps of the modules\<close>

definition backup_inv :: "backup_state \<Rightarrow> bool" where
  "backup_inv b \<longleftrightarrow> map fst (onBackupFuncMap b) = map fst (onRestoreFuncMap b) \<and>
     std_set fst (onBackupFuncMap b)"

lemma keys_std_insert_cong:
  "map fst xs = map fst ys \<Longrightarrow> map fst (std_insert fst (k, v) xs) = map fst (std_insert fst (k, w) ys)"
proof (induction xs arbitrary: ys)
  case (Cons x xs)
  then obtain y ys' where "ys = y # ys'" "fst x = fst y" "map fst xs = map fst ys'"
    by (cases ys) auto
  then show ?case using Cons.IH [of ys'] by auto
qed simp

lemma keys_delete_cong:
  "map fst xs = map fst ys \<Longrightarrow> map fst (AList.delete k xs) = map fst (AList.delete k ys)"
proof (induction xs arbitrary: ys)
  case (Cons x xs)
  then obtain y ys' where "ys = y # ys'" "fst x = fst y" "map fst xs = map fst ys'"
    by (cases ys) auto
  then show ?case using Cons.IH [of ys'] by (cases x; cases y) auto
qed simp

lemma std_set_delete: "std_set fst xs \<Longrightarrow> std_set fst (AList.delete k xs)"
  by (induction xs) (auto simp: AList.delete_eq)

lemma subscribe_inv:
  "backup_inv b \<Longrightarrow> backup_inv (snd (SubscribeBackupRestoreCallback e name f g b))"
  using keys_std_insert_cong [of "onBackupFuncMap b" "onRestoreFuncMap b" name f g]
  by (auto simp: SubscribeBackupRestoreCallback_def backup_inv_def simp del: map_map intro!: std_insert_sorted)

lemma unsubscribe_inv:
  "backup_inv b \<Longrightarrow> backup_inv (snd (UnsubscribeBackupRestoreCallback name b))"
  by (auto simp: UnsubscribeBackupRestoreCallback_def backup_inv_def
      intro!: keys_delete_cong std_set_delete)

section \<open>Reading back what was written\<close>

lemma of_le_bytes_4 [simp]: "of_nat (of_le_bytes (le_bytes 4 (unat w))) = (w :: u32)"
proof -
  have "unat w < 2 ^ 32"
    by (rule order_less_le_trans [OF unsigned_less]) simp
  then have "unat w mod 256 ^ 4 = unat w"
    by simp
  then show ?thesis by (simp only: of_le_bytes_le_bytes) simp
qed

lemma copy_name_Some:
  assumes "copy_name name = Some n"
  shows "length n = 32" "c_str n = c_str name" "n ! 31 = NUL"
proof -
  have l: "length (c_str name) < 32" and n: "n = c_str name @ replicate (32 - length (c_str name)) NUL"
    using assms by (auto simp: copy_name_def MODULE_NAME_SIZE_def Let_def split: if_splits)
  have nul: "NUL \<notin> set (c_str name)"
    by (auto simp: c_str_def dest: set_takeWhileD)
  show "length n = 32" "n ! 31 = NUL"
    using l by (simp_all add: n nth_append)
  have "takeWhile (\<lambda>c. c \<noteq> NUL) (c_str name @ NUL # xs) = c_str name" for xs
    using nul by (simp add: takeWhile_append)
  moreover obtain k where "32 - length (c_str name) = Suc k"
    using l by (metis Suc_diff_Suc)
  ultimately show "c_str n = c_str name"
    by (simp add: n c_str_def [of "c_str name @ _"])
qed

lemma length_head_bytes [simp]: "length (head_bytes h) = length (moduleName h) + 8"
  by (simp add: head_bytes_def)

lemma read_head_bytes:
  assumes "length (moduleName h) = 32"
  shows "read_head (pre @ head_bytes h @ post) (length pre) = h"
  using assms by (cases h) (simp add: read_head_def head_bytes_def)

definition module_saved :: "backup_env \<Rightarrow> string \<times> nat \<Rightarrow> bool" where
  "module_saved e m \<longleftrightarrow> fst (on_backup e (snd m)) = ERR_OK \<and> copy_name (fst m) \<noteq> None"

definition module_data :: "backup_env \<Rightarrow> string \<times> nat \<Rightarrow> char list" where
  "module_data e m = snd (on_backup e (snd m))"

definition module_head :: "backup_env \<Rightarrow> string \<times> nat \<Rightarrow> nat \<Rightarrow> CloneFileHead" where
  "module_head e m pos = \<lparr> moduleName = the (copy_name (fst m)), fileOffset = of_nat pos,
     fileSize = of_nat (length (module_data e m)) \<rparr>"

definition drop_last_empty :: "backup_env \<Rightarrow> (string \<times> nat) list \<Rightarrow> (string \<times> nat) list" where
  "drop_last_empty e ms = (if ms \<noteq> [] \<and> module_data e (last ms) = [] then butlast ms else ms)"

lemma backup_module_not_saved: "\<not> module_saved e m \<Longrightarrow> backup_module e m buff = buff"
  by (auto simp: backup_module_def module_saved_def split: prod.split option.split)

lemma backup_module_saved:
  "module_saved e m \<Longrightarrow>
     backup_module e m buff = buff @ head_bytes (module_head e m (length buff)) @ module_data e m"
  by (auto simp: backup_module_def module_saved_def module_head_def module_data_def
      split: prod.split option.split)

lemma backup_fold_prefix:
  "\<exists>rest. fold (backup_module e) ms buff = buff @ rest \<and> (rest = [] \<longleftrightarrow> filter (module_saved e) ms = [])"
proof (induction ms arbitrary: buff)
  case (Cons m ms)
  show ?case
  proof (cases "module_saved e m")
    case True
    have "head_bytes h \<noteq> []" for h
      by (metis add_is_0 length_0_conv length_head_bytes numeral_eq_Suc nat.distinct(1))
    then show ?thesis
      using True Cons [of "backup_module e m buff"] by (auto simp: backup_module_saved)
  qed (simp add: backup_module_not_saved Cons)
qed simp

lemma restore_loop_unfold:
  assumes "buff[offset + 31 := NUL] = buff'" "read_head buff' offset = h" "offset + (40 + unat (fileSize h)) = pos"
  shows "restore_loop funcs len buff offset =
     (if offset + 40 < len \<and> pos \<le> len then
        map_option ((@) (case map_of funcs (c_str (moduleName h)) of None \<Rightarrow> []
            | Some f \<Rightarrow> [BC_Restore f (take (unat (fileSize h)) (drop (offset + 40) buff'))]))
          (restore_loop funcs len buff' pos)
      else Some [])"
proof -
  have "buff[offset + MODULE_NAME_SIZE - 1 := NUL] = buff'"
    using assms(1) by (simp add: MODULE_NAME_SIZE_def add.commute)
  then show ?thesis
    by (subst restore_loop.simps)
      (use assms in \<open>simp add: HEAD_SIZE_def Let_def map_option_case del: One_nat_def split: option.split\<close>)
qed

lemma restore_step:
  assumes "offset + 40 < len" "buff[offset + 31 := NUL] = buff" "read_head buff offset = h"
    and "offset + (40 + unat (fileSize h)) \<le> len" "map_of funcs (c_str (moduleName h)) = Some f"
  shows "restore_loop funcs len buff offset =
     map_option ((#) (BC_Restore f (take (unat (fileSize h)) (drop (offset + 40) buff))))
       (restore_loop funcs len buff (offset + (40 + unat (fileSize h))))"
  using assms by (simp add: restore_loop_unfold [OF assms(2,3) refl] map_option_case split: option.split)

lemma restore_saved:
  assumes "\<forall>m \<in> set ms. NUL \<notin> set (fst m) \<and> length (module_data e m) < 2 ^ 32 \<and> map_of funcs (fst m) \<noteq> None"
  shows "restore_loop funcs (length (fold (backup_module e) ms pre)) (fold (backup_module e) ms pre) (length pre) =
     Some (map (\<lambda>m. BC_Restore (the (map_of funcs (fst m))) (module_data e m))
       (drop_last_empty e (filter (module_saved e) ms)))"
  using assms
proof (induction ms arbitrary: pre)
  case Nil
  then show ?case by (simp add: restore_loop.simps drop_last_empty_def)
next
  case (Cons m ms)
  show ?case
  proof (cases "module_saved e m")
    case False
    then show ?thesis
      using Cons.IH [of pre] Cons.prems by (simp add: backup_module_not_saved)
  next
    case True
    define h where "h = module_head e m (length pre)"
    define pre' where "pre' = pre @ head_bytes h @ module_data e m"
    obtain rest where rest: "fold (backup_module e) ms pre' = pre' @ rest"
        "rest = [] \<longleftrightarrow> filter (module_saved e) ms = []"
      using backup_fold_prefix by blast
    obtain n where n: "copy_name (fst m) = Some n"
      using True by (auto simp: module_saved_def)
    have h: "length (moduleName h) = 32" "c_str (moduleName h) = fst m" "moduleName h ! 31 = NUL"
        "unat (fileSize h) = length (module_data e m)"
      using copy_name_Some [OF n] Cons.prems by (auto simp: h_def module_head_def n c_str_def unat_of_nat takeWhile_eq_all_conv)
    define B where "B = pre @ head_bytes h @ module_data e m @ rest"
    have step: "fold (backup_module e) (m # ms) pre = B"
      using rest True by (simp add: backup_module_saved pre'_def h_def B_def)
    have IH: "restore_loop funcs (length B) B (length pre') =
       Some (map (\<lambda>m. BC_Restore (the (map_of funcs (fst m))) (module_data e m))
         (drop_last_empty e (filter (module_saved e) ms)))"
      using Cons.IH [of pre'] Cons.prems rest(1) by (simp add: B_def pre'_def)
    have same: "B[length pre + 31 := NUL] = B"
    proof -
      have "B ! (length pre + 31) = NUL"
        using h(1,3) by (simp add: B_def head_bytes_def nth_append)
      then show ?thesis by (metis list_update_id)
    qed
    have head: "read_head B (length pre) = h"
      unfolding B_def using read_head_bytes [OF h(1)] by simp
    have len: "length B = length pre + (40 + length (module_data e m)) + length rest" "length pre' = length pre + (40 + length (module_data e m))"
      using h(1) by (simp_all add: B_def pre'_def)
    have data: "take (length (module_data e m)) (drop (length pre + 40) B) = module_data e m"
      using h(1) by (simp add: B_def)
    obtain f where f: "map_of funcs (fst m) = Some f"
      using Cons.prems by auto
    show ?thesis
    proof (cases "module_data e m = [] \<and> rest = []")
      case True
      then show ?thesis
        using \<open>module_saved e m\<close> rest(2)
        unfolding step by (subst restore_loop.simps) (simp add: len HEAD_SIZE_def drop_last_empty_def)
    next
      case False
      have "restore_loop funcs (length B) B (length pre) = Some (BC_Restore f (module_data e m) #
         map (\<lambda>m. BC_Restore (the (map_of funcs (fst m))) (module_data e m))
           (drop_last_empty e (filter (module_saved e) ms)))"
        using restore_step [of "length pre" "length B" B h funcs f] False same head h f data IH
        by (simp add: len)
      moreover have "drop_last_empty e (m # filter (module_saved e) ms) = m # drop_last_empty e (filter (module_saved e) ms)"
        using False rest(2) by (auto simp: drop_last_empty_def)
      ultimately show ?thesis
        unfolding step using \<open>module_saved e m\<close> f by simp
    qed
  qed
qed

section \<open>Walking over any file\<close>

fun restored_size :: "backup_call \<Rightarrow> nat" where
  "restored_size (BC_Restore f d) = HEAD_SIZE + length d"
| "restored_size _ = 0"

fun restored_funcs :: "backup_call \<Rightarrow> nat set" where
  "restored_funcs (BC_Restore f d) = {f}"
| "restored_funcs _ = {}"

lemma restore_loop_total:
  assumes "length buff = fileLength"
  shows "\<exists>calls. restore_loop funcs fileLength buff offset = Some calls \<and>
     sum_list (map restored_size calls) \<le> fileLength - offset \<and>
     \<Union> (restored_funcs ` set calls) \<subseteq> ran (map_of funcs)"
  using assms
proof (induction "fileLength - offset" arbitrary: offset buff rule: less_induct)
  case less
  define buff' where "buff' = buff[offset + 31 := NUL]"
  define h where "h = read_head buff' offset"
  define pos where "pos = offset + (40 + unat (fileSize h))"
  note unfold = restore_loop_unfold [OF buff'_def [symmetric] h_def [symmetric] pos_def [symmetric], of funcs fileLength]
  show ?case
  proof (cases "offset + 40 < fileLength \<and> pos \<le> fileLength")
    case True
    then have "fileLength - pos < fileLength - offset"
      by (auto simp: pos_def)
    from less.hyps [OF this, of buff'] less.prems
    obtain calls where c: "restore_loop funcs fileLength buff' pos = Some calls"
        "sum_list (map restored_size calls) \<le> fileLength - pos" "\<Union> (restored_funcs ` set calls) \<subseteq> ran (map_of funcs)"
      by (auto simp: buff'_def)
    with True show ?thesis
      by (auto simp: unfold pos_def ran_def HEAD_SIZE_def split: option.split)
  qed (auto simp: unfold)
qed

section \<open>Properties\<close>


text \<open>C19: Restoring the file a backup wrote calls the restore function of every module that was
  saved with exactly the bytes its backup function yielded, in order, except for a last
  module without any bytes.\<close>

theorem backup_roundtrip:
  assumes "backup_inv b'" "fst ` set (onBackupFuncMap b) \<subseteq> fst ` set (onBackupFuncMap b')"
    and "\<forall>m \<in> set (onBackupFuncMap b). NUL \<notin> set (fst m) \<and> length (module_data e m) < 2 ^ 32"
    and "filter (module_saved e) (onBackupFuncMap b) \<noteq> []"
    and "save_file e (backup_buffer e b)" "open_file e" "write_fd e (Some (backup_buffer e b))"
    and "write_string e (BuildBackupReplyCode e 0)"
  shows "let clone = backup_buffer e b; ok = BuildBackupReplyCode e 0 in
    OnBackup e b = (ERR_OK, [BC_SaveBuffer clone, BC_WriteFd (Some clone), BC_WriteString ok, BC_RemoveFile]) \<and>
    OnRestore (e\<lparr> parcel_fd := Some clone, read_whole := True \<rparr>) b' =
      Some (ERR_OK, map (\<lambda>m. BC_Restore (the (map_of (onRestoreFuncMap b') (fst m))) (module_data e m))
        (drop_last_empty e (filter (module_saved e) (onBackupFuncMap b))) @ [BC_WriteString ok])"
proof -
  obtain rest where "backup_buffer e b = rest" "rest \<noteq> []"
    using backup_fold_prefix [of e "onBackupFuncMap b" "[]"] assms(4) by (auto simp: backup_buffer_def)
  then have ne: "backup_buffer e b \<noteq> []" by simp
  have keys: "map_of (onRestoreFuncMap b') (fst m) \<noteq> None" if "m \<in> set (onBackupFuncMap b)" for m
  proof -
    have "fst ` set (onBackupFuncMap b') = fst ` set (onRestoreFuncMap b')"
      using assms(1) unfolding backup_inv_def by (metis list.set_map)
    then have "fst m \<in> fst ` set (onRestoreFuncMap b')"
      using assms(2) that by auto
    then show ?thesis by (simp add: map_of_eq_None_iff)
  qed
  have loop: "restore_loop (onRestoreFuncMap b') (length (backup_buffer e b)) (backup_buffer e b) 0 =
     Some (map (\<lambda>m. BC_Restore (the (map_of (onRestoreFuncMap b') (fst m))) (module_data e m))
        (drop_last_empty e (filter (module_saved e) (onBackupFuncMap b))))"
    using restore_saved [of "onBackupFuncMap b" e "onRestoreFuncMap b'" "[]"] assms(3) keys
    by (simp add: backup_buffer_def)
  have reply: "BuildBackupReplyCode (e\<lparr> parcel_fd := x, read_whole := y \<rparr>) c = BuildBackupReplyCode e c" for x y c
    by (simp add: BuildBackupReplyCode_def)
  show ?thesis
    using ne assms(5-8) loop by (simp add: OnBackup_def OnRestore_def Let_def reply)
qed

section \<open>Witnesses\<close>

definition demo_backup_env :: backup_env where
  "demo_backup_env = \<lparr> on_backup = (\<lambda>f. if f = 1 then (ERR_OK, ''abc'') else if f = 3 then (ERR_OK, ''z'') else (ERR_STANDBY_OBJECT_NULL, ''q'')),
     save_file = (\<lambda>_. True), open_file = True, write_fd = (\<lambda>_. True), write_string = (\<lambda>_. True),
     parcel_fd = None, read_whole = True, json_dump = (\<lambda>_. ''reply''), invalid_operation = 5 \<rparr>"

definition demo_modules :: backup_state where
  "demo_modules = \<lparr> onBackupFuncMap = [(''app'', 1), (''bad'', 2), (''net'', 3)],
     onRestoreFuncMap = [(''app'', 11), (''bad'', 12), (''net'', 13)] \<rparr>"

text \<open>Of three modules the second cannot be backed up.\<close>

theorem backup_roundtrip_witness:
  "OnRestore (demo_backup_env\<lparr> parcel_fd := Some (backup_buffer demo_backup_env demo_modules), read_whole := True \<rparr>) demo_modules =
     Some (ERR_OK, [BC_Restore 11 ''abc'', BC_Restore 13 ''z'', BC_WriteString ''reply''])"
proof -
  have "backup_inv demo_modules"
    by (simp add: demo_modules_def backup_inv_def less_list_code)
  moreover have "filter (module_saved demo_backup_env) (onBackupFuncMap demo_modules) = [(''app'', 1), (''net'', 3)]"
    by (simp add: demo_modules_def demo_backup_env_def module_saved_def copy_name_def c_str_def MODULE_NAME_SIZE_def)
  ultimately show ?thesis
    using backup_roundtrip [of demo_modules demo_modules demo_backup_env]
    by (simp add: Let_def BuildBackupReplyCode_def demo_modules_def demo_backup_env_def module_data_def drop_last_empty_def)
qed

end
