(* ===== verification/Ipc.thy ===== *)
theory Ipc
  imports Subscriber Allow_Record "HOL-Library.Monad_Syntax"
begin

text \<open>
  What crosses the process boundary: the parcel form of \<open>ResourceRequest\<close> and \<open>AllowInfo\<close>
  (\<open>interfaces/innerkits/src/resource_request.cpp\<close>, \<open>allow_info.cpp\<close>), and the channel that
  carries a callback to a subscriber, from \<open>StandbyServiceSubscriberProxy\<close> in the service
  (\<open>frameworks/src/standby_service_subscriber_proxy.cpp\<close>) to \<open>StandbyServiceSubscriberStub\<close> in
  the subscriber (\<open>interfaces/innerkits/src/standby_service_subscriber_stub.cpp\<close>).

  The parcel is the IPC library's: its operations are the parameter \<open>parcel_ops\<close>, and
  \<open>parcel_laws\<close> names what the code relies on, that values come out in the order they went in.
\<close>

section \<open>The parcel of the IPC library\<close>

datatype parcel_item = PI_Uint32 u32 | PI_Int32 i32 | PI_String string | PI_Bool bool | PI_Token string

record 'p parcel_ops =
  emptyParcel :: 'p
  writeItem :: "parcel_item \<Rightarrow> 'p \<Rightarrow> bool \<times> 'p"
  readUint32 :: "'p \<Rightarrow> (u32 \<times> 'p) option"
  readInt32 :: "'p \<Rightarrow> (i32 \<times> 'p) option"
  readString :: "'p \<Rightarrow> (string \<times> 'p) option"
  readBool :: "'p \<Rightarrow> (bool \<times> 'p) option"
  readInterfaceToken :: "'p \<Rightarrow> string \<times> 'p"

definition parcel_laws :: "'p parcel_ops \<Rightarrow> ('p \<Rightarrow> parcel_item list) \<Rightarrow> bool" where
  "parcel_laws ops contents \<longleftrightarrow>
     contents (emptyParcel ops) = []
     \<and> (\<forall>i p p'. writeItem ops i p = (True, p') \<longrightarrow> contents p' = contents p @ [i])
     \<and> (\<forall>p x r. contents p = PI_Uint32 x # r \<longrightarrow> (\<exists>p'. readUint32 ops p = Some (x, p') \<and> contents p' = r))
     \<and> (\<forall>p x r. contents p = PI_Int32 x # r \<longrightarrow> (\<exists>p'. readInt32 ops p = Some (x, p') \<and> contents p' = r))
     \<and> (\<forall>p x r. contents p = PI_String x # r \<longrightarrow> (\<exists>p'. readString ops p = Some (x, p') \<and> contents p' = r))
     \<and> (\<forall>p x r. contents p = PI_Bool x # r \<longrightarrow> (\<exists>p'. readBool ops p = Some (x, p') \<and> contents p' = r))
     \<and> (\<forall>p x r. contents p = PI_Token x # r \<longrightarrow>
          fst (readInterfaceToken ops p) = x \<and> contents (snd (readInterfaceToken ops p)) = r)
     \<and> (\<forall>p. contents p = [] \<longrightarrow> readUint32 ops p = None \<and> readInt32 ops p = None
          \<and> readString ops p = None \<and> readBool ops p = None)"

text \<open>Writes in a row, up to the first that fails (\<open>WRITE_PARCEL_WITH_RET\<close>, and \<open>||\<close>).\<close>

primrec write_all :: "'p parcel_ops \<Rightarrow> parcel_item list \<Rightarrow> 'p \<Rightarrow> bool \<times> 'p" where
  "write_all ops [] p = (True, p)"
| "write_all ops (i # r) p = (let (ok, p) = writeItem ops i p in if ok then write_all ops r p else (False, p))"

section \<open>Requests and answers as parcels\<close>

definition request_Marshalling :: "'p parcel_ops \<Rightarrow> ResourceRequest \<Rightarrow> 'p \<Rightarrow> bool \<times> 'p" where
  "request_Marshalling ops rq = write_all ops
     [PI_Uint32 (rq_allowType rq), PI_Int32 (rq_uid rq), PI_String (rq_name rq), PI_Int32 (rq_duration rq),
      PI_String (rq_reason rq), PI_Uint32 (rq_reasonCode rq)]"

definition request_ReadFromParcel :: "'p parcel_ops \<Rightarrow> 'p \<Rightarrow> (ResourceRequest \<times> 'p) option" where
  "request_ReadFromParcel ops p = do {
     (allowType, p) \<leftarrow> readUint32 ops p;
     (uid, p) \<leftarrow> readInt32 ops p;
     (name, p) \<leftarrow> readString ops p;
     (duration, p) \<leftarrow> readInt32 ops p;
     (reason, p) \<leftarrow> readString ops p;
     (reasonCode, p) \<leftarrow> readUint32 ops p;
     Some (\<lparr> rq_allowType = allowType, rq_uid = uid, rq_name = name, rq_duration = duration,
             rq_reason = reason, rq_reasonCode = reasonCode \<rparr>, p) }"

text \<open>\<open>alloc\<close>: the non-throwing \<open>new\<close> found memory. A null result is \<open>None\<close>.\<close>

definition request_Unmarshalling :: "bool \<Rightarrow> 'p parcel_ops \<Rightarrow> 'p \<Rightarrow> (ResourceRequest \<times> 'p) option" where
  "request_Unmarshalling alloc ops p = (if alloc then request_ReadFromParcel ops p else None)"

definition info_Marshalling :: "'p parcel_ops \<Rightarrow> AllowInfo \<Rightarrow> 'p \<Rightarrow> bool \<times> 'p" where
  "info_Marshalling ops i = write_all ops
     [PI_Uint32 (ai_allowType i), PI_String (ai_name i), PI_Int32 (ai_duration i)]"

definition info_ReadFromParcel :: "'p parcel_ops \<Rightarrow> 'p \<Rightarrow> (AllowInfo \<times> 'p) option" where
  "info_ReadFromParcel ops p = do {
     (allowType, p) \<leftarrow> readUint32 ops p;
     (name, p) \<leftarrow> readString ops p;
     (duration, p) \<leftarrow> readInt32 ops p;
     Some (\<lparr> ai_allowType = allowType, ai_name = name, ai_duration = duration \<rparr>, p) }"

definition info_Unmarshalling :: "bool \<Rightarrow> 'p parcel_ops \<Rightarrow> 'p \<Rightarrow> (AllowInfo \<times> 'p) option" where
  "info_Unmarshalling alloc ops p = (if alloc then info_ReadFromParcel ops p else None)"

section \<open>The subscriber's callbacks over IPC\<close>

text \<open>The virtual methods of \<open>IStandbyServiceSubscriber\<close>.\<close>

datatype callback =
    OnDeviceIdleMode bool bool
  | OnAllowListChanged i32 string u32 bool
  | OnRestrictListChanged i32 string u32 bool
  | OnPowerOverused string u32
  | OnActionChanged string u32

definition DESCRIPTOR :: string where "DESCRIPTOR = ''ohos.resourceschedule.IStandbyServiceSubscriber''"

text \<open>
  \<open>FIRST_CALL_TRANSACTION\<close>, the two error codes and the default answer of \<open>IPCObjectStub\<close> are
  the IPC library's; \<open>remoteAlive\<close> tells whether \<open>Remote()\<close> is not null.
\<close>

record 'p ipc_env =
  ops :: "'p parcel_ops"
  remoteAlive :: bool
  FIRST_CALL_TRANSACTION :: u32
  ERR_TRANSACTION_FAILED :: int
  ERR_INVALID_DATA :: int
  defaultRequest :: "u32 \<Rightarrow> 'p \<Rightarrow> int"

definition ON_DEVICE_IDLE_MODE :: "'p ipc_env \<Rightarrow> u32" where "ON_DEVICE_IDLE_MODE e = FIRST_CALL_TRANSACTION e"
definition ON_ALLOW_LIST_CHANGED :: "'p ipc_env \<Rightarrow> u32" where "ON_ALLOW_LIST_CHANGED e = FIRST_CALL_TRANSACTION e + 1"
definition ON_POWER_OVERUSED :: "'p ipc_env \<Rightarrow> u32" where "ON_POWER_OVERUSED e = FIRST_CALL_TRANSACTION e + 2"
definition ON_RESTRICT_LIST_CHANGED :: "'p ipc_env \<Rightarrow> u32" where "ON_RESTRICT_LIST_CHANGED e = FIRST_CALL_TRANSACTION e + 3"
definition ON_ACTION_CHANGED :: "'p ipc_env \<Rightarrow> u32" where "ON_ACTION_CHANGED e = FIRST_CALL_TRANSACTION e + 4"

lemmas interface_codes = ON_DEVICE_IDLE_MODE_def ON_ALLOW_LIST_CHANGED_def ON_POWER_OVERUSED_def
  ON_RESTRICT_LIST_CHANGED_def ON_ACTION_CHANGED_def

text \<open>The common shape of the proxy's methods; \<open>None\<close> when nothing is sent.\<close>

definition send_callback :: "'p ipc_env \<Rightarrow> u32 \<Rightarrow> parcel_item list \<Rightarrow> (u32 \<times> 'p) option" where
  "send_callback e code args =
     (if \<not> remoteAlive e then None
      else
        let (ok, data) = writeItem (ops e) (PI_Token DESCRIPTOR) (emptyParcel (ops e)) in
        if \<not> ok then None
        else let (ok, data) = write_all (ops e) args data in if \<not> ok then None else Some (code, data))"

definition Proxy_OnDeviceIdleMode :: "'p ipc_env \<Rightarrow> bool \<Rightarrow> bool \<Rightarrow> (u32 \<times> 'p) option" where
  "Proxy_OnDeviceIdleMode e napped sleeping =
     send_callback e (ON_DEVICE_IDLE_MODE e) [PI_Bool napped, PI_Bool sleeping]"

definition Proxy_OnAllowListChanged :: "'p ipc_env \<Rightarrow> i32 \<Rightarrow> string \<Rightarrow> u32 \<Rightarrow> bool \<Rightarrow> (u32 \<times> 'p) option" where
  "Proxy_OnAllowListChanged e uid name allowType added =
     send_callback e (ON_ALLOW_LIST_CHANGED e) [PI_Int32 uid, PI_String name, PI_Uint32 allowType, PI_Bool added]"

definition Proxy_OnRestrictListChanged :: "'p ipc_env \<Rightarrow> i32 \<Rightarrow> string \<Rightarrow> u32 \<Rightarrow> bool \<Rightarrow> (u32 \<times> 'p) option" where
  "Proxy_OnRestrictListChanged e uid name allowType added =
     send_callback e (ON_RESTRICT_LIST_CHANGED e) [PI_Int32 uid, PI_String name, PI_Uint32 allowType, PI_Bool added]"

definition Proxy_OnPowerOverused :: "'p ipc_env \<Rightarrow> string \<Rightarrow> u32 \<Rightarrow> (u32 \<times> 'p) option" where
  "Proxy_OnPowerOverused e module level = send_callback e (ON_POWER_OVERUSED e) [PI_String module, PI_Uint32 level]"

definition Proxy_OnActionChanged :: "'p ipc_env \<Rightarrow> string \<Rightarrow> u32 \<Rightarrow> (u32 \<times> 'p) option" where
  "Proxy_OnActionChanged e module act = send_callback e (ON_ACTION_CHANGED e) [PI_String module, PI_Uint32 act]"

primrec Proxy_callback :: "'p ipc_env \<Rightarrow> callback \<Rightarrow> (u32 \<times> 'p) option" where
  "Proxy_callback e (OnDeviceIdleMode napped sleeping) = Proxy_OnDeviceIdleMode e napped sleeping"
| "Proxy_callback e (OnAllowListChanged uid name allowType added) = Proxy_OnAllowListChanged e uid name allowType added"
| "Proxy_callback e (OnRestrictListChanged uid name allowType added) =
     Proxy_OnRestrictListChanged e uid name allowType added"
| "Proxy_callback e (OnPowerOverused module level) = Proxy_OnPowerOverused e module level"
| "Proxy_callback e (OnActionChanged module act) = Proxy_OnActionChanged e module act"

lemmas proxy_methods = Proxy_OnDeviceIdleMode_def Proxy_OnAllowListChanged_def Proxy_OnRestrictListChanged_def
  Proxy_OnPowerOverused_def Proxy_OnActionChanged_def

text \<open>
  The handlers of the stub return the code and the virtual method they call, if any.
\<close>

definition HandleOnDeviceIdleMode :: "'p ipc_env \<Rightarrow> 'p \<Rightarrow> int \<times> callback option" where
  "HandleOnDeviceIdleMode e p =
     (case do { (napped, p) \<leftarrow> readBool (ops e) p; (sleeped, p) \<leftarrow> readBool (ops e) p; Some (napped, sleeped) } of
        None \<Rightarrow> (ERR_INVALID_DATA e, None)
      | Some (napped, sleeped) \<Rightarrow> (0, Some (OnDeviceIdleMode napped sleeped)))"

definition read_list_change :: "'p parcel_ops \<Rightarrow> 'p \<Rightarrow> (i32 \<times> string \<times> u32 \<times> bool) option" where
  "read_list_change r p = do {
     (uid, p) \<leftarrow> readInt32 r p; (name, p) \<leftarrow> readString r p;
     (allowType, p) \<leftarrow> readUint32 r p; (added, p) \<leftarrow> readBool r p;
     Some (uid, name, allowType, added) }"

definition HandleOnAllowListChanged :: "'p ipc_env \<Rightarrow> 'p \<Rightarrow> int \<times> callback option" where
  "HandleOnAllowListChanged e p =
     (case read_list_change (ops e) p of
        None \<Rightarrow> (ERR_INVALID_DATA e, None)
      | Some (uid, name, allowType, added) \<Rightarrow> (0, Some (OnAllowListChanged uid name allowType added)))"

definition HandleOnRestrictListChanged :: "'p ipc_env \<Rightarrow> 'p \<Rightarrow> int \<times> callback option" where
  "HandleOnRestrictListChanged e p =
     (case read_list_change (ops e) p of
        None \<Rightarrow> (ERR_INVALID_DATA e, None)
      | Some (uid, name, allowType, added) \<Rightarrow> (0, Some (OnRestrictListChanged uid name allowType added)))"

definition read_module_value :: "'p parcel_ops \<Rightarrow> 'p \<Rightarrow> (string \<times> u32) option" where
  "read_module_value r p = do {
     (module, p) \<leftarrow> readString r p; (level, p) \<leftarrow> readUint32 r p; Some (module, level) }"

definition HandleOnPowerOverused :: "'p ipc_env \<Rightarrow> 'p \<Rightarrow> int \<times> callback option" where
  "HandleOnPowerOverused e p =
     (case read_module_value (ops e) p of
        None \<Rightarrow> (ERR_INVALID_DATA e, None)
      | Some (module, level) \<Rightarrow> (0, Some (OnPowerOverused module level)))"

definition HandleOnActionChanged :: "'p ipc_env \<Rightarrow> 'p \<Rightarrow> int \<times> callback option" where
  "HandleOnActionChanged e p =
     (case read_module_value (ops e) p of
        None \<Rightarrow> (ERR_INVALID_DATA e, None)
      | Some (module, act) \<Rightarrow> (0, Some (OnActionChanged module act)))"

definition OnRemoteRequestInner :: "'p ipc_env \<Rightarrow> u32 \<Rightarrow> 'p \<Rightarrow> int \<times> callback option" where
  "OnRemoteRequestInner e code p =
     (if code = ON_DEVICE_IDLE_MODE e then HandleOnDeviceIdleMode e p
      else if code = ON_ALLOW_LIST_CHANGED e then HandleOnAllowListChanged e p
      else if code = ON_RESTRICT_LIST_CHANGED e then HandleOnRestrictListChanged e p
      else if code = ON_POWER_OVERUSED e then HandleOnPowerOverused e p
      else if code = ON_ACTION_CHANGED e then HandleOnActionChanged e p
      else (defaultRequest e code p, None))"

definition OnRemoteRequest :: "'p ipc_env \<Rightarrow> u32 \<Rightarrow> 'p \<Rightarrow> int \<times> callback option" where
  "OnRemoteRequest e code p =
     (let (remoteDescriptor, p) = readInterfaceToken (ops e) p in
      if DESCRIPTOR \<noteq> remoteDescriptor then (ERR_TRANSACTION_FAILED e, None)
      else OnRemoteRequestInner e code p)"

text \<open>A callback from the service to the subscriber: the request the proxy sends, at the stub.\<close>

definition deliver :: "'p ipc_env \<Rightarrow> callback \<Rightarrow> (int \<times> callback option) option" where
  "deliver e c = map_option (\<lambda>(code, p). OnRemoteRequest e code p) (Proxy_callback e c)"

section \<open>What arrives\<close>

lemma parcel_lawsD:
  assumes "parcel_laws r contents"
  shows parcel_empty: "contents (emptyParcel r) = []"
    and parcel_write: "writeItem r i p = (True, p') \<Longrightarrow> contents p' = contents p @ [i]"
    and parcel_u32: "contents p = PI_Uint32 n # is \<Longrightarrow> \<exists>p'. readUint32 r p = Some (n, p') \<and> contents p' = is"
    and parcel_i32: "contents p = PI_Int32 m # is \<Longrightarrow> \<exists>p'. readInt32 r p = Some (m, p') \<and> contents p' = is"
    and parcel_string: "contents p = PI_String x # is \<Longrightarrow> \<exists>p'. readString r p = Some (x, p') \<and> contents p' = is"
    and parcel_bool: "contents p = PI_Bool b # is \<Longrightarrow> \<exists>p'. readBool r p = Some (b, p') \<and> contents p' = is"
    and parcel_token: "contents p = PI_Token x # is \<Longrightarrow>
          \<exists>p'. readInterfaceToken r p = (x, p') \<and> contents p' = is"
    and parcel_exhausted: "contents p = [] \<Longrightarrow> readUint32 r p = None \<and> readInt32 r p = None
          \<and> readString r p = None \<and> readBool r p = None"
proof -
  note laws = assms [unfolded parcel_laws_def]
  show "contents (emptyParcel r) = []" using laws by (elim conjE)
  show "writeItem r i p = (True, p') \<Longrightarrow> contents p' = contents p @ [i]" 
  proof -
    have "\<forall>i p p'. writeItem r i p = (True, p') \<longrightarrow> contents p' = contents p @ [i]" using laws by (elim conjE)
    then show "writeItem r i p = (True, p') \<Longrightarrow> contents p' = contents p @ [i]" by simp
  qed
  show "contents p = PI_Uint32 n # is \<Longrightarrow> \<exists>p'. readUint32 r p = Some (n, p') \<and> contents p' = is"
    using laws by (elim conjE) simp
  show "contents p = PI_Int32 m # is \<Longrightarrow> \<exists>p'. readInt32 r p = Some (m, p') \<and> contents p' = is"
    using laws by (elim conjE) simp
  show "contents p = PI_String x # is \<Longrightarrow> \<exists>p'. readString r p = Some (x, p') \<and> contents p' = is"
    using laws by (elim conjE) simp
  show "contents p = PI_Bool b # is \<Longrightarrow> \<exists>p'. readBool r p = Some (b, p') \<and> contents p' = is"
    using laws by (elim conjE) simp
  show "contents p = PI_Token x # is \<Longrightarrow> \<exists>p'. readInterfaceToken r p = (x, p') \<and> contents p' = is"
    using laws by (elim conjE) (simp add: prod_eq_iff)
  show "contents p = [] \<Longrightarrow> readUint32 r p = None \<and> readInt32 r p = None
          \<and> readString r p = None \<and> readBool r p = None"
    using laws by (elim conjE) simp
qed

lemma write_all_contents:
  assumes "parcel_laws r contents"
  shows "write_all r is p = (True, p') \<Longrightarrow> contents p' = contents p @ is"
proof (induction "is" arbitrary: p)
  case (Cons i "is")
  then show ?case
    using parcel_write [OF assms, of i p]
    by (cases "writeItem r i p") (auto split: if_splits)
qed simp

text \<open>The parcel after a successful read, so that the laws of reading are rewrite rules.\<close>

definition rest_u32 :: "'p parcel_ops \<Rightarrow> 'p \<Rightarrow> 'p" where "rest_u32 r p = snd (the (readUint32 r p))"
definition rest_i32 :: "'p parcel_ops \<Rightarrow> 'p \<Rightarrow> 'p" where "rest_i32 r p = snd (the (readInt32 r p))"
definition rest_string :: "'p parcel_ops \<Rightarrow> 'p \<Rightarrow> 'p" where "rest_string r p = snd (the (readString r p))"
definition rest_bool :: "'p parcel_ops \<Rightarrow> 'p \<Rightarrow> 'p" where "rest_bool r p = snd (the (readBool r p))"

lemma reading:
  assumes "parcel_laws r contents"
  shows "contents p = PI_Uint32 n # is \<Longrightarrow> readUint32 r p = Some (n, rest_u32 r p)"
    and "contents p = PI_Uint32 n # is \<Longrightarrow> contents (rest_u32 r p) = is"
    and "contents p = PI_Int32 m # is \<Longrightarrow> readInt32 r p = Some (m, rest_i32 r p)"
    and "contents p = PI_Int32 m # is \<Longrightarrow> contents (rest_i32 r p) = is"
    and "contents p = PI_String x # is \<Longrightarrow> readString r p = Some (x, rest_string r p)"
    and "contents p = PI_String x # is \<Longrightarrow> contents (rest_string r p) = is"
    and "contents p = PI_Bool b # is \<Longrightarrow> readBool r p = Some (b, rest_bool r p)"
    and "contents p = PI_Bool b # is \<Longrightarrow> contents (rest_bool r p) = is"
    and "contents p = [] \<Longrightarrow> readUint32 r p = None"
    and "contents p = [] \<Longrightarrow> readInt32 r p = None"
    and "contents p = [] \<Longrightarrow> readString r p = None"
    and "contents p = [] \<Longrightarrow> readBool r p = None"
  by (drule parcel_lawsD [OF assms], elim exE conjE, simp add: rest_u32_def rest_i32_def rest_string_def rest_bool_def)+

definition request_items :: "ResourceRequest \<Rightarrow> parcel_item list" where
  "request_items rq = [PI_Uint32 (rq_allowType rq), PI_Int32 (rq_uid rq), PI_String (rq_name rq),
     PI_Int32 (rq_duration rq), PI_String (rq_reason rq), PI_Uint32 (rq_reasonCode rq)]"

lemma request_Marshalling_contents:
  assumes "parcel_laws r contents" "request_Marshalling r rq p = (True, p')"
  shows "contents p' = contents p @ request_items rq"
  using write_all_contents [OF assms(1)] assms(2) unfolding request_Marshalling_def request_items_def by blast

lemma request_read:
  assumes "parcel_laws r contents" "contents p = request_items rq @ is"
  shows "\<exists>p'. request_ReadFromParcel r p = Some (rq, p') \<and> contents p' = is"
  using assms(2) by (simp add: request_ReadFromParcel_def request_items_def reading [OF assms(1)])

lemma info_read:
  assumes "parcel_laws r contents"
    and "contents p = PI_Uint32 (ai_allowType i) # PI_String (ai_name i) # PI_Int32 (ai_duration i) # is"
  shows "\<exists>p'. info_ReadFromParcel r p = Some (i, p') \<and> contents p' = is"
  using assms(2) by (simp add: info_ReadFromParcel_def reading [OF assms(1)])

lemma request_read_short:
  assumes laws: "parcel_laws r contents" and k: "k < 6" and p: "contents p = take k (request_items rq)"
  shows "request_ReadFromParcel r p = None"
proof -
  have "k = 0 \<or> k = 1 \<or> k = 2 \<or> k = 3 \<or> k = 4 \<or> k = 5" using k by auto
  then show ?thesis
    using p unfolding request_items_def request_ReadFromParcel_def
    by (elim disjE) (simp_all add: reading [OF laws] numeral_nat)
qed

text \<open>A request that was marshalled is unmarshalled as the same request, and a parcel that
  was cut off before the sixth field is refused.\<close>

theorem parcelled_request:
  assumes "parcel_laws r contents" "request_Marshalling r rq (emptyParcel r) = (True, p)"
    and "contents q = take k (contents p)"
  shows "map_option fst (request_Unmarshalling True r q) = (if k < 6 then None else Some rq)"
proof (cases "k < 6")
  case True
  then show ?thesis
    using request_read_short [OF assms(1) True, of q rq] assms(3)
      request_Marshalling_contents [OF assms(1,2)] parcel_empty [OF assms(1)]
    by (simp add: request_Unmarshalling_def)
next
  case False
  then have "contents q = request_items rq @ []"
    using assms(3) request_Marshalling_contents [OF assms(1,2)] parcel_empty [OF assms(1)]
    by (simp add: request_items_def)
  from request_read [OF assms(1) this] False show ?thesis
    by (auto simp: request_Unmarshalling_def)
qed

section \<open>Callbacks arrive\<close>

primrec callback_args :: "callback \<Rightarrow> parcel_item list" where
  "callback_args (OnDeviceIdleMode napped sleeping) = [PI_Bool napped, PI_Bool sleeping]"
| "callback_args (OnAllowListChanged uid name allowType added) =
     [PI_Int32 uid, PI_String name, PI_Uint32 allowType, PI_Bool added]"
| "callback_args (OnRestrictListChanged uid name allowType added) =
     [PI_Int32 uid, PI_String name, PI_Uint32 allowType, PI_Bool added]"
| "callback_args (OnPowerOverused module level) = [PI_String module, PI_Uint32 level]"
| "callback_args (OnActionChanged module act) = [PI_String module, PI_Uint32 act]"

primrec callback_code :: "'p ipc_env \<Rightarrow> callback \<Rightarrow> u32" where
  "callback_code e (OnDeviceIdleMode napped sleeping) = ON_DEVICE_IDLE_MODE e"
| "callback_code e (OnAllowListChanged uid name allowType added) = ON_ALLOW_LIST_CHANGED e"
| "callback_code e (OnRestrictListChanged uid name allowType added) = ON_RESTRICT_LIST_CHANGED e"
| "callback_code e (OnPowerOverused module level) = ON_POWER_OVERUSED e"
| "callback_code e (OnActionChanged module act) = ON_ACTION_CHANGED e"

lemma proxy_sends: "Proxy_callback e c = send_callback e (callback_code e c) (callback_args c)"
  by (cases c) (simp_all add: proxy_methods)

lemma read_args:
  assumes "parcel_laws r contents"
  shows read_flags: "contents p = [PI_Bool a, PI_Bool b] \<Longrightarrow>
      do { (x, p) \<leftarrow> readBool r p; (y, p) \<leftarrow> readBool r p; Some (x, y) } = Some (a, b)"
    and read_change: "contents p = [PI_Int32 uid, PI_String n, PI_Uint32 t, PI_Bool b] \<Longrightarrow>
      read_list_change r p = Some (uid, n, t, b)"
    and read_module: "contents p = [PI_String n, PI_Uint32 t] \<Longrightarrow> read_module_value r p = Some (n, t)"
  unfolding read_list_change_def read_module_value_def by (simp_all add: reading [OF assms])

lemma read_back:
  assumes "parcel_laws (ops e) contents" "contents p = callback_args c"
  shows "OnRemoteRequestInner e (callback_code e c) p = (0, Some c)"
  using assms(2) read_args [OF assms(1)]
  by (cases c)
    (simp_all add: OnRemoteRequestInner_def interface_codes HandleOnDeviceIdleMode_def
      HandleOnAllowListChanged_def HandleOnRestrictListChanged_def HandleOnPowerOverused_def
      HandleOnActionChanged_def)

lemma deliver_result:
  assumes "parcel_laws (ops e) contents"
  shows "deliver e c =
    (if remoteAlive e \<and> fst (write_all (ops e) (PI_Token DESCRIPTOR # callback_args c) (emptyParcel (ops e)))
     then Some (0, Some c) else None)"
proof (cases "send_callback e (callback_code e c) (callback_args c)")
  case None
  then show ?thesis
    by (auto simp: deliver_def proxy_sends send_callback_def split: prod.splits if_splits)
next
  case (Some q)
  then obtain t p where live: "remoteAlive e" and t: "writeItem (ops e) (PI_Token DESCRIPTOR) (emptyParcel (ops e)) = (True, t)"
    and p: "write_all (ops e) (callback_args c) t = (True, p)" and q: "q = (callback_code e c, p)"
    by (auto simp: send_callback_def split: prod.splits if_splits)
  have "contents p = PI_Token DESCRIPTOR # callback_args c"
    using parcel_empty [OF assms] parcel_write [OF assms t] write_all_contents [OF assms p] by simp
  from parcel_token [OF assms this] obtain p' where
    "readInterfaceToken (ops e) p = (DESCRIPTOR, p')" "contents p' = callback_args c" by blast
  then show ?thesis
    using Some live t p q read_back [OF assms] by (simp add: deliver_def proxy_sends OnRemoteRequest_def)
qed

text \<open>C32: Whatever parcel obeys the laws of reading what was written, a callback of the service
  reaches the stub of the subscriber as the same callback with the same arguments, exactly
  when the remote object is alive and the parcel takes the values; otherwise nothing is
  sent.\<close>

theorem callbacks_arrive:
  assumes "parcel_laws (ops e) contents"
  shows "deliver e c =
    (if remoteAlive e \<and> fst (write_all (ops e) (PI_Token DESCRIPTOR # callback_args c) (emptyParcel (ops e)))
     then Some (0, Some c) else None)"
  using assms by (rule deliver_result)

section \<open>Examples\<close>

text \<open>A parcel that keeps the typed values obeys the laws.\<close>

definition list_parcel :: "parcel_item list parcel_ops" where
  "list_parcel =
     \<lparr> emptyParcel = [], writeItem = (\<lambda>i p. (True, p @ [i])),
       readUint32 = (\<lambda>p. case p of PI_Uint32 n # r \<Rightarrow> Some (n, r) | _ \<Rightarrow> None),
       readInt32 = (\<lambda>p. case p of PI_Int32 n # r \<Rightarrow> Some (n, r) | _ \<Rightarrow> None),
       readString = (\<lambda>p. case p of PI_String x # r \<Rightarrow> Some (x, r) | _ \<Rightarrow> None),
       readBool = (\<lambda>p. case p of PI_Bool b # r \<Rightarrow> Some (b, r) | _ \<Rightarrow> None),
       readInterfaceToken = (\<lambda>p. case p of PI_Token x # r \<Rightarrow> (x, r) | _ \<Rightarrow> ([], p)) \<rparr>"

lemma list_parcel_laws: "parcel_laws list_parcel id"
  by (simp add: parcel_laws_def list_parcel_def)

definition demo_ipc :: "parcel_item list ipc_env" where
  "demo_ipc = \<lparr> ops = list_parcel, remoteAlive = True, FIRST_CALL_TRANSACTION = 1,
     ERR_TRANSACTION_FAILED = 1, ERR_INVALID_DATA = 5, defaultRequest = \<lambda>_ _. 305 \<rparr>"

definition demo_request :: ResourceRequest where
  "demo_request = \<lparr> rq_allowType = 3, rq_uid = 20010, rq_name = ''app'', rq_duration = 60,
     rq_reason = ''sync'', rq_reasonCode = 1 \<rparr>"

theorem parcelled_request_witness:
  "map_option fst (request_Unmarshalling True list_parcel (request_items demo_request)) = Some demo_request
   \<and> map_option fst (request_Unmarshalling True list_parcel (take 5 (request_items demo_request))) = None"
  using parcelled_request [OF list_parcel_laws, of demo_request "request_items demo_request" "request_items demo_request" 6]
    parcelled_request [OF list_parcel_laws, of demo_request "request_items demo_request" "take 5 (request_items demo_request)" 5]
  by (simp add: request_Marshalling_def request_items_def list_parcel_def)

theorem callbacks_arrive_witness:
  "deliver demo_ipc (OnAllowListChanged 20010 ''app'' 3 True) = Some (0, Some (OnAllowListChanged 20010 ''app'' 3 True))"
  using callbacks_arrive [of demo_ipc id "OnAllowListChanged 20010 ''app'' 3 True"] list_parcel_laws
  by (simp add: demo_ipc_def list_parcel_def DESCRIPTOR_def)

end
