(* ===== verification/Client.thy ===== *)
theory Client
  imports Ipc Service_Calls
begin

text \<open>
  The client side of the service: \<open>StandbyServiceClient\<close>
  (\<open>interfaces/innerkits/src/standby_service_client.cpp\<close>), which looks the service up on the first
  call and forgets it when it dies, and the two helpers by which the service itself reaches the
  application manager and the bundle manager (\<open>services/core/src/app_mgr_helper.cpp\<close>,
  \<open>bundle_manager_helper.cpp\<close>). All three keep one proxy and share the contract \<open>lazy_connection\<close>.

  The system ability manager, the casts and the generated proxy of the service's interface
  are not in the repository: \<open>sa_env\<close> holds their answers at one moment (proxies and remote
  objects are numbers) and \<open>serve\<close> is what a call through the proxy does.
\<close>

section \<open>Looking up a system ability\<close>

datatype ability_id =
    DEVICE_STANDBY_SERVICE_SYSTEM_ABILITY_ID
  | APP_MGR_SERVICE_ID
  | BUNDLE_MGR_SERVICE_SYS_ABILITY_ID

record sa_env =
  samAvailable :: bool
  GetSystemAbility :: "ability_id \<Rightarrow> nat option"
  iface_cast :: "nat \<Rightarrow> nat option"
  AsObject :: "nat \<Rightarrow> nat option"
  newRecipient :: "nat option"

definition remote_object :: "sa_env \<Rightarrow> ability_id \<Rightarrow> nat option" where
  "remote_object e i = (if \<not> samAvailable e then None else GetSystemAbility e i)"

definition cast_ability :: "ability_id \<Rightarrow> sa_env \<Rightarrow> nat option" where
  "cast_ability i e = Option.bind (remote_object e i) (iface_cast e)"

section \<open>The client of the service\<close>

text \<open>The methods of the interface (\<open>IStandbyService.idl\<close>) and what they return by reference.\<close>

datatype service_call =
    Call_SubscribeStandbyCallback subscriber string string
  | Call_UnsubscribeStandbyCallback subscriber
  | Call_ApplyAllowResource ResourceRequest
  | Call_UnapplyAllowResource ResourceRequest
  | Call_GetAllowList u32 u32
  | Call_GetRestrictList u32 u32
  | Call_ReportWorkSchedulerStatus bool i32 string
  | Call_IsStrategyEnabled string
  | Call_ReportDeviceStateChanged i32 bool
  | Call_IsDeviceInStandby
  | Call_SetNatInterval u32 bool u32
  | Call_HandleEvent u32 i64 string
  | Call_ReportPowerOverused string u32
  | Call_DelayHeartBeat i64
  | Call_ReportSceneInfo u32 i64 string
  | Call_PushProxyStateChanged u32 bool
  | Call_HeartBeatValueChanged string i32

datatype outcome = Out_None | Out_Bool bool | Out_Infos "AllowInfo list"

type_synonym 'w serve = "nat \<Rightarrow> service_call \<Rightarrow> 'w \<Rightarrow> (err \<times> outcome) \<times> 'w"

datatype client_event =
    CE_AddDeathRecipient nat nat
  | CE_RemoveDeathRecipient nat "nat option"
  | CE_Call nat service_call

record client =
  standbyServiceProxy :: "nat option"
  cl_recipient :: "nat option"
  cl_events :: "client_event list"

definition client_start :: client where
  "client_start = \<lparr> standbyServiceProxy = None, cl_recipient = None, cl_events = [] \<rparr>"

definition client_event :: "client_event \<Rightarrow> client \<Rightarrow> client" where
  "client_event v s = s\<lparr>cl_events := cl_events s @ [v]\<rparr>"

definition GetStandbyServiceProxy :: "sa_env \<Rightarrow> client \<Rightarrow> bool \<times> client" where
  "GetStandbyServiceProxy e s =
     (if standbyServiceProxy s \<noteq> None then (True, s)
      else case remote_object e DEVICE_STANDBY_SERVICE_SYSTEM_ABILITY_ID of
        None \<Rightarrow> (False, s)
      | Some remoteObject \<Rightarrow>
          let s = s\<lparr>standbyServiceProxy := iface_cast e remoteObject\<rparr> in
          case iface_cast e remoteObject of
            None \<Rightarrow> (False, s)
          | Some proxy \<Rightarrow>
              if AsObject e proxy = None then (False, s)
              else
                let s = s\<lparr>cl_recipient := newRecipient e\<rparr> in
                case newRecipient e of
                  None \<Rightarrow> (False, s)
                | Some r \<Rightarrow> (True, client_event (CE_AddDeathRecipient proxy r) s))"

definition ResetStandbyServiceClient :: "sa_env \<Rightarrow> client \<Rightarrow> client" where
  "ResetStandbyServiceClient e s =
     (let s = (case standbyServiceProxy s of
                 None \<Rightarrow> s
               | Some proxy \<Rightarrow>
                   if AsObject e proxy \<noteq> None
                   then client_event (CE_RemoveDeathRecipient proxy (cl_recipient s)) s else s)
      in s\<lparr>standbyServiceProxy := None\<rparr>)"

text \<open>The death recipient.\<close>

definition Client_OnRemoteDied :: "sa_env \<Rightarrow> client \<Rightarrow> client" where
  "Client_OnRemoteDied e = ResetStandbyServiceClient e"

text \<open>
  The common shape of the calls: \<open>None\<close> for the call stands for a null argument, which is
  looked at after the connection.
\<close>

definition forward :: "'w serve \<Rightarrow> service_call \<Rightarrow> client \<times> 'w \<Rightarrow> (err \<times> outcome) \<times> client \<times> 'w" where
  "forward serve c = (\<lambda>(s, w).
     (let proxy = the (standbyServiceProxy s); (ret, w) = serve proxy c w
      in (ret, client_event (CE_Call proxy c) s, w)))"

definition with_proxy ::
  "sa_env \<Rightarrow> 'w serve \<Rightarrow> service_call option \<Rightarrow> client \<times> 'w \<Rightarrow> (err \<times> outcome) \<times> client \<times> 'w" where
  "with_proxy e serve c = (\<lambda>(s, w).
     (let (connected, s) = GetStandbyServiceProxy e s in
      if \<not> connected then ((ERR_STANDBY_SERVICE_NOT_CONNECTED, Out_None), s, w)
      else case c of
        None \<Rightarrow> ((ERR_STANDBY_INVALID_PARAM, Out_None), s, w)
      | Some c \<Rightarrow> forward serve c (s, w)))"

definition Client_SubscribeStandbyCallback :: "sa_env \<Rightarrow> 'w serve \<Rightarrow> subscriber option \<Rightarrow> client \<times> 'w \<Rightarrow> err \<times> client \<times> 'w" where
  "Client_SubscribeStandbyCallback e serve subscriber sw =
     (let ((ret, _), sw) = with_proxy e serve
            (map_option (\<lambda>x. Call_SubscribeStandbyCallback x (sb_name x) (sb_module x)) subscriber) sw
      in (ret, sw))"

definition Client_UnsubscribeStandbyCallback :: "sa_env \<Rightarrow> 'w serve \<Rightarrow> subscriber option \<Rightarrow> client \<times> 'w \<Rightarrow> err \<times> client \<times> 'w" where
  "Client_UnsubscribeStandbyCallback e serve subscriber sw =
     (let ((ret, _), sw) = with_proxy e serve (map_option Call_UnsubscribeStandbyCallback subscriber) sw in (ret, sw))"

definition Client_ApplyAllowResource :: "sa_env \<Rightarrow> 'w serve \<Rightarrow> ResourceRequest option \<Rightarrow> client \<times> 'w \<Rightarrow> err \<times> client \<times> 'w" where
  "Client_ApplyAllowResource e serve resourceRequest sw =
     (let ((ret, _), sw) = with_proxy e serve (map_option Call_ApplyAllowResource resourceRequest) sw in (ret, sw))"

definition Client_UnapplyAllowResource :: "sa_env \<Rightarrow> 'w serve \<Rightarrow> ResourceRequest option \<Rightarrow> client \<times> 'w \<Rightarrow> err \<times> client \<times> 'w" where
  "Client_UnapplyAllowResource e serve resourceRequest sw =
     (let ((ret, _), sw) = with_proxy e serve (map_option Call_UnapplyAllowResource resourceRequest) sw in (ret, sw))"

text \<open>
  Calls with a result by reference take the caller's value and return what it holds afterwards:
  the generated proxy leaves it alone when the call fails.
\<close>

definition list_query :: "sa_env \<Rightarrow> 'w serve \<Rightarrow> service_call \<Rightarrow> AllowInfo list \<Rightarrow> client \<times> 'w \<Rightarrow>
    err \<times> AllowInfo list \<times> client \<times> 'w" where
  "list_query e serve c infos = (\<lambda>(s, w).
     (let (connected, s) = GetStandbyServiceProxy e s in
      if \<not> connected then (ERR_STANDBY_SERVICE_NOT_CONNECTED, infos, s, w)
      else let ((ret, out), sw) = forward serve c (s, w)
           in (ret, (case out of Out_Infos l \<Rightarrow> l | _ \<Rightarrow> []), sw)))"

definition Client_GetAllowList :: "sa_env \<Rightarrow> 'w serve \<Rightarrow> u32 \<Rightarrow> AllowInfo list \<Rightarrow> u32 \<Rightarrow> client \<times> 'w \<Rightarrow>
    err \<times> AllowInfo list \<times> client \<times> 'w" where
  "Client_GetAllowList e serve allowType allowInfoArray reasonCode =
     list_query e serve (Call_GetAllowList allowType reasonCode) allowInfoArray"

definition Client_GetRestrictList :: "sa_env \<Rightarrow> 'w serve \<Rightarrow> u32 \<Rightarrow> AllowInfo list \<Rightarrow> u32 \<Rightarrow> client \<times> 'w \<Rightarrow>
    err \<times> AllowInfo list \<times> client \<times> 'w" where
  "Client_GetRestrictList e serve restrictType restrictInfoList reasonCode =
     list_query e serve (Call_GetRestrictList restrictType reasonCode) restrictInfoList"

definition bool_query :: "sa_env \<Rightarrow> 'w serve \<Rightarrow> service_call \<Rightarrow> bool \<Rightarrow> client \<times> 'w \<Rightarrow> err \<times> bool \<times> client \<times> 'w" where
  "bool_query e serve c b sw =
     (let ((ret, out), sw) = with_proxy e serve (Some c) sw
      in (ret, (case out of Out_Bool b' \<Rightarrow> b' | _ \<Rightarrow> b), sw))"

definition Client_IsDeviceInStandby :: "sa_env \<Rightarrow> 'w serve \<Rightarrow> bool \<Rightarrow> client \<times> 'w \<Rightarrow> err \<times> bool \<times> client \<times> 'w" where
  "Client_IsDeviceInStandby e serve isStandby = bool_query e serve Call_IsDeviceInStandby isStandby"

definition Client_IsStrategyEnabled :: "sa_env \<Rightarrow> 'w serve \<Rightarrow> string \<Rightarrow> bool \<Rightarrow> client \<times> 'w \<Rightarrow> err \<times> bool \<times> client \<times> 'w" where
  "Client_IsStrategyEnabled e serve strategyName isEnabled = bool_query e serve (Call_IsStrategyEnabled strategyName) isEnabled"

definition simple_call :: "sa_env \<Rightarrow> 'w serve \<Rightarrow> service_call \<Rightarrow> client \<times> 'w \<Rightarrow> err \<times> client \<times> 'w" where
  "simple_call e serve c sw = (let ((ret, _), sw) = with_proxy e serve (Some c) sw in (ret, sw))"

definition Client_SetNatInterval :: "sa_env \<Rightarrow> 'w serve \<Rightarrow> u32 \<Rightarrow> bool \<Rightarrow> u32 \<Rightarrow> client \<times> 'w \<Rightarrow> err \<times> client \<times> 'w" where
  "Client_SetNatInterval e serve type enable interval = simple_call e serve (Call_SetNatInterval type enable interval)"

definition Client_HandleEvent :: "sa_env \<Rightarrow> 'w serve \<Rightarrow> u32 \<Rightarrow> i64 \<Rightarrow> string \<Rightarrow> client \<times> 'w \<Rightarrow> err \<times> client \<times> 'w" where
  "Client_HandleEvent e serve resType val sceneInfo = simple_call e serve (Call_HandleEvent resType val sceneInfo)"

definition Client_ReportWorkSchedulerStatus :: "sa_env \<Rightarrow> 'w serve \<Rightarrow> bool \<Rightarrow> i32 \<Rightarrow> string \<Rightarrow> client \<times> 'w \<Rightarrow> err \<times> client \<times> 'w" where
  "Client_ReportWorkSchedulerStatus e serve started uid bundleName =
     simple_call e serve (Call_ReportWorkSchedulerStatus started uid bundleName)"

definition Client_ReportPowerOverused :: "sa_env \<Rightarrow> 'w serve \<Rightarrow> string \<Rightarrow> u32 \<Rightarrow> client \<times> 'w \<Rightarrow> err \<times> client \<times> 'w" where
  "Client_ReportPowerOverused e serve module level = simple_call e serve (Call_ReportPowerOverused module level)"

definition Client_DelayHeartBeat :: "sa_env \<Rightarrow> 'w serve \<Rightarrow> i64 \<Rightarrow> client \<times> 'w \<Rightarrow> err \<times> client \<times> 'w" where
  "Client_DelayHeartBeat e serve timestamp = simple_call e serve (Call_DelayHeartBeat timestamp)"

definition Client_ReportSceneInfo :: "sa_env \<Rightarrow> 'w serve \<Rightarrow> u32 \<Rightarrow> i64 \<Rightarrow> string \<Rightarrow> client \<times> 'w \<Rightarrow> err \<times> client \<times> 'w" where
  "Client_ReportSceneInfo e serve resType val sceneInfo = simple_call e serve (Call_ReportSceneInfo resType val sceneInfo)"

definition Client_ReportDeviceStateChanged :: "sa_env \<Rightarrow> 'w serve \<Rightarrow> i32 \<Rightarrow> bool \<Rightarrow> client \<times> 'w \<Rightarrow> err \<times> client \<times> 'w" where
  "Client_ReportDeviceStateChanged e serve type enabled = simple_call e serve (Call_ReportDeviceStateChanged type enabled)"

definition Client_PushProxyStateChanged :: "sa_env \<Rightarrow> 'w serve \<Rightarrow> u32 \<Rightarrow> bool \<Rightarrow> client \<times> 'w \<Rightarrow> err \<times> client \<times> 'w" where
  "Client_PushProxyStateChanged e serve type enable = simple_call e serve (Call_PushProxyStateChanged type enable)"

definition Client_HeartBeatValueChanged :: "sa_env \<Rightarrow> 'w serve \<Rightarrow> string \<Rightarrow> i32 \<Rightarrow> client \<times> 'w \<Rightarrow> err \<times> client \<times> 'w" where
  "Client_HeartBeatValueChanged e serve tag timesTamp = simple_call e serve (Call_HeartBeatValueChanged tag timesTamp)"

section \<open>The application manager and the bundle manager\<close>

text \<open>The state of each helper is its proxy.\<close>

definition App_Connect :: "sa_env \<Rightarrow> nat option \<Rightarrow> bool \<times> nat option" where
  "App_Connect e appMgrProxy =
     (if appMgrProxy \<noteq> None then (True, appMgrProxy)
      else case remote_object e APP_MGR_SERVICE_ID of
        None \<Rightarrow> (False, appMgrProxy)
      | Some remoteObject \<Rightarrow>
          (case iface_cast e remoteObject of
             None \<Rightarrow> (False, None)
           | Some proxy \<Rightarrow> (AsObject e proxy \<noteq> None, Some proxy)))"

definition Bundle_Connect :: "sa_env \<Rightarrow> nat option \<Rightarrow> bool \<times> nat option" where
  "Bundle_Connect e bundleMgr =
     (if bundleMgr \<noteq> None then (True, bundleMgr)
      else case remote_object e BUNDLE_MGR_SERVICE_SYS_ABILITY_ID of
        None \<Rightarrow> (False, bundleMgr)
      | Some remoteObject \<Rightarrow> (iface_cast e remoteObject \<noteq> None, iface_cast e remoteObject))"

text \<open>
  The queries: \<open>ask\<close> is the manager's answer on a proxy, an error code with the list or the
  value by reference. A result \<open>None\<close> is the return value false.
\<close>

definition checked_query :: "sa_env \<Rightarrow> (nat \<Rightarrow> err \<times> 'a) \<Rightarrow> nat option \<Rightarrow> 'a option \<times> nat option" where
  "checked_query e ask p =
     (let (connected, p) = App_Connect e p in
      if \<not> connected then (None, p)
      else let (ret, answer) = ask (the p) in if ret \<noteq> ERR_OK then (None, p) else (Some answer, p))"

definition GetAllRunningProcesses :: "sa_env \<Rightarrow> (nat \<Rightarrow> err \<times> 'a list) \<Rightarrow> nat option \<Rightarrow> 'a list option \<times> nat option" where
  "GetAllRunningProcesses = checked_query"

definition AppMgr_GetForegroundApplications :: "sa_env \<Rightarrow> (nat \<Rightarrow> err \<times> 'a list) \<Rightarrow> nat option \<Rightarrow> 'a list option \<times> nat option" where
  "AppMgr_GetForegroundApplications = checked_query"

definition GetAppRunningStateByBundleName ::
  "sa_env \<Rightarrow> (nat \<Rightarrow> string \<Rightarrow> bool) \<Rightarrow> string \<Rightarrow> nat option \<Rightarrow> bool option \<times> nat option" where
  "GetAppRunningStateByBundleName e ask bundleName p =
     (let (connected, p) = App_Connect e p in
      if \<not> connected then (None, p) else (Some (ask (the p) bundleName), p))"

definition SubscribeObserver :: "sa_env \<Rightarrow> (nat \<Rightarrow> 'o \<Rightarrow> err) \<Rightarrow> 'o option \<Rightarrow> nat option \<Rightarrow> bool \<times> nat option" where
  "SubscribeObserver e register observer p =
     (case observer of
        None \<Rightarrow> (False, p)
      | Some x \<Rightarrow>
          let (connected, p) = App_Connect e p in
          if \<not> connected then (False, p) else (register (the p) x = ERR_OK, p))"

definition UnsubscribeObserver :: "sa_env \<Rightarrow> (nat \<Rightarrow> 'o \<Rightarrow> err) \<Rightarrow> 'o option \<Rightarrow> nat option \<Rightarrow> bool \<times> nat option" where
  "UnsubscribeObserver e unregister observer p =
     (case observer of
        None \<Rightarrow> (False, p)
      | Some x \<Rightarrow>
          let (connected, p) = App_Connect e p in
          if \<not> connected then (False, p) else (unregister (the p) x = ERR_OK, p))"

text \<open>
  The bundle manager: the helper looks at the proxy, not at what \<open>Connect\<close> returned. \<open>ask\<close> is
  \<open>None\<close> where the manager returns false.
\<close>

definition GetClientBundleName :: "sa_env \<Rightarrow> (nat \<Rightarrow> i32 \<Rightarrow> string) \<Rightarrow> i32 \<Rightarrow> nat option \<Rightarrow> string \<times> nat option" where
  "GetClientBundleName e ask uid p =
     (let (_, p) = Bundle_Connect e p in (case p of None \<Rightarrow> '''' | Some b \<Rightarrow> ask b uid, p))"

definition bundle_query :: "sa_env \<Rightarrow> (nat \<Rightarrow> 'a option) \<Rightarrow> nat option \<Rightarrow> 'a option \<times> nat option" where
  "bundle_query e ask p = (let (_, p) = Bundle_Connect e p in (Option.bind p ask, p))"

definition GetApplicationInfo :: "sa_env \<Rightarrow> (nat \<Rightarrow> string \<Rightarrow> 'a option) \<Rightarrow> string \<Rightarrow> nat option \<Rightarrow> 'a option \<times> nat option" where
  "GetApplicationInfo e ask appName = bundle_query e (\<lambda>b. ask b appName)"

definition GetApplicationInfos :: "sa_env \<Rightarrow> (nat \<Rightarrow> 'a list option) \<Rightarrow> nat option \<Rightarrow> 'a list option \<times> nat option" where
  "GetApplicationInfos e ask = bundle_query e ask"

definition GetAllBundleNames :: "sa_env \<Rightarrow> (nat \<Rightarrow> string list option) \<Rightarrow> nat option \<Rightarrow> string list option \<times> nat option" where
  "GetAllBundleNames e ask = bundle_query e ask"

definition CheckIsSystemAppByUid :: "sa_env \<Rightarrow> (nat \<Rightarrow> i32 \<Rightarrow> bool) \<Rightarrow> i32 \<Rightarrow> nat option \<Rightarrow> bool option \<times> nat option" where
  "CheckIsSystemAppByUid e ask uid = bundle_query e (\<lambda>b. Some (ask b uid))"

section \<open>Other helpers\<close>

text \<open>
  \<open>GetRunningSystemProcess\<close> uses the system ability manager without asking whether it is there:
  the outer \<open>None\<close> is the null pointer dereferenced.
\<close>

definition GetRunningSystemProcess :: "sa_env \<Rightarrow> err \<times> 'a list \<Rightarrow> 'a list option option" where
  "GetRunningSystemProcess e answer =
     (if \<not> samAvailable e then None
      else let (ret, l) = answer in Some (if ret \<noteq> ERR_OK then None else Some l))"

definition GetContinuousTaskApps :: "err \<times> 'a list \<Rightarrow> 'a list option" where
  "GetContinuousTaskApps answer = (let (ret, l) = answer in if ret \<noteq> ERR_OK then None else Some l)"

definition GetTransientTaskApps :: "err \<times> 'a list \<Rightarrow> 'a list option" where
  "GetTransientTaskApps answer = (let (ret, l) = answer in if ret \<noteq> ERR_OK then None else Some l)"

text \<open>The timer the service asks the time service for; the kinds of timers are that service's.\<close>

record timer_kinds =
  TIMER_TYPE_WAKEUP :: int
  TIMER_TYPE_EXACT :: int
  TIMER_TYPE_IDLE :: int

record timed_task =
  tt_repeat :: bool
  tt_interval :: u64
  tt_type :: int

definition S3_SWITCH :: string where "S3_SWITCH = ''s3_switch''"

definition TimedTask :: "timer_kinds \<Rightarrow> config_state \<Rightarrow> bool \<Rightarrow> u64 \<Rightarrow> bool \<Rightarrow> bool \<Rightarrow> timed_task" where
  "TimedTask k c repeat interval isExact isIdle =
     (let type = TIMER_TYPE_WAKEUP k;
          type = (if isExact then TIMER_TYPE_WAKEUP k + TIMER_TYPE_EXACT k else type);
          type = (if GetStandbySwitch c S3_SWITCH then TIMER_TYPE_EXACT k else type);
          type = (if isIdle then TIMER_TYPE_IDLE k else type)
      in \<lparr> tt_repeat = repeat, tt_interval = interval, tt_type = type \<rparr>)"

text \<open>\<open>create\<close> is the time service's answer, the identifier of the timer or 0.\<close>

definition CreateTimer ::
  "timer_kinds \<Rightarrow> config_state \<Rightarrow> (timed_task \<Rightarrow> u64) \<Rightarrow> bool \<Rightarrow> u64 \<Rightarrow> bool \<Rightarrow> bool \<Rightarrow> u64" where
  "CreateTimer k c create repeat interval isExact isIdle = create (TimedTask k c repeat interval isExact isIdle)"

definition CreateTimer_type :: "(timed_task \<Rightarrow> u64) \<Rightarrow> bool \<Rightarrow> u64 \<Rightarrow> int \<Rightarrow> u64" where
  "CreateTimer_type create repeat interval type =
     create \<lparr> tt_repeat = repeat, tt_interval = interval, tt_type = type \<rparr>"

definition OnTrigger :: "('s \<Rightarrow> 's) option \<Rightarrow> 's \<Rightarrow> 's" where
  "OnTrigger callBack s = (case callBack of None \<Rightarrow> s | Some f \<Rightarrow> f s)"

section \<open>The contract of a connection\<close>

text \<open>
  \<open>found e\<close> is the proxy a lookup yields at a moment; a connection that holds a proxy keeps it.
\<close>

locale lazy_connection =
  fixes connect :: "'e \<Rightarrow> 's \<Rightarrow> bool \<times> 's"
    and proxy :: "'s \<Rightarrow> nat option"
    and found :: "'e \<Rightarrow> nat option"
  assumes kept: "proxy s \<noteq> None \<Longrightarrow> fst (connect e s) \<and> proxy (snd (connect e s)) = proxy s"
    and looked_up: "proxy s = None \<Longrightarrow> proxy (snd (connect e s)) = found e"
    and success: "fst (connect e s) \<Longrightarrow> proxy (snd (connect e s)) \<noteq> None"
begin

lemma tries_kept: "proxy s \<noteq> None \<Longrightarrow> proxy (fold (\<lambda>e s. snd (connect e s)) es s) = proxy s"
  by (induction es arbitrary: s) (simp_all add: kept)

text \<open>A failed attempt that left a proxy behind counts as a connection from then on.\<close>

lemma half_connected: "proxy (snd (connect e s)) \<noteq> None \<Longrightarrow> fst (connect e' (snd (connect e s)))"
  by (simp add: kept)

text \<open>Of a series of attempts the first that finds the ability counts.\<close>

lemma first_found:
  "proxy s = None \<Longrightarrow>
    proxy (fold (\<lambda>e s. snd (connect e s)) es s) = Option.bind (List.find (\<lambda>e. found e \<noteq> None) es) found"
proof (induction es arbitrary: s)
  case (Cons e es)
  show ?case
  proof (cases "found e")
    case None
    with Cons looked_up [OF Cons.prems] show ?thesis by simp
  next
    case (Some p)
    then have "proxy (snd (connect e s)) = Some p" using looked_up [OF Cons.prems] by simp
    then show ?thesis using tries_kept [of "snd (connect e s)" es] Some by simp
  qed
qed simp

end

interpretation client_conn: lazy_connection GetStandbyServiceProxy standbyServiceProxy
  "cast_ability DEVICE_STANDBY_SERVICE_SYSTEM_ABILITY_ID"
  by unfold_locales
    (auto simp: GetStandbyServiceProxy_def cast_ability_def client_event_def Let_def split: option.splits if_splits)

interpretation app_conn: lazy_connection App_Connect id "cast_ability APP_MGR_SERVICE_ID"
  by unfold_locales (auto simp: App_Connect_def cast_ability_def split: option.splits if_splits)

interpretation bundle_conn: lazy_connection Bundle_Connect id "cast_ability BUNDLE_MGR_SERVICE_SYS_ABILITY_ID"
  by unfold_locales (auto simp: Bundle_Connect_def cast_ability_def split: option.splits if_splits)

lemma client_conn_connected: "standbyServiceProxy s = Some p \<Longrightarrow> GetStandbyServiceProxy e s = (True, s)"
  by (simp add: GetStandbyServiceProxy_def)

text \<open>A call of the client connects as well, and changes the proxy in no other way.\<close>

lemma with_proxy_state:
  "standbyServiceProxy (fst (snd (with_proxy e serve c (s, w)))) = standbyServiceProxy (snd (GetStandbyServiceProxy e s))"
  by (simp add: with_proxy_def forward_def client_event_def Let_def split: prod.splits option.splits)

interpretation call_conn: lazy_connection
  "\<lambda>(e, c) sw. (fst (GetStandbyServiceProxy e (fst sw)), snd (with_proxy e serve c sw))"
  "\<lambda>sw. standbyServiceProxy (fst sw)" "\<lambda>(e, c). cast_ability DEVICE_STANDBY_SERVICE_SYSTEM_ABILITY_ID e"
  for serve
  by unfold_locales
    (auto simp: with_proxy_state client_conn.kept client_conn.looked_up split: prod.splits
      dest: client_conn.success)

section \<open>Properties\<close>

text \<open>
  The client holds the first proxy that some call could get, and none before that: until then every
  call looks for the service again.
\<close>

lemma client_connects:
  "standbyServiceProxy (fst (fold (\<lambda>(e, c) sw. snd (with_proxy e serve c sw)) cs (client_start, w))) =
    Option.bind (List.find (\<lambda>(e, c). cast_ability DEVICE_STANDBY_SERVICE_SYSTEM_ABILITY_ID e \<noteq> None) cs)
      (\<lambda>(e, c). cast_ability DEVICE_STANDBY_SERVICE_SYSTEM_ABILITY_ID e)"
  using call_conn.first_found [of "(client_start, w)" serve cs]
  by (simp add: client_start_def case_prod_unfold)

datatype client_move = CS_Call sa_env "service_call option" | CS_Died sa_env

primrec step_env :: "client_move \<Rightarrow> sa_env" where
  "step_env (CS_Call e c) = e"
| "step_env (CS_Died e) = e"

primrec client_step :: "'w serve \<Rightarrow> client_move \<Rightarrow> client \<times> 'w \<Rightarrow> client \<times> 'w" where
  "client_step serve (CS_Call e c) sw = snd (with_proxy e serve c sw)"
| "client_step serve (CS_Died e) sw = (Client_OnRemoteDied e (fst sw), snd sw)"

text \<open>
  The monitor of a log: which proxy a death recipient is registered with, and whether every
  call went through that proxy.
\<close>

primrec watched_after :: "client_event list \<Rightarrow> nat option \<Rightarrow> nat option" where
  "watched_after [] r = r"
| "watched_after (v # l) r = watched_after l
     (case v of CE_AddDeathRecipient p d \<Rightarrow> Some p | CE_RemoveDeathRecipient p d \<Rightarrow> None | CE_Call p c \<Rightarrow> r)"

primrec watched :: "client_event list \<Rightarrow> nat option \<Rightarrow> bool" where
  "watched [] r = True"
| "watched (v # l) r =
     ((case v of CE_AddDeathRecipient p d \<Rightarrow> r = None | CE_RemoveDeathRecipient p d \<Rightarrow> r = Some p | CE_Call p c \<Rightarrow> r = Some p)
      \<and> watched l (watched_after [v] r))"

lemma watched_append:
  "watched_after (l @ l') r = watched_after l' (watched_after l r)"
  "watched (l @ l') r = (watched l r \<and> watched l' (watched_after l r))"
  by (induction l arbitrary: r) auto

definition watchable :: "sa_env \<Rightarrow> bool" where
  "watchable e \<longleftrightarrow> (\<forall>p. AsObject e p \<noteq> None) \<and> newRecipient e \<noteq> None"

definition client_watched :: "client \<Rightarrow> bool" where
  "client_watched s \<longleftrightarrow> watched (cl_events s) None \<and> watched_after (cl_events s) None = standbyServiceProxy s"

lemma connect_watched:
  assumes "watchable e" "client_watched s"
  shows "client_watched (snd (GetStandbyServiceProxy e s))"
proof -
  have [simp]: "(AsObject e p = None) = False" for p using assms(1) by (simp add: watchable_def)
  obtain r where "newRecipient e = Some r" using assms(1) by (auto simp: watchable_def)
  then show ?thesis
    using assms(2)
    by (auto simp: client_watched_def GetStandbyServiceProxy_def client_event_def Let_def watched_append
        split: option.splits)
qed

lemma call_watched:
  assumes "watchable e" "client_watched s"
  shows "client_watched (fst (snd (with_proxy e serve c (s, w))))"
proof -
  let ?s = "snd (GetStandbyServiceProxy e s)"
  have "client_watched ?s" by (rule connect_watched [OF assms])
  moreover have "fst (GetStandbyServiceProxy e s) \<Longrightarrow> \<exists>p. standbyServiceProxy ?s = Some p"
    using client_conn.success by blast
  ultimately show ?thesis
    by (auto simp: with_proxy_def forward_def client_event_def client_watched_def watched_append Let_def
        split: prod.splits option.splits)
qed

lemma died_watched:
  assumes "watchable e" "client_watched s"
  shows "client_watched (Client_OnRemoteDied e s)"
  using assms
  by (auto simp: Client_OnRemoteDied_def ResetStandbyServiceClient_def client_event_def client_watched_def
      watchable_def watched_append split: option.splits)

text \<open>C33: Over any sequence of calls and deaths of the service, as long as every proxy has its
  object and recipients can be allocated, each call goes through the one proxy whose death
  is being watched, and a new proxy is watched only after the old one was given up.\<close>

theorem client_calls_watched:
  assumes "\<forall>x \<in> set steps. watchable (step_env x)"
  shows "watched (cl_events (fst (fold (client_step serve) steps (client_start, w)))) None"
proof -
  have "client_watched s \<Longrightarrow> client_watched (fst (fold (client_step serve) steps (s, w)))" for s
    using assms
  proof (induction steps arbitrary: s w)
    case (Cons x steps)
    obtain s' w' where step: "client_step serve x (s, w) = (s', w')" by force
    have "client_watched s'"
      using Cons.prems step by (cases x) (auto dest: call_watched [where serve = serve] died_watched simp: prod_eq_iff)
    then show ?case using Cons step by simp
  qed simp
  then show ?thesis by (simp add: client_watched_def client_start_def)
qed

section \<open>Examples\<close>

definition demo_sa :: "bool \<Rightarrow> nat \<Rightarrow> sa_env" where
  "demo_sa up n = \<lparr> samAvailable = up, GetSystemAbility = \<lambda>i. Some n, iface_cast = Some, AsObject = Some,
     newRecipient = Some 1 \<rparr>"

theorem client_calls_watched_witness:
  "watched (cl_events (fst (fold (client_step (\<lambda>p c w. ((ERR_OK, Out_None), w)))
     [CS_Call (demo_sa False 7) (Some Call_IsDeviceInStandby), CS_Call (demo_sa True 7) (Some Call_IsDeviceInStandby),
      CS_Died (demo_sa True 7), CS_Call (demo_sa True 8) (Some Call_IsDeviceInStandby)] (client_start, ())))) None"
  by (rule client_calls_watched) (simp add: watchable_def demo_sa_def)

end
