(* ===== verification/Bindings.thy ===== *)
theory Bindings
  imports Client Backup Standby_System
begin

text \<open>
  The two script bindings of the client: the JavaScript functions of
  \<open>interfaces/kits/napi/src/standby_napi_module.cpp\<close> with \<open>common.cpp\<close>, and the ArkTS functions of
  \<open>interfaces/kits/ani/src/ohos.deviceStandby.impl.cpp\<close>: how they check their arguments, which
  request they hand to \<open>StandbyServiceClient\<close>, and which error the script sees.

  Node-API is not in the repository: \<open>napi\<close> holds its answers about a script value of type \<open>'v\<close>;
  \<open>None\<close> is a status other than \<open>napi_ok\<close>.
\<close>

section \<open>Error messages\<close>

definition saErrCodeMsgMap :: "(int \<times> string) list" where
  "saErrCodeMsgMap = [
     (201, ''Permission denied.''),
     (202, ''System API verification failed.''),
     (980000101, ''Memory operation failed. Failed to allocate the memory.''),
     (980000201, ''Parcel operation failed. Possible reasons: 1. Invalid parameters''),
     (980000301, ''IPC failed.''),
     (980000401, ''System service operation failed. The system service is not ready.''),
     (980000403, ''System service operation failed. The system service is not connected.''),
     (980000501, ''Standby service verification failed. The application has subscribed standby callback.''),
     (980000601, ''Config file of standby service load failed, please check the path of the config file.''),
     (980000602, ''Config file of standby service load failed, please check the format and content of the config file.''),
     (980000801, ''Plugin of standby service doesn'' @ [CHR 0x27] @ ''t exist.''),
     (980000802, ''Export plugin function doesn'' @ [CHR 0x27] @ ''t exist.''),
     (980000803, ''Plugin of standby service is not available.''),
     (980000804, ''The singleton object loaded from plugin doesn'' @ [CHR 0x27] @ ''t exist.''),
     (980000901, ''The state manager adapter can not be nullptr.'')]"

definition paramErrCodeMsgMap :: "(int \<times> string) list" where
  "paramErrCodeMsgMap = [
     (401, ''The input param is invalid.''),
     (9800401, ''The number of arguments is wrong.''),
     (9800402, ''The callback cannot be null and its type must be function.''),
     (9800404, ''The resourcesType cannot be null and must be integer greater than 0and less than maximum value.''),
     (9800405, ''The uid can not less than 0''),
     (9800406, ''The name must be valid string and can not be empty''),
     (9800407, ''The duration must be valid integer and can not less than 0''),
     (9800408, ''The reason cannot be null and its type must be string.'')]"

lemma paramErrCodes_keys: "paramErrCodes = map fst paramErrCodeMsgMap"
  by (simp add: paramErrCodes_def paramErrCodeMsgMap_def)

definition param_message :: "string \<Rightarrow> string" where
  "param_message m = ''BussinessError 401: Parameter error. '' @ m"

definition FindErrMsg :: "int \<Rightarrow> string" where
  "FindErrMsg errCode =
     (if errCode = 0 then ''''
      else case map_of saErrCodeMsgMap errCode of
        Some m \<Rightarrow> ''BussinessError '' @ to_string_int (FindErrCode errCode) @ '': '' @ m
      | None \<Rightarrow> (case map_of paramErrCodeMsgMap errCode of
            Some m \<Rightarrow> param_message m
          | None \<Rightarrow> ''Inner error.''))"

text \<open>What the script sees: an error with its code and message, or Node-API's own last error.\<close>

datatype script_error = Throw int string | LastError

definition HandleErrCode :: "int \<Rightarrow> script_error list" where
  "HandleErrCode errCode =
     (if errCode = 0 then []
      else if FindErrMsg errCode \<noteq> '''' then [Throw (FindErrCode errCode) (FindErrMsg errCode)] else [])"

definition HandleParamErr :: "err \<Rightarrow> script_error list" where
  "HandleParamErr errCode =
     (if errCode = ERR_OK then []
      else case map_of paramErrCodeMsgMap (err_value errCode) of
        Some m \<Rightarrow> [Throw 401 (param_message m)]
      | None \<Rightarrow> [])"

section \<open>Reading script values\<close>

datatype napi_valuetype = napi_number | napi_string | napi_function | napi_object | napi_other

record 'v napi =
  napi_get_cb_info :: "'v list option"
  napi_typeof :: "'v \<Rightarrow> napi_valuetype option"
  napi_get_value_uint32 :: "'v \<Rightarrow> u32 option"
  napi_get_value_int32 :: "'v \<Rightarrow> i32 option"
  napi_get_value_string_utf8 :: "'v \<Rightarrow> nat \<Rightarrow> string option"
  napi_has_named_property :: "'v \<Rightarrow> string \<Rightarrow> bool option"
  napi_get_named_property :: "'v \<Rightarrow> string \<Rightarrow> 'v option"

text \<open>
  A reader returns the value, or \<open>None\<close> for the null pointer, with the errors raised on the way;
  \<open>napi_call\<close> is the macro \<open>NAPI_CALL\<close>.
\<close>

type_synonym 'a reader = "'a option \<times> script_error list"

definition napi_call :: "'a option \<Rightarrow> ('a \<Rightarrow> 'b reader) \<Rightarrow> 'b reader" where
  "napi_call r k = (case r of None \<Rightarrow> (None, [LastError]) | Some x \<Rightarrow> k x)"

definition STRING_MAX_SIZE :: nat where "STRING_MAX_SIZE = 128"

definition GetStringValue :: "'v napi \<Rightarrow> 'v \<Rightarrow> string reader" where
  "GetStringValue n v = napi_call (napi_typeof n v)
     (\<lambda>t. if t \<noteq> napi_string then (None, [])
          else (map_option c_str (napi_get_value_string_utf8 n v (STRING_MAX_SIZE - 1)), []))"

definition GetUint32Value :: "'v napi \<Rightarrow> 'v \<Rightarrow> u32 reader" where
  "GetUint32Value n v = napi_call (napi_typeof n v)
     (\<lambda>t. if t \<noteq> napi_number then (None, []) else napi_call (napi_get_value_uint32 n v) (\<lambda>x. (Some x, [])))"

definition GetInt32Value :: "'v napi \<Rightarrow> 'v \<Rightarrow> i32 reader" where
  "GetInt32Value n v = napi_call (napi_typeof n v)
     (\<lambda>t. if t \<noteq> napi_number then (None, []) else napi_call (napi_get_value_int32 n v) (\<lambda>x. (Some x, [])))"

definition GetNamedInt32Value :: "'v napi \<Rightarrow> 'v \<Rightarrow> string \<Rightarrow> i32 reader" where
  "GetNamedInt32Value n obj utf8name =
     (if napi_has_named_property n obj utf8name \<noteq> Some True then (None, [])
      else napi_call (napi_get_named_property n obj utf8name) (GetInt32Value n))"

definition GetNamedStringValue :: "'v napi \<Rightarrow> 'v \<Rightarrow> string \<Rightarrow> string reader" where
  "GetNamedStringValue n obj utf8name =
     (if napi_has_named_property n obj utf8name \<noteq> Some True then (None, [])
      else napi_call (napi_get_named_property n obj utf8name) (GetStringValue n))"

text \<open>
  One check of the parameter parsers: the value must be there and pass, otherwise the parameter
  error is thrown and the parser returns the null pointer.
\<close>

definition checked :: "'a reader \<Rightarrow> ('a \<Rightarrow> bool) \<Rightarrow> err \<Rightarrow> ('a \<Rightarrow> 'b reader) \<Rightarrow> 'b reader" where
  "checked m valid errCode k =
     (case m of
        (None, es) \<Rightarrow> (None, es @ HandleParamErr errCode)
      | (Some x, es) \<Rightarrow>
          if \<not> valid x then (None, es @ HandleParamErr errCode)
          else (let (r, es') = k x in (r, es @ es')))"

section \<open>The JavaScript functions\<close>

text \<open>The result of an asynchronous function: \<open>errCode\<close> 0 or the error, and the value.\<close>

datatype 'r settlement =
    Settle_Callback "(int \<times> string) option" 'r
  | Promise_Resolved 'r
  | Promise_Rejected int string

definition GetCallbackErrorValue :: "int \<Rightarrow> string \<Rightarrow> (int \<times> string) option" where
  "GetCallbackErrorValue errCode errMsg = (if errCode = 0 then None else Some (errCode, errMsg))"

definition SetCallback :: "int \<Rightarrow> 'r \<Rightarrow> 'r settlement" where
  "SetCallback errCode result =
     Settle_Callback (if errCode = 0 then None else GetCallbackErrorValue (FindErrCode errCode) (FindErrMsg errCode)) result"

definition SetPromise :: "int \<Rightarrow> 'r \<Rightarrow> 'r settlement" where
  "SetPromise errCode result =
     (if errCode = 0 then Promise_Resolved result else Promise_Rejected (FindErrCode errCode) (FindErrMsg errCode))"

definition ReturnCallbackPromise :: "bool \<Rightarrow> int \<Rightarrow> 'r \<Rightarrow> 'r settlement" where
  "ReturnCallbackPromise isCallback errCode result =
     (if isCallback then SetCallback errCode result else SetPromise errCode result)"

text \<open>A failed call never looks like a success to the script, in either style, and both show the same.\<close>

lemma FindErrCode_nonzero: "errCode \<noteq> 0 \<Longrightarrow> FindErrCode errCode \<noteq> 0"
  by (auto simp: FindErrCode_def THRESHOLD_def OFFSET_def)

lemma failures_shown:
  assumes "errCode \<noteq> 0"
  shows "ReturnCallbackPromise True errCode r = Settle_Callback (Some (FindErrCode errCode, FindErrMsg errCode)) r"
    and "ReturnCallbackPromise False errCode r = Promise_Rejected (FindErrCode errCode) (FindErrMsg errCode)"
  using assms FindErrCode_nonzero
  by (simp_all add: ReturnCallbackPromise_def SetCallback_def SetPromise_def GetCallbackErrorValue_def)

text \<open>The parsed parameter is the callback, if one was passed.\<close>

definition read_callback :: "'v napi \<Rightarrow> 'v \<Rightarrow> 'v reader" where
  "read_callback n v = napi_call (napi_typeof n v)
     (\<lambda>t. if t \<noteq> napi_function then (None, HandleParamErr ERR_CALLBACK_NULL_OR_TYPE_ERR) else (Some v, []))"

definition ParseInStandbyParameters :: "'v napi \<Rightarrow> 'v option reader" where
  "ParseInStandbyParameters n = napi_call (napi_get_cb_info n)
     (\<lambda>argv. if length argv \<noteq> 0 \<and> length argv \<noteq> 1 then (None, HandleParamErr ERR_PARAM_NUMBER_ERR)
             else if length argv = 1
             then (let (cb, es) = read_callback n (argv ! 0) in (map_option Some cb, es))
             else (Some None, []))"

definition ParseGetAllowListParameters :: "'v napi \<Rightarrow> (u32 \<times> 'v option) reader" where
  "ParseGetAllowListParameters n = napi_call (napi_get_cb_info n)
     (\<lambda>argv. if length argv \<noteq> 1 \<and> length argv \<noteq> 2 then (None, HandleParamErr ERR_PARAM_NUMBER_ERR)
             else checked (GetUint32Value n (argv ! 0)) (\<lambda>_. True) ERR_RESOURCE_TYPES_INVALID
               (\<lambda>allowType.
                  let (cb, es) = (if length argv = 2
                        then (let (cb, es) = read_callback n (argv ! 1) in (map_option Some cb, es))
                        else (Some None, []))
                  in case cb of
                       None \<Rightarrow> (None, es)
                     | Some cb \<Rightarrow>
                         if allowType = 0 then (None, es @ HandleParamErr ERR_RESOURCE_TYPES_INVALID)
                         else (Some (allowType, cb), es)))"

text \<open>
  \<open>alloc\<close>: the non-throwing \<open>new\<close> found memory. The inner option of the result is the pointer to
  the request.
\<close>

definition ParseAllowResParameters :: "bool \<Rightarrow> 'v napi \<Rightarrow> ResourceRequest option reader" where
  "ParseAllowResParameters alloc n = napi_call (napi_get_cb_info n)
     (\<lambda>argv. if length argv \<noteq> 1 then (None, HandleParamErr ERR_PARAM_NUMBER_ERR)
       else checked (GetNamedInt32Value n (argv ! 0) ''resourceTypes'')
              (\<lambda>allowType. \<not> sint allowType \<le> 0 \<and> \<not> allowType > MAX_ALLOW_TYPE_NUMBER) ERR_RESOURCE_TYPES_INVALID
         (\<lambda>allowType. checked (GetNamedInt32Value n (argv ! 0) ''uid'') (\<lambda>uid. \<not> sint uid < 0) ERR_UID_INVALID
         (\<lambda>uid. checked (GetNamedStringValue n (argv ! 0) ''name'') (\<lambda>name. name \<noteq> []) ERR_NAME_INVALID_OR_EMPTY
         (\<lambda>name. checked (GetNamedInt32Value n (argv ! 0) ''duration'') (\<lambda>_. True) ERR_DURATION_INVALID
         (\<lambda>duration. checked (GetNamedStringValue n (argv ! 0) ''reason'') (\<lambda>_. True) ERR_REASON_INVALID_TYPE_ERR
         (\<lambda>reason. (Some (if alloc
              then Some \<lparr> rq_allowType = allowType, rq_uid = uid, rq_name = name, rq_duration = duration,
                          rq_reason = reason, rq_reasonCode = REASON_APP_API \<rparr>
              else None), [])))))))"

text \<open>The asynchronous parts of the two functions: what runs on the worker, and the completion.\<close>

definition AddInStandbyExecuteCB :: "sa_env \<Rightarrow> 'w serve \<Rightarrow> client \<times> 'w \<Rightarrow> err \<times> bool \<times> client \<times> 'w" where
  "AddInStandbyExecuteCB e serve = Client_IsDeviceInStandby e serve False"

definition AddInStandbyCallbackCompleteCB :: "bool \<Rightarrow> err \<Rightarrow> bool \<Rightarrow> int settlement" where
  "AddInStandbyCallbackCompleteCB isCallback errCode isStandby =
     ReturnCallbackPromise isCallback (err_value errCode) (if isStandby then 1 else 0)"

definition AddGetAllowListExecuteCB ::
  "sa_env \<Rightarrow> 'w serve \<Rightarrow> u32 \<Rightarrow> client \<times> 'w \<Rightarrow> err \<times> AllowInfo list \<times> client \<times> 'w" where
  "AddGetAllowListExecuteCB e serve allowType = Client_GetAllowList e serve allowType [] REASON_APP_API"

text \<open>The script's objects: resource types, name and duration.\<close>

definition AddGetAllowListCallbackCompleteCB ::
  "bool \<Rightarrow> err \<Rightarrow> AllowInfo list \<Rightarrow> (u32 \<times> string \<times> i32) list settlement" where
  "AddGetAllowListCallbackCompleteCB isCallback errCode allowInfoArray =
     ReturnCallbackPromise isCallback (err_value errCode)
       (map (\<lambda>i. (ai_allowType i, ai_name i, ai_duration i)) allowInfoArray)"

text \<open>\<open>work\<close>: memory was found and the calls that queue the asynchronous work succeeded.\<close>

definition Napi_IsDeviceInStandby ::
  "'v napi \<Rightarrow> bool \<Rightarrow> sa_env \<Rightarrow> 'w serve \<Rightarrow> client \<times> 'w \<Rightarrow>
     script_error list \<times> int settlement option \<times> client \<times> 'w" where
  "Napi_IsDeviceInStandby n work e serve sw =
     (case ParseInStandbyParameters n of
        (None, es) \<Rightarrow> (es, None, sw)
      | (Some cb, es) \<Rightarrow>
          if \<not> work then (es, None, sw)
          else
            let (errCode, isStandby, sw) = AddInStandbyExecuteCB e serve sw
            in (es, Some (AddInStandbyCallbackCompleteCB (cb \<noteq> None) errCode isStandby), sw))"

definition GetExemptionListApps ::
  "'v napi \<Rightarrow> bool \<Rightarrow> sa_env \<Rightarrow> 'w serve \<Rightarrow> client \<times> 'w \<Rightarrow>
     script_error list \<times> (u32 \<times> string \<times> i32) list settlement option \<times> client \<times> 'w" where
  "GetExemptionListApps n work e serve sw =
     (case ParseGetAllowListParameters n of
        (None, es) \<Rightarrow> (es, None, sw)
      | (Some (allowType, cb), es) \<Rightarrow>
          if \<not> work then (es, None, sw)
          else
            let (errCode, allowInfoArray, sw) = AddGetAllowListExecuteCB e serve allowType sw
            in (es, Some (AddGetAllowListCallbackCompleteCB (cb \<noteq> None) errCode allowInfoArray), sw))"

definition Napi_ApplyAllowResource ::
  "'v napi \<Rightarrow> bool \<Rightarrow> sa_env \<Rightarrow> 'w serve \<Rightarrow> client \<times> 'w \<Rightarrow> script_error list \<times> client \<times> 'w" where
  "Napi_ApplyAllowResource n alloc e serve sw =
     (case ParseAllowResParameters alloc n of
        (None, es) \<Rightarrow> (es, sw)
      | (Some rq, es) \<Rightarrow>
          let (errCode, sw) = Client_ApplyAllowResource e serve rq sw
          in (es @ HandleErrCode (err_value errCode), sw))"

definition Napi_UnapplyAllowResource ::
  "'v napi \<Rightarrow> bool \<Rightarrow> sa_env \<Rightarrow> 'w serve \<Rightarrow> client \<times> 'w \<Rightarrow> script_error list \<times> client \<times> 'w" where
  "Napi_UnapplyAllowResource n alloc e serve sw =
     (case ParseAllowResParameters alloc n of
        (None, es) \<Rightarrow> (es, sw)
      | (Some rq, es) \<Rightarrow>
          let (errCode, sw) = Client_UnapplyAllowResource e serve rq sw
          in (es @ HandleErrCode (err_value errCode), sw))"

section \<open>The ArkTS functions\<close>

record ani_request =
  an_resourceTypes :: i32
  an_uid :: i32
  an_name :: string
  an_duration :: i32
  an_reason :: string

definition GenResourceRequest :: "bool \<Rightarrow> ani_request \<Rightarrow> ResourceRequest option" where
  "GenResourceRequest alloc r =
     (if alloc
      then Some \<lparr> rq_allowType = an_resourceTypes r, rq_uid = an_uid r, rq_name = c_str (an_name r),
                  rq_duration = an_duration r, rq_reason = c_str (an_reason r), rq_reasonCode = REASON_APP_API \<rparr>
      else None)"

definition GenAniExemptedAppInfo :: "AllowInfo \<Rightarrow> AllowInfo" where
  "GenAniExemptedAppInfo i = i\<lparr>ai_name := c_str (ai_name i)\<rparr>"

text \<open>The ArkTS binding has its own copies of the error functions, and they agree with the others.\<close>

definition Ani_FindErrCode :: "int \<Rightarrow> int" where
  "Ani_FindErrCode errCodeIn =
     (if errCodeIn \<in> set (map fst paramErrCodeMsgMap) then err_value ERR_STANDBY_INVALID_PARAM
      else if errCodeIn > THRESHOLD then errCodeIn div OFFSET else errCodeIn)"

definition Ani_FindErrMsg :: "int \<Rightarrow> string" where
  "Ani_FindErrMsg errCode =
     (if errCode = 0 then ''''
      else case map_of saErrCodeMsgMap errCode of
        Some m \<Rightarrow> ''BussinessError '' @ to_string_int (Ani_FindErrCode errCode) @ '': '' @ m
      | None \<Rightarrow> (case map_of paramErrCodeMsgMap errCode of
            Some m \<Rightarrow> ''BussinessError 401: Parameter error. '' @ m
          | None \<Rightarrow> ''Inner error.''))"

definition Ani_HandleErrCode :: "int \<Rightarrow> script_error list" where
  "Ani_HandleErrCode errCode =
     (if errCode = 0 then []
      else let errMsg = Ani_FindErrMsg errCode; errCodeInfo = Ani_FindErrCode errCode
        in if errMsg \<noteq> '''' then [Throw errCodeInfo errMsg] else [])"

definition Ani_HandleParamErr :: "err \<Rightarrow> script_error list" where
  "Ani_HandleParamErr errCode =
     (if errCode = ERR_OK then []
      else case map_of paramErrCodeMsgMap (err_value errCode) of
        Some m \<Rightarrow> [Throw (err_value ERR_STANDBY_INVALID_PARAM) (''BussinessError 401: Parameter error. '' @ m)]
      | None \<Rightarrow> [])"

lemma bindings_report_alike [simp]:
  "Ani_FindErrCode = FindErrCode" "Ani_FindErrMsg = FindErrMsg"
  "Ani_HandleErrCode = HandleErrCode" "Ani_HandleParamErr = HandleParamErr"
proof -
  show code: "Ani_FindErrCode = FindErrCode"
    by (rule ext) (simp add: Ani_FindErrCode_def FindErrCode_def paramErrCodes_keys)
  show msg: "Ani_FindErrMsg = FindErrMsg"
    by (rule ext) (simp add: Ani_FindErrMsg_def FindErrMsg_def param_message_def code split: option.split)
  show "Ani_HandleErrCode = HandleErrCode"
    by (rule ext) (simp add: Ani_HandleErrCode_def HandleErrCode_def code msg)
  show "Ani_HandleParamErr = HandleParamErr"
    by (rule ext) (simp add: Ani_HandleParamErr_def HandleParamErr_def param_message_def split: option.split)
qed

definition VerifyAniResourceRequest :: "ani_request \<Rightarrow> bool \<times> script_error list" where
  "VerifyAniResourceRequest r =
     (if sint (an_resourceTypes r) \<le> 0 \<or> an_resourceTypes r > MAX_ALLOW_TYPE_NUMBER
      then (False, Ani_HandleParamErr ERR_RESOURCE_TYPES_INVALID)
      else if sint (an_uid r) < 0 then (False, Ani_HandleParamErr ERR_UID_INVALID)
      else if an_name r = [] then (False, Ani_HandleParamErr ERR_NAME_INVALID_OR_EMPTY)
      else (True, []))"

definition GetExemptedAppsSync ::
  "sa_env \<Rightarrow> 'w serve \<Rightarrow> i32 \<Rightarrow> client \<times> 'w \<Rightarrow> AllowInfo list \<times> script_error list \<times> client \<times> 'w" where
  "GetExemptedAppsSync e serve resourceTypes sw =
     (let (ret, allowInfoArray, sw) = Client_GetAllowList e serve resourceTypes [] REASON_APP_API sw in
      if ret \<noteq> ERR_OK then ([], Ani_HandleErrCode (err_value ret), sw)
      else (map GenAniExemptedAppInfo allowInfoArray, [], sw))"

text \<open>The verdict of the verification is not used.\<close>

definition RequestExemptionResource ::
  "bool \<Rightarrow> sa_env \<Rightarrow> 'w serve \<Rightarrow> ani_request \<Rightarrow> client \<times> 'w \<Rightarrow> script_error list \<times> client \<times> 'w" where
  "RequestExemptionResource alloc e serve r sw =
     (let (_, es) = VerifyAniResourceRequest r;
          (ret, sw) = Client_ApplyAllowResource e serve (GenResourceRequest alloc r) sw
      in (es @ (if ret \<noteq> ERR_OK then Ani_HandleErrCode (err_value ret) else []), sw))"

definition ReleaseExemptionResource ::
  "bool \<Rightarrow> sa_env \<Rightarrow> 'w serve \<Rightarrow> ani_request \<Rightarrow> client \<times> 'w \<Rightarrow> script_error list \<times> client \<times> 'w" where
  "ReleaseExemptionResource alloc e serve r sw =
     (let (_, es) = VerifyAniResourceRequest r;
          (ret, sw) = Client_UnapplyAllowResource e serve (GenResourceRequest alloc r) sw
      in (es @ (if ret \<noteq> ERR_OK then Ani_HandleErrCode (err_value ret) else []), sw))"

text \<open>\<open>isStandby\<close> is not initialised; \<open>b\<close> is what it holds.\<close>

definition Ani_IsDeviceInStandby ::
  "sa_env \<Rightarrow> 'w serve \<Rightarrow> bool \<Rightarrow> client \<times> 'w \<Rightarrow> bool \<times> script_error list \<times> client \<times> 'w" where
  "Ani_IsDeviceInStandby e serve b sw =
     (let (ret, isStandby, sw) = Client_IsDeviceInStandby e serve b sw in
      if ret \<noteq> ERR_OK then (False, Ani_HandleErrCode (err_value ret), sw) else (isStandby, [], sw))"

section \<open>Requests of scripts\<close>

text \<open>
  The generated proxy and stub carry the call of a client on proxy \<open>p\<close> to the service: the same
  arguments arrive, and the code of the service comes back.
\<close>

definition serves :: "service_env \<Rightarrow> service serve \<Rightarrow> nat \<Rightarrow> bool" where
  "serves se serve p \<longleftrightarrow>
     (\<forall>rq v. serve p (Call_ApplyAllowResource rq) v =
        (let (ret, v) = StandbyService_ApplyAllowResource se rq v in ((ret, Out_None), v)))
     \<and> (\<forall>rq v. serve p (Call_UnapplyAllowResource rq) v =
        (let (ret, v) = StandbyService_UnapplyAllowResource se rq v in ((ret, Out_None), v)))"

lemma with_proxy_connected:
  "standbyServiceProxy s = Some p \<Longrightarrow>
    with_proxy e serve (Some c) (s, w) = (let (ret, w) = serve p c w in (ret, client_event (CE_Call p c) s, w))"
  by (simp add: with_proxy_def client_conn_connected forward_def)

lemma rejected_error:
  "\<not> fst (VerifyAniResourceRequest r) \<Longrightarrow> \<exists>m. snd (VerifyAniResourceRequest r) = [Throw 401 m]"
  by (simp add: VerifyAniResourceRequest_def HandleParamErr_def paramErrCodeMsgMap_def split: if_splits)

text \<open>C35: The ArkTS binding throws error 401 for a request its verification rejects and sends
  it to the service all the same, so the state of the service afterwards is the one after
  that request.\<close>

theorem arkts_sends_rejected:
  assumes "serves se serve p" "standbyServiceProxy s = Some p" "\<not> fst (VerifyAniResourceRequest r)"
  shows "\<exists>m es. RequestExemptionResource True e serve r (s, v) =
    (Throw 401 m # es, client_event (CE_Call p (Call_ApplyAllowResource (the (GenResourceRequest True r)))) s,
     snd (StandbyService_ApplyAllowResource se (the (GenResourceRequest True r)) v))"
proof -
  from rejected_error [OF assms(3)] obtain m where "snd (VerifyAniResourceRequest r) = [Throw 401 m]" ..
  then show ?thesis
    using assms(1)
    by (auto simp: RequestExemptionResource_def Client_ApplyAllowResource_def with_proxy_connected [OF assms(2)]
        GenResourceRequest_def serves_def Let_def split: prod.splits)
qed

lemma max_allow_type: "MAX_ALLOW_TYPE_NUMBER = 127"
  by (simp add: MAX_ALLOW_TYPE_NUMBER_def MAX_ALLOW_TYPE_NUM_def AllowTypeName_def)

definition valid_request :: "ResourceRequest \<Rightarrow> bool" where
  "valid_request rq \<longleftrightarrow> 1 \<le> sint (rq_allowType rq) \<and> sint (rq_allowType rq) \<le> 127 \<and> 0 \<le> sint (rq_uid rq) \<and>
     rq_name rq \<noteq> [] \<and> length (rq_name rq) < 127 \<and> rq_reasonCode rq = REASON_APP_API"

lemma checked_value: "checked m ok er k = (Some y, es) \<Longrightarrow> \<exists>x es' es''. m = (Some x, es') \<and> ok x \<and> k x = (Some y, es'')"
  by (auto simp: checked_def split: prod.splits option.splits if_splits)

lemma named_string_bound:
  assumes "\<And>v k x. napi_get_value_string_utf8 n v k = Some x \<Longrightarrow> length x < k"
    and "GetNamedStringValue n obj field = (Some x, es)"
  shows "length x < 127"
proof -
  obtain v y where "napi_get_value_string_utf8 n v 127 = Some y" "x = c_str y"
    using assms(2)
    by (auto simp: GetNamedStringValue_def GetStringValue_def napi_call_def STRING_MAX_SIZE_def
        split: if_splits option.splits)
  then show ?thesis
    using assms(1) [of v 127 y] length_takeWhile_le [of "\<lambda>c. c \<noteq> NUL" y] by (simp add: c_str_def)
qed

lemma parsed_valid:
  assumes bound: "\<And>v k x. napi_get_value_string_utf8 n v k = Some x \<Longrightarrow> length x < k"
    and "ParseAllowResParameters alloc n = (Some (Some rq), es)"
  shows "valid_request rq"
proof -
  have small: "x \<le> 127 \<Longrightarrow> sint x \<le> 127" for x :: u32
    using order_trans [OF take_bit_int_less_eq_self_iff [THEN iffD2], of "uint x" 127 31]
    by (simp add: word_le_def sint_uint signed_take_bit_eq_if_positive bit_iff_odd)
  have named: "GetNamedStringValue n obj field = (Some x, es) \<Longrightarrow> length x < 127" for obj field x es
    by (rule named_string_bound [OF bound])
  show ?thesis
    using assms(2)
    by (auto simp: ParseAllowResParameters_def napi_call_def valid_request_def max_allow_type not_less
        dest!: checked_value split: option.splits if_splits intro!: small named)
qed

lemma new_calls:
  "CE_Call p c' \<in> set (drop (length (cl_events s)) (cl_events (fst (snd (with_proxy e serve c (s, w)))))) \<Longrightarrow> c = Some c'"
  by (auto simp: with_proxy_def forward_def client_event_def GetStandbyServiceProxy_def Let_def
      split: prod.splits option.splits if_splits)

text \<open>C34: A request the JavaScript binding hands to the client has resource types between 1 and
  127, a nonnegative uid, a nonempty name of fewer than 127 bytes and the reason code of
  applications.\<close>

theorem js_requests_valid:
  assumes "\<forall>v k x. napi_get_value_string_utf8 n v k = Some x \<longrightarrow> length x < k"
    and "CE_Call p (Call_ApplyAllowResource rq) \<in> set (drop (length (cl_events s))
      (cl_events (fst (snd (Napi_ApplyAllowResource n alloc e serve (s, w))))))"
  shows "valid_request rq"
proof -
  obtain q es where parsed: "ParseAllowResParameters alloc n = (Some q, es)"
    using assms(2) by (cases "ParseAllowResParameters alloc n"; cases "fst (ParseAllowResParameters alloc n)")
      (auto simp: Napi_ApplyAllowResource_def)
  then have "CE_Call p (Call_ApplyAllowResource rq) \<in> set (drop (length (cl_events s))
      (cl_events (fst (snd (with_proxy e serve (map_option Call_ApplyAllowResource q) (s, w))))))"
    using assms(2)
    by (simp add: Napi_ApplyAllowResource_def Client_ApplyAllowResource_def Let_def case_prod_unfold)
  from new_calls [OF this] have "q = Some rq" by auto
  then show ?thesis using parsed_valid [of n alloc rq es] assms(1) parsed by blast
qed

section \<open>Examples\<close>

definition demo_serve :: "service_env \<Rightarrow> service serve" where
  "demo_serve se p c v = (case c of
       Call_ApplyAllowResource rq \<Rightarrow>
         (let (ret, v) = StandbyService_ApplyAllowResource se rq v in ((ret, Out_None), v))
     | Call_UnapplyAllowResource rq \<Rightarrow>
         (let (ret, v) = StandbyService_UnapplyAllowResource se rq v in ((ret, Out_None), v))
     | _ \<Rightarrow> ((ERR_OK, Out_None), v))"

lemma demo_serves: "serves se (demo_serve se) p"
  by (simp add: serves_def demo_serve_def)

definition demo_client :: client where
  "demo_client = \<lparr> standbyServiceProxy = Some 7, cl_recipient = Some 1, cl_events = [] \<rparr>"

definition demo_hap_se :: service_env where
  "demo_hap_se = demo_se (demo_st_on\<lparr>st_service_env := demo_hap\<rparr>)"

definition nameless :: ani_request where
  "nameless = \<lparr> an_resourceTypes = 9, an_uid = 1000, an_name = [], an_duration = 3600, an_reason = ''mail'' \<rparr>"

text \<open>The script sees an error, and the service has granted the exemption.\<close>

lemma nameless_granted:
  "grants (al (snd (StandbyService_ApplyAllowResource demo_hap_se (the (GenResourceRequest True nameless))
     (demo_service (demo_in NAP SLEEP) demo_net demo_rl)))) 1000 [] 3 \<noteq> None"
proof -
  let ?v = "demo_service (demo_in NAP SLEEP) demo_net demo_rl"
  let ?e = "svc_env_of demo_hap_se ?v"
  let ?rq = "the (GenResourceRequest True nameless)"
  have env: "tokenIsHap ?e" "exemptionPermission ?e" "callerIsSystemApp ?e" "callingPid ?e = 77" "sv_cfg ?e = demo_sv_cfg"
      "resourcesApplyOf ?e = (\<lambda>n u. Some [101, 104])" "callingUid ?e = 1000" "sv_te ?e = demo_time" "clientBundleName ?e = (\<lambda>u. ''push'')"
    by (simp_all add: svc_env_of_def demo_hap_se_def demo_se_def demo_hap_def demo_sv_def)
  have "GetExemptedResourceType ?e 9 = 9"
    by (simp add: GetExemptedResourceType_def env QueryRunningResourcesApply_def
        EXEMPT_ALL_RESOURCES_def exempted_types_def Let_def)
  then have "snd (ApplyAllowResource ?e ?rq demo_al0) = ApplyAllowResInner ?e ?rq 77 demo_al0"
    by (simp add: ApplyAllowResource_def CheckCallerPermission_def IsSystemAppWithPermission_def
        REASON_APP_API_def env CheckAllowTypeInfo_def GenResourceRequest_def nameless_def c_str_def max_allow_type)
  then have "grants (snd (ApplyAllowResource ?e ?rq demo_al0)) 1000 [] 3 \<noteq> None"
    by (simp add: ApplyAllowResInner_grants [OF demo_al0_inv] granted_until_def active_def
        max_duration_of_def env GenResourceRequest_def nameless_def c_str_def WORK_SCHEDULER_def type_bit_def MSEC_PER_SEC_def)
  then show ?thesis
    by (simp add: StandbyService_ApplyAllowResource_def when_running_def on_list_def Let_def case_prod_unfold absorb_al_def
        demo_service_def)
qed

theorem arkts_sends_rejected_witness:
  "\<exists>m es s' v'. RequestExemptionResource True (demo_sa True 7) (demo_serve demo_hap_se) nameless
       (demo_client, demo_service (demo_in NAP SLEEP) demo_net demo_rl) = (Throw 401 m # es, s', v')
     \<and> grants (al v') 1000 [] 3 \<noteq> None"
proof -
  have "\<not> fst (VerifyAniResourceRequest nameless)" by (simp add: VerifyAniResourceRequest_def nameless_def)
  from arkts_sends_rejected [OF demo_serves _ this, of demo_client 7 "demo_sa True 7" demo_hap_se] nameless_granted
  show ?thesis by (fastforce simp: demo_client_def)
qed

definition demo_napi :: "string napi" where
  "demo_napi = \<lparr> napi_get_cb_info = Some [''request''],
     napi_typeof = (\<lambda>v. Some (if v = ''request'' then napi_object else if v \<in> {''name'', ''reason''} then napi_string else napi_number)),
     napi_get_value_uint32 = (\<lambda>v. Some 1), napi_get_value_int32 = (\<lambda>v. Some 9),
     napi_get_value_string_utf8 = (\<lambda>v k. if length v < k then Some v else None),
     napi_has_named_property = (\<lambda>v f. Some True), napi_get_named_property = (\<lambda>v f. Some f) \<rparr>"

theorem js_requests_valid_witness:
  "valid_request \<lparr> rq_allowType = 9, rq_uid = 9, rq_name = ''name'', rq_duration = 9, rq_reason = ''reason'', rq_reasonCode = 1 \<rparr>"
  by (rule js_requests_valid [of demo_napi 7 _ demo_client True "demo_sa True 7" "\<lambda>p c w. ((ERR_OK, Out_None), w)" "()"])
    (simp_all add: Napi_ApplyAllowResource_def ParseAllowResParameters_def napi_call_def demo_napi_def checked_def
      GetNamedInt32Value_def GetInt32Value_def GetNamedStringValue_def GetStringValue_def STRING_MAX_SIZE_def c_str_def
      Client_ApplyAllowResource_def with_proxy_connected client_event_def max_allow_type REASON_APP_API_def demo_client_def)

end
