(* ===== verification/Subscriber_View.thy ===== *)
theory Subscriber_View
  imports Standby_System Ipc
begin

text \<open>
  What a subscriber in another process knows of the exemption list: the callbacks that reach it
  through the proxy and the stub (\<open>Ipc\<close>), sent by \<open>StandbyStateSubscriber\<close> (\<open>Subscriber\<close>)
  whenever the list (\<open>Allow_List\<close>) reports a change to the service (\<open>Service\<close>).
\<close>

section \<open>What a subscriber hears\<close>

fun callback_of :: "sub_call \<Rightarrow> (subscriber \<times> callback) option" where
  "callback_of (CB_DeviceIdleMode x napped sleeping) = Some (x, OnDeviceIdleMode napped sleeping)"
| "callback_of (CB_AllowListChanged x uid name t added) = Some (x, OnAllowListChanged uid name t added)"
| "callback_of (CB_PowerOverused x module level) = Some (x, OnPowerOverused module level)"
| "callback_of (CB_ActionChanged x module act) = Some (x, OnActionChanged module act)"
| "callback_of _ = None"

definition heard :: "'p ipc_env \<Rightarrow> subscriber \<Rightarrow> sub_call \<Rightarrow> callback list" where
  "heard ip x c =
     (case callback_of c of
        None \<Rightarrow> []
      | Some (y, cb) \<Rightarrow>
          if y \<noteq> x then []
          else (case deliver ip cb of Some (_, Some cb') \<Rightarrow> [cb'] | _ \<Rightarrow> []))"

definition heard_by :: "'p ipc_env \<Rightarrow> subscriber \<Rightarrow> subscriber_state \<Rightarrow> callback list" where
  "heard_by ip x s = concat (map (heard ip x) (sub_calls s))"

text \<open>The subscriber's own picture of the list.\<close>

fun replay_callback :: "callback \<Rightarrow> (i32 \<times> string \<Rightarrow> u32) \<Rightarrow> i32 \<times> string \<Rightarrow> u32" where
  "replay_callback (OnAllowListChanged uid name allowType added) v =
     v((uid, name) := if added then v (uid, name) OR allowType else v (uid, name) AND NOT allowType)"
| "replay_callback _ v = v"

text \<open>The remote object lives, parcels take every value and give it back.\<close>

definition channel_works :: "'p ipc_env \<Rightarrow> bool" where
  "channel_works ip \<longleftrightarrow> remoteAlive ip \<and> (\<exists>contents. parcel_laws (ops ip) contents) \<and>
     (\<forall>i p. fst (writeItem (ops ip) i p))"

lemma write_all_works: "(\<And>i p. fst (writeItem r i p)) \<Longrightarrow> fst (write_all r is p)"
  by (induction "is" arbitrary: p) (simp_all add: Let_def case_prod_unfold)

lemma delivered: "channel_works ip \<Longrightarrow> deliver ip c = Some (0, Some c)"
  by (auto simp: channel_works_def deliver_result write_all_works simp del: write_all.simps)

lemma heard_works: "channel_works ip \<Longrightarrow>
    heard ip x c = (case callback_of c of None \<Rightarrow> [] | Some (y, cb) \<Rightarrow> if y = x then [cb] else [])"
  by (simp add: heard_def delivered split: option.split)

lemma concat_single: "distinct l \<Longrightarrow> x \<in> set l \<Longrightarrow> concat (map (\<lambda>y. if y = x then [c] else []) l) = [c]"
  by (induction l) (auto simp: concat_eq_Nil_conv)

section \<open>The log of one subscriber\<close>

lemma distinct_subscribers: "subs_inv s \<Longrightarrow> distinct (subscriberList s)"
  by (simp add: subs_inv_def distinct_map)

lemma heard_list_report:
  assumes "channel_works ip" "subs_inv s" "x \<in> set (subscriberList s)"
  shows "heard_by ip x (list_report ev s) = heard_by ip x s @
      (case ev of SE_ReportAllowListChanged uid name t added \<Rightarrow> [OnAllowListChanged uid name t added] | _ \<Rightarrow> [])"
    and "subs_inv (list_report ev s)" "subscriberList (list_report ev s) = subscriberList s"
proof -
  show "subs_inv (list_report ev s)" using subs_inv_ops(7) [OF assms(2)] assms(2) by (cases ev) simp_all
  show "subscriberList (list_report ev s) = subscriberList s"
    by (cases ev; simp add: ReportAllowListChanged_def NotifyAllowChangedByCommonEvent_def
        NotifyAllowChangedByCallback_def; simp add: sub_call_def)
  show "heard_by ip x (list_report ev s) = heard_by ip x s @
      (case ev of SE_ReportAllowListChanged uid name t added \<Rightarrow> [OnAllowListChanged uid name t added] | _ \<Rightarrow> [])"
    using concat_single [OF distinct_subscribers [OF assms(2)] assms(3)]
    by (cases ev; simp add: ReportAllowListChanged_def NotifyAllowChangedByCommonEvent_def
        NotifyAllowChangedByCallback_def heard_by_def; simp add: sub_call_def heard_works [OF assms(1)] comp_def)
qed

section \<open>The service as one subscriber sees it\<close>

text \<open>
  The steps of the service (\<open>Service_Steps\<close>) after which the subscriber \<open>x\<close> is still registered:
  it neither unsubscribes nor dies. What it has heard against what became of the list:
\<close>

definition watched_step :: "subscriber \<Rightarrow> service_env \<Rightarrow> u32 \<times> service \<Rightarrow> u32 \<times> service \<Rightarrow> bool" where
  "watched_step x e cv cv' \<longleftrightarrow> service_step e cv cv' \<and> x \<in> set (subscriberList (subs (snd cv')))"

definition view_inv :: "'p ipc_env \<Rightarrow> subscriber \<Rightarrow> u32 \<times> service \<Rightarrow> bool" where
  "view_inv ip x cv \<longleftrightarrow> channel_works ip \<and> service_inv cv \<and> x \<in> set (subscriberList (subs (snd cv)))"

definition told_all :: "'p ipc_env \<Rightarrow> subscriber \<Rightarrow> service \<Rightarrow> service \<Rightarrow> bool" where
  "told_all ip x v v' \<longleftrightarrow> (\<exists>cs. heard_by ip x (subs v') = heard_by ip x (subs v) @ cs \<and>
     exempt_types (al v') = fold replay_callback cs (exempt_types (al v)))"

lemma told_all_same: "parts v' = parts v \<Longrightarrow> told_all ip x v v'"
  using parts_D [of v' v] by (auto simp: told_all_def intro: exI [of _ "[]"])

lemma told_all_from: "exempt_types (al v) = exempt_types (al w) \<Longrightarrow> subs v = subs w \<Longrightarrow> told_all ip x v v' = told_all ip x w v'"
  by (simp add: told_all_def)

text \<open>A change of the list, passed on by the service.\<close>

lemma heard_list_reports:
  assumes "channel_works ip"
  shows "subs_inv s \<Longrightarrow> x \<in> set (subscriberList s) \<Longrightarrow>
    subs_inv (fold list_report es s) \<and> subscriberList (fold list_report es s) = subscriberList s \<and>
    (\<exists>cs. heard_by ip x (fold list_report es s) = heard_by ip x s @ cs \<and> (\<forall>g. fold replay_callback cs g = fold replay_report es g))"
proof (induction es arbitrary: s)
  case (Cons ev es)
  note one = heard_list_report [OF assms Cons.prems, of ev]
  obtain cs where cs: "heard_by ip x (fold list_report es (list_report ev s)) = heard_by ip x (list_report ev s) @ cs"
      "\<forall>g. fold replay_callback cs g = fold replay_report es g"
    and rest: "subs_inv (fold list_report es (list_report ev s))"
      "subscriberList (fold list_report es (list_report ev s)) = subscriberList s"
    using Cons.IH [of "list_report ev s"] Cons.prems one by auto
  let ?c = "case ev of SE_ReportAllowListChanged uid name t added \<Rightarrow> [OnAllowListChanged uid name t added] | _ \<Rightarrow> []"
  have "heard_by ip x (fold list_report (ev # es) s) = heard_by ip x s @ (?c @ cs)" using cs(1) one(1) by simp
  moreover have "\<forall>g. fold replay_callback (?c @ cs) g = fold replay_report (ev # es) g" using cs(2) by (cases ev) auto
  ultimately show ?case using rest by (auto simp only: fold_simps o_apply)
qed simp

lemma told_all_absorb:
  assumes "channel_works ip" "service_inv (c, v)" "x \<in> set (subscriberList (subs v))" "al_step e (al v) a"
  shows "told_all ip x v (absorb_al a v)"
proof -
  have v: "al_inv (al v)" "subs_inv (subs v)" using assms(2) by simp_all
  obtain es where es: "svc_effects a = svc_effects (al v) @ es" "exempt_types a = fold replay_report es (exempt_types (al v))"
    using al_step_announced [OF v(1) assms(4)] by blast
  then show ?thesis
    using heard_list_reports [OF assms(1) v(2) assms(3), of es] by (auto simp: told_all_def absorb_al_def)
qed

text \<open>Other reports and other subscribers change nothing in the picture.\<close>

fun list_silent :: "sub_call \<Rightarrow> bool" where
  "list_silent (CB_AllowListChanged x uid name t added) = False"
| "list_silent _ = True"

definition silent_from :: "subscriber_state \<Rightarrow> subscriber_state \<Rightarrow> bool" where
  "silent_from s s' \<longleftrightarrow> (\<exists>cs. sub_calls s' = sub_calls s @ cs \<and> (\<forall>c \<in> set cs. list_silent c))"

lemma silent_refl [simp]: "silent_from s s"
  by (simp add: silent_from_def)

lemma silent_trans [trans]: "silent_from s t \<Longrightarrow> silent_from t u \<Longrightarrow> silent_from s u"
  unfolding silent_from_def by (metis Un_iff append.assoc set_append)

lemma told_all_silent:
  assumes "channel_works ip" "al v' = al v" "silent_from (subs v) (subs v')"
  shows "told_all ip x v v'"
proof -
  have one: "list_silent c \<Longrightarrow> fold replay_callback (heard ip x c) g = g" for c g
    by (cases c) (simp_all add: heard_works [OF assms(1)])
  obtain cs where cs: "sub_calls (subs v') = sub_calls (subs v) @ cs" "\<forall>c \<in> set cs. list_silent c"
    using assms(3) unfolding silent_from_def by blast
  have "fold replay_callback (concat (map (heard ip x) cs)) g = g" for g
    using cs(2) by (induction cs) (auto simp: one)
  then show ?thesis
    using assms(2) cs(1) by (auto simp: told_all_def heard_by_def intro!: exI [of _ "concat (map (heard ip x) cs)"])
qed

lemma told_all_subs:
  fixes v :: service
  assumes "channel_works ip" "\<exists>s. v' = v\<lparr>subs := s\<rparr>" "silent_from (subs v) (subs v')"
  shows "told_all ip x v v'"
  using told_all_silent [OF assms(1) _ assms(3)] assms(2) by auto

lemma callback_matching_result:
  "sub_calls (callback_matching cb module s) = sub_calls s @ map cb (filter (\<lambda>x. sb_module x = module) (subscriberList s))"
  "subscriberList (callback_matching cb module s) = subscriberList s"
  by (simp_all add: callback_matching_frame)

lemma silent_ops:
  shows "silent_from s (ReportStandbyState st s)"
    and "silent_from s (NotifyPowerOverusedByCallback t module l s)"
    and "silent_from s (NotifyLowpowerActionByCallback t module l s)"
    and "silent_from s (snd (AddSubscriber t y s))"
    and "silent_from s (snd (RemoveSubscriber z s))"
    and "silent_from s (HandleSubscriberDeath r s)"
proof -
  show "silent_from s (ReportStandbyState st s)"
    by (simp add: silent_from_def ReportStandbyState_def NotifyIdleModeByCommonEvent_def NotifyIdleModeByCallback_def Let_def)
      (simp add: sub_call_def)
  show "silent_from s (NotifyPowerOverusedByCallback t module l s)"
    by (simp add: silent_from_def NotifyPowerOverusedByCallback_def callback_matching_result Let_def split: prod.split)
  show "silent_from s (NotifyLowpowerActionByCallback t module l s)"
    by (simp add: silent_from_def NotifyLowpowerActionByCallback_def callback_matching_result Let_def split: prod.split)
  show "silent_from s (snd (AddSubscriber t y s))"
    by (auto simp: silent_from_def AddSubscriber_def NotifyLowpowerActionOnRegister_def NotifyPowerOnRegister_def sub_call_def Let_def
        split: option.split)
  show "silent_from s (snd (RemoveSubscriber z s))"
    by (auto simp: silent_from_def RemoveSubscriber_def sub_call_def split: option.split)
  show "silent_from s (HandleSubscriberDeath r s)"
    by (auto simp: silent_from_def HandleSubscriberDeath_def split: option.split)
qed

lemma silent_reports: "silent_from s (fold ReportStandbyState sts s)"
  by (induction sts arbitrary: s) (auto intro: silent_trans [OF silent_ops(1)])

lemma silent_calls:
  fixes v :: service
  shows "silent_from (subs v) (subs (snd (StandbyService_SubscribeStandbyCallback e y name module v)))"
    and "silent_from (subs v) (subs (snd (StandbyService_UnsubscribeStandbyCallback e y v)))"
    and "silent_from (subs v) (subs (snd (StandbyService_ReportPowerOverused e module level v)))"
    and "silent_from (subs v) (subs (absorb_sm s v))"
    and "silent_from (subs v) (subs (run_dispatch e ev v))"
  by (simp_all add: StandbyService_SubscribeStandbyCallback_def StandbyService_UnsubscribeStandbyCallback_def
      StandbyService_ReportPowerOverused_def when_running_def Impl_SubscribeStandbyCallback_def
      Impl_UnsubscribeStandbyCallback_def Impl_ReportPowerOverused_def HandlePowerOverused_def Let_def case_prod_unfold
      silent_ops absorb_sm_result absorb_strat_result run_dispatch_def silent_reports split: option.split)

lemma run_dispatch_al: "al (run_dispatch e ev v) = al v"
  by (simp add: run_dispatch_def absorb_sm_result absorb_strat_result Let_def)

lemma closure_told:
  assumes "channel_works ip" "service_inv (c, v)" "x \<in> set (subscriberList (subs v))" "t \<noteq> HT_UninitReady" "\<forall>ev. t \<noteq> HT_Dispatch ev"
  shows "told_all ip x v (run_handler_task e t v)"
proof (cases t)
  case (HT_RemoveApp uid name b)
  then show ?thesis
    using told_all_absorb [OF assms(1-3) al_remove_app] by (simp add: run_handler_task_def RemoveApp_task_def)
next
  case (HT_ProcessStatus uid pid name b)
  then show ?thesis
    using told_all_absorb [OF assms(1-3) al_process] by (simp add: run_handler_task_def)
qed (use assms in \<open>auto simp: run_handler_task_def InitReadyState_task_def intro!: told_all_same\<close>)

lemma service_step_told:
  assumes "channel_works ip" "service_inv (c, v)" "x \<in> set (subscriberList (subs v))" "service_step e (c, v) (c', v')"
  shows "told_all ip x v v'"
proof -
  note absorb = told_all_absorb [OF assms(1-3)] and same = told_all_same [of v v] and silent = told_all_silent [OF assms(1)]
  from assms(4) show ?thesis
  proof cases
    case (sv_post)
    then show ?thesis using posting_call_parts told_all_same by blast
  next
    case (sv_apply rq)
    then show ?thesis
      using when_running_list [of "\<lambda>e. ApplyAllowResource e rq" e v] absorb [OF al_apply] same
      unfolding StandbyService_ApplyAllowResource_def by metis
  next
    case (sv_unapply rq)
    then show ?thesis
      using when_running_list [of "\<lambda>e. UnapplyAllowResource e rq" e v] absorb [OF al_unapply] same
      unfolding StandbyService_UnapplyAllowResource_def by metis
  next
    case (sv_get t r)
    then have "v' = v \<or> v' = absorb_al (snd (snd (GetAllowList (svc_env_of e v) t r (al v)))) v"
      by (simp add: StandbyService_GetAllowList_def Let_def case_prod_unfold)
    then show ?thesis using absorb [OF al_get] same by metis
  next
    case (sv_subscribe y name module)
    show ?thesis unfolding sv_subscribe by (rule told_all_subs [OF assms(1) sub_calls_frame(1) silent_calls(1)])
  next
    case (sv_unsubscribe y)
    show ?thesis unfolding sv_unsubscribe by (rule told_all_subs [OF assms(1) sub_calls_frame(2) silent_calls(2)])
  next
    case (sv_power module level)
    show ?thesis unfolding sv_power by (rule told_all_subs [OF assms(1) sub_calls_frame(3) silent_calls(3)])
  next
    case (sv_list_task i task due)
    have "v' = absorb_al (run_svc_task (se_sv e) task (al (due_task i v))) v"
      using sv_list_task(2,6) by (cases task) (simp_all add: run_list_task_def absorb_al_def due_task_def)
    then show ?thesis
      using absorb [OF al_task [OF sv_list_task(3-5)]] by (simp add: due_task_def without_def)
  next
    case (sv_list_dispatch i m due)
    have "exempt_types (al (due_task i v)) = exempt_types (al v)" "subs (due_task i v) = subs v"
      by (simp_all add: due_task_def exempt_types_def)
    moreover have "told_all ip x (due_task i v) v'"
      using sv_list_dispatch(1) by (intro told_all_silent [OF assms(1)])
        (simp_all add: run_list_task_def run_dispatch_al silent_calls)
    ultimately show ?thesis using told_all_from by metis
  next
    case (sv_closure t ts)
    have "service_inv (c, v\<lparr>handler := ts\<rparr>)" using assms(2) by simp
    from closure_told [OF assms(1) this] sv_closure assms(3) show ?thesis
      by (simp add: told_all_from [of v "v\<lparr>handler := ts\<rparr>"])
  next
    case (sv_dispatch ev ts)
    then show ?thesis
      by (intro silent) (use silent_calls(5) [of "v\<lparr>handler := ts\<rparr>"] in \<open>simp_all add: run_handler_task_def run_dispatch_al\<close>)
  qed (intro silent; simp add: silent_ops silent_calls run_state_task_def due_state_task_def HandleActionChanged_def absorb_sm_result silent_reports)+
qed

lemma watched_step_view:
  assumes "view_inv ip x cv" "watched_step x e cv cv'"
  shows "view_inv ip x cv'" "told_all ip x (snd cv) (snd cv')"
  using assms service_step_inv [of "fst cv" "snd cv" e "fst cv'" "snd cv'"]
    service_step_told [of ip "fst cv" "snd cv" x e "fst cv'" "snd cv'"]
  by (simp_all add: view_inv_def watched_step_def del: service_inv.simps)

interpretation list_view: announced_view "view_inv ip x" "watched_step x" "view_inv ip x"
  "\<lambda>cv. heard_by ip x (subs (snd cv))" "\<lambda>cv. exempt_types (al (snd cv))" replay_callback
  for ip x
  by unfold_locales (use watched_step_view told_all_def in blast)+

section \<open>Properties\<close>


section \<open>Examples\<close>

definition demo_subscriber :: subscriber where
  "demo_subscriber = \<lparr> sb_remote = Some 4, sb_name = ''NETWORK'', sb_module = ''m'' \<rparr>"

definition demo_watched :: service where
  "demo_watched = (demo_service (demo_in NAP SLEEP) demo_net demo_rl)
     \<lparr>subs := \<lparr> deathRecipient = True, subscriberList = [demo_subscriber], modulePowerMap = [], moduleActionMap = [],
        curDate = 1, sub_calls = [] \<rparr>\<rparr>"

lemma demo_channel: "channel_works demo_ipc"
  using list_parcel_laws by (auto simp: channel_works_def demo_ipc_def list_parcel_def)

lemma demo_watched_inv: "service_inv (now_condition demo_st, demo_watched)"
  unfolding demo_watched_def
  by (intro subs_update_inv demo_service_inv)
    (simp_all add: net_reachable_inv [OF demo_net_reachable] rl_reachable_sound [OF demo_rl_reachable] subs_inv_def demo_subscriber_def)


end
