(* ===== verification/Persistence.thy ===== *)
theory Persistence
  imports Allow_Props Config_Parse
begin

text \<open>
  Writing a JSON value to a file (\<open>JsonUtils::DumpJsonValueToFile\<close> of
  \<open>utils/policy/src/json_utils.cpp\<close>), and the way of the exemption list over the file and a
  restart: what \<open>DumpPersistantData\<close> writes is what \<open>ParsePersistentData\<close> gets back.

  A file system maps the canonical path of a file to its contents. The environment knows where a
  path leads, what may be created, opened and read, and the text of a JSON value.
\<close>

section \<open>Files\<close>

type_synonym files = "string \<Rightarrow> string option"

record file_env =
  resolve :: "string \<Rightarrow> string"
  may_create :: "string \<Rightarrow> bool"
  may_write :: "string \<Rightarrow> bool"
  may_read :: "string \<Rightarrow> bool"
  json_text :: "json \<Rightarrow> string"

definition File_GetRealPath :: "file_env \<Rightarrow> files \<Rightarrow> string \<Rightarrow> string option" where
  "File_GetRealPath e fs partialPath =
     (if PATH_MAX < length partialPath \<or> fs (resolve e partialPath) = None then None
      else Some (resolve e partialPath))"

definition File_GetFileContent :: "file_env \<Rightarrow> files \<Rightarrow> string \<Rightarrow> string option" where
  "File_GetFileContent e fs filePath =
     (case File_GetRealPath e fs filePath of
        None \<Rightarrow> None
      | Some fullPath \<Rightarrow> if may_read e fullPath then fs fullPath else None)"

definition CreateNodeFile :: "file_env \<Rightarrow> string \<Rightarrow> files \<Rightarrow> bool \<times> files" where
  "CreateNodeFile e filePath fs =
     (if fs (resolve e filePath) \<noteq> None then (True, fs)
      else
        let fullpath = (case File_GetRealPath e fs filePath of None \<Rightarrow> filePath | Some p \<Rightarrow> p)
        in if may_create e (resolve e fullpath) then (True, fs(resolve e fullpath \<mapsto> [])) else (False, fs))"

definition DumpJsonValueToFile :: "file_env \<Rightarrow> json \<Rightarrow> string \<Rightarrow> files \<Rightarrow> bool \<times> files" where
  "DumpJsonValueToFile e jsonValue filePath fs =
     (let (created, fs) = CreateNodeFile e filePath fs in
      if \<not> created then (False, fs)
      else case File_GetRealPath e fs filePath of
        None \<Rightarrow> (False, fs)
      | Some realPath \<Rightarrow>
          if \<not> may_write e realPath then (False, fs)
          else (True, fs(realPath \<mapsto> c_str (json_text e jsonValue) @ [CHR 0x0A])))"

text \<open>A value that was written is read back where the parser inverts the text.\<close>

lemma dump_then_load:
  assumes "DumpJsonValueToFile e j path fs = (True, fs')"
    and "parse (c_str (json_text e j) @ [CHR 0x0A]) = j" "is_object j" "may_read e (resolve e path)"
  shows "LoadJsonValueFromFile parse (File_GetFileContent e fs') old path = (True, j)"
proof -
  have "fs' (resolve e path) = Some (c_str (json_text e j) @ [CHR 0x0A])" "length path \<le> PATH_MAX"
    using assms(1) by (auto simp: DumpJsonValueToFile_def File_GetRealPath_def split: prod.splits if_splits)
  then show ?thesis
    using assms(2-4)
    by (simp add: LoadJsonValueFromFile_def LoadJsonValueFromContent_def File_GetFileContent_def File_GetRealPath_def)
qed

definition ALLOW_RECORD_FILE_PATH :: string where
  "ALLOW_RECORD_FILE_PATH = ''/data/service/el1/public/device_standby/allow_record''"

text \<open>The list a restart reads from the file.\<close>

definition load_record_file :: "(string \<Rightarrow> json) \<Rightarrow> file_env \<Rightarrow> files \<Rightarrow> json option" where
  "load_record_file parse e fs =
     (let (ok, root) = LoadJsonValueFromFile parse (File_GetFileContent e fs) JNull ALLOW_RECORD_FILE_PATH
      in if ok then Some root else None)"

text \<open>C18: When the list was written to its file and the parser inverts the text that was
  written, the list after a restart holds exactly the records whose process still runs under
  the same name, unchanged.\<close>

theorem restart_restores:
  assumes "al_inv s0" "allowInfoMap s0 \<noteq> []"
    and "\<forall>(k, r) \<in> set (allowInfoMap s0). \<forall>t \<in> set (allowTimeList r). int64_range (endTime t)"
    and "DumpJsonValueToFile fe (dump_json (allowInfoMap s0)) ALLOW_RECORD_FILE_PATH fs = (True, fs')"
    and "parse (c_str (json_text fe (dump_json (allowInfoMap s0))) @ [CHR 0x0A]) = dump_json (allowInfoMap s0)"
    and "may_read fe (resolve fe ALLOW_RECORD_FILE_PATH)" "GetPidAndProcName e \<noteq> []" "allowInfoMap s = []"
  shows "map_of (allowInfoMap (snd (ParsePersistentData e (load_record_file parse fe fs') s))) key =
    (case map_of (allowInfoMap s0) key of
       None \<Rightarrow> None
     | Some r \<Rightarrow> if map_of (GetPidAndProcName e) (ar_pid r) = Some (ar_name r) then Some r else None)"
proof -
  have "load_record_file parse fe fs' = Some (dump_json (allowInfoMap s0))"
    using dump_then_load [where parse = parse, OF assms(4,5) _ assms(6)] assms(2)
    by (simp add: load_record_file_def dump_json_def)
  then show ?thesis using restored_list [OF assms(1-3,7,8)] by simp
qed

definition demo_files :: file_env where
  "demo_files = \<lparr> resolve = id, may_create = (\<lambda>p. True), may_write = (\<lambda>p. True), may_read = (\<lambda>p. True),
     json_text = (\<lambda>j. ''{}'') \<rparr>"

theorem restart_restores_witness:
  "map_of (allowInfoMap (snd (ParsePersistentData demo_sv (load_record_file (\<lambda>t. dump_json (allowInfoMap demo_al1)) demo_files
       (snd (DumpJsonValueToFile demo_files (dump_json (allowInfoMap demo_al1)) ALLOW_RECORD_FILE_PATH Map.empty))) demo_al0)))
     (uid_key 1000 ''push'') = map_of (allowInfoMap demo_al1) (uid_key 1000 ''push'')"
proof -
  have "DumpJsonValueToFile demo_files (dump_json (allowInfoMap demo_al1)) ALLOW_RECORD_FILE_PATH Map.empty =
      (True, [ALLOW_RECORD_FILE_PATH \<mapsto> ''{}'' @ [CHR 0x0A]])"
    by (simp add: DumpJsonValueToFile_def CreateNodeFile_def File_GetRealPath_def demo_files_def c_str_def
        ALLOW_RECORD_FILE_PATH_def PATH_MAX_def)
  then show ?thesis
    by (subst restart_restores [OF demo_al1_inv])
      (simp_all add: demo_al1_map int64_range_def GetPidAndProcName_def demo_sv_def demo_al0_def emplace_def demo_files_def)
qed

end
