(* ===== verification/Motion_Energy.thy ===== *)
theory Motion_Energy
  imports State_Props Complex_Main
begin

text \<open>
  The acceleration sums of \<open>MotionSensorMonitor\<close>
  (\<open>plugins/extend_constraints/src/motion_sensor_monitor.cpp\<close>): the callbacks of the two sensors and
  when they report that the device moves. The code computes in \<open>double\<close>; its operations are the
  parameter \<open>double_ops\<close>, and \<open>exact_ops\<close> are the operations of any ordered field, without rounding.
\<close>

section \<open>State\<close>

record 'd double_ops =
  d_add :: "'d \<Rightarrow> 'd \<Rightarrow> 'd"
  d_sub :: "'d \<Rightarrow> 'd \<Rightarrow> 'd"
  d_mul :: "'d \<Rightarrow> 'd \<Rightarrow> 'd"
  d_div :: "'d \<Rightarrow> 'd \<Rightarrow> 'd"
  d_greater :: "'d \<Rightarrow> 'd \<Rightarrow> bool"
  d_of_int :: "int \<Rightarrow> 'd"

record 'd AccelData =
  ax :: 'd
  ay :: 'd
  az :: 'd

record 'd motion =
  energy :: 'd
  hasPrevAccelData :: bool
  previousAccelData :: "'d AccelData"
  currentAccelData :: "'d AccelData"

definition COUNT_TIMES :: int where "COUNT_TIMES = 15"
definition MOTION_THREADSHOLD :: string where "MOTION_THREADSHOLD = ''motion_threshold''"

text \<open>\<open>StartMonitoringInner\<close> clears the sum; \<open>StopSensor\<close> forgets the first sample.\<close>

definition clear_energy :: "'d double_ops \<Rightarrow> 'd motion \<Rightarrow> 'd motion" where
  "clear_energy d m = m\<lparr>energy := d_of_int d 0\<rparr>"

definition forget_sample :: "'d double_ops \<Rightarrow> 'd motion \<Rightarrow> 'd motion" where
  "forget_sample d m = m\<lparr>hasPrevAccelData := False,
     previousAccelData := \<lparr> ax = d_of_int d 0, ay = d_of_int d 0, az = d_of_int d 0 \<rparr>\<rparr>"

section \<open>Samples\<close>

definition sample_energy :: "'d double_ops \<Rightarrow> 'd AccelData \<Rightarrow> 'd AccelData \<Rightarrow> 'd" where
  "sample_energy d cur prev =
     (let x = d_sub d (ax cur) (ax prev); y = d_sub d (ay cur) (ay prev); z = d_sub d (az cur) (az prev)
      in d_add d (d_add d (d_mul d x x) (d_mul d y y)) (d_mul d z z))"

definition AddEnergy :: "'d double_ops \<Rightarrow> 'd AccelData option \<Rightarrow> 'd motion \<Rightarrow> 'd motion" where
  "AddEnergy d accelData m =
     (case accelData of
        None \<Rightarrow> m
      | Some a \<Rightarrow>
          let m = m\<lparr>currentAccelData := a\<rparr>;
              m = (if \<not> hasPrevAccelData m
                   then m\<lparr>hasPrevAccelData := True, previousAccelData := currentAccelData m\<rparr> else m)
          in m\<lparr>energy := d_add d (energy m) (sample_energy d (currentAccelData m) (previousAccelData m))\<rparr>)"

text \<open>
  The callbacks; an event is null or holds a pointer to a sample. The closure they post ends the
  evaluation with the verdict that the device moves.
\<close>

definition post_moving :: "sm_state \<Rightarrow> sm_state" where
  "post_moving = PostTask MOTION_DECTION_TASK (T_EndEval False) 0"

definition run_AcceleromterCallback ::
  "'d double_ops \<Rightarrow> sm_env \<Rightarrow> 'd AccelData option option \<Rightarrow> 'd motion \<times> sm_state \<Rightarrow> 'd motion \<times> sm_state" where
  "run_AcceleromterCallback d e event = (\<lambda>(m, s).
     (case event of
        None \<Rightarrow> (m, s)
      | Some sensorData \<Rightarrow>
          let m = AddEnergy d sensorData m
          in (m, if d_greater d (energy m) (d_of_int d (sint (GetStandbyParam (cfg e) MOTION_THREADSHOLD)))
                 then post_moving s else s)))"

definition run_RepeatAcceleromterCallback ::
  "'d double_ops \<Rightarrow> sm_env \<Rightarrow> 'd AccelData option option \<Rightarrow> 'd motion \<times> sm_state \<Rightarrow> 'd motion \<times> sm_state" where
  "run_RepeatAcceleromterCallback d e event = (\<lambda>(m, s).
     (case event of
        None \<Rightarrow> (m, s)
      | Some sensorData \<Rightarrow>
          let m = AddEnergy d sensorData m;
              threshold = d_div d (d_mul d (d_of_int d (sint (GetStandbyParam (cfg e) MOTION_THREADSHOLD))) (d_of_int d 1))
                (d_of_int d COUNT_TIMES)
          in (m, if d_greater d (energy m) threshold then post_moving s else s)))"

definition run_MotionSensorCallback :: "'d motion \<times> sm_state \<Rightarrow> 'd motion \<times> sm_state" where
  "run_MotionSensorCallback = (\<lambda>(m, s). (m, post_moving s))"

text \<open>The callback that was assigned to a sensor (\<open>State_Lifecycle\<close>).\<close>

definition sensor_event ::
  "'d double_ops \<Rightarrow> sensor_callback \<Rightarrow> sm_env \<Rightarrow> 'd AccelData option option \<Rightarrow> 'd motion \<times> sm_state \<Rightarrow> 'd motion \<times> sm_state" where
  "sensor_event d cb e event =
     (case cb of
        No_Callback \<Rightarrow> id
      | AcceleromterCallback \<Rightarrow> run_AcceleromterCallback d e event
      | RepeatAcceleromterCallback \<Rightarrow> run_RepeatAcceleromterCallback d e event
      | MotionSensorCallback \<Rightarrow> run_MotionSensorCallback)"

text \<open>Whatever the arithmetic, a callback is a step of the state machine or leaves it alone.\<close>

lemma callback_steps:
  "snd (sensor_event d cb e event (m, s)) = s \<or> sm_step e s (snd (sensor_event d cb e event (m, s)))"
  by (cases cb) (auto simp: sensor_event_def run_AcceleromterCallback_def run_RepeatAcceleromterCallback_def
      run_MotionSensorCallback_def post_moving_def Let_def intro: step_sensor split: option.split)

section \<open>A device at rest in a new position\<close>

definition exact_ops :: "'d :: linordered_field double_ops" where
  "exact_ops = \<lparr> d_add = (+), d_sub = (-), d_mul = (*), d_div = (/), d_greater = (>), d_of_int = of_int \<rparr>"

lemma sample_energy_same: "sample_energy exact_ops a a = 0"
  by (simp add: sample_energy_def exact_ops_def)

lemma resting_energy:
  "hasPrevAccelData m \<Longrightarrow>
    energy (fold (\<lambda>a. AddEnergy exact_ops (Some a)) (replicate n b) m) =
      energy m + of_nat n * sample_energy exact_ops b (previousAccelData m)"
  by (induction n arbitrary: m) (simp_all add: AddEnergy_def exact_ops_def algebra_simps)

lemma AddEnergy_first:
  "\<not> hasPrevAccelData m \<Longrightarrow>
    AddEnergy exact_ops (Some a) m =
      m\<lparr>currentAccelData := a, hasPrevAccelData := True, previousAccelData := a\<rparr>"
  by (simp add: AddEnergy_def sample_energy_same) (simp add: exact_ops_def)

text \<open>C40: After a first sample, every sample that shows the device at rest in another position
  adds the same squared difference, because the reference sample is never moved on: without
  rounding, the n-th such sample reports motion exactly when n times that difference exceeds
  the threshold.\<close>

theorem rest_counts_as_motion:
  assumes "\<not> hasPrevAccelData m" "energy m = 0"
  shows "snd (run_AcceleromterCallback exact_ops e (Some (Some b))
      (fold (\<lambda>x. AddEnergy exact_ops (Some x)) (a # replicate n b) m, s)) =
    (if of_nat (Suc n) * sample_energy exact_ops b a > of_int (sint (GetStandbyParam (cfg e) MOTION_THREADSHOLD))
     then post_moving s else s)"
proof -
  let ?m = "m\<lparr>currentAccelData := a, hasPrevAccelData := True, previousAccelData := a\<rparr>"
  have "energy (AddEnergy exact_ops (Some b) (fold (\<lambda>x. AddEnergy exact_ops (Some x)) (replicate n b) ?m)) =
      energy (fold (\<lambda>x. AddEnergy exact_ops (Some x)) (replicate (Suc n) b) ?m)"
    by (simp only: replicate_append_same [symmetric] replicate_Suc fold_append o_apply fold_simps)
  also have "\<dots> = of_nat (Suc n) * sample_energy exact_ops b a"
    using resting_energy [of ?m "Suc n" b] assms(2) by (simp del: replicate_Suc)
  finally show ?thesis
    by (simp add: run_AcceleromterCallback_def Let_def AddEnergy_first [OF assms(1)]) (simp add: exact_ops_def)
qed

section \<open>Examples\<close>

definition demo_motion :: "real motion" where
  "demo_motion = \<lparr> energy = 0, hasPrevAccelData = False,
     previousAccelData = \<lparr> ax = 0, ay = 0, az = 0 \<rparr>, currentAccelData = \<lparr> ax = 0, ay = 0, az = 0 \<rparr> \<rparr>"

text \<open>With no threshold configured, the device was turned once and rests since: motion is reported.\<close>

theorem rest_counts_as_motion_witness:
  "snd (run_AcceleromterCallback exact_ops demo_env (Some (Some \<lparr> ax = 0, ay = 0, az = 10 \<rparr>))
      (fold (\<lambda>x. AddEnergy exact_ops (Some x)) (\<lparr> ax = 10, ay = 0, az = 0 \<rparr> # replicate 40 \<lparr> ax = 0, ay = 0, az = 10 \<rparr>)
        demo_motion, demo_in NAP SLEEP)) = post_moving (demo_in NAP SLEEP)"
  by (subst rest_counts_as_motion)
    (simp_all add: demo_motion_def sample_energy_def exact_ops_def demo_env_def demo_cfg_def GetStandbyParam_def
      GetConfigWithName_def config_init_def)

end
