(* ===== verification/Support.thy ===== *)
theory Support
  imports Service
begin

text \<open>
  The edges of the service: the entry point of its plugin (\<open>export_plugin.cpp\<close>), the forwarding of
  data to the resource scheduler (\<open>report_data_utils.cpp\<close>), trace chains
  (\<open>standby_hitrace_chain.cpp\<close>), the report of file sizes, the observer of common events, the
  strategies for timers and work, and the tables the script engines get (\<open>init.cpp\<close>,
  \<open>ani_constructor.cpp\<close>).
\<close>

section \<open>The entry point of the plugin\<close>

text \<open>A pointer is \<open>None\<close> when it is null; \<open>'p\<close> are the objects on the heap.\<close>

record 'p managers =
  mg_constraint :: "'p option"
  mg_listener :: "'p option"
  mg_strategy :: "'p option"
  mg_state :: "'p option"

definition RegisterPluginInner :: "'p option \<Rightarrow> 'p option \<Rightarrow> 'p option \<Rightarrow> 'p option \<Rightarrow> 'p managers \<Rightarrow> 'p managers" where
  "RegisterPluginInner constraintManager listenerManager strategyManager stateManager s =
     (if constraintManager = None \<or> listenerManager = None \<or> strategyManager = None \<or> stateManager = None then s
      else \<lparr> mg_constraint = constraintManager, mg_listener = listenerManager,
             mg_strategy = strategyManager, mg_state = stateManager \<rparr>)"

datatype adapter = ConstraintManagerAdapter | ListenerManagerAdapter | StrategyManagerAdapter | StateManagerAdapter

text \<open>The result, the objects that were deleted (deleting null does nothing) and the managers.\<close>

definition OnPluginRegister :: "(adapter \<Rightarrow> 'p option) \<Rightarrow> 'p managers \<Rightarrow> bool \<times> 'p list \<times> 'p managers" where
  "OnPluginRegister new_object s =
     (let constraintManager = new_object ConstraintManagerAdapter; listenerManager = new_object ListenerManagerAdapter;
          strategyManager = new_object StrategyManagerAdapter; stateManager = new_object StateManagerAdapter
      in if constraintManager = None \<or> listenerManager = None \<or> strategyManager = None \<or> stateManager = None
         then (False, concat (map (case_option [] (\<lambda>p. [p])) [constraintManager, listenerManager, strategyManager, stateManager]), s)
         else (True, [], RegisterPluginInner constraintManager listenerManager strategyManager stateManager s))"

text \<open>No object is lost, and the service has all four managers or is left as it was.\<close>

lemma registered_all_or_none:
  assumes "OnPluginRegister new_object s = (ok, deleted, s')"
  shows "ok \<longleftrightarrow> (\<forall>a. new_object a \<noteq> None)"
    and "ok \<Longrightarrow> deleted = [] \<and> mg_constraint s' = new_object ConstraintManagerAdapter \<and>
      mg_listener s' = new_object ListenerManagerAdapter \<and> mg_strategy s' = new_object StrategyManagerAdapter \<and>
      mg_state s' = new_object StateManagerAdapter"
    and "\<not> ok \<Longrightarrow> set deleted = {p. \<exists>a. new_object a = Some p} \<and> s' = s"
proof -
  have all: "(\<forall>a. P a) \<longleftrightarrow> P ConstraintManagerAdapter \<and> P ListenerManagerAdapter \<and> P StrategyManagerAdapter \<and> P StateManagerAdapter" for P
    by (metis adapter.exhaust)
  have ex: "(\<exists>a. P a) \<longleftrightarrow> P ConstraintManagerAdapter \<or> P ListenerManagerAdapter \<or> P StrategyManagerAdapter \<or> P StateManagerAdapter" for P
    by (metis adapter.exhaust)
  show "ok \<longleftrightarrow> (\<forall>a. new_object a \<noteq> None)"
    using assms by (auto simp: OnPluginRegister_def Let_def all split: if_splits)
  show "ok \<Longrightarrow> deleted = [] \<and> mg_constraint s' = new_object ConstraintManagerAdapter \<and>
      mg_listener s' = new_object ListenerManagerAdapter \<and> mg_strategy s' = new_object StrategyManagerAdapter \<and>
      mg_state s' = new_object StateManagerAdapter"
    using assms by (auto simp: OnPluginRegister_def RegisterPluginInner_def Let_def split: if_splits)
  assume no: "\<not> ok"
  have opt: "set (case_option [] (\<lambda>p. [p]) x) = {p. x = Some p}" for x :: "'a option"
    by (cases x) auto
  have "deleted = concat (map (case_option [] (\<lambda>p. [p])) [new_object ConstraintManagerAdapter, new_object ListenerManagerAdapter,
      new_object StrategyManagerAdapter, new_object StateManagerAdapter]) \<and> s' = s"
    using assms no by (auto simp: OnPluginRegister_def Let_def split: if_splits)
  then show "set deleted = {p. \<exists>a. new_object a = Some p} \<and> s' = s"
    by (auto simp: opt ex)
qed

text \<open>What the service finds when it calls the entry point of a library that has one.\<close>

definition plugin_of :: "(adapter \<Rightarrow> 'p option) \<Rightarrow> 'p managers \<Rightarrow> plugin_file" where
  "plugin_of new_object s = (if fst (OnPluginRegister new_object s) then Plugin_Works else Plugin_Fails)"

lemma RegisterPlugin_managers:
  assumes "pluginFile e name = plugin_of new_object s"
  shows "fst (RegisterPlugin e name v) = ERR_OK \<longleftrightarrow> (\<forall>a. new_object a \<noteq> None)"
proof -
  obtain ok deleted s' where run: "OnPluginRegister new_object s = (ok, deleted, s')" by (metis prod_cases3)
  then show ?thesis
    using assms registered_all_or_none(1) [OF run] by (simp add: RegisterPlugin_def plugin_of_def Let_def)
qed

section \<open>Data for the resource scheduler\<close>

text \<open>The library of the resource scheduler and its function \<open>ReportDataInProcess\<close>, if present.\<close>

datatype 'j report_event = RE_Dlclose | RE_Report u32 int 'j

record 'j report_utils =
  ru_handle :: bool
  ru_func :: bool
  report_events :: "'j report_event list"

definition report_event :: "'j report_event \<Rightarrow> 'j report_utils \<Rightarrow> 'j report_utils" where
  "report_event ev s = s\<lparr>report_events := report_events s @ [ev]\<rparr>"

definition LoadUtils :: "bool \<Rightarrow> bool \<Rightarrow> 'j report_utils \<Rightarrow> 'j report_utils" where
  "LoadUtils hasLibrary hasFunction s =
     (let s = s\<lparr>ru_handle := hasLibrary\<rparr> in
      if \<not> ru_handle s then s
      else let s = s\<lparr>ru_func := hasFunction\<rparr> in
        if \<not> ru_func s then report_event RE_Dlclose s else s)"

definition ReportDataUtils :: "bool \<Rightarrow> bool \<Rightarrow> 'j report_utils" where
  "ReportDataUtils hasLibrary hasFunction =
     LoadUtils hasLibrary hasFunction \<lparr> ru_handle = False, ru_func = False, report_events = [] \<rparr>"

definition ReportDataUtils_destroy :: "'j report_utils \<Rightarrow> 'j report_utils" where
  "ReportDataUtils_destroy s =
     (let s = s\<lparr>ru_func := False\<rparr> in
      if ru_handle s then (report_event RE_Dlclose s)\<lparr>ru_handle := False\<rparr> else s)"

definition ReportDataInProcess :: "u32 \<Rightarrow> int \<Rightarrow> 'j \<Rightarrow> 'j report_utils \<Rightarrow> 'j report_utils" where
  "ReportDataInProcess resType val payload s =
     (if \<not> ru_func s then s else report_event (RE_Report resType val payload) s)"

text \<open>All reports are forwarded in their order when the function was found, none otherwise.\<close>

lemma ReportDataInProcess_frame [simp]:
  "ru_func (ReportDataInProcess t x p s) = ru_func s"
  "report_events (ReportDataInProcess t x p s) = report_events s @ (if ru_func s then [RE_Report t x p] else [])"
  by (simp_all add: ReportDataInProcess_def report_event_def)

lemma reports_fold:
  "report_events (fold (\<lambda>(t, x, p). ReportDataInProcess t x p) rs s) =
     report_events s @ (if ru_func s then map (\<lambda>(t, x, p). RE_Report t x p) rs else [])"
  by (induction rs arbitrary: s) (simp_all add: case_prod_unfold)

lemma reports_forwarded:
  "report_events (fold (\<lambda>(t, x, p). ReportDataInProcess t x p) rs (ReportDataUtils lib fn)) =
     (if lib \<and> fn then map (\<lambda>(t, x, p). RE_Report t x p) rs
      else if lib then [RE_Dlclose] else [])"
  unfolding reports_fold by (simp add: ReportDataUtils_def LoadUtils_def Let_def report_event_def)

text \<open>A library without the function is closed twice.\<close>

lemma library_closed:
  "count_list (report_events (ReportDataUtils_destroy (ReportDataUtils lib fn))) RE_Dlclose =
     (if \<not> lib then 0 else if fn then 1 else 2)"
  by (simp add: ReportDataUtils_destroy_def ReportDataUtils_def LoadUtils_def Let_def report_event_def)

section \<open>Trace chains\<close>

text \<open>
  The chain of the current thread is the trace library's: \<open>Some\<close> a valid id or \<open>None\<close>.
  \<open>HiTraceChainBegin\<close> makes a new one, \<open>HiTraceChainEnd\<close> ends the one it is given.
\<close>

datatype 'i chain_call = Chain_Begin string i32 'i | Chain_End 'i | Chain_Clear

record 'i chain_thread =
  currentId :: "'i option"
  chain_calls :: "'i chain_call list"

record 'i hitrace_chain =
  hc_isBegin :: bool
  hc_traceId :: "'i option"

definition HiTraceChainBegin :: "'i \<Rightarrow> string \<Rightarrow> i32 \<Rightarrow> 'i chain_thread \<Rightarrow> 'i hitrace_chain \<times> 'i chain_thread" where
  "HiTraceChainBegin i name flags s =
     (\<lparr> hc_isBegin = True, hc_traceId = Some i \<rparr>, \<lparr> currentId = Some i, chain_calls = chain_calls s @ [Chain_Begin name flags i] \<rparr>)"

definition StandbyHitraceChain_clear :: "i32 \<Rightarrow> 'i \<Rightarrow> bool \<Rightarrow> string \<Rightarrow> 'i chain_thread \<Rightarrow> 'i hitrace_chain \<times> 'i chain_thread" where
  "StandbyHitraceChain_clear defaultFlags fresh isClearId name s =
     (if isClearId
      then HiTraceChainBegin fresh name defaultFlags \<lparr> currentId = None, chain_calls = chain_calls s @ [Chain_Clear] \<rparr>
      else (\<lparr> hc_isBegin = False, hc_traceId = None \<rparr>, s))"

definition StandbyHitraceChain :: "i32 \<Rightarrow> 'i \<Rightarrow> string \<Rightarrow> i32 \<Rightarrow> 'i chain_thread \<Rightarrow> 'i hitrace_chain \<times> 'i chain_thread" where
  "StandbyHitraceChain defaultFlags fresh name flags s =
     (let isBegin = (currentId s = None) in
      if isBegin then HiTraceChainBegin fresh name (if sint flags > 0 then flags else defaultFlags) s
      else (\<lparr> hc_isBegin = False, hc_traceId = None \<rparr>, s))"

definition StandbyHitraceChain_destroy :: "'i hitrace_chain \<Rightarrow> 'i chain_thread \<Rightarrow> 'i chain_thread" where
  "StandbyHitraceChain_destroy c s =
     (if hc_isBegin c
      then \<lparr> currentId = None, chain_calls = chain_calls s @ (case hc_traceId c of Some i \<Rightarrow> [Chain_End i] | None \<Rightarrow> []) \<rparr>
      else s)"

text \<open>
  A function that opens a chain and calls others that do the same: only the outermost begins and
  ends one, and the thread is left as it was found.
\<close>

fun traced :: "i32 \<Rightarrow> 'i \<Rightarrow> string list \<Rightarrow> 'i chain_thread \<Rightarrow> 'i chain_thread" where
  "traced defaultFlags i [] s = s"
| "traced defaultFlags i (name # names) s =
     (let (c, s) = StandbyHitraceChain defaultFlags i name (-1) s
      in StandbyHitraceChain_destroy c (traced defaultFlags i names s))"

lemma traced_inside: "currentId s \<noteq> None \<Longrightarrow> traced f i names s = s"
  by (induction names arbitrary: s) (auto simp: StandbyHitraceChain_def StandbyHitraceChain_destroy_def)

lemma traced_once:
  assumes "currentId s = None"
  shows "traced f i (name # names) s =
    s\<lparr>chain_calls := chain_calls s @ [Chain_Begin name f i, Chain_End i]\<rparr>"
  using assms
  by (simp add: StandbyHitraceChain_def StandbyHitraceChain_destroy_def HiTraceChainBegin_def traced_inside)

section \<open>File sizes, common events, timers and work\<close>

text \<open>
  \<open>DirIterator\<close> is the resource scheduler's: it appends the entries of a directory to the list, or
  fails. The result is what is reported, or \<open>None\<close> for no report.
\<close>

definition report_directories :: "string list" where
  "report_directories = [''/data/service/el1/public/device_standby'', ''/data/service/el3/100/device_standby/rdb'']"

definition HandleReportFileSizeEvent :: "(string \<Rightarrow> string list \<Rightarrow> bool \<times> string list) \<Rightarrow> string list option" where
  "HandleReportFileSizeEvent dirIterator =
     (let (ok1, currentDir) = dirIterator (report_directories ! 0) [] in
      if \<not> ok1 then None
      else let (ok2, currentDir) = dirIterator (report_directories ! 1) currentDir in
        if \<not> ok2 then None else Some currentDir)"

lemma file_sizes_reported:
  assumes "\<And>d l. dirIterator d l = (case entries d of None \<Rightarrow> (False, l) | Some es \<Rightarrow> (True, l @ es))"
  shows "HandleReportFileSizeEvent dirIterator =
    (if \<exists>d \<in> set report_directories. entries d = None then None
     else Some (concat (map (the \<circ> entries) report_directories)))"
  using assms by (auto simp: HandleReportFileSizeEvent_def report_directories_def split: option.split)

text \<open>The observer of common events; a product may replace it at link time.\<close>

definition CommonEventObserver_Subscribe :: bool where "CommonEventObserver_Subscribe = True"
definition CommonEventObserver_Unsubscribe :: bool where "CommonEventObserver_Unsubscribe = True"

definition CommonEventObserver_OnReceiveEvent :: "'ev \<Rightarrow> service \<Rightarrow> service" where
  "CommonEventObserver_OnReceiveEvent eventData v = v"

text \<open>\<open>make_shared\<close> never returns null.\<close>

definition CreateCommonEventObserver :: bool where "CreateCommonEventObserver = True"

lemma own_observer_registers:
  assumes "createCommonEventObserver e = CreateCommonEventObserver" "subscribeCommonEvent e = CommonEventObserver_Subscribe"
  shows "fst (RegisterCommEventObserver e v) = (if commonEventObserver v then ERR_STANDBY_OBSERVER_ALREADY_EXIST else ERR_OK)"
    and "commonEventObserver (snd (RegisterCommEventObserver e v))"
  using assms by (simp_all add: RegisterCommEventObserver_def CreateCommonEventObserver_def CommonEventObserver_Subscribe_def
      sv_call_def Let_def)

text \<open>
  The strategies for timers and scheduled work keep no state; the manager does not create them,
  and the second has no \<open>ShellDump\<close>, so it cannot be instantiated.
\<close>

definition TimerStrategy_HandleEvent :: "StandbyMessage \<Rightarrow> unit \<Rightarrow> unit" where "TimerStrategy_HandleEvent message s = s"
definition TimerStrategy_OnCreated :: "unit \<Rightarrow> err \<times> unit" where "TimerStrategy_OnCreated s = (ERR_OK, s)"
definition TimerStrategy_OnDestroy :: "unit \<Rightarrow> err \<times> unit" where "TimerStrategy_OnDestroy s = (ERR_OK, s)"
definition TimerStrategy_ShellDump :: "string list \<Rightarrow> string \<Rightarrow> string" where "TimerStrategy_ShellDump argsInStr result = result"
definition WorkSchedulerStrategy_HandleEvent :: "StandbyMessage \<Rightarrow> unit \<Rightarrow> unit" where "WorkSchedulerStrategy_HandleEvent message s = s"
definition WorkSchedulerStrategy_OnCreated :: "unit \<Rightarrow> err \<times> unit" where "WorkSchedulerStrategy_OnCreated s = (ERR_OK, s)"
definition WorkSchedulerStrategy_OnDestroy :: "unit \<Rightarrow> err \<times> unit" where "WorkSchedulerStrategy_OnDestroy s = (ERR_OK, s)"

lemma uncreated_strategies: "''TIMER'' \<notin> set strategyMap" "''WORK_SCHEDULER'' \<notin> set strategyMap"
  by (simp_all add: strategyMap_def)

text \<open>The uids in the log of the network strategy.\<close>

fun UidsToString_loop :: "u32 list \<Rightarrow> string" where
  "UidsToString_loop [] = ''''"
| "UidsToString_loop [u] = to_string_u32 u"
| "UidsToString_loop (u # us) = to_string_u32 u @ '','' @ UidsToString_loop us"

definition UidsToString :: "u32 list \<Rightarrow> string" where
  "UidsToString uids = ''['' @ UidsToString_loop uids @ '']''"

text \<open>The text between the brackets, cut at its commas, gives back the uids.\<close>

lemma uids_readable:
  "map (\<lambda>t. word_of_int (c_strtol t)) (getline_split (CHR '','') (butlast (tl (UidsToString uids)))) = uids"
proof -
  have decimal: "to_string_u32 u = digits_nat (unat u)" for u
    by (simp add: to_string_u32_def to_string_int_def nat_uint_eq)
  have comma: "CHR '','' \<notin> set (digits_nat n)" for n
    using digits_nat_chars [of "CHR '',''" n] by auto
  have reread: "word_of_int (c_strtol (digits_nat (unat u))) = u" for u :: u32
  proof -
    have "unat u < 2 ^ 32" using unsigned_less [of u] by simp
    then show ?thesis by (subst c_strtol_digits_nat) auto
  qed
  have "map (\<lambda>t. word_of_int (c_strtol t)) (getline_split (CHR '','') (UidsToString_loop us)) = us" for us :: "u32 list"
    by (induction us rule: UidsToString_loop.induct)
      (simp_all add: decimal getline_split_no_delim [OF comma digits_nat_nonempty] getline_split_append [OF comma] reread)
  then show ?thesis by (simp add: UidsToString_def)
qed

section \<open>Registration with the script engines\<close>

definition js_functions :: "(string \<times> string) list" where
  "js_functions = [
     (''isDeviceInStandby'', ''IsDeviceInStandby''),
     (''getExemptedApps'', ''GetExemptionListApps''),
     (''requestExemptionResource'', ''ApplyAllowResource''),
     (''releaseExemptionResource'', ''UnapplyAllowResource'')]"

definition AUTO_SYNC :: u32 where "AUTO_SYNC = 16"
definition PUSH :: u32 where "PUSH = 32"
definition FREEZE :: u32 where "FREEZE = 64"

text \<open>A constant that the engine cannot make is left out.\<close>

definition SetNamedPropertyByInteger :: "(i32 \<Rightarrow> 'v option) \<Rightarrow> u32 \<Rightarrow> string \<Rightarrow> (string \<times> 'v) list \<Rightarrow> (string \<times> 'v) list" where
  "SetNamedPropertyByInteger create objName propName dstObj =
     (case create objName of Some prop \<Rightarrow> dstObj @ [(propName, prop)] | None \<Rightarrow> dstObj)"

definition DeviceStandbyTypeInit :: "(i32 \<Rightarrow> 'v option) \<Rightarrow> (string \<times> 'v) list" where
  "DeviceStandbyTypeInit create =
     (let obj = [];
          obj = SetNamedPropertyByInteger create NETWORK ''NETWORK'' obj;
          obj = SetNamedPropertyByInteger create RUNNING_LOCK ''RUNNING_LOCK'' obj;
          obj = SetNamedPropertyByInteger create TIMER ''TIMER'' obj;
          obj = SetNamedPropertyByInteger create WORK_SCHEDULER ''WORK_SCHEDULER'' obj;
          obj = SetNamedPropertyByInteger create AUTO_SYNC ''AUTO_SYNC'' obj;
          obj = SetNamedPropertyByInteger create PUSH ''PUSH'' obj
      in SetNamedPropertyByInteger create FREEZE ''FREEZE'' obj)"

text \<open>
  The constants of the script are the service's own types: the \<open>n\<close>th name stands for bit \<open>n\<close>, and
  together they are the largest request the service accepts.
\<close>

lemma script_types_are_service_types:
  "DeviceStandbyTypeInit Some = map (\<lambda>n. (AllowTypeName ! n, push_bit n 1)) [0..<MAX_ALLOW_TYPE_NUM]"
  "fold (OR) (map snd (DeviceStandbyTypeInit Some)) 0 = MAX_ALLOW_TYPE_NUMBER"
proof -
  have u: "[0..<MAX_ALLOW_TYPE_NUM] = [0, 1, 2, 3, 4, 5, 6]"
    by (simp add: MAX_ALLOW_TYPE_NUM_def AllowTypeName_def upt_rec)
  show "DeviceStandbyTypeInit Some = map (\<lambda>n. (AllowTypeName ! n, push_bit n 1)) [0..<MAX_ALLOW_TYPE_NUM]"
    unfolding u
    by (simp add: DeviceStandbyTypeInit_def SetNamedPropertyByInteger_def Let_def NETWORK_def RUNNING_LOCK_def TIMER_def
        WORK_SCHEDULER_def AUTO_SYNC_def PUSH_def FREEZE_def AllowTypeName_def push_bit_eq_mult)
  show "fold (OR) (map snd (DeviceStandbyTypeInit Some)) 0 = MAX_ALLOW_TYPE_NUMBER"
    by (simp add: DeviceStandbyTypeInit_def SetNamedPropertyByInteger_def Let_def NETWORK_def RUNNING_LOCK_def TIMER_def
        WORK_SCHEDULER_def AUTO_SYNC_def PUSH_def FREEZE_def MAX_ALLOW_TYPE_NUMBER_def MAX_ALLOW_TYPE_NUM_def AllowTypeName_def
        push_bit_eq_mult)
qed

text \<open>The ArkTS module registers when the virtual machine gives its environment and takes the functions.\<close>

definition ANI_Constructor :: "'e option option \<Rightarrow> ('e \<Rightarrow> bool) \<Rightarrow> bool" where
  "ANI_Constructor vm aniRegister =
     (case vm of None \<Rightarrow> False | Some None \<Rightarrow> False | Some (Some env) \<Rightarrow> aniRegister env)"

end
