(* ===== verification/Restart.thy ===== *)
theory Restart
  imports Standby_System
begin

text \<open>
  The release of the managers when a required system ability goes away, and their second
  initialisation when it comes back: what the strategies remember of the time before.
\<close>

section \<open>The release\<close>

lemma dispatched_tasks:
  "set (handler (dispatch_all ms v)) \<subseteq> set (handler v) \<union> range HT_Dispatch"
proof (induction ms arbitrary: v)
  case (Cons m ms)
  have "set (handler (Service_DispatchEvent (event_of m) v)) \<subseteq> set (handler v) \<union> range HT_Dispatch"
    by (auto simp: Service_DispatchEvent_def post_handler_def)
  with Cons [of "Service_DispatchEvent (event_of m) v"] show ?case by (auto simp: dispatch_all_def)
qed (simp add: dispatch_all_def)

lemma absorbed_tasks:
  "set (handler (absorb_sm s v)) \<subseteq> set (handler v) \<union> range HT_Dispatch"
  "set (handler (absorb_strat t v)) \<subseteq> set (handler v) \<union> range HT_Dispatch"
  using dispatched_tasks [of "new_messages (sm v) s" "v\<lparr>sm := s, subs := fold ReportStandbyState (new_reports (sm v) s) (subs v)\<rparr>"]
    dispatched_tasks [of "List.map_filter net_dispatched (drop (length (net_calls (ss_net (strat v)))) (net_calls (ss_net t)))"
      "v\<lparr>strat := t\<rparr>"]
  by (auto simp: absorb_sm_def absorb_strat_def)

text \<open>Messages that are still queued reach no strategy.\<close>

lemma unheard_dispatch:
  assumes "createdList (strat v) = []"
  shows "strat (run_dispatch e ev v) = strat v"
    and "set (handler (run_dispatch e ev v)) \<subseteq> set (handler v) \<union> range HT_Dispatch"
proof -
  show "strat (run_dispatch e ev v) = strat v"
    using assms by (simp add: run_dispatch_def Let_def absorb_sm_result absorb_strat_result StrategyManager_HandleEvent_def)
  show "set (handler (run_dispatch e ev v)) \<subseteq> set (handler v) \<union> range HT_Dispatch"
    unfolding run_dispatch_def Let_def
    by (rule order_trans [OF absorbed_tasks(2)] order_trans [OF Un_mono [OF absorbed_tasks(1) order.refl]])+ auto
qed

lemma unheard_messages:
  "createdList (strat v) = [] \<Longrightarrow> set (handler v) \<subseteq> range HT_Dispatch \<Longrightarrow>
    strat (run_handler e n v) = strat v \<and> al (run_handler e n v) = al v"
proof (induction n arbitrary: v)
  case (Suc n)
  show ?case
  proof (cases "handler v")
    case (Cons t ts)
    then obtain ev where t: "t = HT_Dispatch ev" using Suc.prems(2) by auto
    let ?v = "v\<lparr>handler := ts\<rparr>" and ?w = "run_dispatch e ev (v\<lparr>handler := ts\<rparr>)"
    have "strat ?w = strat v" "set (handler ?w) \<subseteq> range HT_Dispatch" "al ?w = al v"
      using unheard_dispatch [of ?v e ev] Suc.prems Cons
      by (auto simp: run_dispatch_def Let_def absorb_sm_result absorb_strat_result)
    with Suc.IH [of ?w] Suc.prems(1) show ?thesis by (simp add: Cons t run_handler_task_def)
  qed simp
qed simp

lemma release:
  fixes e :: service_env
  assumes "ready v" "both_created (strat v)" "handler v = []"
  defines "w \<equiv> UninitReadyState_task e v"
  shows "\<not> ready w" "createdList (strat w) = []" "set (handler w) \<subseteq> range HT_Dispatch"
    and "ss_net (strat w) = ResetFirewallAllowList (strategy_env e v) (ss_net (strat v))"
proof -
  define v1 where "v1 = v\<lparr>lst := snd (ListenerManager_UnInit (se_ls e) (lst v))\<rparr>"
  define v2 where "v2 = absorb_sm (snd (ConstraintManager_UnInit (sm v1))) v1"
  define v3 where "v3 = absorb_strat (snd (StrategyManager_UnInit (strategy_env e v2) (strat v2))) v2"
  define v4 where "v4 = absorb_sm (snd (StateManager_UnInit (se_sm e) (sm v3))) v3"
  have w: "w = v4\<lparr>al := (al v4)\<lparr>isServiceReady := False\<rparr>\<rparr>"
    using assms(1) by (simp add: w_def UninitReadyState_task_def v1_def v2_def v3_def v4_def Let_def)
  have env: "strategy_env e v2 = strategy_env e v" "strat v2 = strat v"
    by (simp_all add: v2_def v1_def strategy_env_def absorb_sm_result)
  have strat: "strat w = snd (StrategyManager_UnInit (strategy_env e v) (strat v))"
    by (simp add: w v4_def v3_def absorb_sm_result absorb_strat_result env)
  show "\<not> ready w" by (simp add: w)
  show "createdList (strat w) = []" by (simp add: strat StrategyManager_UnInit_def)
  show "ss_net (strat w) = ResetFirewallAllowList (strategy_env e v) (ss_net (strat v))"
    using assms(2)
    by (auto simp: strat StrategyManager_UnInit_def strategy_OnDestroy_def NetworkStrategy_OnDestroy_def)
  have "handler v1 = []" using assms(3) by (simp add: v1_def)
  then show "set (handler w) \<subseteq> range HT_Dispatch"
    using absorbed_tasks [of _ v1] absorbed_tasks(2) [of _ v2] absorbed_tasks(1) [of _ v3]
    unfolding w v4_def v3_def v2_def by (fastforce simp del: split_paired_All)
qed

section \<open>The second initialisation\<close>

lemma reset_leaves_off: "\<not> firewall_on s \<Longrightarrow> \<not> firewall_on (ResetFirewallAllowList e s)"
  by (cases "net_view s") (auto simp: ResetFirewallAllowList_def HandleDeviceIdlePolicy_def Let_def split: option.split)

lemma repeated_start: "isFirewallEnabled s \<Longrightarrow> eventId m = PHASE_TRANSIT \<Longrightarrow> NetworkStrategy_HandleEvent e m s = s"
  by (simp add: net_handle_simps StartNetLimit_def EnableNetworkFirewall_def split: option.split)

text \<open>C26: When a required ability goes away while the network is closed, the release of the
  managers opens the network but the network strategy keeps the belief that it is closed;
  when the managers are initialised again, after any number of queued messages, the strategy
  is created with this belief and no message about a phase closes the network.\<close>

theorem restart_leaves_network_open:
  assumes "service_inv (c, v)" "handler v = []" "isFirewallEnabled (ss_net (strat v))"
    and "net_answers (se_st e) (ss_net (strat v))"
    and "w = InitReadyState_task e' (run_handler e n (UninitReadyState_task e v))" "ready w"
    and "filter (\<lambda>n. n \<in> set strategyMap) (GetStrategyConfigList (st_cfg (se_st e')))
      \<in> {[''NETWORK'', ''RUNNING_LOCK''], [''RUNNING_LOCK'', ''NETWORK'']}"
  shows "both_created (strat w) \<and> isFirewallEnabled (ss_net (strat w)) \<and> \<not> firewall_on (ss_net (strat w)) \<and>
    (\<forall>f m. eventId m = PHASE_TRANSIT \<longrightarrow>
       net_view (ss_net (StrategyManager_HandleEvent f m (strat w))) = net_view (ss_net (strat w)))"
proof -
  let ?u = "UninitReadyState_task e v" and ?f = "strategy_env e v"
  have v: "ready v" "both_created (strat v)" using assms(1) by simp_all
  note rel = release [OF v assms(2), of e]
  define u where "u = run_handler e n ?u"
  have u: "strat u = strat ?u" "\<not> ready u"
    using unheard_messages [OF rel(2,3), of e n] rel(1) by (simp_all add: u_def)
  have "net_answers ?f (ss_net (strat v))" using assms(4) by (simp add: net_answers_def strategy_env_def)
  then have closed: "\<not> firewall_on (ss_net (strat u))" "isFirewallEnabled (ss_net (strat u))"
    using assms(3) by (simp_all add: u(1) rel(4) ResetFirewallAllowList_view)
  let ?g = "strategy_env e' u" and ?l = "GetStrategyConfigList (st_cfg (strategy_env e' u))"
  have l: "filter (\<lambda>n. n \<in> set strategyMap) ?l \<in> {[''NETWORK'', ''RUNNING_LOCK''], [''RUNNING_LOCK'', ''NETWORK'']}"
    using assms(7) by (simp add: strategy_env_def)
  have "strat w = snd (StrategyManager_Init ?g (strat u))"
    using InitReadyState_parts(2) [OF u(2), of e'] assms(5,6) by (simp add: u_def)
  moreover have "?l \<noteq> []" using l by auto
  ultimately have "strat w = RegisterPolicy ?g ?l (strat u)" by (simp add: StrategyManager_Init_def)
  moreover have "createdList (strat u) = []" using rel(2) u(1) by simp
  ultimately have created: "both_created (strat w)" "ss_net (strat w) = snd (NetworkStrategy_OnCreated ?g (ss_net (strat u)))"
    using RegisterPolicy_both [OF l] by simp_all
  then have net: "isFirewallEnabled (ss_net (strat w))" "\<not> firewall_on (ss_net (strat w))"
    using closed reset_leaves_off [of "(ss_net (strat u))\<lparr>net_condition := now_condition ?g\<rparr>"]
    by (simp_all add: NetworkStrategy_OnCreated_def)
  then show ?thesis
    using created(1) repeated_start by (simp add: StrategyManager_HandleEvent_both)
qed

section \<open>Example\<close>

lemma demo_init_again: "fst (StateManager_Init demo_env s)"
  by (simp add: case_prod_unfold StateManager_Init_def indexToState_def BaseState_Init_def SleepState_Init_def
      WorkingState_BeginState_def Let_def demo_env_def)

text \<open>An ability goes away in SLEEP and comes back; the next deep phase finds the network open and leaves it so.\<close>

theorem restart_leaves_network_open_witness:
  "let w = InitReadyState_task demo_boot_env (run_handler (demo_se demo_st_on) 3 (UninitReadyState_task (demo_se demo_st_on)
       (demo_service (demo_in NAP SLEEP) demo_net demo_rl)))
   in isFirewallEnabled (ss_net (strat w)) \<and>
     \<not> firewall_on (ss_net (StrategyManager_HandleEvent demo_st deep_message (strat w)))"
proof -
  let ?v = "demo_service (demo_in NAP SLEEP) demo_net demo_rl" and ?e = "demo_se demo_st_on"
  let ?u = "run_handler ?e 3 (UninitReadyState_task ?e ?v)"
  have inv: "service_inv (now_condition demo_st, ?v)"
    by (rule demo_service_inv)
      (simp_all add: net_reachable_inv [OF demo_net_reachable] rl_reachable_sound [OF demo_rl_reachable])
  then have v: "ready ?v" "both_created (strat ?v)" by simp_all
  note rel = release [OF v, of ?e]
  have u: "\<not> ready ?u" using unheard_messages [OF rel(2,3), of ?e 3] rel(1) by simp
  have k: "filter (\<lambda>n. n \<in> set strategyMap) (GetStrategyConfigList (st_cfg (se_st demo_boot_env)))
      \<in> {[''NETWORK'', ''RUNNING_LOCK''], [''RUNNING_LOCK'', ''NETWORK'']}"
    by (simp add: demo_boot_env_def GetStrategyConfigList_def strategyMap_def)
  have "fst (StrategyManager_Init f s)" for f s by (simp add: StrategyManager_Init_def Let_def)
  then have "ready (InitReadyState_task demo_boot_env ?u)"
    using InitReadyState_succeeds [OF u, of demo_boot_env] demo_init_again by (simp add: demo_boot_env_def demo_se_def)
  from restart_leaves_network_open [OF inv _ _ _ refl this k] show ?thesis
    by (simp add: demo_net_view demo_net_answers Let_def)
qed

end
