(* ===== verification/Spec2Isabelle.thy ===== *)
theory Spec2Isabelle
  imports Standby_System Config_Parse Backup Bindings Subscriber_View Persistence Motion_Energy Support Restart
begin

text \<open>
  A model of the device standby service (the C++ sources under \<open>src/\<close>), its plugins, its client
  library and its script bindings, with the properties that make them correct.

  \<^bold>\<open>The program.\<close> The service decides when an unused device may go to sleep and what is
  restricted while it does. \<open>StandbyService\<close> and \<open>StandbyServiceImpl\<close> receive the calls of other
  processes and the events of the system, keep the list of temporary exemptions, and own four
  managers loaded from a plugin: the state manager moves between the states WORKING, DARK, NAP,
  MAINTENANCE and SLEEP; the constraint manager evaluates whether a deeper state may be entered
  (charging, motion); the strategy manager holds the network and the running lock strategy, which
  close the network and proxy the wake locks of applications in SLEEP; the listener manager
  subscribes to input and background task events. Everything runs as closures on one event
  handler. Subscribers in other processes are told about the state and the exemptions over IPC;
  other processes call the service through \<open>StandbyServiceClient\<close>, scripts through the JavaScript
  and ArkTS bindings.

  \<^bold>\<open>How the code is modelled.\<close> A component is a record of its fields; an operation is a function
  from an environment record, its arguments and the state to its result and the new state, with
  one branch for each early return. The environment holds what code outside the repository
  answers (system abilities, timers, clocks, JSON parser, files), so every property holds for all
  answers that its hypotheses allow. What the code calls outside is appended to a log in the
  state; the properties about restrictions replay that log, so they speak of what the power
  manager and the network policy service were told. Errors are the constructors of \<open>err\<close>; an
  exception that nothing catches, and a read past the end of a vector, are \<open>None\<close>. \<open>uint32_t\<close> and
  \<open>int32_t\<close> are words; \<open>int64_t\<close> is \<open>int\<close> with the cuts to 32 bits written out (\<open>narrow32\<close>). An
  \<open>unordered_map\<close> is an association list with distinct keys, in the order of its iteration.
  The build options are those of the default product: every strategy and the background task
  manager enabled, the real-time timer not.

  \<^bold>\<open>Theories, bottom up.\<close>
  \<^item> \<open>Prelude\<close>: integers, ordered containers, number texts, C strings. \<open>Step_System\<close>: reachable
    states, runs, and the locales \<open>invariant_system\<close> and \<open>announced_view\<close> (a component whose log
    of calls, replayed, gives the outside view of its state).
  \<^item> \<open>Std_Errors\<close> (\<open>standby_service_errors.h\<close>), \<open>Message\<close> (\<open>common_constant.cpp\<close>,
    \<open>standby_state.h\<close>, \<open>standby_messsage.h\<close>), \<open>Json\<close> (\<open>json_utils.cpp\<close>).
  \<^item> \<open>Config_Manager\<close>, \<open>Config_Parse\<close> (\<open>standby_config_manager.cpp\<close>): tables and getters; parsers,
    versions, the cloud configuration, initialisation. \<open>Time_Provider\<close> (\<open>time_provider.cpp\<close>).
  \<^item> \<open>State_Base\<close>, \<open>State_Machine\<close>, \<open>State_Lifecycle\<close> (\<open>base_state.cpp\<close>, \<open>plugins/standby_state\<close>,
    \<open>plugins/extend_constraints\<close>): the five states, transitions, phases, evaluations and their
    monitors. \<open>State_Invariants\<close>, \<open>State_Props\<close>, \<open>State_Messages\<close>: the invariant of every
    reachable state, the properties, the messages that leave the machine. \<open>Motion_Energy\<close>: the
    acceleration sums and the sensor callbacks.
  \<^item> \<open>Allow_Record\<close>, \<open>Allow_List\<close> (\<open>allow_record.cpp\<close>, \<open>standby_service_impl.cpp\<close>): exemption
    records and every operation on them. \<open>Allow_Inv\<close>, \<open>Allow_Table\<close>, \<open>Allow_Steps\<close>,
    \<open>Allow_Props\<close>: the list as a table of end times, refinement of each operation,
    announcements, expiry. \<open>Persistence\<close>: the file of the list and the restart.
  \<^item> \<open>Strategy_Base\<close>, \<open>Running_Lock\<close>, \<open>Network_Strategy\<close>, \<open>Strategy_Manager\<close>
    (\<open>plugins/strategy\<close>): the strategies. \<open>Strategy_Contract\<close>: the locale
    \<open>restricting_strategy\<close> of what a strategy promises, interpreted on both strategies in their
    \<open>_Props\<close> and on the manager of both in \<open>Strategy_Manager_Props\<close>. \<open>Running_Lock_Record\<close>, \<open>_Steps\<close>, \<open>_Start\<close>,
    \<open>_Props\<close> and \<open>Network_Steps\<close>, \<open>_Start\<close>, \<open>_Props\<close>: the proxied locks and the trusted uids
    as the logs give them, and whom a start restricts.
  \<^item> \<open>Listener_Manager\<close> (\<open>plugins/message_listener\<close>), \<open>Subscriber\<close>
    (\<open>standby_state_subscriber.cpp\<close>).
  \<^item> \<open>Service\<close>, \<open>Service_Events\<close>, \<open>Service_Calls\<close>, \<open>Service_Ready\<close>, \<open>Dump\<close>, \<open>Backup\<close>
    (\<open>standby_service.cpp\<close>, \<open>standby_service_impl.cpp\<close>, \<open>app_state_observer.cpp\<close>,
    \<open>timed_task.cpp\<close>): the composition, the event handlers, the public calls, becoming ready,
    the shell dump, backup and restore. \<open>Service_Steps\<close>: the step relation of the whole service,
    one rule for each way other code enters it, and its invariant, the conjunction of those of
    the components, with the locale interpretation that carries it to all reachable states.
    \<open>Standby_System\<close>: the properties of all managers together, stated in every such state.
    \<open>Restart\<close>: the release of the managers and their second initialisation.
  \<^item> \<open>Support\<close> (\<open>export_plugin.cpp\<close>, \<open>report_data_utils.cpp\<close>, \<open>standby_hitrace_chain.cpp\<close>,
    \<open>common_event_observer.cpp\<close>, \<open>timer_strategy.cpp\<close>, \<open>work_scheduler_strategy.cpp\<close>,
    \<open>init.cpp\<close>, \<open>ani_constructor.cpp\<close>): the entry point of the plugin, reporting and tracing, the
    observer and the strategies that do nothing, the tables of the script engines.
  \<^item> \<open>Ipc\<close> (\<open>resource_request.cpp\<close>, \<open>allow_info.cpp\<close>, \<open>standby_service_subscriber_proxy.cpp\<close>,
    \<open>standby_service_subscriber_stub.cpp\<close>), \<open>Client\<close> (\<open>standby_service_client.cpp\<close> and the helpers
    of the service, with the locale \<open>lazy_connection\<close> they share), \<open>Bindings\<close>
    (\<open>interfaces/kits\<close>), \<open>Subscriber_View\<close>: from a change of the list to the subscriber's
    picture of it.

  \<^bold>\<open>What is shown.\<close>
  \<^item> The whole service: the invariants of all components hold together in every state reached
    from the initialisation of the managers, under any interleaving of calls, events, closures
    and timers. In every state with this invariant, entering the deep phase of SLEEP restricts
    exactly the applications without exemption, and the screen lifts everything, through the
    real order of closures and messages; a subscriber that follows its callbacks always knows
    the list, whatever steps the service takes. The managers are initialised exactly when all
    seven system abilities are there; and a defect, the network that stays open after their
    release in SLEEP.
  \<^item> The state machine: the invariant of all reachable states under arbitrary timers, verdicts
    and messages; waking up, phases, evaluations, rejected and failed transitions; the times of
    maintenance; and a defect, the block that survives MAINTENANCE.
  \<^item> The exemptions: applying and unapplying refine a table of end times, every change is
    announced, every exemption has a task that ends it, an application gets only what it declared,
    the list survives a restart.
  \<^item> The strategies: exactly the right locks and uids after a start and after any sequence of
    messages, and the sequences where changes are lost.
  \<^item> The edges: configuration tables are well formed whatever the files hold, the version
    comparison is the lexicographic one, restoring ends on every file and inverts a backup,
    parcels and callbacks arrive unchanged, the client calls only a service whose death it
    watches, the bindings check (or fail to check) a request, the dump commands that read past
    their arguments.

  \<^bold>\<open>Bounds.\<close> \<open>run_handler n\<close> runs at most \<open>n\<close> queued closures, as the loop of the event handler may
  go on as long as closures post others; the property about the screen proves that four empty
  the queue. A phase closure is followed by at most two message closures (\<open>run_closure\<close>). The
  walk over a restored file is a \<open>partial_function\<close>, and that it returns is a theorem. All other
  recursions are structural or come with a termination proof.

  \<^bold>\<open>Not modelled.\<close> The rounding of \<open>double\<close> (its operations are a parameter of \<open>Motion_Energy\<close>, and
  in the step relation of the state machine a sensor callback posts an arbitrary verdict); log
  output; the calls of the script engines that take the tables of functions and create script
  objects; constructors, destructors and accessors without behaviour; tests. The shell dump, which
  sets states for tests, and the release of the managers when a required system ability goes away
  are modelled as operations but are not steps of \<open>Service_Steps\<close>: the first breaks the invariant by
  design, the second ends the run that the relation describes. Locks are not modelled: the
  code holds one around each operation, and an operation is one step here. Memory exhaustion is
  modelled where the code tests for it in the client, IPC, plugin and bindings.
\<close>

end
